(* ===== verification/PQFL_Prelude.thy ===== *)
theory PQFL_Prelude
  imports Main "HOL-Library.List_Lexorder" "HOL-Library.Char_ord"
begin

text \<open>
  Shared vocabulary of the development: the list idioms the C++ code uses (\<open>std::find_if\<close>
  followed by a write through the iterator, a loop with \<open>break\<close>, a reverse search),
  \<open>std::to_string\<close>, the lexicographic order of \<open>std::string\<close>, and the theorem
  collections the component proofs draw on.
\<close>

named_theorems frame_simps \<open>fields an operation does not write\<close>
named_theorems op_defs \<open>definitions of the store's operations\<close>
named_theorems keep_intros \<open>preservation of the store invariant, operation by operation\<close>

section \<open>Searching and updating lists\<close>

text \<open>A loop that writes the first matching element and leaves (\<open>break\<close>), or a write
  through the iterator \<open>std::find_if\<close> returned.\<close>

fun upd_first :: "('a \<Rightarrow> bool) \<Rightarrow> ('a \<Rightarrow> 'a) \<Rightarrow> 'a list \<Rightarrow> 'a list" where
  "upd_first P f [] = []"
| "upd_first P f (x # xs) = (if P x then f x # xs else x # upd_first P f xs)"

text \<open>A loop over \<open>rbegin()\<close> .. \<open>rend()\<close> that stops at the first match, and the write
  through the pointer it keeps.\<close>

definition rfind :: "('a \<Rightarrow> bool) \<Rightarrow> 'a list \<Rightarrow> 'a option" where
  "rfind P xs = find P (rev xs)"

definition upd_last :: "('a \<Rightarrow> bool) \<Rightarrow> ('a \<Rightarrow> 'a) \<Rightarrow> 'a list \<Rightarrow> 'a list" where
  "upd_last P f xs = rev (upd_first P f (rev xs))"

text \<open>A loop over all elements that writes the matching ones.\<close>

definition upd_all :: "('a \<Rightarrow> bool) \<Rightarrow> ('a \<Rightarrow> 'a) \<Rightarrow> 'a list \<Rightarrow> 'a list" where
  "upd_all P f xs = map (\<lambda>x. if P x then f x else x) xs"

lemma find_SomeD: "find P xs = Some x \<Longrightarrow> x \<in> set xs \<and> P x"
  by (induction xs) (auto split: if_splits)

lemma find_NoneD: "find P xs = None \<Longrightarrow> x \<in> set xs \<Longrightarrow> \<not> P x"
  by (auto simp: find_None_iff)

lemma rfind_SomeD: "rfind P xs = Some x \<Longrightarrow> x \<in> set xs \<and> P x"
  unfolding rfind_def by (auto dest: find_SomeD)

lemma rfind_None_iff: "rfind P xs = None \<longleftrightarrow> (\<forall>x\<in>set xs. \<not> P x)"
  unfolding rfind_def by (auto simp: find_None_iff)

lemma find_append: "find P (xs @ ys) = (case find P xs of None \<Rightarrow> find P ys | Some x \<Rightarrow> Some x)"
  by (induction xs) auto

lemma find_cong_P: "(\<And>x. x \<in> set xs \<Longrightarrow> P x = Q x) \<Longrightarrow> find P xs = find Q xs"
  by (induction xs) auto

lemma length_upd_first [simp]: "length (upd_first P f xs) = length xs"
  by (induction xs) auto

lemma length_upd_last [simp]: "length (upd_last P f xs) = length xs"
  by (simp add: upd_last_def)

lemma length_upd_all [simp]: "length (upd_all P f xs) = length xs"
  by (simp add: upd_all_def)

lemma set_upd_firstD: "y \<in> set (upd_first P f xs) \<Longrightarrow> y \<in> set xs \<or> (\<exists>x\<in>set xs. P x \<and> y = f x)"
  by (induction xs) (auto split: if_splits)

lemma set_upd_lastD: "y \<in> set (upd_last P f xs) \<Longrightarrow> y \<in> set xs \<or> (\<exists>x\<in>set xs. P x \<and> y = f x)"
  using set_upd_firstD [of y P f "rev xs"] by (auto simp: upd_last_def)

lemma set_upd_allD: "y \<in> set (upd_all P f xs) \<Longrightarrow> y \<in> set xs \<or> (\<exists>x\<in>set xs. P x \<and> y = f x)"
  by (auto simp: upd_all_def split: if_splits)

lemma upd_first_id: "(\<And>x. x \<in> set xs \<Longrightarrow> \<not> P x) \<Longrightarrow> upd_first P f xs = xs"
  by (induction xs) auto

lemma upd_all_id: "(\<And>x. x \<in> set xs \<Longrightarrow> \<not> P x) \<Longrightarrow> upd_all P f xs = xs"
  by (induction xs) (auto simp: upd_all_def)

lemma map_upd_first: "(\<And>x. P x \<Longrightarrow> k (f x) = k x) \<Longrightarrow> map k (upd_first P f xs) = map k xs"
  by (induction xs) auto

lemma map_upd_last: "(\<And>x. P x \<Longrightarrow> k (f x) = k x) \<Longrightarrow> map k (upd_last P f xs) = map k xs"
  unfolding upd_last_def rev_map [symmetric] by (simp add: map_upd_first rev_map [symmetric])

lemma map_upd_all: "(\<And>x. P x \<Longrightarrow> k (f x) = k x) \<Longrightarrow> map k (upd_all P f xs) = map k xs"
  by (auto simp: upd_all_def)

lemma find_upd_first:
  "(\<And>x. P x \<Longrightarrow> P (f x)) \<Longrightarrow> find P (upd_first P f xs) = map_option f (find P xs)"
  by (induction xs) auto

lemma find_upd_all: 
  "(\<And>x. Q (f x) = Q x) \<Longrightarrow>
   find Q (upd_all P f xs) = map_option (\<lambda>x. if P x then f x else x) (find Q xs)"
  by (induction xs) (auto simp: upd_all_def)

lemma rfind_upd_last:
  "(\<And>x. P x \<Longrightarrow> P (f x)) \<Longrightarrow> rfind P (upd_last P f xs) = map_option f (rfind P xs)"
  by (simp add: rfind_def upd_last_def find_upd_first)

text \<open>A write through a pointer to the element found is a write of the function of that element.\<close>

lemma upd_first_found: "find P xs = Some x \<Longrightarrow> upd_first P (\<lambda>_. f x) xs = upd_first P f xs"
  by (induction xs) (auto split: if_splits)

lemma upd_last_found: "rfind P xs = Some x \<Longrightarrow> upd_last P (\<lambda>_. f x) xs = upd_last P f xs"
  unfolding rfind_def upd_last_def by (simp add: upd_first_found)

text \<open>A list whose elements may change along \<open>R\<close> and to which elements may be appended.\<close>

definition grows :: "('a \<Rightarrow> 'a \<Rightarrow> bool) \<Rightarrow> 'a list \<Rightarrow> 'a list \<Rightarrow> bool" where
  "grows R xs ys \<longleftrightarrow> length xs \<le> length ys \<and> (\<forall>i<length xs. R (xs ! i) (ys ! i))"

lemma grows_refl: "(\<And>x. R x x) \<Longrightarrow> grows R xs xs"
  by (simp add: grows_def)

lemma grows_trans:
  assumes "grows R xs ys" "grows R ys zs" "\<And>x y z. R x y \<Longrightarrow> R y z \<Longrightarrow> R x z"
  shows "grows R xs zs"
  using assms(1,2) by (auto simp: grows_def intro: assms(3) dest: less_le_trans)

lemma grows_append: "grows R xs ys \<Longrightarrow> grows R xs (ys @ zs)"
  by (auto simp: grows_def nth_append)

lemma grows_upd_all:
  "(\<And>x. R x x) \<Longrightarrow> (\<And>x. P x \<Longrightarrow> R x (f x)) \<Longrightarrow> grows R xs (upd_all P f xs)"
  by (auto simp: grows_def upd_all_def)

lemma grows_upd_found:
  assumes "\<And>x. R x x" and "\<And>x. find P xs = Some x \<Longrightarrow> R x (f x)"
  shows "grows R xs (upd_first P f xs)"
proof -
  have "R (xs ! i) (upd_first P f xs ! i)" if "i < length xs" for i
    using that assms(2)
  proof (induction xs arbitrary: i)
    case (Cons x xs)
    then show ?case using assms(1) by (cases i) (auto split: if_splits)
  qed simp
  then show ?thesis by (simp add: grows_def)
qed

text \<open>Distinct keys survive a write that keeps the key and an append of a new key.\<close>

lemma map_key_upsert:
  assumes "key new = k" and "\<And>it r. key r = k \<Longrightarrow> key (g it r) = k"
  shows "map key (case find (\<lambda>r. key r = k) rs of
             None \<Rightarrow> rs @ [new] | Some it \<Rightarrow> upd_first (\<lambda>r. key r = k) (g it) rs) =
    (if k \<in> key ` set rs then map key rs else map key rs @ [k])"
proof (cases "find (\<lambda>r. key r = k) rs")
  case None
  then have "k \<notin> key ` set rs" by (auto simp: find_None_iff)
  with None assms(1) show ?thesis by simp
next
  case (Some it)
  then have "k \<in> key ` set rs" by (auto dest: find_SomeD)
  moreover have "map key (upd_first (\<lambda>r. key r = k) (g it) rs) = map key rs"
    by (rule map_upd_first) (simp add: assms(2))
  ultimately show ?thesis using Some by simp
qed

lemma find_key_iff: "find (\<lambda>r. key r = k) rs = None \<longleftrightarrow> k \<notin> key ` set rs"
  by (auto simp: find_None_iff)

text \<open>How many elements match: the measure in which "at most one" invariants are stated.\<close>

abbreviation count_where :: "('a \<Rightarrow> bool) \<Rightarrow> 'a list \<Rightarrow> nat" where
  "count_where P xs \<equiv> length (filter P xs)"

lemma count_where_upd_first_le:
  "(\<And>x. P x \<Longrightarrow> Q (f x) \<Longrightarrow> Q x) \<Longrightarrow> count_where Q (upd_first P f xs) \<le> count_where Q xs"
  by (induction xs) auto

lemma count_where_upd_last_le:
  "(\<And>x. P x \<Longrightarrow> Q (f x) \<Longrightarrow> Q x) \<Longrightarrow> count_where Q (upd_last P f xs) \<le> count_where Q xs"
  unfolding upd_last_def
  by (metis count_where_upd_first_le length_rev rev_filter)

lemma count_where_upd_all_none:
  "(\<And>x. Q x \<Longrightarrow> P x) \<Longrightarrow> (\<And>x. P x \<Longrightarrow> \<not> Q (f x)) \<Longrightarrow> count_where Q (upd_all P f xs) = 0"
  unfolding upd_all_def length_0_conv filter_empty_conv by auto

lemma count_where_upd_all_same:
  "(\<And>x. P x \<Longrightarrow> Q (f x) = Q x) \<Longrightarrow> count_where Q (upd_all P f xs) = count_where Q xs"
  by (induction xs) (auto simp: upd_all_def)

lemma count_where_upd_first_add:
  "count_where Q (upd_first P f xs) \<le> Suc (count_where Q xs)"
  by (induction xs) auto

lemma count_where_le1_unique:
  "count_where P xs \<le> 1 \<Longrightarrow> x \<in> set xs \<Longrightarrow> y \<in> set xs \<Longrightarrow> P x \<Longrightarrow> P y \<Longrightarrow> x = y"
proof -
  assume le: "count_where P xs \<le> 1" and xy: "x \<in> set xs" "y \<in> set xs" "P x" "P y"
  from xy have "x \<in> set (filter P xs)" "y \<in> set (filter P xs)" by auto
  with le show "x = y"
    by (cases "filter P xs") auto
qed

section \<open>Numbers as text\<close>

text \<open>\<open>std::to_string\<close> on an \<open>int\<close> or a \<open>size_t\<close>: decimal digits, a sign when negative.\<close>

definition digit :: "nat \<Rightarrow> char" where
  "digit d = char_of (48 + d)"

fun dec :: "nat \<Rightarrow> string" where
  "dec n = (if n < 10 then [digit n] else dec (n div 10) @ [digit (n mod 10)])"

declare dec.simps [simp del]

definition to_string :: "int \<Rightarrow> string" where
  "to_string i = (if i < 0 then CHR ''-'' # dec (nat (- i)) else dec (nat i))"

definition is_digit :: "char \<Rightarrow> bool" where
  "is_digit c \<longleftrightarrow> 48 \<le> (of_char c :: nat) \<and> (of_char c :: nat) \<le> 57"

lemma of_char_digit: "d < 10 \<Longrightarrow> (of_char (digit d) :: nat) = 48 + d"
  by (simp add: digit_def)

lemma is_digit_digit: "d < 10 \<Longrightarrow> is_digit (digit d)"
  by (simp add: is_digit_def of_char_digit)

lemma digit_less: "a < 10 \<Longrightarrow> b < 10 \<Longrightarrow> digit a < digit b \<longleftrightarrow> a < b"
  by (simp add: less_char_def of_char_digit)

lemma digit_inj: "a < 10 \<Longrightarrow> b < 10 \<Longrightarrow> digit a = digit b \<longleftrightarrow> a = b"
  by (metis of_char_digit add_left_cancel)

lemma dec_digits: "c \<in> set (dec n) \<Longrightarrow> is_digit c"
proof (induction n rule: dec.induct)
  case (1 n)
  then show ?case
    by (subst (asm) (2) dec.simps) (auto simp: is_digit_digit split: if_splits)
qed

lemma dec_not_Nil [simp]: "dec n \<noteq> []"
  by (subst dec.simps) simp

text \<open>Reading the digits back.\<close>

definition undec :: "string \<Rightarrow> nat" where
  "undec s = foldl (\<lambda>a c. 10 * a + (of_char c - 48)) 0 s"

lemma undec_dec [simp]: "undec (dec n) = n"
proof (induction n rule: dec.induct)
  case (1 n)
  show ?case
  proof (cases "n < 10")
    case True
    then show ?thesis by (subst dec.simps) (simp add: undec_def of_char_digit)
  next
    case False
    with 1 show ?thesis
      by (subst dec.simps) (simp add: undec_def of_char_digit)
  qed
qed

lemma dec_inj [simp]: "dec m = dec n \<longleftrightarrow> m = n"
  by (metis undec_dec)

lemma dash_not_in_dec [simp]: "dec n \<noteq> CHR ''-'' # xs"
proof
  assume "dec n = CHR ''-'' # xs"
  then have "is_digit (CHR ''-'')"
    using dec_digits [of "CHR ''-''" n] by simp
  then show False by (simp add: is_digit_def)
qed

lemma to_string_inj [simp]: "to_string i = to_string j \<longleftrightarrow> i = j"
  using dash_not_in_dec [symmetric] by (auto simp: to_string_def eq_nat_nat_iff)

lemma to_string_not_Nil [simp]: "to_string i \<noteq> []"
  by (simp add: to_string_def)

text \<open>Splitting a text at a separator that the first part does not contain.\<close>

lemma append_sep_inj:
  assumes "xs @ c # us = ys @ c # vs" and "c \<notin> set xs" and "c \<notin> set ys"
  shows "xs = ys \<and> us = vs"
  using assms
proof (induction xs arbitrary: ys)
  case Nil
  then show ?case by (cases ys) auto
next
  case (Cons x xs)
  then show ?case by (cases ys) auto
qed

section \<open>The order of \<open>std::string\<close>\<close>

text \<open>\<open>operator<=\<close> of \<open>std::string\<close> is lexicographic on unsigned bytes, a prefix being
  smaller: the order \<open>List_Lexorder\<close> puts on lists over the order of \<open>Char_ord\<close>. Blocks of
  equal width compare one after the other.\<close>

lemma lex_append_block:
  fixes xs ys us vs :: "'a::linorder list"
  assumes "length xs = length ys"
  shows "xs @ us < ys @ vs \<longleftrightarrow> xs < ys \<or> (xs = ys \<and> us < vs)"
  using assms
proof (induction xs ys rule: list_induct2)
  case Nil
  then show ?case by simp
next
  case (Cons x xs y ys)
  then show ?case by auto
qed

lemma lex_append_block_le:
  fixes xs ys us vs :: "'a::linorder list"
  assumes "length xs = length ys"
  shows "xs @ us \<le> ys @ vs \<longleftrightarrow> xs < ys \<or> (xs = ys \<and> us \<le> vs)"
  using lex_append_block [OF assms, of us vs] assms by (auto simp: le_less)

section \<open>Simulation\<close>

text \<open>
  The contract between a system and the component it acts on: every step of the system is, seen
  through \<open>abs\<close>, a run of the component. Runs and invariants of the component carry over.
\<close>

locale simulation =
  fixes step :: "'s \<Rightarrow> 's \<Rightarrow> bool" and astep :: "'a \<Rightarrow> 'a \<Rightarrow> bool" and abs :: "'s \<Rightarrow> 'a"
  assumes simulates: "step x y \<Longrightarrow> astep\<^sup>*\<^sup>* (abs x) (abs y)"
begin

lemma run_simulates: "step\<^sup>*\<^sup>* x y \<Longrightarrow> astep\<^sup>*\<^sup>* (abs x) (abs y)"
  by (induction rule: rtranclp_induct) (auto intro: rtranclp_trans simulates)

lemma run_keeps:
  assumes "\<And>a b. astep a b \<Longrightarrow> P a \<Longrightarrow> P b" and "step\<^sup>*\<^sup>* x y" and "P (abs x)"
  shows "P (abs y)"
  using run_simulates [OF assms(2)] assms(3) by (induction rule: rtranclp_induct) (auto intro: assms(1))

end

end
