(* ===== verification/Identity.thy ===== *)
theory Identity
  imports PQFL_Prelude
begin

text \<open>
  \<open>server/identity_utils.cpp\<close> and \<open>server/federated_helpers.hpp\<close>: certificate identities and the
  allowlist check, the validation of request identifiers, and the composed keys under which the
  registry and the weight buffer file their entries. gRPC's authentication context is a value the
  transport supplies: whether there is one, whether the peer is authenticated, and the list of
  peer identities it reports.
\<close>

section \<open>Peer identities\<close>

record auth_context =
  auth_authenticated :: bool
  auth_identities :: "string list"

type_synonym server_context = "auth_context option"

text \<open>\<open>std::isspace\<close> and \<open>std::isalnum\<close> in the C locale.\<close>

definition isspace :: "char \<Rightarrow> bool" where
  "isspace c \<longleftrightarrow> (let n = (of_char c :: nat) in n = 32 \<or> (9 \<le> n \<and> n \<le> 13))"

definition isalnum :: "char \<Rightarrow> bool" where
  "isalnum c \<longleftrightarrow> (let n = (of_char c :: nat) in
     (48 \<le> n \<and> n \<le> 57) \<or> (65 \<le> n \<and> n \<le> 90) \<or> (97 \<le> n \<and> n \<le> 122))"

definition Trim :: "string \<Rightarrow> string" where
  "Trim value = rev (dropWhile isspace (rev (dropWhile isspace value)))"

definition NormalizeIdentity :: "string \<Rightarrow> string" where
  "NormalizeIdentity value =
     (let v = Trim value in
      if take 4 v = ''/CN='' then drop 4 v
      else if take 3 v = ''CN='' then drop 3 v
      else v)"

definition NormalizePeerIdentity :: "string \<Rightarrow> string" where
  "NormalizePeerIdentity value = NormalizeIdentity value"

definition GetPeerIdentity :: "server_context \<Rightarrow> string" where
  "GetPeerIdentity ctx =
     (case ctx of
        None \<Rightarrow> ''''
      | Some a \<Rightarrow> (case auth_identities a of [] \<Rightarrow> '''' | p # _ \<Rightarrow> p))"

definition IsPeerAuthenticated :: "server_context \<Rightarrow> bool" where
  "IsPeerAuthenticated ctx = (case ctx of None \<Rightarrow> False | Some a \<Rightarrow> auth_authenticated a)"

definition HasAllowedPeerIdentity :: "server_context \<Rightarrow> string list \<Rightarrow> bool" where
  "HasAllowedPeerIdentity ctx allowed_identities =
     (if \<not> IsPeerAuthenticated ctx then False
      else
        let identity = GetPeerIdentity ctx;
            normalized_identity = NormalizePeerIdentity identity
        in list_ex (\<lambda>allowed.
             let normalized_allowed = NormalizePeerIdentity allowed in
             normalized_allowed \<noteq> '''' \<and>
             (identity = normalized_allowed \<or> normalized_identity = normalized_allowed \<or>
              identity = allowed)) allowed_identities)"

section \<open>Request identifiers\<close>

definition IsAllowedIdentifierChar :: "char \<Rightarrow> bool" where
  "IsAllowedIdentifierChar ch \<longleftrightarrow>
     isalnum ch \<or> ch = CHR ''-'' \<or> ch = CHR ''_'' \<or> ch = CHR ''.'' \<or> ch = CHR '':''"

text \<open>The empty string means "valid".\<close>

definition ValidateIdentifier :: "string \<Rightarrow> string \<Rightarrow> bool \<Rightarrow> nat \<Rightarrow> string" where
  "ValidateIdentifier value field_name allow_empty max_length =
     (if value = '''' then (if allow_empty then '''' else field_name @ '' is required'')
      else if length value > max_length then
        field_name @ '' exceeds '' @ dec max_length @ '' characters''
      else if list_ex (\<lambda>ch. \<not> IsAllowedIdentifierChar ch) value then
        field_name @ '' contains unsupported characters''
      else '''')"

definition default_max_length :: nat where
  "default_max_length = 128"

definition ValidateFederatedRequestIds :: "string \<Rightarrow> string \<Rightarrow> string \<Rightarrow> string" where
  "ValidateFederatedRequestIds tenant_id model_id client_id =
     (let e1 = ValidateIdentifier tenant_id ''tenant_id'' True default_max_length in
      if e1 \<noteq> '''' then e1
      else let e2 = ValidateIdentifier model_id ''model_id'' True default_max_length in
      if e2 \<noteq> '''' then e2
      else ValidateIdentifier client_id ''client_id'' False default_max_length)"

section \<open>Scopes and composed keys\<close>

definition NormalizeTenant :: "string \<Rightarrow> string" where
  "NormalizeTenant tenant_id = (if tenant_id = '''' then ''default-tenant'' else tenant_id)"

definition NormalizeModel :: "string \<Rightarrow> string" where
  "NormalizeModel model_id = (if model_id = '''' then ''default-model'' else model_id)"

definition ScopeKey :: "string \<Rightarrow> string \<Rightarrow> string" where
  "ScopeKey tenant_id model_id = NormalizeTenant tenant_id @ ''::'' @ NormalizeModel model_id"

definition RoundKey :: "string \<Rightarrow> string \<Rightarrow> int \<Rightarrow> string" where
  "RoundKey tenant_id model_id round = ScopeKey tenant_id model_id @ ''::round:'' @ to_string round"

definition ClientKey :: "string \<Rightarrow> string \<Rightarrow> string \<Rightarrow> string" where
  "ClientKey tenant_id model_id client_id = ScopeKey tenant_id model_id @ ''::client:'' @ client_id"

section \<open>Normalisation\<close>

lemma NormalizeTenant_not_Nil [simp]: "NormalizeTenant t \<noteq> ''''"
  by (simp add: NormalizeTenant_def)

lemma NormalizeModel_not_Nil [simp]: "NormalizeModel m \<noteq> ''''"
  by (simp add: NormalizeModel_def)

lemma NormalizeTenant_idem [simp]: "NormalizeTenant (NormalizeTenant t) = NormalizeTenant t"
  by (simp add: NormalizeTenant_def)

lemma NormalizeModel_idem [simp]: "NormalizeModel (NormalizeModel m) = NormalizeModel m"
  by (simp add: NormalizeModel_def)

lemma ScopeKey_normalize [simp]:
  "ScopeKey (NormalizeTenant t) (NormalizeModel m) = ScopeKey t m"
  by (simp add: ScopeKey_def)

lemma RoundKey_normalize [simp]:
  "RoundKey (NormalizeTenant t) (NormalizeModel m) r = RoundKey t m r"
  by (simp add: RoundKey_def)

lemma ClientKey_normalize [simp]:
  "ClientKey (NormalizeTenant t) (NormalizeModel m) c = ClientKey t m c"
  by (simp add: ClientKey_def)

lemma ClientKey_inj_client [simp]: "ClientKey t m c = ClientKey t m d \<longleftrightarrow> c = d"
  by (simp add: ClientKey_def)

lemma RoundKey_inj_round [simp]: "RoundKey t m r = RoundKey t m q \<longleftrightarrow> r = q"
  by (simp add: RoundKey_def)

section \<open>Validation\<close>

lemma ValidateIdentifier_ok_iff:
  "ValidateIdentifier v f e n = '''' \<longleftrightarrow>
   (v = '''' \<and> e) \<or> (v \<noteq> '''' \<and> length v \<le> n \<and> (\<forall>c\<in>set v. IsAllowedIdentifierChar c))"
  by (auto simp: ValidateIdentifier_def list_ex_iff)

lemma ValidateFederatedRequestIds_ok_iff:
  "ValidateFederatedRequestIds t m c = '''' \<longleftrightarrow>
   ValidateIdentifier t ''tenant_id'' True default_max_length = '''' \<and>
   ValidateIdentifier m ''model_id'' True default_max_length = '''' \<and>
   ValidateIdentifier c ''client_id'' False default_max_length = ''''"
  by (simp add: ValidateFederatedRequestIds_def Let_def)

text \<open>No accepted identifier contains the field separators of the texts the server signs.\<close>

lemma allowed_char_not_bar: "IsAllowedIdentifierChar c \<Longrightarrow> c \<noteq> CHR ''|''"
  by (auto simp: IsAllowedIdentifierChar_def isalnum_def Let_def)

section \<open>When composed keys are unambiguous\<close>

definition colon_free :: "string \<Rightarrow> bool" where
  "colon_free s \<longleftrightarrow> CHR '':'' \<notin> set s"

lemma colon_free_normalize:
  "colon_free t \<Longrightarrow> colon_free (NormalizeTenant t)" "colon_free m \<Longrightarrow> colon_free (NormalizeModel m)"
  by (auto simp: colon_free_def NormalizeTenant_def NormalizeModel_def)

lemma ScopeKey_split:
  assumes "colon_free t" "colon_free t'" "colon_free m" "colon_free m'"
    and "ScopeKey t m @ CHR '':'' # us = ScopeKey t' m' @ CHR '':'' # vs"
  shows "NormalizeTenant t = NormalizeTenant t' \<and> NormalizeModel m = NormalizeModel m' \<and> us = vs"
proof -
  note cf = assms(1-4) [THEN colon_free_normalize(1)] assms(1-4) [THEN colon_free_normalize(2)]
  have "NormalizeTenant t @ CHR '':'' # (CHR '':'' # NormalizeModel m @ CHR '':'' # us) =
        NormalizeTenant t' @ CHR '':'' # (CHR '':'' # NormalizeModel m' @ CHR '':'' # vs)"
    using assms(5) by (simp add: ScopeKey_def)
  from append_sep_inj [OF this] cf have "NormalizeTenant t = NormalizeTenant t'"
    and "NormalizeModel m @ CHR '':'' # us = NormalizeModel m' @ CHR '':'' # vs"
    by (auto simp: colon_free_def)
  with append_sep_inj [OF this(2)] cf show ?thesis by (auto simp: colon_free_def)
qed

lemma ClientKey_inj:
  assumes "colon_free t" "colon_free t'" "colon_free m" "colon_free m'"
  shows "ClientKey t m c = ClientKey t' m' c' \<longleftrightarrow>
    NormalizeTenant t = NormalizeTenant t' \<and> NormalizeModel m = NormalizeModel m' \<and> c = c'"
proof
  assume "ClientKey t m c = ClientKey t' m' c'"
  then have "ScopeKey t m @ CHR '':'' # ('':client:'' @ c) = ScopeKey t' m' @ CHR '':'' # ('':client:'' @ c')"
    by (simp add: ClientKey_def)
  from ScopeKey_split [OF assms this] show
    "NormalizeTenant t = NormalizeTenant t' \<and> NormalizeModel m = NormalizeModel m' \<and> c = c'" by simp
qed (auto simp: ClientKey_def ScopeKey_def)

lemma RoundKey_inj:
  assumes "colon_free t" "colon_free t'" "colon_free m" "colon_free m'"
  shows "RoundKey t m r = RoundKey t' m' r' \<longleftrightarrow>
    NormalizeTenant t = NormalizeTenant t' \<and> NormalizeModel m = NormalizeModel m' \<and> r = r'"
proof
  assume "RoundKey t m r = RoundKey t' m' r'"
  then have "ScopeKey t m @ CHR '':'' # ('':round:'' @ to_string r) =
      ScopeKey t' m' @ CHR '':'' # ('':round:'' @ to_string r')"
    by (simp add: RoundKey_def)
  from ScopeKey_split [OF assms this] show
    "NormalizeTenant t = NormalizeTenant t' \<and> NormalizeModel m = NormalizeModel m' \<and> r = r'" by simp
qed (auto simp: RoundKey_def ScopeKey_def)

section \<open>The allowlist\<close>

lemma NormalizePeerIdentity_Nil [simp]: "NormalizePeerIdentity '''' = ''''"
  by (simp add: NormalizePeerIdentity_def NormalizeIdentity_def Trim_def)

lemma HasAllowedPeerIdentity_iff:
  "HasAllowedPeerIdentity ctx allowed \<longleftrightarrow>
   IsPeerAuthenticated ctx \<and>
   (\<exists>a\<in>set allowed. NormalizePeerIdentity a \<noteq> '''' \<and>
      (GetPeerIdentity ctx = NormalizePeerIdentity a \<or>
       NormalizePeerIdentity (GetPeerIdentity ctx) = NormalizePeerIdentity a))"
  by (auto simp: HasAllowedPeerIdentity_def Let_def list_ex_iff)

end
