(* ===== verification/Timestamps.thy ===== *)
theory Timestamps
  imports PQFL_Prelude
begin

text \<open>
  \<open>server/utils.hpp\<close>: the ISO-8601 timestamps the control plane stores and compares. The wall
  clock is a number of milliseconds since 1970-01-01T00:00Z; \<open>std::gmtime\<close> breaks it into calendar
  fields (Gregorian, UTC), \<open>std::put_time\<close> and \<open>std::setw\<close> print them. Lease expiry compares the
  printed strings, so the point of the theory is that the order of the strings is the order of
  the clock.
\<close>

section \<open>Calendar time\<close>

datatype civil_time = Civil
  (c_year: nat) (c_month: nat) (c_day: nat) (c_hour: nat) (c_min: nat) (c_sec: nat) (c_ms: nat)

definition civil_fields :: "civil_time \<Rightarrow> nat list" where
  "civil_fields c = [c_year c, c_month c, c_day c, c_hour c, c_min c, c_sec c, c_ms c]"

lemma civil_fields_inj: "civil_fields c = civil_fields d \<longleftrightarrow> c = d"
  by (cases c; cases d) (simp add: civil_fields_def)

text \<open>Calendar times are ordered field by field, most significant first.\<close>

instantiation civil_time :: linorder
begin

definition less_eq_civil_time :: "civil_time \<Rightarrow> civil_time \<Rightarrow> bool" where
  "less_eq_civil_time c d \<longleftrightarrow> civil_fields c \<le> civil_fields d"

definition less_civil_time :: "civil_time \<Rightarrow> civil_time \<Rightarrow> bool" where
  "less_civil_time c d \<longleftrightarrow> civil_fields c < civil_fields d"

instance
  by standard (auto simp: less_eq_civil_time_def less_civil_time_def civil_fields_inj [symmetric])

end

definition leap_year :: "nat \<Rightarrow> bool" where
  "leap_year y \<longleftrightarrow> y mod 4 = 0 \<and> (y mod 100 \<noteq> 0 \<or> y mod 400 = 0)"

definition year_length :: "nat \<Rightarrow> nat" where
  "year_length y = (if leap_year y then 366 else 365)"

definition month_length :: "nat \<Rightarrow> nat \<Rightarrow> nat" where
  "month_length y m =
     (if m = 2 then (if leap_year y then 29 else 28)
      else if m = 4 \<or> m = 6 \<or> m = 9 \<or> m = 11 then 30 else 31)"

text \<open>Dividing a number of days into periods of given positive lengths: the index of the period
  and the days left in it.\<close>

function periods :: "(nat \<Rightarrow> nat) \<Rightarrow> nat \<Rightarrow> nat \<Rightarrow> nat \<times> nat" where
  "periods len p d =
     (if len p = 0 \<or> d < len p then (p, d) else periods len (Suc p) (d - len p))"
  by pat_completeness auto
termination
  by (relation "measure (\<lambda>(len, p, d). d)") auto

declare periods.simps [simp del]

definition gmtime :: "nat \<Rightarrow> civil_time" where
  "gmtime ms =
     (let secs = ms div 1000; days = secs div 86400; sod = secs mod 86400;
          (y, doy) = periods year_length 1970 days;
          (m, dom) = periods (month_length y) 1 doy
      in Civil y m (Suc dom) (sod div 3600) (sod mod 3600 div 60) (sod mod 60) (ms mod 1000))"

section \<open>Printing\<close>

text \<open>\<open>std::setfill('0') << std::setw(w)\<close>, and the two-digit conversions of \<open>std::put_time\<close>.\<close>

definition setw0 :: "nat \<Rightarrow> nat \<Rightarrow> string" where
  "setw0 w n = replicate (w - length (dec n)) (CHR ''0'') @ dec n"

definition format_civil :: "civil_time \<Rightarrow> string" where
  "format_civil c =
     dec (c_year c) @ ''-'' @ setw0 2 (c_month c) @ ''-'' @ setw0 2 (c_day c) @ ''T'' @
     setw0 2 (c_hour c) @ '':'' @ setw0 2 (c_min c) @ '':'' @ setw0 2 (c_sec c) @ ''.'' @
     setw0 3 (c_ms c) @ ''Z''"

definition CurrentTimestamp :: "nat \<Rightarrow> string" where
  "CurrentTimestamp now = format_civil (gmtime now)"

definition TimestampAfterSeconds :: "nat \<Rightarrow> int \<Rightarrow> string" where
  "TimestampAfterSeconds now seconds = format_civil (gmtime (now + 1000 * nat (max 0 seconds)))"

text \<open>The readings of the clock one call of an operation makes, in order.\<close>

type_synonym clock = "nat \<Rightarrow> nat"

definition tick :: "nat \<Rightarrow> clock \<Rightarrow> clock" where
  "tick k clk = (\<lambda>i. clk (k + i))"

lemma tick_apply [simp]: "tick k clk i = clk (k + i)"
  by (simp add: tick_def)

section \<open>\<open>gmtime\<close> is strictly monotone\<close>

lemma periods_spec:
  assumes pos: "\<And>q. 0 < len q" and res: "periods len p d = (q, r)"
  shows "p \<le> q \<and> r < len q \<and> d = sum len {p..<q} + r"
  using res
proof (induction d arbitrary: p q r rule: less_induct)
  case (less d)
  show ?case
  proof (cases "d < len p")
    case True
    with less.prems show ?thesis by (simp add: periods.simps [of len p d])
  next
    case False
    with less.prems pos [of p] have rec: "periods len (Suc p) (d - len p) = (q, r)"
      by (simp add: periods.simps [of len p d])
    have "d - len p < d" using False pos [of p] by simp
    from less.IH [OF this rec] have "Suc p \<le> q" "r < len q"
      and eq: "d - len p = sum len {Suc p..<q} + r" by auto
    moreover have "sum len {p..<q} = len p + sum len {Suc p..<q}"
      using \<open>Suc p \<le> q\<close> by (simp add: sum.atLeast_Suc_lessThan)
    ultimately show ?thesis using False by simp
  qed
qed

text \<open>Splitting a number into a period and a remainder is monotone: the period grows, or it
  stays and the remainder grows.\<close>

lemma periods_mono:
  assumes pos: "\<And>q. 0 < len q" and d: "d < d'"
    and r: "periods len p d = (q, r)" and r': "periods len p d' = (q', r')"
  shows "q < q' \<or> (q = q' \<and> r < r')"
proof (cases "q < q'")
  case False
  note s = periods_spec [OF pos r] and s' = periods_spec [OF pos r']
  show ?thesis
  proof (cases "q = q'")
    case True
    with s s' d show ?thesis by simp
  next
    case neq: False
    with False have lt: "q' < q" by simp
    have "sum len {p..<q'} + len q' = sum len {p..<Suc q'}"
      using s' by simp
    also have "\<dots> \<le> sum len {p..<q}"
      using lt by (intro sum_mono2) auto
    finally have "d' < d" using s s' by simp
    with d show ?thesis by simp
  qed
qed simp

lemma year_length_pos: "0 < year_length y" by (simp add: year_length_def)
lemma month_length_pos: "0 < month_length y m" by (simp add: month_length_def)

text \<open>The same for a quotient and a remainder.\<close>

lemma div_mod_mono: "(a::nat) < b \<Longrightarrow> a div k < b div k \<or> (a div k = b div k \<and> a mod k < b mod k)"
  by (metis div_le_mono div_mult_mod_eq le_less less_imp_le_nat nat_add_left_cancel_less)

lemma civil_less:
  "Civil y m d h mi s ms < Civil y' m' d' h' mi' s' ms' \<longleftrightarrow>
   y < y' \<or> (y = y' \<and> (m < m' \<or> (m = m' \<and> (d < d' \<or> (d = d' \<and> (h < h' \<or> (h = h' \<and>
     (mi < mi' \<or> (mi = mi' \<and> (s < s' \<or> (s = s' \<and> ms < ms')))))))))))"
  by (auto simp: less_civil_time_def civil_fields_def)

lemma sod_fields_mono:
  fixes a b :: nat
  assumes "a < b"
  shows "a div 3600 < b div 3600 \<or> (a div 3600 = b div 3600 \<and>
    (a mod 3600 div 60 < b mod 3600 div 60 \<or> (a mod 3600 div 60 = b mod 3600 div 60 \<and> a mod 60 < b mod 60)))"
proof -
  have "x mod 3600 mod 60 = x mod 60" for x :: nat
    by (simp add: mod_mod_cancel)
  with div_mod_mono [OF assms, of 3600] div_mod_mono [of "a mod 3600" "b mod 3600" 60]
  show ?thesis by metis
qed

lemma gmtime_strict_mono:
  assumes "a < b" shows "gmtime a < gmtime b"
proof -
  obtain y doy where p: "periods year_length 1970 (a div 1000 div 86400) = (y, doy)"
    by fastforce
  obtain m dom where q: "periods (month_length y) 1 doy = (m, dom)"
    by fastforce
  obtain y' doy' where p': "periods year_length 1970 (b div 1000 div 86400) = (y', doy')"
    by fastforce
  obtain m' dom' where q': "periods (month_length y') 1 doy' = (m', dom')"
    by fastforce
  note secs = div_mod_mono [OF assms, of 1000]
  note days = div_mod_mono [of "a div 1000" "b div 1000" 86400]
  note sod = sod_fields_mono [of "a div 1000 mod 86400" "b div 1000 mod 86400"]
  have date: "y < y' \<or> (y = y' \<and> (m < m' \<or> (m = m' \<and> dom < dom')))"
    if "a div 1000 div 86400 < b div 1000 div 86400"
  proof (cases "y = y'")
    case True
    with periods_mono [OF year_length_pos that p p'] have "doy < doy'" by simp
    moreover have "periods (month_length y) 1 doy' = (m', dom')" using q' True by simp
    ultimately show ?thesis
      using True periods_mono [of "month_length y", OF month_length_pos _ q] by blast
  next
    case False
    with periods_mono [OF year_length_pos that p p'] show ?thesis by simp
  qed
  have same: "y = y' \<and> m = m' \<and> dom = dom'"
    if "a div 1000 div 86400 = b div 1000 div 86400"
    using p p' q q' that by simp
  have fields: "gmtime a = Civil y m (Suc dom) (a div 1000 mod 86400 div 3600)
      (a div 1000 mod 86400 mod 3600 div 60) (a div 1000 mod 86400 mod 60) (a mod 1000)"
    "gmtime b = Civil y' m' (Suc dom') (b div 1000 mod 86400 div 3600)
      (b div 1000 mod 86400 mod 3600 div 60) (b div 1000 mod 86400 mod 60) (b mod 1000)"
    by (simp_all only: gmtime_def Let_def p p' q q' prod.case)
  show ?thesis
  proof (cases "a div 1000 div 86400 < b div 1000 div 86400")
    case True
    from date [OF True] show ?thesis unfolding fields civil_less by blast
  next
    case False
    with secs days have days_eq: "a div 1000 div 86400 = b div 1000 div 86400" by auto
    with secs days False have "a div 1000 mod 86400 < b div 1000 mod 86400 \<or>
        (a div 1000 mod 86400 = b div 1000 mod 86400 \<and> a mod 1000 < b mod 1000)"
      by (cases "a div 1000 < b div 1000") simp_all
    with sod same [OF days_eq] show ?thesis unfolding fields civil_less by metis
  qed
qed

lemma gmtime_le_iff: "gmtime a \<le> gmtime b \<longleftrightarrow> a \<le> b"
  by (metis gmtime_strict_mono leD le_less not_le)

section \<open>Printing keeps the order\<close>

definition civil_printable :: "civil_time \<Rightarrow> bool" where
  "civil_printable c \<longleftrightarrow> 1000 \<le> c_year c \<and> c_year c < 10000 \<and> c_month c < 100 \<and> c_day c < 100 \<and>
     c_hour c < 100 \<and> c_min c < 100 \<and> c_sec c < 100 \<and> c_ms c < 1000"

text \<open>Fixed-width decimal printing, least significant digit last.\<close>

fun pad :: "nat \<Rightarrow> nat \<Rightarrow> string" where
  "pad 0 n = []"
| "pad (Suc w) n = pad w (n div 10) @ [digit (n mod 10)]"

lemma length_pad [simp]: "length (pad w n) = w"
  by (induction w n rule: pad.induct) auto

lemma digit_0: "digit 0 = CHR ''0''"
  by code_simp

lemma pad_zero: "pad w 0 = replicate w (CHR ''0'')"
  by (induction w) (auto simp: digit_0 replicate_append_same)

lemma setw0_pad: "0 < w \<Longrightarrow> n < 10 ^ w \<Longrightarrow> setw0 w n = pad w n"
proof (induction w arbitrary: n)
  case 0
  then show ?case by simp
next
  case (Suc w)
  show ?case
  proof (cases "n < 10")
    case True
    then show ?thesis
      by (simp add: setw0_def dec.simps [of n] pad_zero)
  next
    case False
    with Suc.prems have "n div 10 < 10 ^ w" and "0 < w"
      by (simp add: less_mult_imp_div_less, cases w) auto
    with Suc.IH [of "n div 10"] have "setw0 w (n div 10) = pad w (n div 10)" by simp
    with False show ?thesis
      by (simp add: setw0_def dec.simps [of n])
  qed
qed

lemma pad_less: "m < 10 ^ w \<Longrightarrow> n < 10 ^ w \<Longrightarrow> pad w m < pad w n \<longleftrightarrow> m < n"
proof (induction w arbitrary: m n)
  case 0
  then show ?case by simp
next
  case (Suc w)
  then have "m div 10 < 10 ^ w" "n div 10 < 10 ^ w" by (auto simp: less_mult_imp_div_less)
  with Suc.IH have "pad w (m div 10) < pad w (n div 10) \<longleftrightarrow> m div 10 < n div 10"
    "pad w (n div 10) < pad w (m div 10) \<longleftrightarrow> n div 10 < m div 10" by auto
  moreover have "pad w (m div 10) = pad w (n div 10) \<longleftrightarrow> m div 10 = n div 10"
    using calculation by (metis less_irrefl nat_neq_iff)
  ultimately have "pad (Suc w) m < pad (Suc w) n \<longleftrightarrow>
      m div 10 < n div 10 \<or> (m div 10 = n div 10 \<and> m mod 10 < n mod 10)"
    by (simp add: lex_append_block digit_less)
  also have "\<dots> \<longleftrightarrow> m < n"
    by (metis div_mod_mono less_asym nat_neq_iff)
  finally show ?case .
qed

lemma pad_inj: "m < 10 ^ w \<Longrightarrow> n < 10 ^ w \<Longrightarrow> pad w m = pad w n \<longleftrightarrow> m = n"
  by (metis pad_less less_irrefl nat_neq_iff)

lemma dec_year: "1000 \<le> y \<Longrightarrow> y < 10000 \<Longrightarrow> dec y = pad 4 y"
proof -
  assume y: "1000 \<le> y" "y < 10000"
  have "length (dec y) = 4"
  proof -
    have "\<not> y div 10 < 10" "\<not> y div 100 < 10" "y div 1000 < 10" using y by auto
    then show ?thesis
      using y by (simp add: dec.simps [of y] dec.simps [of "y div 10"] dec.simps [of "y div 100"]
        dec.simps [of "y div 1000"] div_mult2_eq [symmetric])
  qed
  then have "setw0 4 y = dec y" by (simp add: setw0_def)
  with setw0_pad [of 4 y] y show ?thesis by simp
qed

lemma format_less:
  assumes "civil_printable c" and "civil_printable d"
  shows "format_civil c < format_civil d \<longleftrightarrow> c < d"
proof -
  have e: "format_civil c = pad 4 (c_year c) @ ''-'' @ pad 2 (c_month c) @ ''-'' @ pad 2 (c_day c) @ ''T'' @
     pad 2 (c_hour c) @ '':'' @ pad 2 (c_min c) @ '':'' @ pad 2 (c_sec c) @ ''.'' @ pad 3 (c_ms c) @ ''Z''"
    if "civil_printable c" for c
    using that by (simp add: format_civil_def civil_printable_def dec_year setw0_pad)
  show ?thesis
    using assms unfolding e [OF assms(1)] e [OF assms(2)]
    by (cases c; cases d)
      (simp add: lex_append_block pad_less pad_inj civil_printable_def civil_less)
qed

lemma gmtime_printable: "c_year (gmtime a) < 10000 \<Longrightarrow> civil_printable (gmtime a)"
proof -
  assume y10: "c_year (gmtime a) < 10000"
  obtain y doy where p: "periods year_length 1970 (a div 1000 div 86400) = (y, doy)"
    by fastforce
  obtain m dom where q: "periods (month_length y) 1 doy = (m, dom)"
    by fastforce
  from periods_spec [OF year_length_pos p] have y: "1970 \<le> y" "doy < 366"
    by (auto simp: year_length_def split: if_splits)
  from periods_spec [OF month_length_pos q]
  have dom: "dom < 31" and m: "1 \<le> m" and sm: "doy = sum (month_length y) {1..<m} + dom"
    by (auto simp: month_length_def split: if_splits)
  have "m \<le> 98"
  proof (rule ccontr)
    assume "\<not> m \<le> 98"
    then have "28 * 98 \<le> 28 * (m - 1)" by simp
    also have "\<dots> = (\<Sum>i = 1..<m. 28)" by simp
    also have "\<dots> \<le> sum (month_length y) {1..<m}"
      by (intro sum_mono) (simp add: month_length_def)
    finally show False using sm y by simp
  qed
  then have "m < 100" by simp
  moreover have "a div 1000 mod 86400 div 3600 < 100"
    by (rule less_mult_imp_div_less) (simp add: order_less_trans [OF mod_less_divisor])
  moreover have "a div 1000 mod 86400 mod 3600 div 60 < 100"
    by (rule less_mult_imp_div_less) (simp add: order_less_trans [OF mod_less_divisor])
  moreover have "a div 1000 mod 86400 mod 60 < 100" "a mod 1000 < 1000"
    by (simp_all add: order_less_trans [OF mod_less_divisor])
  moreover have "1000 \<le> y" "Suc dom < 100" using y dom by simp_all
  moreover have "y < 10000" using y10 by (simp only: gmtime_def Let_def p q prod.case civil_time.sel)
  ultimately show ?thesis
    by (simp only: gmtime_def Let_def p q prod.case civil_printable_def civil_time.sel simp_thms)
qed

text \<open>Until the year 9999, comparing two printed timestamps compares the instants.\<close>

lemma timestamp_le_iff:
  assumes "c_year (gmtime a) < 10000" and "c_year (gmtime b) < 10000"
  shows "CurrentTimestamp a \<le> CurrentTimestamp b \<longleftrightarrow> a \<le> b"
proof -
  have "CurrentTimestamp b < CurrentTimestamp a \<longleftrightarrow> gmtime b < gmtime a"
    unfolding CurrentTimestamp_def
    by (rule format_less) (use assms gmtime_printable in auto)
  then show ?thesis by (metis gmtime_le_iff not_le)
qed

lemma CurrentTimestamp_not_Nil [simp]: "CurrentTimestamp now \<noteq> []"
  by (simp add: CurrentTimestamp_def format_civil_def)

lemma TimestampAfterSeconds_eq:
  "TimestampAfterSeconds now s = CurrentTimestamp (now + 1000 * nat (max 0 s))"
  by (simp add: TimestampAfterSeconds_def CurrentTimestamp_def)

end
