(* ===== verification/State_Records.thy ===== *)
theory State_Records
  imports Identity Timestamps
begin

text \<open>
  \<open>server/state_store.hpp\<close>: the persisted records and the store itself. Each C++ struct is a
  record with the same fields in the same order, prefixed by its kind (\<open>cl_\<close> client, \<open>md_\<close>
  model, \<open>ds_\<close> dataset, \<open>jb_\<close> training job, \<open>as_\<close> assignment lease, \<open>wk_\<close> worker, \<open>tk_\<close> worker
  task, \<open>ev_\<close> audit event). C++ \<open>int\<close> is \<open>int\<close>: signed overflow is undefined in C++, so the model
  covers the executions in which no counter leaves the 32-bit range.
\<close>

record PersistedClientRecord =
  cl_tenant_id :: string
  cl_model_id :: string
  cl_client_id :: string
  cl_peer_identity :: string
  cl_local_dataset_size :: int
  cl_hardware_info :: string
  cl_dataset_fingerprint :: string
  cl_last_active_round :: int
  cl_registered_at :: string

record PersistedModelRecord =
  md_tenant_id :: string
  md_model_id :: string
  md_version :: int
  md_latest_round :: int
  md_checkpoint_path :: string
  md_aggregation_strategy :: string
  md_key_version :: int
  md_client_count :: int
  md_weight_dimension :: int
  md_active :: bool
  md_created_at :: string

record PersistedDatasetRecord =
  ds_tenant_id :: string
  ds_model_id :: string
  ds_dataset_id :: string
  ds_fingerprint :: string
  ds_storage_uri :: string
  ds_format :: string
  ds_sample_count :: int
  ds_shard_count :: int
  ds_active :: bool
  ds_created_at :: string

record PersistedTrainingJobRecord =
  jb_job_id :: string
  jb_tenant_id :: string
  jb_model_id :: string
  jb_dataset_id :: string
  jb_target_rounds :: int
  jb_planned_clients :: int
  jb_min_clients_per_round :: int
  jb_assignment_ttl_seconds :: int
  jb_status :: string
  jb_current_round :: int
  jb_completed_rounds :: int
  jb_active_model_version :: int
  jb_created_at :: string
  jb_activated_at :: string
  jb_notes :: string

record PersistedAssignmentLease =
  as_assignment_id :: string
  as_job_id :: string
  as_tenant_id :: string
  as_model_id :: string
  as_dataset_id :: string
  as_client_id :: string
  as_round_index :: int
  as_base_model_version :: int
  as_status :: string
  as_issued_at :: string
  as_expires_at :: string
  as_updated_at :: string
  as_detail :: string

record PersistedWorkerRecord =
  wk_worker_id :: string
  wk_trainer_client_id :: string
  wk_tenant_id :: string
  wk_model_id :: string
  wk_hostname :: string
  wk_launcher :: string
  wk_max_parallel_tasks :: int
  wk_labels :: "string list"
  wk_status :: string
  wk_registered_at :: string
  wk_last_heartbeat_at :: string
  wk_active_task_id :: string

record PersistedWorkerTaskRecord =
  tk_task_id :: string
  tk_worker_id :: string
  tk_trainer_client_id :: string
  tk_job_id :: string
  tk_assignment_id :: string
  tk_tenant_id :: string
  tk_model_id :: string
  tk_dataset_id :: string
  tk_round_index :: int
  tk_base_model_version :: int
  tk_status :: string
  tk_detail :: string
  tk_progress_percent :: int
  tk_issued_at :: string
  tk_started_at :: string
  tk_completed_at :: string
  tk_updated_at :: string

record PersistedAuditEvent =
  ev_timestamp :: string
  ev_action :: string
  ev_tenant_id :: string
  ev_model_id :: string
  ev_client_id :: string
  ev_detail :: string

record PersistedSystemStatus =
  st_registered_clients :: int
  st_completed_rounds :: int
  st_total_submissions :: int
  st_active_key_version :: int
  st_state_path :: string
  st_active_models :: "PersistedModelRecord list"
  st_registered_datasets :: int
  st_stored_models :: int
  st_active_training_jobs :: int
  st_pending_assignments :: int
  st_leased_assignments :: int
  st_submitted_assignments :: int
  st_registered_workers :: int
  st_busy_workers :: int
  st_active_worker_tasks :: int
  st_failed_worker_tasks :: int

text \<open>A default-initialised dataset, what an out-parameter holds when no dataset is found.\<close>

definition default_dataset :: PersistedDatasetRecord where
  "default_dataset = \<lparr>ds_tenant_id = '''', ds_model_id = '''', ds_dataset_id = '''',
     ds_fingerprint = '''', ds_storage_uri = '''', ds_format = '''', ds_sample_count = 0,
     ds_shard_count = 0, ds_active = True, ds_created_at = ''''\<rparr>"

section \<open>The store\<close>

text \<open>
  The private members of \<open>StateStore\<close>. \<open>store_image\<close> holds what \<open>SaveLocked\<close> writes to the file
  and \<open>Load\<close> reads back; the store adds the path, the audit retention, and \<open>persisted\<close>, the
  content of the file at that path (\<open>None\<close>: no file yet). Every public operation runs under
  the store's mutex, so operations are atomic steps of the store.
\<close>

record store_image =
  clients :: "PersistedClientRecord list"
  models :: "PersistedModelRecord list"
  datasets :: "PersistedDatasetRecord list"
  training_jobs :: "PersistedTrainingJobRecord list"
  assignments :: "PersistedAssignmentLease list"
  workers :: "PersistedWorkerRecord list"
  worker_tasks :: "PersistedWorkerTaskRecord list"
  audit_events :: "PersistedAuditEvent list"
  completed_rounds :: int
  total_submissions :: int
  active_key_version :: int

record state_store = store_image +
  store_path :: string
  audit_retention :: nat
  persisted :: "store_image option"

definition empty_image :: store_image where
  "empty_image = \<lparr>clients = [], models = [], datasets = [], training_jobs = [], assignments = [],
     workers = [], worker_tasks = [], audit_events = [], completed_rounds = 0,
     total_submissions = 0, active_key_version = 1\<rparr>"

definition image :: "state_store \<Rightarrow> store_image" where
  "image s = store_image.truncate s"

text \<open>The constructor \<open>StateStore(path, audit_retention)\<close>, before \<open>Load\<close>: \<open>file\<close> is what is on
  disk at \<open>path\<close>.\<close>

definition StateStore :: "string \<Rightarrow> nat \<Rightarrow> store_image option \<Rightarrow> state_store" where
  "StateStore path retention file =
     store_image.extend empty_image
       \<lparr>store_path = path, audit_retention = max 1 retention, persisted = file\<rparr>"

text \<open>The durable effect of \<open>SaveLocked\<close>: the file holds the image of the store.\<close>

definition SaveLocked :: "state_store \<Rightarrow> state_store" where
  "SaveLocked s = s\<lparr>persisted := Some (image s)\<rparr>"

lemma image_persisted [simp]: "image (s\<lparr>persisted := p\<rparr>) = image s"
  by (simp add: image_def store_image.truncate_def)

lemma image_simps [simp]:
  "clients (image s) = clients s" "models (image s) = models s" "datasets (image s) = datasets s"
  "training_jobs (image s) = training_jobs s" "assignments (image s) = assignments s"
  "workers (image s) = workers s" "worker_tasks (image s) = worker_tasks s"
  "audit_events (image s) = audit_events s" "completed_rounds (image s) = completed_rounds s"
  "total_submissions (image s) = total_submissions s"
  "active_key_version (image s) = active_key_version s"
  by (simp_all add: image_def store_image.truncate_def)

lemma SaveLocked_simps [simp]:
  "clients (SaveLocked s) = clients s" "models (SaveLocked s) = models s"
  "datasets (SaveLocked s) = datasets s" "training_jobs (SaveLocked s) = training_jobs s"
  "assignments (SaveLocked s) = assignments s" "workers (SaveLocked s) = workers s"
  "worker_tasks (SaveLocked s) = worker_tasks s" "audit_events (SaveLocked s) = audit_events s"
  "completed_rounds (SaveLocked s) = completed_rounds s"
  "total_submissions (SaveLocked s) = total_submissions s"
  "active_key_version (SaveLocked s) = active_key_version s"
  "store_path (SaveLocked s) = store_path s" "audit_retention (SaveLocked s) = audit_retention s"
  "persisted (SaveLocked s) = Some (image s)"
  by (simp_all add: SaveLocked_def)

lemma image_SaveLocked [simp]: "image (SaveLocked s) = image s"
  by (simp add: SaveLocked_def)

text \<open>The file agrees with the store.\<close>

definition in_sync :: "state_store \<Rightarrow> bool" where
  "in_sync s \<longleftrightarrow> persisted s = Some (image s)"

lemma in_sync_SaveLocked [simp]: "in_sync (SaveLocked s)"
  by (simp add: in_sync_def)

section \<open>Scopes and keys of the records\<close>

definition client_in :: "string \<Rightarrow> string \<Rightarrow> string \<Rightarrow> PersistedClientRecord \<Rightarrow> bool" where
  "client_in t m c r \<longleftrightarrow> cl_tenant_id r = t \<and> cl_model_id r = m \<and> cl_client_id r = c"

definition model_in :: "string \<Rightarrow> string \<Rightarrow> PersistedModelRecord \<Rightarrow> bool" where
  "model_in t m r \<longleftrightarrow> md_tenant_id r = t \<and> md_model_id r = m"

definition dataset_in :: "string \<Rightarrow> string \<Rightarrow> string \<Rightarrow> PersistedDatasetRecord \<Rightarrow> bool" where
  "dataset_in t m d r \<longleftrightarrow> ds_tenant_id r = t \<and> ds_model_id r = m \<and> ds_dataset_id r = d"

text \<open>\<open>IsActiveJobStatus\<close> and \<open>MatchesFilter\<close> of \<open>state_store.cpp\<close>.\<close>

definition IsActiveJobStatus :: "string \<Rightarrow> bool" where
  "IsActiveJobStatus status \<longleftrightarrow> status = ''planned'' \<or> status = ''running''"

definition MatchesFilter :: "string \<Rightarrow> string \<Rightarrow> bool" where
  "MatchesFilter value filter_value \<longleftrightarrow> filter_value = '''' \<or> value = filter_value"

definition active_job_in :: "string \<Rightarrow> string \<Rightarrow> PersistedTrainingJobRecord \<Rightarrow> bool" where
  "active_job_in t m j \<longleftrightarrow> jb_tenant_id j = t \<and> jb_model_id j = m \<and> IsActiveJobStatus (jb_status j)"

section \<open>The audit trail and lease expiry\<close>

definition TrimAuditEventsLocked :: "state_store \<Rightarrow> state_store" where
  "TrimAuditEventsLocked s =
     (if length (audit_events s) > audit_retention s
      then s\<lparr>audit_events := drop (length (audit_events s) - audit_retention s) (audit_events s)\<rparr>
      else s)"

definition audit_event ::
  "string \<Rightarrow> string \<Rightarrow> string \<Rightarrow> string \<Rightarrow> string \<Rightarrow> string \<Rightarrow> PersistedAuditEvent" where
  "audit_event ts action t m c detail =
     \<lparr>ev_timestamp = ts, ev_action = action, ev_tenant_id = t, ev_model_id = m,
      ev_client_id = c, ev_detail = detail\<rparr>"

text \<open>\<open>audit_events_.push_back({...}); TrimAuditEventsLocked();\<close>\<close>

definition push_audit :: "PersistedAuditEvent \<Rightarrow> state_store \<Rightarrow> state_store" where
  "push_audit e s = TrimAuditEventsLocked (s\<lparr>audit_events := audit_events s @ [e]\<rparr>)"

definition lease_lapsed :: "string \<Rightarrow> PersistedAssignmentLease \<Rightarrow> bool" where
  "lease_lapsed now a \<longleftrightarrow>
     as_status a = ''leased'' \<and> as_expires_at a \<noteq> '''' \<and> as_expires_at a \<le> now"

definition expire_lease :: "string \<Rightarrow> PersistedAssignmentLease \<Rightarrow> PersistedAssignmentLease" where
  "expire_lease now a = a\<lparr>as_status := ''expired'', as_updated_at := now,
     as_detail := ''Lease expired before submission''\<rparr>"

definition expiry_event :: "string \<Rightarrow> PersistedAssignmentLease \<Rightarrow> PersistedAuditEvent" where
  "expiry_event now a = audit_event now ''assignment_expired'' (as_tenant_id a) (as_model_id a)
     (as_client_id a) (''Assignment '' @ as_assignment_id a @ '' expired'')"

definition ExpireAssignmentsLocked :: "string \<Rightarrow> state_store \<Rightarrow> state_store" where
  "ExpireAssignmentsLocked now s =
     (let lapsed = filter (lease_lapsed now) (assignments s);
          s' = s\<lparr>assignments := upd_all (lease_lapsed now) (expire_lease now) (assignments s),
                 audit_events := audit_events s @ map (expiry_event now) lapsed\<rparr>
      in if lapsed \<noteq> [] then TrimAuditEventsLocked s' else s')"

lemma TrimAudit_simps [simp]:
  "clients (TrimAuditEventsLocked s) = clients s" "models (TrimAuditEventsLocked s) = models s"
  "datasets (TrimAuditEventsLocked s) = datasets s"
  "training_jobs (TrimAuditEventsLocked s) = training_jobs s"
  "assignments (TrimAuditEventsLocked s) = assignments s"
  "workers (TrimAuditEventsLocked s) = workers s"
  "worker_tasks (TrimAuditEventsLocked s) = worker_tasks s"
  "completed_rounds (TrimAuditEventsLocked s) = completed_rounds s"
  "total_submissions (TrimAuditEventsLocked s) = total_submissions s"
  "active_key_version (TrimAuditEventsLocked s) = active_key_version s"
  "store_path (TrimAuditEventsLocked s) = store_path s"
  "audit_retention (TrimAuditEventsLocked s) = audit_retention s"
  "persisted (TrimAuditEventsLocked s) = persisted s"
  by (simp_all add: TrimAuditEventsLocked_def)

lemma push_audit_simps [simp]:
  "clients (push_audit e s) = clients s" "models (push_audit e s) = models s"
  "datasets (push_audit e s) = datasets s" "training_jobs (push_audit e s) = training_jobs s"
  "assignments (push_audit e s) = assignments s" "workers (push_audit e s) = workers s"
  "worker_tasks (push_audit e s) = worker_tasks s"
  "completed_rounds (push_audit e s) = completed_rounds s"
  "total_submissions (push_audit e s) = total_submissions s"
  "active_key_version (push_audit e s) = active_key_version s"
  "store_path (push_audit e s) = store_path s"
  "audit_retention (push_audit e s) = audit_retention s"
  "persisted (push_audit e s) = persisted s"
  by (simp_all add: push_audit_def)

lemma Expire_simps [simp]:
  "clients (ExpireAssignmentsLocked now s) = clients s"
  "models (ExpireAssignmentsLocked now s) = models s"
  "datasets (ExpireAssignmentsLocked now s) = datasets s"
  "training_jobs (ExpireAssignmentsLocked now s) = training_jobs s"
  "assignments (ExpireAssignmentsLocked now s) =
     upd_all (lease_lapsed now) (expire_lease now) (assignments s)"
  "workers (ExpireAssignmentsLocked now s) = workers s"
  "worker_tasks (ExpireAssignmentsLocked now s) = worker_tasks s"
  "completed_rounds (ExpireAssignmentsLocked now s) = completed_rounds s"
  "total_submissions (ExpireAssignmentsLocked now s) = total_submissions s"
  "active_key_version (ExpireAssignmentsLocked now s) = active_key_version s"
  "store_path (ExpireAssignmentsLocked now s) = store_path s"
  "audit_retention (ExpireAssignmentsLocked now s) = audit_retention s"
  "persisted (ExpireAssignmentsLocked now s) = persisted s"
  by (simp_all add: ExpireAssignmentsLocked_def Let_def)

lemma push_audit_events:
  "audit_events (push_audit e s) =
     drop (Suc (length (audit_events s)) - audit_retention s) (audit_events s @ [e])"
  by (simp add: push_audit_def TrimAuditEventsLocked_def)

lemma push_audit_bounded:
  "length (audit_events (push_audit e s)) \<le> audit_retention s"
  by (simp add: push_audit_events)

lemma push_audit_last:
  "1 \<le> audit_retention s \<Longrightarrow> audit_events (push_audit e s) \<noteq> [] \<and> last (audit_events (push_audit e s)) = e"
  by (auto simp: push_audit_events)

lemma Expire_bounded:
  "length (audit_events s) \<le> audit_retention s \<Longrightarrow>
   length (audit_events (ExpireAssignmentsLocked now s)) \<le> audit_retention s"
  by (auto simp: ExpireAssignmentsLocked_def Let_def TrimAuditEventsLocked_def)

lemma expire_lease_simps [simp]:
  "as_assignment_id (expire_lease now a) = as_assignment_id a"
  "as_job_id (expire_lease now a) = as_job_id a"
  "as_client_id (expire_lease now a) = as_client_id a"
  "as_tenant_id (expire_lease now a) = as_tenant_id a"
  "as_model_id (expire_lease now a) = as_model_id a"
  "as_round_index (expire_lease now a) = as_round_index a"
  "as_base_model_version (expire_lease now a) = as_base_model_version a"
  "as_expires_at (expire_lease now a) = as_expires_at a"
  "as_status (expire_lease now a) = ''expired''"
  by (simp_all add: expire_lease_def)

end
