(* ===== verification/Store_Models.thy ===== *)
theory Store_Models
  imports State_Records
begin

text \<open>
  \<open>server/state_store.cpp\<close>, the operations on clients, aggregated models, the key version and the
  audit trail. An operation takes the clock readings it makes, its arguments and the store, and
  returns its result and the new store.
\<close>

section \<open>Clients and submissions\<close>

definition RecordClientRegistration ::
  "clock \<Rightarrow> PersistedClientRecord \<Rightarrow> state_store \<Rightarrow> state_store" where
  "RecordClientRegistration clk record s =
     (let tenant_id = NormalizeTenant (cl_tenant_id record);
          model_id = NormalizeModel (cl_model_id record);
          same = client_in tenant_id model_id (cl_client_id record)
      in SaveLocked
        (case find same (clients s) of
           None \<Rightarrow>
             s\<lparr>clients := clients s @ [record\<lparr>cl_tenant_id := tenant_id, cl_model_id := model_id,
               cl_registered_at :=
                 (if cl_registered_at record = '''' then CurrentTimestamp (clk 0)
                  else cl_registered_at record)\<rparr>]\<rparr>
         | Some it \<Rightarrow>
             s\<lparr>clients := upd_first same (\<lambda>it. it\<lparr>
               cl_peer_identity :=
                 (if cl_peer_identity it = '''' \<and> cl_peer_identity record \<noteq> ''''
                  then cl_peer_identity record else cl_peer_identity it),
               cl_local_dataset_size := cl_local_dataset_size record,
               cl_hardware_info := cl_hardware_info record,
               cl_dataset_fingerprint := cl_dataset_fingerprint record\<rparr>) (clients s)\<rparr>))"

definition UpdateClientLastRound ::
  "string \<Rightarrow> string \<Rightarrow> string \<Rightarrow> int \<Rightarrow> state_store \<Rightarrow> state_store" where
  "UpdateClientLastRound tenant_id model_id client_id round s =
     SaveLocked (s\<lparr>clients :=
       upd_first (client_in (NormalizeTenant tenant_id) (NormalizeModel model_id) client_id)
         (\<lambda>c. c\<lparr>cl_last_active_round := max (cl_last_active_round c) round\<rparr>) (clients s)\<rparr>)"

definition RecordWeightSubmission ::
  "clock \<Rightarrow> string \<Rightarrow> string \<Rightarrow> string \<Rightarrow> int \<Rightarrow> state_store \<Rightarrow> state_store" where
  "RecordWeightSubmission clk tenant_id model_id client_id round s =
     SaveLocked (push_audit
       (audit_event (CurrentTimestamp (clk 0)) ''weight_submission'' (NormalizeTenant tenant_id)
          (NormalizeModel model_id) client_id (''Accepted submission for round '' @ to_string round))
       (s\<lparr>total_submissions := total_submissions s + 1\<rparr>))"

section \<open>Models\<close>

definition next_model_version :: "string \<Rightarrow> string \<Rightarrow> PersistedModelRecord list \<Rightarrow> int" where
  "next_model_version t m ms =
     foldl (\<lambda>next_version r. if model_in t m r then max next_version (md_version r + 1) else next_version) 1 ms"

definition deactivate_scope :: "string \<Rightarrow> string \<Rightarrow> PersistedModelRecord list \<Rightarrow> PersistedModelRecord list" where
  "deactivate_scope t m ms = upd_all (model_in t m) (\<lambda>r. r\<lparr>md_active := False\<rparr>) ms"

definition RecordAggregatedModel ::
  "clock \<Rightarrow> string \<Rightarrow> string \<Rightarrow> int \<Rightarrow> string \<Rightarrow> string \<Rightarrow> int \<Rightarrow> int \<Rightarrow> int \<Rightarrow> state_store \<Rightarrow> int \<times> state_store" where
  "RecordAggregatedModel clk tenant_id model_id round checkpoint_path aggregation_strategy
      key_version client_count weight_dimension s =
     (let t = NormalizeTenant tenant_id;
          m = NormalizeModel model_id;
          next_version = next_model_version t m (models s);
          saved = \<lparr>md_tenant_id = t, md_model_id = m, md_version = next_version,
            md_latest_round = round, md_checkpoint_path = checkpoint_path,
            md_aggregation_strategy = aggregation_strategy, md_key_version = key_version,
            md_client_count = client_count, md_weight_dimension = weight_dimension,
            md_active = True, md_created_at = CurrentTimestamp (clk 0)\<rparr>;
          s1 = s\<lparr>models := deactivate_scope t m (models s) @ [saved],
                 completed_rounds := completed_rounds s + 1\<rparr>
      in (next_version,
          SaveLocked (push_audit
            (audit_event (CurrentTimestamp (clk 1)) ''model_aggregated'' t m ''''
              (''Stored model version '' @ to_string next_version @ '' for round '' @ to_string round)) s1)))"

text \<open>The out-parameter \<open>restored_model\<close> is the second component, \<open>None\<close> when the target version
  does not exist and the store is left alone.\<close>

definition RollbackModel ::
  "clock \<Rightarrow> string \<Rightarrow> string \<Rightarrow> int \<Rightarrow> state_store \<Rightarrow> PersistedModelRecord option \<times> state_store" where
  "RollbackModel clk tenant_id model_id target_version s =
     (let t = NormalizeTenant tenant_id;
          m = NormalizeModel model_id;
          is_target = (\<lambda>r. model_in t m r \<and> md_version r = target_version)
      in case find is_target (models s) of
           None \<Rightarrow> (None, s)
         | Some target \<Rightarrow>
             (Some (target\<lparr>md_active := True\<rparr>),
              SaveLocked (push_audit
                (audit_event (CurrentTimestamp (clk 0)) ''model_rollback'' t m ''''
                  (''Activated model version '' @ to_string target_version))
                (s\<lparr>models := upd_first is_target (\<lambda>r. r\<lparr>md_active := True\<rparr>)
                     (deactivate_scope t m (models s))\<rparr>))))"

definition GetActiveModelRecord ::
  "string \<Rightarrow> string \<Rightarrow> state_store \<Rightarrow> PersistedModelRecord option" where
  "GetActiveModelRecord tenant_id model_id s =
     find (\<lambda>r. model_in (NormalizeTenant tenant_id) (NormalizeModel model_id) r \<and> md_active r) (models s)"

definition GetActiveModelVersion :: "string \<Rightarrow> string \<Rightarrow> state_store \<Rightarrow> int" where
  "GetActiveModelVersion tenant_id model_id s =
     (case find (\<lambda>r. model_in (NormalizeTenant tenant_id) (NormalizeModel model_id) r \<and> md_active r)
        (models s) of
        None \<Rightarrow> 0
      | Some r \<Rightarrow> md_version r)"

definition GetActiveModels :: "state_store \<Rightarrow> PersistedModelRecord list" where
  "GetActiveModels s = filter md_active (models s)"

section \<open>Key version and audit\<close>

definition UpdateActiveKeyVersion :: "clock \<Rightarrow> int \<Rightarrow> state_store \<Rightarrow> state_store" where
  "UpdateActiveKeyVersion clk key_version s =
     (if active_key_version s = key_version then s
      else SaveLocked (push_audit
        (audit_event (CurrentTimestamp (clk 0)) ''key_rotation'' ''default-tenant'' ''default-model'' ''''
          (''Active at-rest key version is now '' @ to_string key_version))
        (s\<lparr>active_key_version := key_version\<rparr>)))"

definition RecordAuditEvent :: "clock \<Rightarrow> PersistedAuditEvent \<Rightarrow> state_store \<Rightarrow> state_store" where
  "RecordAuditEvent clk event s =
     SaveLocked (push_audit
       (event\<lparr>ev_timestamp :=
          (if ev_timestamp event = '''' then CurrentTimestamp (clk 0) else ev_timestamp event),
        ev_tenant_id := NormalizeTenant (ev_tenant_id event),
        ev_model_id := NormalizeModel (ev_model_id event)\<rparr>) s)"

text \<open>Newest first: \<open>audit_events_[size - 1 - i]\<close> for \<open>i < min(limit, size)\<close>.\<close>

definition ListAuditEvents :: "nat \<Rightarrow> state_store \<Rightarrow> PersistedAuditEvent list" where
  "ListAuditEvents limit s =
     map (\<lambda>i. audit_events s ! (length (audit_events s) - 1 - i))
       [0..<min limit (length (audit_events s))]"

section \<open>Lemmas: the model catalog\<close>

definition active_in :: "string \<Rightarrow> string \<Rightarrow> PersistedModelRecord \<Rightarrow> bool" where
  "active_in t m r \<longleftrightarrow> model_in t m r \<and> md_active r"

lemma active_in_eta: "(\<lambda>r. model_in t m r \<and> md_active r) = active_in t m"
  by (simp add: fun_eq_iff active_in_def)

lemma model_in_active [simp]:
  "model_in t m (r\<lparr>md_active := b\<rparr>) = model_in t m r"
  "active_in t m (r\<lparr>md_active := b\<rparr>) \<longleftrightarrow> model_in t m r \<and> b"
  by (simp_all add: model_in_def active_in_def)

lemma active_in_modelD: "active_in t m r \<Longrightarrow> model_in t m r"
  by (simp add: active_in_def)

lemma model_in_scope: "model_in t m r \<Longrightarrow> model_in t' m' r \<Longrightarrow> t' = t \<and> m' = m"
  by (simp add: model_in_def)

lemma next_model_version_ge1: "1 \<le> next_model_version t m ms"
proof -
  have "a \<le> foldl (\<lambda>v r. if model_in t m r then max v (md_version r + 1) else v) a ms" for a :: int
  proof (induction ms arbitrary: a)
    case (Cons r ms)
    show ?case
      using Cons [of a] Cons [of "max a (md_version r + 1)"] by auto
  qed simp
  then show ?thesis by (simp add: next_model_version_def)
qed

lemma next_model_version_gt:
  assumes "r \<in> set ms" and "model_in t m r"
  shows "md_version r < next_model_version t m ms"
proof -
  define F where "F = (\<lambda>(v::int) r. if model_in t m r then max v (md_version r + 1) else v)"
  have mono: "a \<le> foldl F a ms" for a ms
  proof (induction ms arbitrary: a)
    case (Cons r ms)
    show ?case using Cons [of a] Cons [of "F a r"] by (auto simp: F_def split: if_splits)
  qed simp
  have "md_version r < foldl F a ms" for a
    using assms(1)
  proof (induction ms arbitrary: a)
    case (Cons q ms)
    show ?case
    proof (cases "q = r")
      case True
      with assms(2) mono [of "F a r" ms] show ?thesis by (auto simp: F_def)
    next
      case False
      with Cons show ?thesis by simp
    qed
  qed simp
  then show ?thesis by (simp add: next_model_version_def F_def)
qed

lemma deactivate_scope_none:
  "x \<in> set (deactivate_scope t m ms) \<Longrightarrow> \<not> active_in t m x"
  unfolding deactivate_scope_def by (auto simp: upd_all_def dest: active_in_modelD)

lemma deactivate_scope_active:
  "count_where (active_in t' m') (deactivate_scope t m ms) =
   (if t' = t \<and> m' = m then 0 else count_where (active_in t' m') ms)"
proof (cases "t' = t \<and> m' = m")
  case True
  then have "filter (active_in t' m') (deactivate_scope t m ms) = []"
    by (auto simp: filter_empty_conv dest: deactivate_scope_none)
  with True show ?thesis by simp
next
  case False
  then show ?thesis
    unfolding deactivate_scope_def if_not_P [OF False]
    by (intro count_where_upd_all_same) (auto dest: active_in_modelD model_in_scope)
qed

lemma find_active_deactivate [simp]:
  "find (active_in t m) (deactivate_scope t m ms) = None"
  by (auto simp: find_None_iff dest: deactivate_scope_none)

lemma find_active_other:
  assumes "(t', m') \<noteq> (t, m)"
  shows "find (active_in t' m') (deactivate_scope t m ms) = find (active_in t' m') ms"
  using assms
proof (induction ms)
  case (Cons r ms)
  then show ?case by (auto simp: deactivate_scope_def upd_all_def active_in_def model_in_def)
qed (simp add: deactivate_scope_def upd_all_def)

lemma map_deactivate_scope:
  "(\<And>r b. k (r\<lparr>md_active := b\<rparr>) = k r) \<Longrightarrow> map k (deactivate_scope t m ms) = map k ms"
  by (simp add: deactivate_scope_def map_upd_all)

lemma active_version_unfold:
  "GetActiveModelVersion t m s =
     (case find (active_in (NormalizeTenant t) (NormalizeModel m)) (models s) of
        None \<Rightarrow> 0 | Some r \<Rightarrow> md_version r)"
  by (simp add: GetActiveModelVersion_def active_in_eta)

lemma active_record_unfold:
  "GetActiveModelRecord t m s = find (active_in (NormalizeTenant t) (NormalizeModel m)) (models s)"
  by (simp add: GetActiveModelRecord_def active_in_eta)

lemma RecordAggregatedModel_models:
  "models (snd (RecordAggregatedModel clk t m round path strat kv cc wd s)) =
     deactivate_scope (NormalizeTenant t) (NormalizeModel m) (models s) @
     [\<lparr>md_tenant_id = NormalizeTenant t, md_model_id = NormalizeModel m,
       md_version = next_model_version (NormalizeTenant t) (NormalizeModel m) (models s),
       md_latest_round = round, md_checkpoint_path = path, md_aggregation_strategy = strat,
       md_key_version = kv, md_client_count = cc, md_weight_dimension = wd, md_active = True,
       md_created_at = CurrentTimestamp (clk 0)\<rparr>]"
  by (simp add: RecordAggregatedModel_def Let_def)

lemma RecordAggregatedModel_version:
  "fst (RecordAggregatedModel clk t m round path strat kv cc wd s) =
     next_model_version (NormalizeTenant t) (NormalizeModel m) (models s)"
  by (simp add: RecordAggregatedModel_def Let_def)

lemma record_then_active:
  "RecordAggregatedModel clk t m round path strat kv cc wd s = (v, s') \<Longrightarrow>
   GetActiveModelVersion t m s' = v"
  using RecordAggregatedModel_models [of clk t m round path strat kv cc wd s]
    RecordAggregatedModel_version [of clk t m round path strat kv cc wd s]
  by (auto simp: active_version_unfold find_append active_in_def model_in_def)

lemma record_other_scope:
  assumes "RecordAggregatedModel clk t m round path strat kv cc wd s = (v, s')"
    and "(NormalizeTenant t', NormalizeModel m') \<noteq> (NormalizeTenant t, NormalizeModel m)"
  shows "GetActiveModelRecord t' m' s' = GetActiveModelRecord t' m' s"
proof -
  have "models s' = models (snd (RecordAggregatedModel clk t m round path strat kv cc wd s))"
    using assms(1) by simp
  moreover have "\<not> active_in (NormalizeTenant t') (NormalizeModel m') r"
    if "md_tenant_id r = NormalizeTenant t" "md_model_id r = NormalizeModel m" for r
    using assms(2) that by (auto simp: active_in_def model_in_def)
  ultimately show ?thesis
    unfolding active_record_unfold RecordAggregatedModel_models
    by (simp add: find_append find_active_other [OF assms(2)] split: option.splits)
qed

lemma deactivate_find_target:
  "find (\<lambda>r. model_in t m r \<and> md_version r = v) (deactivate_scope t m ms) =
   map_option (\<lambda>r. r\<lparr>md_active := False\<rparr>) (find (\<lambda>r. model_in t m r \<and> md_version r = v) ms)"
  unfolding deactivate_scope_def
  by (subst find_upd_all) (auto simp: model_in_def map_option_case split: option.splits dest!: find_SomeD)

lemma find_active_upd_first_target:
  assumes "\<And>x. x \<in> set ms \<Longrightarrow> \<not> active_in t m x"
    and "\<And>r. P r \<Longrightarrow> model_in t m r"
  shows "find (active_in t m) (upd_first P (\<lambda>r. r\<lparr>md_active := True\<rparr>) ms) =
    map_option (\<lambda>r. r\<lparr>md_active := True\<rparr>) (find P ms)"
  using assms(1)
proof (induction ms)
  case (Cons x ms)
  then show ?case using assms(2) by (auto simp: active_in_def model_in_def)
qed simp

lemma rollback_then_active:
  assumes "RollbackModel clk t m v s = (Some r, s')"
  shows "GetActiveModelRecord t m s' = Some r \<and> md_version r = v \<and> md_active r"
proof -
  let ?t = "NormalizeTenant t" and ?m = "NormalizeModel m"
  let ?P = "\<lambda>r. model_in ?t ?m r \<and> md_version r = v"
  from assms obtain target where f: "find ?P (models s) = Some target"
    and r: "r = target\<lparr>md_active := True\<rparr>"
    and s': "models s' = upd_first ?P (\<lambda>r. r\<lparr>md_active := True\<rparr>) (deactivate_scope ?t ?m (models s))"
    by (auto simp: RollbackModel_def Let_def split: option.splits)
  have "find (active_in ?t ?m) (models s') =
      map_option (\<lambda>r. r\<lparr>md_active := True\<rparr>) (find ?P (deactivate_scope ?t ?m (models s)))"
    unfolding s' by (rule find_active_upd_first_target) (auto dest: deactivate_scope_none)
  with f r show ?thesis
    by (auto simp: active_record_unfold deactivate_find_target dest!: find_SomeD)
qed

lemma rollback_missing:
  "(\<And>r. r \<in> set (models s) \<Longrightarrow> model_in (NormalizeTenant t) (NormalizeModel m) r \<Longrightarrow> md_version r \<noteq> v) \<Longrightarrow>
   RollbackModel clk t m v s = (None, s)"
proof -
  assume none: "\<And>r. r \<in> set (models s) \<Longrightarrow> model_in (NormalizeTenant t) (NormalizeModel m) r \<Longrightarrow> md_version r \<noteq> v"
  then have "find (\<lambda>r. model_in (NormalizeTenant t) (NormalizeModel m) r \<and> md_version r = v) (models s) = None"
    by (auto simp: find_None_iff)
  then show ?thesis by (simp add: RollbackModel_def Let_def)
qed

section \<open>Lemmas: listing the audit trail\<close>

lemma ListAuditEvents_take: "ListAuditEvents limit s = take limit (rev (audit_events s))"
  by (rule nth_equalityI) (auto simp: ListAuditEvents_def rev_nth)

end
