(* ===== verification/Store_Jobs.thy ===== *)
theory Store_Jobs
  imports Store_Models
begin

text \<open>
  \<open>server/state_store.cpp\<close>, the scheduling half: datasets, training jobs, and the leases that
  hand one round of a job to one client. A pointer into \<open>training_jobs_\<close> found by a reverse
  search is \<open>rfind\<close>, and a write through it is \<open>upd_last\<close> with the same predicate.
\<close>

section \<open>Datasets\<close>

definition UpsertDataset ::
  "clock \<Rightarrow> PersistedDatasetRecord \<Rightarrow> state_store \<Rightarrow> PersistedDatasetRecord \<times> state_store" where
  "UpsertDataset clk record s =
     (let k = (if ds_created_at record = '''' then 1 else 0);
          saved0 = record\<lparr>ds_tenant_id := NormalizeTenant (ds_tenant_id record),
            ds_model_id := NormalizeModel (ds_model_id record),
            ds_created_at :=
              (if ds_created_at record = '''' then CurrentTimestamp (clk 0) else ds_created_at record)\<rparr>;
          same = dataset_in (ds_tenant_id saved0) (ds_model_id saved0) (ds_dataset_id saved0);
          (saved, s1) =
            (case find same (datasets s) of
               None \<Rightarrow> (saved0, s\<lparr>datasets := datasets s @ [saved0]\<rparr>)
             | Some it \<Rightarrow>
                 let saved = saved0\<lparr>ds_created_at := ds_created_at it\<rparr>
                 in (saved, s\<lparr>datasets := upd_first same (\<lambda>_. saved) (datasets s)\<rparr>))
      in (saved, SaveLocked (push_audit
            (audit_event (CurrentTimestamp (clk k)) ''dataset_upserted'' (ds_tenant_id saved)
              (ds_model_id saved) ''''
              (''Dataset '' @ ds_dataset_id saved @ '' now points to '' @ ds_storage_uri saved)) s1)))"

definition ListDatasets :: "string \<Rightarrow> string \<Rightarrow> state_store \<Rightarrow> PersistedDatasetRecord list" where
  "ListDatasets tenant_filter model_filter s =
     (let t = (if tenant_filter = '''' then '''' else NormalizeTenant tenant_filter);
          m = (if model_filter = '''' then '''' else NormalizeModel model_filter)
      in filter (\<lambda>d. MatchesFilter (ds_tenant_id d) t \<and> MatchesFilter (ds_model_id d) m) (datasets s))"

definition GetDataset :: "string \<Rightarrow> string \<Rightarrow> string \<Rightarrow> state_store \<Rightarrow> PersistedDatasetRecord option" where
  "GetDataset tenant_id model_id dataset_id s =
     find (dataset_in (NormalizeTenant tenant_id) (NormalizeModel model_id) dataset_id) (datasets s)"

section \<open>Training jobs\<close>

definition CreateTrainingJob ::
  "clock \<Rightarrow> PersistedTrainingJobRecord \<Rightarrow> state_store \<Rightarrow> PersistedTrainingJobRecord \<times> state_store" where
  "CreateTrainingJob clk record s =
     (let t = NormalizeTenant (jb_tenant_id record);
          m = NormalizeModel (jb_model_id record);
          created_at = CurrentTimestamp (clk 0);
          saved = record\<lparr>jb_tenant_id := t, jb_model_id := m, jb_created_at := created_at,
            jb_status := (if jb_status record = '''' then ''planned'' else jb_status record),
            jb_current_round := max 1 (jb_current_round record),
            jb_assignment_ttl_seconds := max 30 (jb_assignment_ttl_seconds record),
            jb_job_id :=
              (if jb_job_id record = ''''
               then t @ ''::'' @ m @ ''::'' @ jb_dataset_id record @ ''::'' @ created_at
               else jb_job_id record),
            jb_active_model_version :=
              (case find (\<lambda>r. model_in t m r \<and> md_active r) (models s) of
                 None \<Rightarrow> 0 | Some r \<Rightarrow> md_version r)\<rparr>
      in (saved, SaveLocked (push_audit
            (audit_event (CurrentTimestamp (clk 1)) ''training_job_created'' t m ''''
              (''Created job '' @ jb_job_id saved @ '' for dataset '' @ jb_dataset_id saved))
            (s\<lparr>training_jobs :=
                 upd_all (active_job_in t m) (\<lambda>j. j\<lparr>jb_status := ''superseded''\<rparr>) (training_jobs s)
                 @ [saved]\<rparr>))))"

definition ListTrainingJobs ::
  "string \<Rightarrow> string \<Rightarrow> string \<Rightarrow> state_store \<Rightarrow> PersistedTrainingJobRecord list" where
  "ListTrainingJobs tenant_filter model_filter status_filter s =
     (let t = (if tenant_filter = '''' then '''' else NormalizeTenant tenant_filter);
          m = (if model_filter = '''' then '''' else NormalizeModel model_filter)
      in filter (\<lambda>j. MatchesFilter (jb_tenant_id j) t \<and> MatchesFilter (jb_model_id j) m \<and>
           MatchesFilter (jb_status j) status_filter) (training_jobs s))"

definition GetActiveTrainingJob ::
  "string \<Rightarrow> string \<Rightarrow> state_store \<Rightarrow> PersistedTrainingJobRecord option" where
  "GetActiveTrainingJob tenant_id model_id s =
     rfind (active_job_in (NormalizeTenant tenant_id) (NormalizeModel model_id)) (training_jobs s)"

section \<open>Leasing\<close>

text \<open>A lease that is still good at time \<open>now\<close>, for a job's round.\<close>

definition live_lease :: "string \<Rightarrow> string \<Rightarrow> int \<Rightarrow> PersistedAssignmentLease \<Rightarrow> bool" where
  "live_lease now job_id round a \<longleftrightarrow>
     as_job_id a = job_id \<and> as_round_index a = round \<and> as_status a = ''leased'' \<and>
     as_expires_at a > now"

definition round_capacity :: "PersistedTrainingJobRecord \<Rightarrow> int \<Rightarrow> int" where
  "round_capacity job default_min_clients =
     (if jb_planned_clients job > 0 then jb_planned_clients job
      else max 1 (if jb_min_clients_per_round job > 0 then jb_min_clients_per_round job
                  else default_min_clients))"

definition new_lease ::
  "clock \<Rightarrow> string \<Rightarrow> string \<Rightarrow> string \<Rightarrow> int \<Rightarrow> int \<Rightarrow> PersistedTrainingJobRecord \<Rightarrow> PersistedAssignmentLease" where
  "new_lease clk t m client_id active_model_version default_ttl job =
     (let now = CurrentTimestamp (clk 0); round_index = max 1 (jb_current_round job)
      in \<lparr>as_assignment_id = jb_job_id job @ ''::round:'' @ to_string round_index @
            ''::client:'' @ client_id @ ''::'' @ now,
          as_job_id = jb_job_id job, as_tenant_id = t, as_model_id = m,
          as_dataset_id = jb_dataset_id job, as_client_id = client_id,
          as_round_index = round_index, as_base_model_version = active_model_version,
          as_status = ''leased'', as_issued_at = now,
          as_expires_at = TimestampAfterSeconds (clk 1)
            (if jb_assignment_ttl_seconds job > 0 then jb_assignment_ttl_seconds job else default_ttl),
          as_updated_at = now, as_detail = ''Lease issued''\<rparr>)"

text \<open>A planned job starts running when its first lease is asked for.\<close>

definition start_job :: "string \<Rightarrow> PersistedTrainingJobRecord \<Rightarrow> PersistedTrainingJobRecord" where
  "start_job now j = (if jb_status j = ''planned''
     then j\<lparr>jb_status := ''running'', jb_activated_at := now\<rparr> else j)"

text \<open>The three out-parameters: the lease, the job, and the dataset if the catalog has it.\<close>

type_synonym lease_out =
  "PersistedAssignmentLease \<times> PersistedTrainingJobRecord \<times> PersistedDatasetRecord option"

definition LeaseTrainingAssignment ::
  "clock \<Rightarrow> string \<Rightarrow> string \<Rightarrow> string \<Rightarrow> int \<Rightarrow> int \<Rightarrow> int \<Rightarrow> state_store \<Rightarrow> lease_out option \<times> state_store" where
  "LeaseTrainingAssignment clk tenant_id model_id client_id active_model_version
      default_min_clients default_ttl s =
     (let t = NormalizeTenant tenant_id;
          m = NormalizeModel model_id;
          now = CurrentTimestamp (clk 0);
          s1 = ExpireAssignmentsLocked now s
      in case rfind (active_job_in t m) (training_jobs s1) of
           None \<Rightarrow> (None, s1)
         | Some job \<Rightarrow>
           if jb_target_rounds job > 0 \<and> jb_completed_rounds job \<ge> jb_target_rounds job then
             (None, SaveLocked (s1\<lparr>training_jobs :=
                upd_last (active_job_in t m) (\<lambda>j. j\<lparr>jb_status := ''completed''\<rparr>) (training_jobs s1)\<rparr>))
           else
             let job' = start_job now job;
                 s2 = s1\<lparr>training_jobs := upd_last (active_job_in t m) (\<lambda>_. job') (training_jobs s1)\<rparr>;
                 round_index = max 1 (jb_current_round job');
                 dataset = find (dataset_in t m (jb_dataset_id job')) (datasets s2)
             in case find (\<lambda>a. live_lease now (jb_job_id job') round_index a \<and> as_client_id a = client_id)
                       (assignments s2) of
                  Some a \<Rightarrow> (Some (a, job', dataset), SaveLocked s2)
                | None \<Rightarrow>
                  if int (count_where (live_lease now (jb_job_id job') round_index) (assignments s2))
                     \<ge> round_capacity job' default_min_clients
                  then (None, SaveLocked s2)
                  else
                    let a = new_lease clk t m client_id active_model_version default_ttl job';
                        s3 = push_audit (audit_event now ''assignment_leased'' t m client_id
                               (''Issued assignment '' @ as_assignment_id a @ '' for round '' @
                                to_string round_index))
                               (s2\<lparr>assignments := assignments s2 @ [a]\<rparr>)
                    in (Some (a, job', dataset), SaveLocked s3))"

section \<open>Checking and accepting a submission\<close>

text \<open>
  \<open>ValidateTrainingAssignmentSubmission\<close> and \<open>AcceptTrainingAssignmentSubmission\<close> run the same
  checks in the same order; the check's outcome is a value. \<open>LeaseOverdue\<close> is the branch that
  finds a leased assignment past its deadline.
\<close>

datatype submission_check =
    NoActiveJob
  | Rejected string
  | LeaseOverdue
  | LeaseGood PersistedAssignmentLease

definition CheckAssignmentSubmission ::
  "string \<Rightarrow> string \<Rightarrow> string \<Rightarrow> string \<Rightarrow> string \<Rightarrow> string \<Rightarrow> int \<Rightarrow> int \<Rightarrow> state_store \<Rightarrow> submission_check" where
  "CheckAssignmentSubmission now t m client_id job_id assignment_id round base_model_version s =
     (case rfind (active_job_in t m) (training_jobs s) of
        None \<Rightarrow> NoActiveJob
      | Some active_job \<Rightarrow>
        if job_id = '''' \<or> assignment_id = '''' then
          Rejected ''assignment_id and job_id are required while a scheduled training job is active''
        else if job_id \<noteq> jb_job_id active_job then
          Rejected ''submission does not match the active training job''
        else
          (case find (\<lambda>a. as_assignment_id a = assignment_id) (assignments s) of
             None \<Rightarrow> Rejected ''assignment not found''
           | Some a \<Rightarrow>
             if as_client_id a \<noteq> client_id \<or> as_tenant_id a \<noteq> t \<or> as_model_id a \<noteq> m then
               Rejected ''assignment belongs to a different scope or client''
             else if as_status a \<noteq> ''leased'' then
               Rejected ''assignment is not in a leasable state''
             else if as_expires_at a \<noteq> '''' \<and> as_expires_at a \<le> now then LeaseOverdue
             else if as_round_index a \<noteq> round then
               Rejected ''submission round does not match leased round''
             else if base_model_version > 0 \<and> as_base_model_version a > 0 \<and>
                     as_base_model_version a \<noteq> base_model_version then
               Rejected ''submission base model version does not match assigned model version''
             else LeaseGood a))"

definition overdue_at_submission :: "string \<Rightarrow> PersistedAssignmentLease \<Rightarrow> PersistedAssignmentLease" where
  "overdue_at_submission now a = a\<lparr>as_status := ''expired'', as_updated_at := now,
     as_detail := ''Expired at submission time''\<rparr>"

definition ValidateTrainingAssignmentSubmission ::
  "clock \<Rightarrow> string \<Rightarrow> string \<Rightarrow> string \<Rightarrow> string \<Rightarrow> string \<Rightarrow> int \<Rightarrow> int \<Rightarrow> state_store
     \<Rightarrow> (string + unit) \<times> state_store" where
  "ValidateTrainingAssignmentSubmission clk tenant_id model_id client_id job_id assignment_id
      round base_model_version s =
     (let t = NormalizeTenant tenant_id;
          m = NormalizeModel model_id;
          now = CurrentTimestamp (clk 0);
          s1 = ExpireAssignmentsLocked now s
      in case CheckAssignmentSubmission now t m client_id job_id assignment_id round base_model_version s1 of
           NoActiveJob \<Rightarrow> (Inr (), s1)
         | Rejected msg \<Rightarrow> (Inl msg, s1)
         | LeaseOverdue \<Rightarrow>
             (Inl ''assignment lease expired'',
              SaveLocked (s1\<lparr>assignments := upd_first (\<lambda>a. as_assignment_id a = assignment_id)
                (overdue_at_submission now) (assignments s1)\<rparr>))
         | LeaseGood a \<Rightarrow> (Inr (), s1))"

text \<open>The worker a submitted task frees, and the loop over the tasks of the assignment.\<close>

definition free_worker :: "string \<Rightarrow> string \<Rightarrow> PersistedWorkerRecord \<Rightarrow> PersistedWorkerRecord" where
  "free_worker now task_id w = w\<lparr>wk_status := ''idle'',
     wk_active_task_id := (if wk_active_task_id w = task_id then '''' else wk_active_task_id w),
     wk_last_heartbeat_at := now\<rparr>"

definition submit_task :: "string \<Rightarrow> PersistedWorkerTaskRecord \<Rightarrow> PersistedWorkerTaskRecord" where
  "submit_task now k = k\<lparr>tk_status := ''submitted'',
     tk_detail := ''Weights submitted to control plane'', tk_progress_percent := 100,
     tk_updated_at := now,
     tk_completed_at := (if tk_completed_at k = '''' then now else tk_completed_at k)\<rparr>"

definition free_workers_of ::
  "string \<Rightarrow> (PersistedWorkerTaskRecord \<Rightarrow> bool) \<Rightarrow> PersistedWorkerTaskRecord list
     \<Rightarrow> PersistedWorkerRecord list \<Rightarrow> PersistedWorkerRecord list" where
  "free_workers_of now P tasks ws =
     foldl (\<lambda>ws k. if P k then
         upd_first (\<lambda>w. wk_worker_id w = tk_worker_id k) (free_worker now (tk_task_id k)) ws
       else ws) ws tasks"

definition AcceptTrainingAssignmentSubmission ::
  "clock \<Rightarrow> string \<Rightarrow> string \<Rightarrow> string \<Rightarrow> string \<Rightarrow> string \<Rightarrow> int \<Rightarrow> int \<Rightarrow> state_store
     \<Rightarrow> (string + unit) \<times> state_store" where
  "AcceptTrainingAssignmentSubmission clk tenant_id model_id client_id job_id assignment_id
      round base_model_version s =
     (let t = NormalizeTenant tenant_id;
          m = NormalizeModel model_id;
          now = CurrentTimestamp (clk 0);
          s1 = ExpireAssignmentsLocked now s
      in case CheckAssignmentSubmission now t m client_id job_id assignment_id round base_model_version s1 of
           NoActiveJob \<Rightarrow> (Inr (), s1)
         | Rejected msg \<Rightarrow> (Inl msg, s1)
         | LeaseOverdue \<Rightarrow>
             (Inl ''assignment lease expired'',
              SaveLocked (s1\<lparr>assignments := upd_first (\<lambda>a. as_assignment_id a = assignment_id)
                (overdue_at_submission now) (assignments s1)\<rparr>))
         | LeaseGood _ \<Rightarrow>
             (let for_it = (\<lambda>k. tk_assignment_id k = assignment_id) in
              (Inr (), SaveLocked (push_audit
                (audit_event now ''assignment_submitted'' t m client_id
                  (''Accepted assignment '' @ assignment_id))
                (s1\<lparr>assignments := upd_first (\<lambda>a. as_assignment_id a = assignment_id)
                     (\<lambda>a. a\<lparr>as_status := ''submitted'', as_updated_at := now,
                            as_detail := ''Client submitted weights''\<rparr>) (assignments s1),
                   worker_tasks := upd_all for_it (submit_task now) (worker_tasks s1),
                   workers := free_workers_of now for_it (worker_tasks s1) (workers s1)\<rparr>)))))"

section \<open>Advancing a job\<close>

definition close_assignment :: "string \<Rightarrow> PersistedAssignmentLease \<Rightarrow> PersistedAssignmentLease" where
  "close_assignment now a = a\<lparr>
     as_status := (if as_status a = ''submitted'' then ''aggregated''
                   else if as_status a = ''leased'' then ''missed'' else as_status a),
     as_updated_at := now\<rparr>"

definition close_task_status :: "string \<Rightarrow> string" where
  "close_task_status st =
     (if st = ''submitted'' \<or> st = ''completed'' then ''aggregated''
      else if st = ''leased'' \<or> st = ''running'' then ''missed'' else st)"

definition close_task :: "string \<Rightarrow> PersistedWorkerTaskRecord \<Rightarrow> PersistedWorkerTaskRecord" where
  "close_task now k =
     (let st = close_task_status (tk_status k) in
      k\<lparr>tk_status := st, tk_updated_at := now,
        tk_completed_at :=
          (if tk_completed_at k = '''' \<and> (st = ''aggregated'' \<or> st = ''missed'') then now
           else tk_completed_at k)\<rparr>)"

definition release_workers_of ::
  "string \<Rightarrow> (PersistedWorkerTaskRecord \<Rightarrow> bool) \<Rightarrow> PersistedWorkerTaskRecord list
     \<Rightarrow> PersistedWorkerRecord list \<Rightarrow> PersistedWorkerRecord list" where
  "release_workers_of now P tasks ws =
     foldl (\<lambda>ws k. if P k then
         upd_all (\<lambda>w. wk_worker_id w = tk_worker_id k \<and> wk_active_task_id w = tk_task_id k)
           (\<lambda>w. w\<lparr>wk_active_task_id := '''', wk_status := ''idle'', wk_last_heartbeat_at := now\<rparr>) ws
       else ws) ws tasks"

definition advance_job ::
  "string \<Rightarrow> int \<Rightarrow> int \<Rightarrow> PersistedTrainingJobRecord \<Rightarrow> PersistedTrainingJobRecord" where
  "advance_job now round active_model_version j =
     (let done = jb_completed_rounds j + 1 in
      j\<lparr>jb_status :=
          (if jb_target_rounds j > 0 \<and> done \<ge> jb_target_rounds j then ''completed'' else ''running''),
        jb_activated_at := (if jb_activated_at j = '''' then now else jb_activated_at j),
        jb_completed_rounds := done,
        jb_current_round := round + 1,
        jb_active_model_version := active_model_version\<rparr>)"

definition AdvanceTrainingJobRound ::
  "clock \<Rightarrow> string \<Rightarrow> string \<Rightarrow> int \<Rightarrow> int \<Rightarrow> state_store \<Rightarrow> state_store" where
  "AdvanceTrainingJobRound clk tenant_id model_id round active_model_version s =
     (let t = NormalizeTenant tenant_id;
          m = NormalizeModel model_id;
          now = CurrentTimestamp (clk 0)
      in case rfind (active_job_in t m) (training_jobs s) of
           None \<Rightarrow> s
         | Some it \<Rightarrow>
             (let in_round = (\<lambda>k. tk_job_id k = jb_job_id it \<and> tk_round_index k = round) in
              SaveLocked (push_audit
                (audit_event now ''training_round_advanced'' t m ''''
                  (''Job '' @ jb_job_id it @ '' advanced after round '' @ to_string round))
                (s\<lparr>assignments := upd_all (\<lambda>a. as_job_id a = jb_job_id it \<and> as_round_index a = round)
                     (close_assignment now) (assignments s),
                   worker_tasks := upd_all in_round (close_task now) (worker_tasks s),
                   workers := release_workers_of now in_round (worker_tasks s) (workers s),
                   training_jobs := upd_last (active_job_in t m)
                     (advance_job now round active_model_version) (training_jobs s)\<rparr>))))"

lemma start_job_simps [simp]:
  "jb_job_id (start_job now j) = jb_job_id j" "jb_tenant_id (start_job now j) = jb_tenant_id j"
  "jb_model_id (start_job now j) = jb_model_id j"
  "jb_dataset_id (start_job now j) = jb_dataset_id j"
  "jb_target_rounds (start_job now j) = jb_target_rounds j"
  "jb_planned_clients (start_job now j) = jb_planned_clients j"
  "jb_min_clients_per_round (start_job now j) = jb_min_clients_per_round j"
  "jb_assignment_ttl_seconds (start_job now j) = jb_assignment_ttl_seconds j"
  "jb_current_round (start_job now j) = jb_current_round j"
  "jb_completed_rounds (start_job now j) = jb_completed_rounds j"
  by (simp_all add: start_job_def)

end
