(* ===== verification/Store_Workers.thy ===== *)
theory Store_Workers
  imports Store_Jobs
begin

text \<open>
  \<open>server/state_store.cpp\<close>, workers and their tasks, and the read-only queries: \<open>ListModels\<close>,
  \<open>ListClients\<close>, \<open>ListWorkers\<close>, \<open>ListWorkerTasks\<close> and the counters of \<open>GetSystemStatus\<close>.
\<close>

section \<open>Workers\<close>

definition UpsertWorker ::
  "clock \<Rightarrow> PersistedWorkerRecord \<Rightarrow> state_store \<Rightarrow> PersistedWorkerRecord \<times> state_store" where
  "UpsertWorker clk record s =
     (let k = (if wk_registered_at record = '''' then 1 else 0);
          registered_at =
            (if wk_registered_at record = '''' then CurrentTimestamp (clk 0) else wk_registered_at record);
          saved0 = record\<lparr>wk_tenant_id := NormalizeTenant (wk_tenant_id record),
            wk_model_id := NormalizeModel (wk_model_id record),
            wk_max_parallel_tasks := max 1 (wk_max_parallel_tasks record),
            wk_status := (if wk_status record = '''' then ''idle'' else wk_status record),
            wk_registered_at := registered_at,
            wk_last_heartbeat_at :=
              (if wk_last_heartbeat_at record = '''' then registered_at
               else wk_last_heartbeat_at record)\<rparr>;
          same = (\<lambda>w. wk_worker_id w = wk_worker_id saved0);
          (saved, s1) =
            (case find same (workers s) of
               None \<Rightarrow> (saved0, s\<lparr>workers := workers s @ [saved0]\<rparr>)
             | Some it \<Rightarrow>
                 let saved = saved0\<lparr>wk_registered_at := wk_registered_at it,
                       wk_active_task_id :=
                         (if wk_active_task_id saved0 = '''' then wk_active_task_id it
                          else wk_active_task_id saved0)\<rparr>
                 in (saved, s\<lparr>workers := upd_first same (\<lambda>_. saved) (workers s)\<rparr>))
      in (saved, SaveLocked (push_audit
            (audit_event (CurrentTimestamp (clk k)) ''worker_upserted'' (wk_tenant_id saved)
              (wk_model_id saved) (wk_trainer_client_id saved)
              (''Worker '' @ wk_worker_id saved @ '' registered launcher '' @ wk_launcher saved)) s1)))"

definition GetWorker :: "string \<Rightarrow> state_store \<Rightarrow> PersistedWorkerRecord option" where
  "GetWorker worker_id s = find (\<lambda>w. wk_worker_id w = worker_id) (workers s)"

definition ListWorkers :: "string \<Rightarrow> string \<Rightarrow> state_store \<Rightarrow> PersistedWorkerRecord list" where
  "ListWorkers tenant_filter model_filter s =
     (let t = (if tenant_filter = '''' then '''' else NormalizeTenant tenant_filter);
          m = (if model_filter = '''' then '''' else NormalizeModel model_filter)
      in filter (\<lambda>w. MatchesFilter (wk_tenant_id w) t \<and> MatchesFilter (wk_model_id w) m) (workers s))"

section \<open>Worker tasks\<close>

definition lease_worker :: "string \<Rightarrow> string \<Rightarrow> PersistedWorkerRecord \<Rightarrow> PersistedWorkerRecord" where
  "lease_worker now task_id w =
     w\<lparr>wk_status := ''leased'', wk_last_heartbeat_at := now, wk_active_task_id := task_id\<rparr>"

definition LeaseWorkerTask ::
  "clock \<Rightarrow> PersistedWorkerRecord \<Rightarrow> PersistedAssignmentLease \<Rightarrow> PersistedTrainingJobRecord
     \<Rightarrow> PersistedDatasetRecord \<Rightarrow> state_store \<Rightarrow> PersistedWorkerTaskRecord \<times> state_store" where
  "LeaseWorkerTask clk worker assignment job dataset s =
     (let now = CurrentTimestamp (clk 0);
          this_worker = (\<lambda>w. wk_worker_id w = wk_worker_id worker);
          same = (\<lambda>k. tk_assignment_id k = as_assignment_id assignment \<and>
                      tk_worker_id k = wk_worker_id worker)
      in case find same (worker_tasks s) of
           Some k \<Rightarrow>
             (k\<lparr>tk_updated_at := now\<rparr>,
              SaveLocked (s\<lparr>worker_tasks := upd_first same (\<lambda>k. k\<lparr>tk_updated_at := now\<rparr>) (worker_tasks s),
                workers := upd_all this_worker (lease_worker now (tk_task_id k)) (workers s)\<rparr>))
         | None \<Rightarrow>
             let task = \<lparr>tk_task_id = as_assignment_id assignment @ ''::worker:'' @ wk_worker_id worker,
                   tk_worker_id = wk_worker_id worker,
                   tk_trainer_client_id = wk_trainer_client_id worker,
                   tk_job_id = jb_job_id job,
                   tk_assignment_id = as_assignment_id assignment,
                   tk_tenant_id = as_tenant_id assignment, tk_model_id = as_model_id assignment,
                   tk_dataset_id = ds_dataset_id dataset,
                   tk_round_index = as_round_index assignment,
                   tk_base_model_version = as_base_model_version assignment,
                   tk_status = ''leased'', tk_detail = ''Worker task leased'',
                   tk_progress_percent = 0, tk_issued_at = now, tk_started_at = '''',
                   tk_completed_at = '''', tk_updated_at = now\<rparr>
             in (task, SaveLocked (push_audit
                  (audit_event now ''worker_task_leased'' (as_tenant_id assignment)
                    (as_model_id assignment) (wk_trainer_client_id worker)
                    (''Leased worker task '' @ tk_task_id task @ '' to '' @ wk_worker_id worker))
                  (s\<lparr>worker_tasks := worker_tasks s @ [task],
                     workers := upd_first this_worker (lease_worker now (tk_task_id task)) (workers s)\<rparr>))))"

definition finished_task_status :: "string \<Rightarrow> bool" where
  "finished_task_status st \<longleftrightarrow>
     st = ''completed'' \<or> st = ''failed'' \<or> st = ''submitted'' \<or> st = ''aggregated''"

definition report_task ::
  "string \<Rightarrow> string \<Rightarrow> string \<Rightarrow> int \<Rightarrow> PersistedWorkerTaskRecord \<Rightarrow> PersistedWorkerTaskRecord" where
  "report_task now status detail progress_percent k =
     (let st = (if status = '''' then tk_status k else status) in
      k\<lparr>tk_status := st, tk_detail := detail,
        tk_progress_percent := max 0 (min 100 progress_percent),
        tk_updated_at := now,
        tk_started_at :=
          (if st = ''running'' \<and> tk_started_at k = '''' then now else tk_started_at k),
        tk_completed_at :=
          (if finished_task_status st \<and> tk_completed_at k = '''' then now else tk_completed_at k)\<rparr>)"

definition report_worker ::
  "string \<Rightarrow> PersistedWorkerTaskRecord \<Rightarrow> PersistedWorkerRecord \<Rightarrow> PersistedWorkerRecord" where
  "report_worker now k w =
     (let w1 = w\<lparr>wk_last_heartbeat_at := now\<rparr> in
      if tk_status k = ''running'' then w1\<lparr>wk_status := ''busy'', wk_active_task_id := tk_task_id k\<rparr>
      else if tk_status k = ''leased'' then w1\<lparr>wk_status := ''leased'', wk_active_task_id := tk_task_id k\<rparr>
      else if finished_task_status (tk_status k) then
        w1\<lparr>wk_status := ''idle'',
           wk_active_task_id := (if wk_active_task_id w1 = tk_task_id k then '''' else wk_active_task_id w1)\<rparr>
      else w1)"

definition UpdateWorkerTaskStatus ::
  "clock \<Rightarrow> string \<Rightarrow> string \<Rightarrow> string \<Rightarrow> string \<Rightarrow> int \<Rightarrow> state_store \<Rightarrow> (string + unit) \<times> state_store" where
  "UpdateWorkerTaskStatus clk worker_id task_id status detail progress_percent s =
     (let now = CurrentTimestamp (clk 0) in
      case find (\<lambda>k. tk_task_id k = task_id) (worker_tasks s) of
        None \<Rightarrow> (Inl ''worker task not found'', s)
      | Some k \<Rightarrow>
        if tk_worker_id k \<noteq> worker_id then (Inl ''task belongs to a different worker'', s)
        else
          let k' = report_task now status detail progress_percent k
          in (Inr (), SaveLocked (push_audit
               (audit_event now ''worker_task_status'' (tk_tenant_id k') (tk_model_id k')
                 (tk_trainer_client_id k')
                 (''Worker '' @ worker_id @ '' set task '' @ task_id @ '' to '' @ tk_status k'))
               (s\<lparr>worker_tasks := upd_first (\<lambda>k. tk_task_id k = task_id) (\<lambda>_. k') (worker_tasks s),
                  workers := upd_first (\<lambda>w. wk_worker_id w = worker_id) (report_worker now k') (workers s)\<rparr>))))"

definition RecordWorkerHeartbeat ::
  "clock \<Rightarrow> string \<Rightarrow> string \<Rightarrow> string \<Rightarrow> state_store \<Rightarrow> bool \<times> state_store" where
  "RecordWorkerHeartbeat clk worker_id active_task_id detail s =
     (let now = CurrentTimestamp (clk 0) in
      case find (\<lambda>w. wk_worker_id w = worker_id) (workers s) of
        None \<Rightarrow> (False, s)
      | Some w \<Rightarrow>
        let w1 = w\<lparr>wk_last_heartbeat_at := now\<rparr>;
            w2 = (if active_task_id \<noteq> '''' then
                    w1\<lparr>wk_active_task_id := active_task_id, wk_status := ''busy''\<rparr>
                  else if wk_status w1 \<noteq> ''leased'' then w1\<lparr>wk_status := ''idle''\<rparr>
                  else w1);
            s1 = s\<lparr>workers := upd_first (\<lambda>w. wk_worker_id w = worker_id) (\<lambda>_. w2) (workers s)\<rparr>;
            s2 = (if detail \<noteq> '''' then push_audit
                    (audit_event now ''worker_heartbeat'' (wk_tenant_id w) (wk_model_id w)
                      (wk_trainer_client_id w) (''Worker '' @ worker_id @ '': '' @ detail)) s1
                  else s1)
        in (True, SaveLocked s2))"

definition ListWorkerTasks ::
  "string \<Rightarrow> string \<Rightarrow> string \<Rightarrow> string \<Rightarrow> state_store \<Rightarrow> PersistedWorkerTaskRecord list" where
  "ListWorkerTasks tenant_filter model_filter worker_filter status_filter s =
     (let t = (if tenant_filter = '''' then '''' else NormalizeTenant tenant_filter);
          m = (if model_filter = '''' then '''' else NormalizeModel model_filter)
      in filter (\<lambda>k. MatchesFilter (tk_tenant_id k) t \<and> MatchesFilter (tk_model_id k) m \<and>
           MatchesFilter (tk_worker_id k) worker_filter \<and> MatchesFilter (tk_status k) status_filter)
         (worker_tasks s))"

section \<open>Queries\<close>

definition ListModels :: "string \<Rightarrow> string \<Rightarrow> state_store \<Rightarrow> PersistedModelRecord list" where
  "ListModels tenant_filter model_filter s =
     (let t = (if tenant_filter = '''' then '''' else NormalizeTenant tenant_filter);
          m = (if model_filter = '''' then '''' else NormalizeModel model_filter)
      in filter (\<lambda>r. MatchesFilter (md_tenant_id r) t \<and> MatchesFilter (md_model_id r) m) (models s))"

definition ListClients :: "string \<Rightarrow> string \<Rightarrow> state_store \<Rightarrow> PersistedClientRecord list" where
  "ListClients tenant_filter model_filter s =
     (let t = (if tenant_filter = '''' then '''' else NormalizeTenant tenant_filter);
          m = (if model_filter = '''' then '''' else NormalizeModel model_filter)
      in filter (\<lambda>c. MatchesFilter (cl_tenant_id c) t \<and> MatchesFilter (cl_model_id c) m) (clients s))"

text \<open>The slots of an active job's round that are not taken.\<close>

definition pending_slots ::
  "PersistedAssignmentLease list \<Rightarrow> PersistedTrainingJobRecord \<Rightarrow> int" where
  "pending_slots as job =
     (let capacity = (if jb_planned_clients job > 0 then jb_planned_clients job
                      else jb_min_clients_per_round job)
      in if capacity > 0 then
           max 0 (capacity - int (count_where (\<lambda>a. as_job_id a = jb_job_id job \<and>
             as_round_index a = jb_current_round job \<and>
             (as_status a = ''leased'' \<or> as_status a = ''submitted'' \<or> as_status a = ''aggregated'')) as))
         else 0)"

definition GetSystemStatus :: "state_store \<Rightarrow> PersistedSystemStatus" where
  "GetSystemStatus s =
     (let active_jobs = filter (\<lambda>j. IsActiveJobStatus (jb_status j)) (training_jobs s) in
      \<lparr>st_registered_clients = int (length (clients s)),
       st_completed_rounds = completed_rounds s,
       st_total_submissions = total_submissions s,
       st_active_key_version = active_key_version s,
       st_state_path = store_path s,
       st_active_models = filter md_active (models s),
       st_registered_datasets = int (length (datasets s)),
       st_stored_models = int (length (models s)),
       st_active_training_jobs = int (length active_jobs),
       st_pending_assignments = sum_list (map (pending_slots (assignments s)) active_jobs),
       st_leased_assignments = int (count_where (\<lambda>a. as_status a = ''leased'') (assignments s)),
       st_submitted_assignments = int (count_where (\<lambda>a. as_status a = ''submitted'') (assignments s)),
       st_registered_workers = int (length (workers s)),
       st_busy_workers =
         int (count_where (\<lambda>w. wk_status w = ''busy'' \<or> wk_status w = ''leased'') (workers s)),
       st_active_worker_tasks = int (count_where (\<lambda>k. tk_status k = ''leased'' \<or>
         tk_status k = ''running'' \<or> tk_status k = ''submitted'') (worker_tasks s)),
       st_failed_worker_tasks = int (count_where (\<lambda>k. tk_status k = ''failed'') (worker_tasks s))\<rparr>)"

end
