(* ===== verification/Store_Invariant.thy ===== *)
theory Store_Invariant
  imports Store_Workers
begin

text \<open>
  What every operation of the state store keeps: tables with unique keys, at most one active
  model and at most one active job per scope, model versions that are positive and unique, a
  bounded audit trail, leases that refer to a job, progress between 0 and 100. The operations
  are the rules of a step relation, and the invariant holds in every reachable store.
\<close>

section \<open>Tables with a key\<close>

text \<open>
  The contract the insert-or-update operations share: afterwards the keys are the same, with
  the argument's key appended if it was missing. \<open>rows\<close> selects the table in the store,
  \<open>arg_key\<close> is the key an argument is filed under.
\<close>

locale keyed_table =
  fixes rows :: "state_store \<Rightarrow> 'r list"
    and key :: "'r \<Rightarrow> 'k"
    and upsert :: "'a \<Rightarrow> state_store \<Rightarrow> state_store"
    and arg_key :: "'a \<Rightarrow> 'k"
  assumes upsert_keys:
    "map key (rows (upsert a s)) =
      (if arg_key a \<in> key ` set (rows s) then map key (rows s)
       else map key (rows s) @ [arg_key a])"
begin

lemma upsert_key_set: "key ` set (rows (upsert a s)) = insert (arg_key a) (key ` set (rows s))"
proof -
  have "set (map key (rows (upsert a s))) = insert (arg_key a) (set (map key (rows s)))"
    unfolding upsert_keys by auto
  then show ?thesis by simp
qed

lemma upsert_distinct: "distinct (map key (rows s)) \<Longrightarrow> distinct (map key (rows (upsert a s)))"
  unfolding upsert_keys by auto

lemma upserts_key_set: "key ` set (rows (fold upsert as s)) = arg_key ` set as \<union> key ` set (rows s)"
  by (induction as arbitrary: s) (auto simp: upsert_key_set)

lemma upserts_distinct:
  "distinct (map key (rows s)) \<Longrightarrow> distinct (map key (rows (fold upsert as s)))"
  by (induction as arbitrary: s) (auto intro: upsert_distinct)

text \<open>However often and in whatever order rows are filed, there is one row per key.\<close>

lemma upserts_count:
  assumes "rows s = []"
  shows "length (rows (fold upsert as s)) = card (arg_key ` set as)"
proof -
  have "distinct (map key (rows (fold upsert as s)))"
    by (rule upserts_distinct) (simp add: assms)
  then have "length (rows (fold upsert as s)) = card (key ` set (rows (fold upsert as s)))"
    by (metis distinct_card length_map set_map)
  then show ?thesis by (simp add: upserts_key_set assms)
qed

end

definition client_key :: "PersistedClientRecord \<Rightarrow> string \<times> string \<times> string" where
  "client_key r = (cl_tenant_id r, cl_model_id r, cl_client_id r)"

definition dataset_key :: "PersistedDatasetRecord \<Rightarrow> string \<times> string \<times> string" where
  "dataset_key r = (ds_tenant_id r, ds_model_id r, ds_dataset_id r)"

definition model_key :: "PersistedModelRecord \<Rightarrow> string \<times> string \<times> int" where
  "model_key r = (md_tenant_id r, md_model_id r, md_version r)"

lemma client_in_key: "client_in t m c = (\<lambda>r. client_key r = (t, m, c))"
  by (auto simp: fun_eq_iff client_in_def client_key_def)

lemma dataset_in_key: "dataset_in t m d = (\<lambda>r. dataset_key r = (t, m, d))"
  by (auto simp: fun_eq_iff dataset_in_def dataset_key_def)

lemma RecordClientRegistration_clients:
  "clients (RecordClientRegistration clk r s) =
     (case find (\<lambda>x. client_key x = (NormalizeTenant (cl_tenant_id r), NormalizeModel (cl_model_id r),
         cl_client_id r)) (clients s) of
        None \<Rightarrow> clients s @ [r\<lparr>cl_tenant_id := NormalizeTenant (cl_tenant_id r),
          cl_model_id := NormalizeModel (cl_model_id r),
          cl_registered_at := (if cl_registered_at r = '''' then CurrentTimestamp (clk 0)
            else cl_registered_at r)\<rparr>]
      | Some it \<Rightarrow> upd_first (\<lambda>x. client_key x = (NormalizeTenant (cl_tenant_id r),
          NormalizeModel (cl_model_id r), cl_client_id r))
          (\<lambda>it. it\<lparr>cl_peer_identity :=
                 (if cl_peer_identity it = '''' \<and> cl_peer_identity r \<noteq> ''''
                  then cl_peer_identity r else cl_peer_identity it),
               cl_local_dataset_size := cl_local_dataset_size r,
               cl_hardware_info := cl_hardware_info r,
               cl_dataset_fingerprint := cl_dataset_fingerprint r\<rparr>) (clients s))"
  unfolding RecordClientRegistration_def Let_def client_in_key by (simp split: option.split)

definition dataset_row :: "clock \<Rightarrow> PersistedDatasetRecord \<Rightarrow> PersistedDatasetRecord" where
  "dataset_row clk r = r\<lparr>ds_tenant_id := NormalizeTenant (ds_tenant_id r),
     ds_model_id := NormalizeModel (ds_model_id r),
     ds_created_at := (if ds_created_at r = '''' then CurrentTimestamp (clk 0) else ds_created_at r)\<rparr>"

lemma UpsertDataset_datasets:
  "datasets (snd (UpsertDataset clk r s)) =
     (case find (\<lambda>x. dataset_key x = dataset_key (dataset_row clk r)) (datasets s) of
        None \<Rightarrow> datasets s @ [dataset_row clk r]
      | Some it \<Rightarrow> upd_first (\<lambda>x. dataset_key x = dataset_key (dataset_row clk r))
          (\<lambda>_. (dataset_row clk r)\<lparr>ds_created_at := ds_created_at it\<rparr>) (datasets s))"
  unfolding UpsertDataset_def Let_def dataset_in_key
  by (simp add: dataset_row_def dataset_key_def split: option.split)

lemma dataset_key_row:
  "dataset_key (dataset_row clk r) =
     (NormalizeTenant (ds_tenant_id r), NormalizeModel (ds_model_id r), ds_dataset_id r)"
  "dataset_key (x\<lparr>ds_created_at := c\<rparr>) = dataset_key x"
  by (simp_all add: dataset_key_def dataset_row_def)

lemma UpsertWorker_workers:
  "\<exists>new g. wk_worker_id new = wk_worker_id r \<and> (\<forall>it x. wk_worker_id (g it x) = wk_worker_id r) \<and>
     workers (snd (UpsertWorker clk r s)) =
       (case find (\<lambda>x. wk_worker_id x = wk_worker_id r) (workers s) of
          None \<Rightarrow> workers s @ [new]
        | Some it \<Rightarrow> upd_first (\<lambda>x. wk_worker_id x = wk_worker_id r) (g it) (workers s))"
proof -
  define new where "new = r\<lparr>wk_tenant_id := NormalizeTenant (wk_tenant_id r),
    wk_model_id := NormalizeModel (wk_model_id r),
    wk_max_parallel_tasks := max 1 (wk_max_parallel_tasks r),
    wk_status := (if wk_status r = '''' then ''idle'' else wk_status r),
    wk_registered_at :=
      (if wk_registered_at r = '''' then CurrentTimestamp (clk 0) else wk_registered_at r),
    wk_last_heartbeat_at := (if wk_last_heartbeat_at r = '''' then
      (if wk_registered_at r = '''' then CurrentTimestamp (clk 0) else wk_registered_at r)
      else wk_last_heartbeat_at r)\<rparr>"
  define g :: "PersistedWorkerRecord \<Rightarrow> PersistedWorkerRecord \<Rightarrow> PersistedWorkerRecord"
    where "g = (\<lambda>it _. new\<lparr>wk_registered_at := wk_registered_at it,
      wk_active_task_id := (if wk_active_task_id new = '''' then wk_active_task_id it
        else wk_active_task_id new)\<rparr>)"
  have id: "wk_worker_id new = wk_worker_id r" by (simp add: new_def)
  have "workers (snd (UpsertWorker clk r s)) =
       (case find (\<lambda>x. wk_worker_id x = wk_worker_id r) (workers s) of
          None \<Rightarrow> workers s @ [new]
        | Some it \<Rightarrow> upd_first (\<lambda>x. wk_worker_id x = wk_worker_id r) (g it) (workers s))"
    unfolding UpsertWorker_def Let_def new_def [symmetric] g_def
    by (simp add: id split: option.split)
  moreover have "\<forall>it x. wk_worker_id (g it x) = wk_worker_id r" by (simp add: g_def id)
  ultimately show ?thesis using id by blast
qed

text \<open>The three tables of the store fulfil the contract.\<close>

interpretation client_table: keyed_table clients client_key "RecordClientRegistration clk"
  "\<lambda>r. (NormalizeTenant (cl_tenant_id r), NormalizeModel (cl_model_id r), cl_client_id r)" for clk
proof
  fix a s
  show "map client_key (clients (RecordClientRegistration clk a s)) =
    (if (NormalizeTenant (cl_tenant_id a), NormalizeModel (cl_model_id a), cl_client_id a)
        \<in> client_key ` set (clients s) then map client_key (clients s)
     else map client_key (clients s) @
       [(NormalizeTenant (cl_tenant_id a), NormalizeModel (cl_model_id a), cl_client_id a)])"
    unfolding RecordClientRegistration_clients by (rule map_key_upsert) (simp_all add: client_key_def)
qed

interpretation dataset_table: keyed_table datasets dataset_key "\<lambda>r s. snd (UpsertDataset clk r s)"
  "\<lambda>r. (NormalizeTenant (ds_tenant_id r), NormalizeModel (ds_model_id r), ds_dataset_id r)" for clk
proof
  fix a s
  show "map dataset_key (datasets (snd (UpsertDataset clk a s))) =
    (if (NormalizeTenant (ds_tenant_id a), NormalizeModel (ds_model_id a), ds_dataset_id a)
        \<in> dataset_key ` set (datasets s) then map dataset_key (datasets s)
     else map dataset_key (datasets s) @
       [(NormalizeTenant (ds_tenant_id a), NormalizeModel (ds_model_id a), ds_dataset_id a)])"
    unfolding UpsertDataset_datasets dataset_key_row by (rule map_key_upsert) (simp_all add: dataset_key_row)
qed

interpretation worker_table: keyed_table workers wk_worker_id "\<lambda>r s. snd (UpsertWorker clk r s)"
  wk_worker_id for clk
proof
  fix a s
  obtain new g where ng: "wk_worker_id new = wk_worker_id a" "\<forall>it x. wk_worker_id (g it x) = wk_worker_id a"
    and ws: "workers (snd (UpsertWorker clk a s)) =
       (case find (\<lambda>x. wk_worker_id x = wk_worker_id a) (workers s) of
          None \<Rightarrow> workers s @ [new]
        | Some it \<Rightarrow> upd_first (\<lambda>x. wk_worker_id x = wk_worker_id a) (g it) (workers s))"
    using UpsertWorker_workers by blast
  show "map wk_worker_id (workers (snd (UpsertWorker clk a s))) =
    (if wk_worker_id a \<in> wk_worker_id ` set (workers s) then map wk_worker_id (workers s)
     else map wk_worker_id (workers s) @ [wk_worker_id a])"
    unfolding ws by (rule map_key_upsert) (simp_all add: ng)
qed

section \<open>What the operations leave alone\<close>

lemma RecordClientRegistration_frame [frame_simps]:
  "models (RecordClientRegistration clk r s) = models s"
  "datasets (RecordClientRegistration clk r s) = datasets s"
  "training_jobs (RecordClientRegistration clk r s) = training_jobs s"
  "assignments (RecordClientRegistration clk r s) = assignments s"
  "workers (RecordClientRegistration clk r s) = workers s"
  "worker_tasks (RecordClientRegistration clk r s) = worker_tasks s"
  "audit_events (RecordClientRegistration clk r s) = audit_events s"
  "audit_retention (RecordClientRegistration clk r s) = audit_retention s"
  "store_path (RecordClientRegistration clk r s) = store_path s"
  by (simp_all add: RecordClientRegistration_def Let_def split: option.split)

lemma UpdateClientLastRound_frame [frame_simps]:
  "models (UpdateClientLastRound t m c r s) = models s"
  "datasets (UpdateClientLastRound t m c r s) = datasets s"
  "training_jobs (UpdateClientLastRound t m c r s) = training_jobs s"
  "assignments (UpdateClientLastRound t m c r s) = assignments s"
  "workers (UpdateClientLastRound t m c r s) = workers s"
  "worker_tasks (UpdateClientLastRound t m c r s) = worker_tasks s"
  "audit_events (UpdateClientLastRound t m c r s) = audit_events s"
  "audit_retention (UpdateClientLastRound t m c r s) = audit_retention s"
  "store_path (UpdateClientLastRound t m c r s) = store_path s"
  by (simp_all add: UpdateClientLastRound_def)

lemma RecordWeightSubmission_frame [frame_simps]:
  "clients (RecordWeightSubmission clk t m c r s) = clients s"
  "models (RecordWeightSubmission clk t m c r s) = models s"
  "datasets (RecordWeightSubmission clk t m c r s) = datasets s"
  "training_jobs (RecordWeightSubmission clk t m c r s) = training_jobs s"
  "assignments (RecordWeightSubmission clk t m c r s) = assignments s"
  "workers (RecordWeightSubmission clk t m c r s) = workers s"
  "worker_tasks (RecordWeightSubmission clk t m c r s) = worker_tasks s"
  "audit_retention (RecordWeightSubmission clk t m c r s) = audit_retention s"
  "store_path (RecordWeightSubmission clk t m c r s) = store_path s"
  by (simp_all add: RecordWeightSubmission_def)

lemma RecordAggregatedModel_frame [frame_simps]:
  "clients (snd (RecordAggregatedModel clk t m r p st kv cc wd s)) = clients s"
  "datasets (snd (RecordAggregatedModel clk t m r p st kv cc wd s)) = datasets s"
  "training_jobs (snd (RecordAggregatedModel clk t m r p st kv cc wd s)) = training_jobs s"
  "assignments (snd (RecordAggregatedModel clk t m r p st kv cc wd s)) = assignments s"
  "workers (snd (RecordAggregatedModel clk t m r p st kv cc wd s)) = workers s"
  "worker_tasks (snd (RecordAggregatedModel clk t m r p st kv cc wd s)) = worker_tasks s"
  "audit_retention (snd (RecordAggregatedModel clk t m r p st kv cc wd s)) = audit_retention s"
  "store_path (snd (RecordAggregatedModel clk t m r p st kv cc wd s)) = store_path s"
  by (simp_all add: RecordAggregatedModel_def Let_def)

lemma RollbackModel_frame [frame_simps]:
  "clients (snd (RollbackModel clk t m v s)) = clients s"
  "datasets (snd (RollbackModel clk t m v s)) = datasets s"
  "training_jobs (snd (RollbackModel clk t m v s)) = training_jobs s"
  "assignments (snd (RollbackModel clk t m v s)) = assignments s"
  "workers (snd (RollbackModel clk t m v s)) = workers s"
  "worker_tasks (snd (RollbackModel clk t m v s)) = worker_tasks s"
  "audit_retention (snd (RollbackModel clk t m v s)) = audit_retention s"
  "store_path (snd (RollbackModel clk t m v s)) = store_path s"
  by (simp_all add: RollbackModel_def Let_def split: option.split)

lemma UpdateActiveKeyVersion_frame [frame_simps]:
  "clients (UpdateActiveKeyVersion clk v s) = clients s"
  "models (UpdateActiveKeyVersion clk v s) = models s"
  "datasets (UpdateActiveKeyVersion clk v s) = datasets s"
  "training_jobs (UpdateActiveKeyVersion clk v s) = training_jobs s"
  "assignments (UpdateActiveKeyVersion clk v s) = assignments s"
  "workers (UpdateActiveKeyVersion clk v s) = workers s"
  "worker_tasks (UpdateActiveKeyVersion clk v s) = worker_tasks s"
  "audit_retention (UpdateActiveKeyVersion clk v s) = audit_retention s"
  "store_path (UpdateActiveKeyVersion clk v s) = store_path s"
  by (simp_all add: UpdateActiveKeyVersion_def)

lemma RecordAuditEvent_frame [frame_simps]:
  "clients (RecordAuditEvent clk e s) = clients s"
  "models (RecordAuditEvent clk e s) = models s"
  "datasets (RecordAuditEvent clk e s) = datasets s"
  "training_jobs (RecordAuditEvent clk e s) = training_jobs s"
  "assignments (RecordAuditEvent clk e s) = assignments s"
  "workers (RecordAuditEvent clk e s) = workers s"
  "worker_tasks (RecordAuditEvent clk e s) = worker_tasks s"
  "audit_retention (RecordAuditEvent clk e s) = audit_retention s"
  "store_path (RecordAuditEvent clk e s) = store_path s"
  by (simp_all add: RecordAuditEvent_def)

lemma UpsertDataset_frame [frame_simps]:
  "clients (snd (UpsertDataset clk d s)) = clients s"
  "models (snd (UpsertDataset clk d s)) = models s"
  "training_jobs (snd (UpsertDataset clk d s)) = training_jobs s"
  "assignments (snd (UpsertDataset clk d s)) = assignments s"
  "workers (snd (UpsertDataset clk d s)) = workers s"
  "worker_tasks (snd (UpsertDataset clk d s)) = worker_tasks s"
  "audit_retention (snd (UpsertDataset clk d s)) = audit_retention s"
  "store_path (snd (UpsertDataset clk d s)) = store_path s"
  by (simp_all add: UpsertDataset_def Let_def split: option.split)

lemma CreateTrainingJob_frame [frame_simps]:
  "clients (snd (CreateTrainingJob clk j s)) = clients s"
  "models (snd (CreateTrainingJob clk j s)) = models s"
  "datasets (snd (CreateTrainingJob clk j s)) = datasets s"
  "assignments (snd (CreateTrainingJob clk j s)) = assignments s"
  "workers (snd (CreateTrainingJob clk j s)) = workers s"
  "worker_tasks (snd (CreateTrainingJob clk j s)) = worker_tasks s"
  "audit_retention (snd (CreateTrainingJob clk j s)) = audit_retention s"
  "store_path (snd (CreateTrainingJob clk j s)) = store_path s"
  by (simp_all add: CreateTrainingJob_def Let_def)

lemma LeaseTrainingAssignment_frame [frame_simps]:
  "clients (snd (LeaseTrainingAssignment clk t m c v dm dt s)) = clients s"
  "models (snd (LeaseTrainingAssignment clk t m c v dm dt s)) = models s"
  "datasets (snd (LeaseTrainingAssignment clk t m c v dm dt s)) = datasets s"
  "workers (snd (LeaseTrainingAssignment clk t m c v dm dt s)) = workers s"
  "worker_tasks (snd (LeaseTrainingAssignment clk t m c v dm dt s)) = worker_tasks s"
  "audit_retention (snd (LeaseTrainingAssignment clk t m c v dm dt s)) = audit_retention s"
  "store_path (snd (LeaseTrainingAssignment clk t m c v dm dt s)) = store_path s"
  by (simp_all add: LeaseTrainingAssignment_def Let_def split: option.split)

lemma ValidateTrainingAssignmentSubmission_frame [frame_simps]:
  "clients (snd (ValidateTrainingAssignmentSubmission clk t m c j a r b s)) = clients s"
  "models (snd (ValidateTrainingAssignmentSubmission clk t m c j a r b s)) = models s"
  "datasets (snd (ValidateTrainingAssignmentSubmission clk t m c j a r b s)) = datasets s"
  "training_jobs (snd (ValidateTrainingAssignmentSubmission clk t m c j a r b s)) = training_jobs s"
  "workers (snd (ValidateTrainingAssignmentSubmission clk t m c j a r b s)) = workers s"
  "worker_tasks (snd (ValidateTrainingAssignmentSubmission clk t m c j a r b s)) = worker_tasks s"
  "audit_retention (snd (ValidateTrainingAssignmentSubmission clk t m c j a r b s)) = audit_retention s"
  "store_path (snd (ValidateTrainingAssignmentSubmission clk t m c j a r b s)) = store_path s"
  by (simp_all add: ValidateTrainingAssignmentSubmission_def Let_def split: submission_check.split)

lemma AcceptTrainingAssignmentSubmission_frame [frame_simps]:
  "clients (snd (AcceptTrainingAssignmentSubmission clk t m c j a r b s)) = clients s"
  "models (snd (AcceptTrainingAssignmentSubmission clk t m c j a r b s)) = models s"
  "datasets (snd (AcceptTrainingAssignmentSubmission clk t m c j a r b s)) = datasets s"
  "training_jobs (snd (AcceptTrainingAssignmentSubmission clk t m c j a r b s)) = training_jobs s"
  "audit_retention (snd (AcceptTrainingAssignmentSubmission clk t m c j a r b s)) = audit_retention s"
  "store_path (snd (AcceptTrainingAssignmentSubmission clk t m c j a r b s)) = store_path s"
  by (simp_all add: AcceptTrainingAssignmentSubmission_def Let_def split: submission_check.split)

lemma AdvanceTrainingJobRound_frame [frame_simps]:
  "clients (AdvanceTrainingJobRound clk t m r v s) = clients s"
  "models (AdvanceTrainingJobRound clk t m r v s) = models s"
  "datasets (AdvanceTrainingJobRound clk t m r v s) = datasets s"
  "audit_retention (AdvanceTrainingJobRound clk t m r v s) = audit_retention s"
  "store_path (AdvanceTrainingJobRound clk t m r v s) = store_path s"
  by (simp_all add: AdvanceTrainingJobRound_def Let_def split: option.split)

lemma UpsertWorker_frame [frame_simps]:
  "clients (snd (UpsertWorker clk w s)) = clients s"
  "models (snd (UpsertWorker clk w s)) = models s"
  "datasets (snd (UpsertWorker clk w s)) = datasets s"
  "training_jobs (snd (UpsertWorker clk w s)) = training_jobs s"
  "assignments (snd (UpsertWorker clk w s)) = assignments s"
  "worker_tasks (snd (UpsertWorker clk w s)) = worker_tasks s"
  "audit_retention (snd (UpsertWorker clk w s)) = audit_retention s"
  "store_path (snd (UpsertWorker clk w s)) = store_path s"
  by (simp_all add: UpsertWorker_def Let_def split: option.split)

lemma LeaseWorkerTask_frame [frame_simps]:
  "clients (snd (LeaseWorkerTask clk w a j d s)) = clients s"
  "models (snd (LeaseWorkerTask clk w a j d s)) = models s"
  "datasets (snd (LeaseWorkerTask clk w a j d s)) = datasets s"
  "training_jobs (snd (LeaseWorkerTask clk w a j d s)) = training_jobs s"
  "assignments (snd (LeaseWorkerTask clk w a j d s)) = assignments s"
  "audit_retention (snd (LeaseWorkerTask clk w a j d s)) = audit_retention s"
  "store_path (snd (LeaseWorkerTask clk w a j d s)) = store_path s"
  by (simp_all add: LeaseWorkerTask_def Let_def split: option.split)

lemma UpdateWorkerTaskStatus_frame [frame_simps]:
  "clients (snd (UpdateWorkerTaskStatus clk w k st d p s)) = clients s"
  "models (snd (UpdateWorkerTaskStatus clk w k st d p s)) = models s"
  "datasets (snd (UpdateWorkerTaskStatus clk w k st d p s)) = datasets s"
  "training_jobs (snd (UpdateWorkerTaskStatus clk w k st d p s)) = training_jobs s"
  "assignments (snd (UpdateWorkerTaskStatus clk w k st d p s)) = assignments s"
  "audit_retention (snd (UpdateWorkerTaskStatus clk w k st d p s)) = audit_retention s"
  "store_path (snd (UpdateWorkerTaskStatus clk w k st d p s)) = store_path s"
  by (simp_all add: UpdateWorkerTaskStatus_def Let_def split: option.split)

lemma RecordWorkerHeartbeat_frame [frame_simps]:
  "clients (snd (RecordWorkerHeartbeat clk w k d s)) = clients s"
  "models (snd (RecordWorkerHeartbeat clk w k d s)) = models s"
  "datasets (snd (RecordWorkerHeartbeat clk w k d s)) = datasets s"
  "training_jobs (snd (RecordWorkerHeartbeat clk w k d s)) = training_jobs s"
  "assignments (snd (RecordWorkerHeartbeat clk w k d s)) = assignments s"
  "worker_tasks (snd (RecordWorkerHeartbeat clk w k d s)) = worker_tasks s"
  "audit_retention (snd (RecordWorkerHeartbeat clk w k d s)) = audit_retention s"
  "store_path (snd (RecordWorkerHeartbeat clk w k d s)) = store_path s"
  by (simp_all add: RecordWorkerHeartbeat_def Let_def split: option.split)

end
