(* ===== verification/Store_Steps.thy ===== *)
theory Store_Steps
  imports Store_Invariant
begin

text \<open>
  The state store as a transition system: its public operations are the steps, taken in any
  order with any arguments (the services run concurrently, the store's mutex makes each
  operation atomic), and the invariant of the tables holds in every store reachable from an
  empty one.
\<close>

section \<open>The invariant\<close>

definition clients_ok :: "PersistedClientRecord list \<Rightarrow> bool" where
  "clients_ok cs \<longleftrightarrow> distinct (map client_key cs) \<and>
     (\<forall>c\<in>set cs. cl_tenant_id c \<noteq> '''' \<and> cl_model_id c \<noteq> '''')"

definition models_ok :: "PersistedModelRecord list \<Rightarrow> bool" where
  "models_ok ms \<longleftrightarrow> distinct (map model_key ms) \<and>
     (\<forall>r\<in>set ms. 1 \<le> md_version r \<and> md_tenant_id r \<noteq> '''' \<and> md_model_id r \<noteq> '''') \<and>
     (\<forall>t m. count_where (active_in t m) ms \<le> 1)"

definition datasets_ok :: "PersistedDatasetRecord list \<Rightarrow> bool" where
  "datasets_ok ds \<longleftrightarrow> distinct (map dataset_key ds) \<and>
     (\<forall>d\<in>set ds. ds_tenant_id d \<noteq> '''' \<and> ds_model_id d \<noteq> '''')"

definition jobs_ok :: "PersistedTrainingJobRecord list \<Rightarrow> bool" where
  "jobs_ok js \<longleftrightarrow>
     (\<forall>j\<in>set js. 30 \<le> jb_assignment_ttl_seconds j \<and> jb_tenant_id j \<noteq> '''' \<and> jb_model_id j \<noteq> '''') \<and>
     (\<forall>t m. count_where (active_job_in t m) js \<le> 1)"

definition leases_ok :: "PersistedTrainingJobRecord list \<Rightarrow> PersistedAssignmentLease list \<Rightarrow> bool" where
  "leases_ok js as \<longleftrightarrow> (\<forall>a\<in>set as. as_job_id a \<in> jb_job_id ` set js)"

definition tasks_ok :: "PersistedWorkerTaskRecord list \<Rightarrow> bool" where
  "tasks_ok ks \<longleftrightarrow> (\<forall>k\<in>set ks. 0 \<le> tk_progress_percent k \<and> tk_progress_percent k \<le> 100)"

definition store_wf :: "state_store \<Rightarrow> bool" where
  "store_wf s \<longleftrightarrow>
     clients_ok (clients s) \<and> models_ok (models s) \<and> datasets_ok (datasets s) \<and>
     jobs_ok (training_jobs s) \<and> leases_ok (training_jobs s) (assignments s) \<and>
     distinct (map wk_worker_id (workers s)) \<and> tasks_ok (worker_tasks s) \<and>
     1 \<le> audit_retention s \<and> length (audit_events s) \<le> audit_retention s"

section \<open>The tables, one by one\<close>

lemma clients_ok_register:
  "clients_ok (clients s) \<Longrightarrow> clients_ok (clients (RecordClientRegistration clk r s))"
  using client_table.upsert_distinct [of s clk r]
  by (auto simp: clients_ok_def RecordClientRegistration_clients split: option.splits
      dest!: set_upd_firstD)

lemma clients_ok_last_round:
  "clients_ok (clients s) \<Longrightarrow> clients_ok (clients (UpdateClientLastRound t m c r s))"
proof -
  have "map client_key (clients (UpdateClientLastRound t m c r s)) = map client_key (clients s)"
    by (simp add: UpdateClientLastRound_def map_upd_first client_key_def)
  then show "clients_ok (clients s) \<Longrightarrow> ?thesis"
    by (auto simp: clients_ok_def UpdateClientLastRound_def dest!: set_upd_firstD)
qed

lemma datasets_ok_upsert:
  "datasets_ok (datasets s) \<Longrightarrow> datasets_ok (datasets (snd (UpsertDataset clk d s)))"
  using dataset_table.upsert_distinct [of s clk d]
  by (auto simp: datasets_ok_def UpsertDataset_datasets dataset_row_def split: option.splits
      dest!: set_upd_firstD)

lemma model_key_active [simp]: "model_key (r\<lparr>md_active := b\<rparr>) = model_key r"
  by (simp add: model_key_def)

lemma set_deactivateD:
  "x \<in> set (deactivate_scope t m ms) \<Longrightarrow> \<exists>r\<in>set ms. x = r \<or> x = r\<lparr>md_active := False\<rparr>"
  by (auto simp: deactivate_scope_def dest!: set_upd_allD)

lemma models_ok_record:
  assumes ok: "models_ok (models s)"
  shows "models_ok (models (snd (RecordAggregatedModel clk t m r p st kv cc wd s)))"
proof -
  let ?t = "NormalizeTenant t" and ?m = "NormalizeModel m"
  let ?v = "next_model_version ?t ?m (models s)"
  have new: "(?t, ?m, ?v) \<notin> model_key ` set (models s)"
    using next_model_version_gt [of _ "models s" ?t ?m] by (force simp: model_key_def model_in_def)
  have keys: "map model_key (deactivate_scope ?t ?m (models s)) = map model_key (models s)"
    by (rule map_deactivate_scope) simp
  have "count_where (active_in t' m') (models (snd (RecordAggregatedModel clk t m r p st kv cc wd s))) \<le> 1"
    for t' m'
    using ok deactivate_scope_active [of t' m' ?t ?m "models s"]
    by (auto simp: RecordAggregatedModel_models models_ok_def active_in_def model_in_def)
  moreover have "distinct (map model_key (models (snd (RecordAggregatedModel clk t m r p st kv cc wd s))))"
    using ok new keys by (simp add: RecordAggregatedModel_models models_ok_def) (simp add: model_key_def)
  ultimately show ?thesis
    using ok next_model_version_ge1 [of ?t ?m "models s"]
    by (auto simp: models_ok_def RecordAggregatedModel_models dest!: set_deactivateD)
qed

lemma models_ok_rollback:
  assumes ok: "models_ok (models s)"
  shows "models_ok (models (snd (RollbackModel clk t m v s)))"
proof (cases "fst (RollbackModel clk t m v s)")
  case None
  then have "snd (RollbackModel clk t m v s) = s"
    by (auto simp: RollbackModel_def Let_def split: option.splits)
  with ok show ?thesis by simp
next
  case (Some r)
  let ?t = "NormalizeTenant t" and ?m = "NormalizeModel m"
  let ?P = "\<lambda>r. model_in ?t ?m r \<and> md_version r = v"
  have ms: "models (snd (RollbackModel clk t m v s)) =
      upd_first ?P (\<lambda>r. r\<lparr>md_active := True\<rparr>) (deactivate_scope ?t ?m (models s))"
    using Some by (auto simp: RollbackModel_def Let_def split: option.splits)
  have cnt: "count_where (active_in t' m') (models (snd (RollbackModel clk t m v s))) \<le> 1" for t' m'
  proof (cases "t' = ?t \<and> m' = ?m")
    case True
    then have "count_where (active_in t' m') (deactivate_scope ?t ?m (models s)) = 0"
      by (simp add: deactivate_scope_active del: length_0_conv)
    with count_where_upd_first_add show ?thesis unfolding ms by (metis One_nat_def)
  next
    case False
    have "count_where (active_in t' m') (models (snd (RollbackModel clk t m v s)))
        \<le> count_where (active_in t' m') (deactivate_scope ?t ?m (models s))"
      unfolding ms by (rule count_where_upd_first_le) (use False model_in_scope in auto)
    with ok False show ?thesis by (auto simp: deactivate_scope_active models_ok_def intro: le_trans)
  qed
  have "map model_key (models (snd (RollbackModel clk t m v s))) = map model_key (models s)"
    unfolding ms by (subst map_upd_first) (simp_all add: map_deactivate_scope)
  with ok cnt show ?thesis
    by (auto simp: models_ok_def ms dest!: set_upd_firstD set_deactivateD)
qed

lemma active_job_scope:
  "active_job_in t m j \<Longrightarrow> jb_tenant_id j = t \<and> jb_model_id j = m"
  by (simp add: active_job_in_def)

lemma active_job_status [simp]:
  "active_job_in t m (j\<lparr>jb_status := st\<rparr>) \<longleftrightarrow>
     jb_tenant_id j = t \<and> jb_model_id j = m \<and> IsActiveJobStatus st"
  by (simp add: active_job_in_def)

lemma jobs_ok_create:
  assumes ok: "jobs_ok (training_jobs s)"
  shows "jobs_ok (training_jobs (snd (CreateTrainingJob clk j s)))"
proof -
  let ?t = "NormalizeTenant (jb_tenant_id j)" and ?m = "NormalizeModel (jb_model_id j)"
  let ?js = "upd_all (active_job_in ?t ?m) (\<lambda>j. j\<lparr>jb_status := ''superseded''\<rparr>) (training_jobs s)"
  obtain saved where js: "training_jobs (snd (CreateTrainingJob clk j s)) = ?js @ [saved]"
    and saved: "jb_tenant_id saved = ?t" "jb_model_id saved = ?m"
      "30 \<le> jb_assignment_ttl_seconds saved"
    by (simp add: CreateTrainingJob_def Let_def)
  have "count_where (active_job_in t m) (?js @ [saved]) \<le> 1" for t m
  proof (cases "t = ?t \<and> m = ?m")
    case True
    then have "count_where (active_job_in t m) ?js = 0"
      by (intro count_where_upd_all_none) (auto simp: IsActiveJobStatus_def)
    then show ?thesis by simp
  next
    case False
    then have "count_where (active_job_in t m) ?js = count_where (active_job_in t m) (training_jobs s)"
      by (intro count_where_upd_all_same) (auto dest: active_job_scope)
    moreover have "\<not> active_job_in t m saved" using False saved by (auto dest: active_job_scope)
    ultimately show ?thesis using ok by (simp add: jobs_ok_def)
  qed
  with ok saved show ?thesis
    by (auto simp: jobs_ok_def js dest!: set_upd_allD)
qed

lemma jobs_ok_upd_last:
  assumes ok: "jobs_ok js"
    and f: "\<And>j. jb_tenant_id (f j) = jb_tenant_id j \<and> jb_model_id (f j) = jb_model_id j \<and>
      jb_assignment_ttl_seconds (f j) = jb_assignment_ttl_seconds j"
  shows "jobs_ok (upd_last (active_job_in t m) f js)"
proof -
  have "count_where (active_job_in t' m') (upd_last (active_job_in t m) f js)
      \<le> count_where (active_job_in t' m') js" for t' m'
    by (rule count_where_upd_last_le) (use f in \<open>auto simp: active_job_in_def\<close>)
  with ok have "count_where (active_job_in t' m') (upd_last (active_job_in t m) f js) \<le> 1" for t' m'
    unfolding jobs_ok_def using le_trans by blast
  with ok f show ?thesis by (auto simp: jobs_ok_def dest!: set_upd_lastD)
qed

text \<open>The branches of \<open>LeaseTrainingAssignment\<close>: what happens to the jobs and the leases.\<close>

lemma LeaseTrainingAssignment_cases:
  fixes clk t m c v dm dt s
  defines "now \<equiv> CurrentTimestamp (clk 0)"
    and "P \<equiv> active_job_in (NormalizeTenant t) (NormalizeModel m)"
    and "as \<equiv> upd_all (lease_lapsed (CurrentTimestamp (clk 0))) (expire_lease (CurrentTimestamp (clk 0))) (assignments s)"
  obtains
    (no_job) "rfind P (training_jobs s) = None"
      "LeaseTrainingAssignment clk t m c v dm dt s = (None, ExpireAssignmentsLocked now s)"
  | (complete) job where "rfind P (training_jobs s) = Some job"
      "0 < jb_target_rounds job \<and> jb_target_rounds job \<le> jb_completed_rounds job"
      "fst (LeaseTrainingAssignment clk t m c v dm dt s) = None"
      "training_jobs (snd (LeaseTrainingAssignment clk t m c v dm dt s)) =
         upd_last P (\<lambda>j. j\<lparr>jb_status := ''completed''\<rparr>) (training_jobs s)"
      "assignments (snd (LeaseTrainingAssignment clk t m c v dm dt s)) = as"
  | (again) job a where "rfind P (training_jobs s) = Some job"
      "\<not> (0 < jb_target_rounds job \<and> jb_target_rounds job \<le> jb_completed_rounds job)"
      "find (\<lambda>a. live_lease now (jb_job_id job) (max 1 (jb_current_round job)) a \<and> as_client_id a = c) as = Some a"
      "fst (LeaseTrainingAssignment clk t m c v dm dt s) =
         Some (a, start_job now job, find (dataset_in (NormalizeTenant t) (NormalizeModel m) (jb_dataset_id job)) (datasets s))"
      "training_jobs (snd (LeaseTrainingAssignment clk t m c v dm dt s)) =
         upd_last P (start_job now) (training_jobs s)"
      "assignments (snd (LeaseTrainingAssignment clk t m c v dm dt s)) = as"
  | (full) job where "rfind P (training_jobs s) = Some job"
      "\<not> (0 < jb_target_rounds job \<and> jb_target_rounds job \<le> jb_completed_rounds job)"
      "find (\<lambda>a. live_lease now (jb_job_id job) (max 1 (jb_current_round job)) a \<and> as_client_id a = c) as = None"
      "round_capacity job dm \<le> int (count_where (live_lease now (jb_job_id job) (max 1 (jb_current_round job))) as)"
      "fst (LeaseTrainingAssignment clk t m c v dm dt s) = None"
      "training_jobs (snd (LeaseTrainingAssignment clk t m c v dm dt s)) =
         upd_last P (start_job now) (training_jobs s)"
      "assignments (snd (LeaseTrainingAssignment clk t m c v dm dt s)) = as"
  | (issued) job where "rfind P (training_jobs s) = Some job"
      "\<not> (0 < jb_target_rounds job \<and> jb_target_rounds job \<le> jb_completed_rounds job)"
      "find (\<lambda>a. live_lease now (jb_job_id job) (max 1 (jb_current_round job)) a \<and> as_client_id a = c) as = None"
      "int (count_where (live_lease now (jb_job_id job) (max 1 (jb_current_round job))) as) < round_capacity job dm"
      "fst (LeaseTrainingAssignment clk t m c v dm dt s) =
         Some (new_lease clk (NormalizeTenant t) (NormalizeModel m) c v dt job, start_job now job,
           find (dataset_in (NormalizeTenant t) (NormalizeModel m) (jb_dataset_id job)) (datasets s))"
      "training_jobs (snd (LeaseTrainingAssignment clk t m c v dm dt s)) =
         upd_last P (start_job now) (training_jobs s)"
      "assignments (snd (LeaseTrainingAssignment clk t m c v dm dt s)) =
         as @ [new_lease clk (NormalizeTenant t) (NormalizeModel m) c v dt job]"
proof (cases "rfind P (training_jobs s)")
  case None
  then show ?thesis
    by (intro no_job) (simp_all add: LeaseTrainingAssignment_def Let_def P_def now_def)
next
  case (Some job)
  let ?r = "LeaseTrainingAssignment clk t m c v dm dt s"
  have cap: "round_capacity (start_job now job) dm = round_capacity job dm"
    by (simp add: round_capacity_def)
  have nl: "new_lease clk T M c v dt (start_job now job) = new_lease clk T M c v dt job" for T M
    by (simp add: new_lease_def)
  have const: "upd_last P (\<lambda>_. start_job now job) (training_jobs s) =
      upd_last P (start_job now) (training_jobs s)"
    by (rule upd_last_found) (rule Some)
  have eq: "?r = (let s1 = ExpireAssignmentsLocked now s in
      if 0 < jb_target_rounds job \<and> jb_target_rounds job \<le> jb_completed_rounds job then
        (None, SaveLocked (s1\<lparr>training_jobs := upd_last P (\<lambda>j. j\<lparr>jb_status := ''completed''\<rparr>) (training_jobs s)\<rparr>))
      else
        let s2 = s1\<lparr>training_jobs := upd_last P (start_job now) (training_jobs s)\<rparr>;
            d = find (dataset_in (NormalizeTenant t) (NormalizeModel m) (jb_dataset_id job)) (datasets s)
        in case find (\<lambda>a. live_lease now (jb_job_id job) (max 1 (jb_current_round job)) a \<and> as_client_id a = c) as of
             Some a \<Rightarrow> (Some (a, start_job now job, d), SaveLocked s2)
           | None \<Rightarrow> if round_capacity job dm \<le> int (count_where (live_lease now (jb_job_id job) (max 1 (jb_current_round job))) as)
               then (None, SaveLocked s2)
               else let a = new_lease clk (NormalizeTenant t) (NormalizeModel m) c v dt job in
                 (Some (a, start_job now job, d),
                  SaveLocked (push_audit (audit_event now ''assignment_leased'' (NormalizeTenant t) (NormalizeModel m) c
                    (''Issued assignment '' @ as_assignment_id a @ '' for round '' @ to_string (max 1 (jb_current_round job))))
                    (s2\<lparr>assignments := as @ [a]\<rparr>))))"
    using Some
    by (simp add: LeaseTrainingAssignment_def Let_def P_def [symmetric] now_def [symmetric]
        as_def [folded now_def, symmetric] cap nl const cong: option.case_cong if_cong)
  show ?thesis
  proof (cases "0 < jb_target_rounds job \<and> jb_target_rounds job \<le> jb_completed_rounds job")
    case True
    with Some show ?thesis
      by (intro complete) (auto simp: eq Let_def as_def [folded now_def])
  next
    case nf: False
    show ?thesis
    proof (cases "find (\<lambda>a. live_lease now (jb_job_id job) (max 1 (jb_current_round job)) a \<and> as_client_id a = c) as")
      case (Some a)
      with nf \<open>rfind P (training_jobs s) = Some job\<close> show ?thesis
        by (intro again) (auto simp: eq Let_def as_def [folded now_def])
    next
      case None
      show ?thesis
      proof (cases "round_capacity job dm \<le> int (count_where (live_lease now (jb_job_id job) (max 1 (jb_current_round job))) as)")
        case True
        with nf None Some show ?thesis
          by (intro full) (auto simp: eq Let_def as_def [folded now_def])
      next
        case False
        with nf None Some show ?thesis
          by (intro issued) (auto simp: eq Let_def)
      qed
    qed
  qed
qed

lemma jobs_ok_lease:
  assumes "jobs_ok (training_jobs s)"
  shows "jobs_ok (training_jobs (snd (LeaseTrainingAssignment clk t m c v dm dt s)))"
  by (cases rule: LeaseTrainingAssignment_cases [of t m s clk c v dm dt])
    (auto simp: assms intro: jobs_ok_upd_last)

lemma jobs_ok_advance:
  assumes "jobs_ok (training_jobs s)"
  shows "jobs_ok (training_jobs (AdvanceTrainingJobRound clk t m r v s))"
  using assms
  by (auto simp: AdvanceTrainingJobRound_def Let_def advance_job_def split: option.split
      intro: jobs_ok_upd_last)

lemma leases_ok_mono:
  "leases_ok js as \<Longrightarrow> jb_job_id ` set js \<subseteq> jb_job_id ` set js' \<Longrightarrow> leases_ok js' as"
  by (auto simp: leases_ok_def)

lemma leases_ok_upd_all:
  "leases_ok js as \<Longrightarrow> (\<And>a. as_job_id (f a) = as_job_id a) \<Longrightarrow> leases_ok js (upd_all P f as)"
  by (auto simp: leases_ok_def dest!: set_upd_allD)

lemma leases_ok_upd_first:
  "leases_ok js as \<Longrightarrow> (\<And>a. as_job_id (f a) = as_job_id a) \<Longrightarrow> leases_ok js (upd_first P f as)"
  by (auto simp: leases_ok_def dest!: set_upd_firstD)

lemma job_ids_upd_last:
  "(\<And>j. jb_job_id (f j) = jb_job_id j) \<Longrightarrow> jb_job_id ` set (upd_last P f js) = jb_job_id ` set js"
  by (metis map_upd_last set_map)

lemma leases_ok_lease:
  assumes "leases_ok (training_jobs s) (assignments s)"
  shows "leases_ok (training_jobs (snd (LeaseTrainingAssignment clk t m c v dm dt s)))
    (assignments (snd (LeaseTrainingAssignment clk t m c v dm dt s)))"
proof -
  note up = leases_ok_upd_all [OF assms, of "expire_lease (CurrentTimestamp (clk 0))"
      "lease_lapsed (CurrentTimestamp (clk 0))"]
  show ?thesis
  proof (cases rule: LeaseTrainingAssignment_cases [of t m s clk c v dm dt])
    case no_job
    with up show ?thesis by simp
  next
    case (complete job)
    with up show ?thesis by (auto simp: job_ids_upd_last elim!: leases_ok_mono)
  next
    case (again job a)
    with up show ?thesis by (auto simp: job_ids_upd_last elim!: leases_ok_mono)
  next
    case (full job)
    with up show ?thesis by (auto simp: job_ids_upd_last elim!: leases_ok_mono)
  next
    case (issued job)
    have "jb_job_id job \<in> jb_job_id ` set (training_jobs s)"
      using issued(1) by (auto dest: rfind_SomeD)
    moreover have "as_job_id (new_lease clk T M c v dt job) = jb_job_id job" for T M
      by (simp add: new_lease_def Let_def)
    ultimately show ?thesis
      using up issued by (auto simp: leases_ok_def job_ids_upd_last)
  qed
qed

lemma ids_free_workers_of [simp]:
  "map wk_worker_id (free_workers_of now P ks ws) = map wk_worker_id ws"
proof -
  have "map wk_worker_id (foldl (\<lambda>ws k. if P k then upd_first (\<lambda>w. wk_worker_id w = tk_worker_id k)
      (free_worker now (tk_task_id k)) ws else ws) ws ks) = map wk_worker_id ws"
    by (induction ks arbitrary: ws) (auto simp: map_upd_first free_worker_def)
  then show ?thesis by (simp add: free_workers_of_def)
qed

lemma ids_release_workers_of [simp]:
  "map wk_worker_id (release_workers_of now P ks ws) = map wk_worker_id ws"
proof -
  have "map wk_worker_id (foldl (\<lambda>ws k. if P k then
         upd_all (\<lambda>w. wk_worker_id w = tk_worker_id k \<and> wk_active_task_id w = tk_task_id k)
           (\<lambda>w. w\<lparr>wk_active_task_id := '''', wk_status := ''idle'', wk_last_heartbeat_at := now\<rparr>) ws
       else ws) ws ks) = map wk_worker_id ws"
    by (induction ks arbitrary: ws) (auto simp: map_upd_all)
  then show ?thesis by (simp add: release_workers_of_def)
qed

lemma ids_upd_found:
  assumes "find (\<lambda>w. wk_worker_id w = i) ws = Some w" "wk_worker_id w' = wk_worker_id w"
  shows "map wk_worker_id (upd_first (\<lambda>w. wk_worker_id w = i) (\<lambda>_. w') ws) = map wk_worker_id ws"
  by (rule map_upd_first) (use assms find_SomeD in force)

lemma worker_ids [simp]:
  "map wk_worker_id (workers (snd (AcceptTrainingAssignmentSubmission clk t m c j a r b s))) = map wk_worker_id (workers s)"
  "map wk_worker_id (workers (AdvanceTrainingJobRound clk t m r v s)) = map wk_worker_id (workers s)"
  "map wk_worker_id (workers (snd (LeaseWorkerTask clk w as job d s))) = map wk_worker_id (workers s)"
  "map wk_worker_id (workers (snd (UpdateWorkerTaskStatus clk wi ki st msg p s))) = map wk_worker_id (workers s)"
  "map wk_worker_id (workers (snd (RecordWorkerHeartbeat clk wi ki msg s))) = map wk_worker_id (workers s)"
  by (auto simp: AcceptTrainingAssignmentSubmission_def AdvanceTrainingJobRound_def LeaseWorkerTask_def
      UpdateWorkerTaskStatus_def RecordWorkerHeartbeat_def Let_def map_upd_first map_upd_all
      lease_worker_def report_worker_def ids_upd_found split: option.split submission_check.split)

lemma tasks_ok_accept:
  "tasks_ok (worker_tasks s) \<Longrightarrow>
   tasks_ok (worker_tasks (snd (AcceptTrainingAssignmentSubmission clk t m c j a r b s)))"
  by (auto simp: AcceptTrainingAssignmentSubmission_def Let_def tasks_ok_def submit_task_def
      split: submission_check.split dest!: set_upd_allD)

lemma tasks_ok_advance:
  "tasks_ok (worker_tasks s) \<Longrightarrow> tasks_ok (worker_tasks (AdvanceTrainingJobRound clk t m r v s))"
  by (auto simp: AdvanceTrainingJobRound_def Let_def tasks_ok_def close_task_def
      split: option.split dest!: set_upd_allD)

lemma tasks_ok_lease:
  "tasks_ok (worker_tasks s) \<Longrightarrow> tasks_ok (worker_tasks (snd (LeaseWorkerTask clk w as job d s)))"
  by (auto simp: LeaseWorkerTask_def Let_def tasks_ok_def split: option.split dest!: set_upd_firstD)

lemma tasks_ok_report:
  "tasks_ok (worker_tasks s) \<Longrightarrow>
   tasks_ok (worker_tasks (snd (UpdateWorkerTaskStatus clk wi ki st msg p s)))"
  by (auto simp: UpdateWorkerTaskStatus_def Let_def tasks_ok_def report_task_def
      split: option.split dest!: set_upd_firstD)

section \<open>The audit trail stays within its retention\<close>

definition audit_ok :: "state_store \<Rightarrow> bool" where
  "audit_ok s \<longleftrightarrow> 1 \<le> audit_retention s \<and> length (audit_events s) \<le> audit_retention s"

lemma audit_ok_push [simp]: "audit_ok (push_audit e s) \<longleftrightarrow> 1 \<le> audit_retention s"
  using push_audit_bounded [of e s] by (simp add: audit_ok_def)

lemma audit_ok_save [simp]: "audit_ok (SaveLocked s) = audit_ok s"
  by (simp add: audit_ok_def)

lemma audit_ok_expire: "audit_ok s \<Longrightarrow> audit_ok (ExpireAssignmentsLocked now s)"
  using Expire_bounded by (auto simp: audit_ok_def)

lemma audit_ok_retention: "audit_ok s \<Longrightarrow> 1 \<le> audit_retention s"
  by (simp add: audit_ok_def)

lemma audit_ok_fields [simp]:
  "audit_ok (s\<lparr>clients := x1\<rparr>) = audit_ok s" "audit_ok (s\<lparr>training_jobs := x2\<rparr>) = audit_ok s"
  "audit_ok (s\<lparr>assignments := x3\<rparr>) = audit_ok s" "audit_ok (s\<lparr>workers := x4\<rparr>) = audit_ok s"
  "audit_ok (s\<lparr>worker_tasks := x5\<rparr>) = audit_ok s"
  by (simp_all add: audit_ok_def)

lemmas audit_ok_simps = audit_ok_expire audit_ok_retention

lemma audit_ok_ops:
  assumes "audit_ok s"
  shows "audit_ok (RecordClientRegistration clk r s)"
    "audit_ok (UpdateClientLastRound t m c rd s)"
    "audit_ok (RecordWeightSubmission clk t m c rd s)"
    "audit_ok (snd (RecordAggregatedModel clk t m rd p st kv cc wd s))"
    "audit_ok (snd (RollbackModel clk t m v s))"
    "audit_ok (UpdateActiveKeyVersion clk v s)"
    "audit_ok (RecordAuditEvent clk e s)"
    "audit_ok (snd (UpsertDataset clk d s))"
    "audit_ok (snd (CreateTrainingJob clk j s))"
    "audit_ok (snd (LeaseTrainingAssignment clk t m c v dm dt s))"
    "audit_ok (snd (ValidateTrainingAssignmentSubmission clk t m c ji a rd b s))"
    "audit_ok (snd (AcceptTrainingAssignmentSubmission clk t m c ji a rd b s))"
    "audit_ok (AdvanceTrainingJobRound clk t m rd v s)"
    "audit_ok (snd (UpsertWorker clk w s))"
    "audit_ok (snd (LeaseWorkerTask clk w as job d s))"
    "audit_ok (snd (UpdateWorkerTaskStatus clk wi ki ts msg p' s))"
    "audit_ok (snd (RecordWorkerHeartbeat clk wi ki msg s))"
proof -
  note ok = assms audit_ok_simps [OF assms]
  show "audit_ok (RecordClientRegistration clk r s)"
    by (simp add: RecordClientRegistration_def Let_def ok split: option.split)
  show "audit_ok (UpdateClientLastRound t m c rd s)"
    by (simp add: UpdateClientLastRound_def ok)
  show "audit_ok (RecordWeightSubmission clk t m c rd s)"
    using ok by (simp add: RecordWeightSubmission_def)
  show "audit_ok (snd (RecordAggregatedModel clk t m rd p st kv cc wd s))"
    using ok by (simp add: RecordAggregatedModel_def Let_def)
  show "audit_ok (snd (RollbackModel clk t m v s))"
    using ok by (simp add: RollbackModel_def Let_def split: option.split)
  show "audit_ok (UpdateActiveKeyVersion clk v s)"
    using ok by (simp add: UpdateActiveKeyVersion_def)
  show "audit_ok (RecordAuditEvent clk e s)"
    using ok by (simp add: RecordAuditEvent_def)
  show "audit_ok (snd (UpsertDataset clk d s))"
    using ok by (simp add: UpsertDataset_def Let_def split: option.split)
  show "audit_ok (snd (CreateTrainingJob clk j s))"
    using ok by (simp add: CreateTrainingJob_def Let_def)
  show "audit_ok (snd (LeaseTrainingAssignment clk t m c v dm dt s))"
    using ok by (simp add: LeaseTrainingAssignment_def Let_def split: option.split)
  show "audit_ok (snd (ValidateTrainingAssignmentSubmission clk t m c ji a rd b s))"
    using ok by (simp add: ValidateTrainingAssignmentSubmission_def Let_def split: submission_check.split)
  show "audit_ok (snd (AcceptTrainingAssignmentSubmission clk t m c ji a rd b s))"
    using ok by (simp add: AcceptTrainingAssignmentSubmission_def Let_def split: submission_check.split)
  show "audit_ok (AdvanceTrainingJobRound clk t m rd v s)"
    using ok by (simp add: AdvanceTrainingJobRound_def Let_def split: option.split)
  show "audit_ok (snd (UpsertWorker clk w s))"
    using ok by (simp add: UpsertWorker_def Let_def split: option.split)
  show "audit_ok (snd (LeaseWorkerTask clk w as job d s))"
    using ok by (simp add: LeaseWorkerTask_def Let_def split: option.split)
  show "audit_ok (snd (UpdateWorkerTaskStatus clk wi ki ts msg p' s))"
    using ok by (simp add: UpdateWorkerTaskStatus_def Let_def split: option.split)
  show "audit_ok (snd (RecordWorkerHeartbeat clk wi ki msg s))"
    using ok by (simp add: RecordWorkerHeartbeat_def Let_def split: option.split)
qed

section \<open>Steps and reachable stores\<close>

inductive store_step :: "state_store \<Rightarrow> state_store \<Rightarrow> bool" where
  step_register: "store_step s (RecordClientRegistration clk r s)"
| step_last_round: "store_step s (UpdateClientLastRound t m c rd s)"
| step_submission: "store_step s (RecordWeightSubmission clk t m c rd s)"
| step_aggregated: "store_step s (snd (RecordAggregatedModel clk t m rd p st kv cc wd s))"
| step_rollback: "store_step s (snd (RollbackModel clk t m v s))"
| step_key_version: "store_step s (UpdateActiveKeyVersion clk v s)"
| step_audit: "store_step s (RecordAuditEvent clk e s)"
| step_dataset: "store_step s (snd (UpsertDataset clk d s))"
| step_create_job: "store_step s (snd (CreateTrainingJob clk j s))"
| step_lease: "store_step s (snd (LeaseTrainingAssignment clk t m c v dm dt s))"
| step_validate: "store_step s (snd (ValidateTrainingAssignmentSubmission clk t m c ji a rd b s))"
| step_accept: "store_step s (snd (AcceptTrainingAssignmentSubmission clk t m c ji a rd b s))"
| step_advance: "store_step s (AdvanceTrainingJobRound clk t m rd v s)"
| step_worker: "store_step s (snd (UpsertWorker clk w s))"
| step_lease_task: "store_step s (snd (LeaseWorkerTask clk w as job d s))"
| step_report: "store_step s (snd (UpdateWorkerTaskStatus clk wi ki ts msg p' s))"
| step_heartbeat: "store_step s (snd (RecordWorkerHeartbeat clk wi ki msg s))"

text \<open>A store that was created with no file at its path and initialised by \<open>Load\<close>, then any
  number of steps.\<close>

inductive reachable_store :: "state_store \<Rightarrow> bool" where
  reach_start: "reachable_store (SaveLocked (StateStore path retention None))"
| reach_step: "reachable_store s \<Longrightarrow> store_step s s' \<Longrightarrow> reachable_store s'"

lemma store_wf_audit: "store_wf s \<Longrightarrow> audit_ok s"
  by (simp add: store_wf_def audit_ok_def)

lemma store_wf_empty: "store_wf (SaveLocked (StateStore path retention file))"
  by (simp add: store_wf_def StateStore_def empty_image_def store_image.defs clients_ok_def
      models_ok_def datasets_ok_def jobs_ok_def leases_ok_def tasks_ok_def)

lemma store_step_wf:
  assumes "store_step s s'" and "store_wf s"
  shows "store_wf s'"
  using assms
proof (induction rule: store_step.induct)
  case (step_register s clk r)
  then show ?case
    using clients_ok_register [of s clk r] audit_ok_ops(1) [OF store_wf_audit, of s clk r]
    by (simp add: store_wf_def audit_ok_def frame_simps)
next
  case (step_last_round s t m c rd)
  then show ?case
    using clients_ok_last_round [of s t m c rd] audit_ok_ops(2) [OF store_wf_audit, of s t m c rd]
    by (simp add: store_wf_def audit_ok_def frame_simps)
next
  case (step_submission s clk t m c rd)
  then show ?case
    using audit_ok_ops(3) [OF store_wf_audit, of s clk t m c rd]
    by (simp add: store_wf_def audit_ok_def frame_simps)
next
  case (step_aggregated s clk t m rd p st kv cc wd)
  then show ?case
    using models_ok_record [of s clk t m rd p st kv cc wd]
      audit_ok_ops(4) [OF store_wf_audit, of s clk t m rd p st kv cc wd]
    by (simp add: store_wf_def audit_ok_def frame_simps)
next
  case (step_rollback s clk t m v)
  then show ?case
    using models_ok_rollback [of s clk t m v] audit_ok_ops(5) [OF store_wf_audit, of s clk t m v]
    by (simp add: store_wf_def audit_ok_def frame_simps)
next
  case (step_key_version s clk v)
  then show ?case
    using audit_ok_ops(6) [OF store_wf_audit, of s clk v]
    by (simp add: store_wf_def audit_ok_def frame_simps)
next
  case (step_audit s clk e)
  then show ?case
    using audit_ok_ops(7) [OF store_wf_audit, of s clk e]
    by (simp add: store_wf_def audit_ok_def frame_simps)
next
  case (step_dataset s clk d)
  then show ?case
    using datasets_ok_upsert [of s clk d] audit_ok_ops(8) [OF store_wf_audit, of s clk d]
    by (simp add: store_wf_def audit_ok_def frame_simps)
next
  case (step_create_job s clk j)
  have "set (map jb_job_id (training_jobs s)) \<subseteq> set (map jb_job_id (training_jobs (snd (CreateTrainingJob clk j s))))"
    by (simp add: CreateTrainingJob_def Let_def map_upd_all del: set_map) blast
  then have "jb_job_id ` set (training_jobs s) \<subseteq> jb_job_id ` set (training_jobs (snd (CreateTrainingJob clk j s)))"
    by (simp only: set_map)
  with step_create_job show ?case
    using jobs_ok_create [of s clk j] audit_ok_ops(9) [OF store_wf_audit, of s clk j]
      leases_ok_mono [of "training_jobs s" "assignments s" "training_jobs (snd (CreateTrainingJob clk j s))"]
    by (simp add: store_wf_def audit_ok_def frame_simps)
next
  case (step_lease s clk t m c v dm dt)
  then show ?case
    using jobs_ok_lease [of s clk t m c v dm dt] leases_ok_lease [of s clk t m c v dm dt]
      audit_ok_ops(10) [OF store_wf_audit, of s clk t m c v dm dt]
    by (simp add: store_wf_def audit_ok_def frame_simps)
next
  case (step_validate s clk t m c ji a rd b)
  have "leases_ok (training_jobs s) (assignments (snd (ValidateTrainingAssignmentSubmission clk t m c ji a rd b s)))"
    using step_validate
    by (auto simp: ValidateTrainingAssignmentSubmission_def Let_def store_wf_def overdue_at_submission_def
        intro!: leases_ok_upd_first leases_ok_upd_all split: submission_check.split)
  with step_validate show ?case
    using audit_ok_ops(11) [OF store_wf_audit, of s clk t m c ji a rd b]
    by (simp add: store_wf_def audit_ok_def frame_simps)
next
  case (step_accept s clk t m c ji a rd b)
  have "leases_ok (training_jobs s) (assignments (snd (AcceptTrainingAssignmentSubmission clk t m c ji a rd b s)))"
    using step_accept
    by (auto simp: AcceptTrainingAssignmentSubmission_def Let_def store_wf_def overdue_at_submission_def
        intro!: leases_ok_upd_first leases_ok_upd_all split: submission_check.split)
  with step_accept show ?case
    using audit_ok_ops(12) [OF store_wf_audit, of s clk t m c ji a rd b] tasks_ok_accept [of s clk t m c ji a rd b]
    by (simp add: store_wf_def audit_ok_def frame_simps)
next
  case (step_advance s clk t m rd v)
  have "leases_ok (training_jobs (AdvanceTrainingJobRound clk t m rd v s))
      (assignments (AdvanceTrainingJobRound clk t m rd v s))"
    using step_advance
    by (auto simp: AdvanceTrainingJobRound_def Let_def store_wf_def close_assignment_def advance_job_def
        job_ids_upd_last intro!: leases_ok_upd_all split: option.split elim!: leases_ok_mono)
  with step_advance show ?case
    using audit_ok_ops(13) [OF store_wf_audit, of s clk t m rd v] tasks_ok_advance [of s clk t m rd v]
      jobs_ok_advance [of s clk t m rd v]
    by (simp add: store_wf_def audit_ok_def frame_simps)
next
  case (step_worker s clk w)
  then show ?case
    using worker_table.upsert_distinct [of s clk w] audit_ok_ops(14) [OF store_wf_audit, of s clk w]
    by (simp add: store_wf_def audit_ok_def frame_simps)
next
  case (step_lease_task s clk w as job d)
  then show ?case
    using tasks_ok_lease [of s clk w as job d] audit_ok_ops(15) [OF store_wf_audit, of s clk w as job d]
    by (simp add: store_wf_def audit_ok_def frame_simps)
next
  case (step_report s clk wi ki ts msg p')
  then show ?case
    using tasks_ok_report [of s clk wi ki ts msg p'] audit_ok_ops(16) [OF store_wf_audit, of s clk wi ki ts msg p']
    by (simp add: store_wf_def audit_ok_def frame_simps)
next
  case (step_heartbeat s clk wi ki msg)
  then show ?case
    using audit_ok_ops(17) [OF store_wf_audit, of s clk wi ki msg]
    by (simp add: store_wf_def audit_ok_def frame_simps)
qed

lemma reachable_wf: "reachable_store s \<Longrightarrow> store_wf s"
  by (induction rule: reachable_store.induct) (auto intro: store_wf_empty store_step_wf)

section \<open>The life of a lease\<close>

text \<open>The statuses an assignment takes and the only changes between them.\<close>

inductive lease_status_step :: "string \<Rightarrow> string \<Rightarrow> bool" where
  leased_expired: "lease_status_step ''leased'' ''expired''"
| leased_submitted: "lease_status_step ''leased'' ''submitted''"
| leased_missed: "lease_status_step ''leased'' ''missed''"
| submitted_aggregated: "lease_status_step ''submitted'' ''aggregated''"

inductive_simps lease_status_from_leased: "lease_status_step ''leased'' st"

inductive_simps lease_status_from_submitted: "lease_status_step ''submitted'' st"

inductive_cases lease_status_from_expired: "lease_status_step ''expired'' st"

inductive_cases lease_status_from_missed: "lease_status_step ''missed'' st"

inductive_cases lease_status_from_aggregated: "lease_status_step ''aggregated'' st"

definition same_lease :: "PersistedAssignmentLease \<Rightarrow> PersistedAssignmentLease \<Rightarrow> bool" where
  "same_lease a b \<longleftrightarrow> as_assignment_id b = as_assignment_id a \<and> as_job_id b = as_job_id a \<and>
     as_tenant_id b = as_tenant_id a \<and> as_model_id b = as_model_id a \<and>
     as_dataset_id b = as_dataset_id a \<and> as_client_id b = as_client_id a \<and>
     as_round_index b = as_round_index a \<and> as_base_model_version b = as_base_model_version a \<and>
     as_issued_at b = as_issued_at a \<and> as_expires_at b = as_expires_at a"

definition lease_evolves :: "PersistedAssignmentLease \<Rightarrow> PersistedAssignmentLease \<Rightarrow> bool" where
  "lease_evolves a b \<longleftrightarrow> same_lease a b \<and> lease_status_step\<^sup>*\<^sup>* (as_status a) (as_status b)"

lemma lease_evolves_refl [simp, intro]: "lease_evolves a a"
  by (simp add: lease_evolves_def same_lease_def)

lemma lease_evolves_trans: "lease_evolves a b \<Longrightarrow> lease_evolves b c \<Longrightarrow> lease_evolves a c"
  unfolding lease_evolves_def same_lease_def by (metis rtranclp_trans)

lemma grows_lease_trans:
  "grows lease_evolves as bs \<Longrightarrow> grows lease_evolves bs cs \<Longrightarrow> grows lease_evolves as cs"
  by (erule (1) grows_trans) (rule lease_evolves_trans)

lemma grows_lease_refl [simp, intro]: "grows lease_evolves as as"
  by (rule grows_refl) simp

lemma grows_expire:
  "grows lease_evolves as (upd_all (lease_lapsed now) (expire_lease now) as)"
  by (rule grows_upd_all)
    (auto simp: lease_evolves_def same_lease_def expire_lease_def lease_lapsed_def
      intro!: r_into_rtranclp lease_status_step.intros)

lemma check_good_status:
  assumes "CheckAssignmentSubmission now t m c ji ai rd b s = LeaseGood a"
  shows "find (\<lambda>a. as_assignment_id a = ai) (assignments s) = Some a \<and> as_status a = ''leased'' \<and>
    as_client_id a = c \<and> as_tenant_id a = t \<and> as_model_id a = m \<and> as_round_index a = rd \<and>
    (as_expires_at a = '''' \<or> now < as_expires_at a)"
  using assms by (auto simp: CheckAssignmentSubmission_def split: option.splits if_splits)

lemma check_overdue_status:
  assumes "CheckAssignmentSubmission now t m c ji ai rd b s = LeaseOverdue"
  obtains a where "find (\<lambda>a. as_assignment_id a = ai) (assignments s) = Some a" "lease_lapsed now a"
  using assms
  by (auto simp: CheckAssignmentSubmission_def lease_lapsed_def split: option.splits if_splits)

text \<open>Expiring first leaves no overdue lease to find.\<close>

lemma not_lapsed_after_expire:
  "a \<in> set (upd_all (lease_lapsed now) (expire_lease now) as) \<Longrightarrow> \<not> lease_lapsed now a"
  by (auto simp: upd_all_def lease_lapsed_def expire_lease_def)

lemma check_never_overdue:
  "CheckAssignmentSubmission now t m c ji ai rd b (ExpireAssignmentsLocked now s) \<noteq> LeaseOverdue"
proof
  assume "CheckAssignmentSubmission now t m c ji ai rd b (ExpireAssignmentsLocked now s) = LeaseOverdue"
  then obtain a where "find (\<lambda>a. as_assignment_id a = ai)
      (assignments (ExpireAssignmentsLocked now s)) = Some a" "lease_lapsed now a"
    by (rule check_overdue_status)
  with not_lapsed_after_expire show False by (auto dest: find_SomeD)
qed

lemma leases_grow_validate:
  "grows lease_evolves (assignments s)
     (assignments (snd (ValidateTrainingAssignmentSubmission clk t m c ji ai rd b s)))"
  using check_never_overdue [of "CurrentTimestamp (clk 0)" "NormalizeTenant t" "NormalizeModel m" c ji ai rd b s]
  by (auto simp: ValidateTrainingAssignmentSubmission_def Let_def grows_expire
      split: submission_check.split)

lemma leases_grow_accept:
  "grows lease_evolves (assignments s)
     (assignments (snd (AcceptTrainingAssignmentSubmission clk t m c ji ai rd b s)))"
proof -
  let ?now = "CurrentTimestamp (clk 0)"
  let ?s = "ExpireAssignmentsLocked ?now s"
  let ?f = "\<lambda>a. a\<lparr>as_status := ''submitted'', as_updated_at := ?now, as_detail := ''Client submitted weights''\<rparr>"
  have "grows lease_evolves (assignments ?s) (upd_first (\<lambda>a. as_assignment_id a = ai) ?f (assignments ?s))"
    if "CheckAssignmentSubmission ?now (NormalizeTenant t) (NormalizeModel m) c ji ai rd b ?s = LeaseGood a" for a
  proof (rule grows_upd_found)
    fix x assume "find (\<lambda>a. as_assignment_id a = ai) (assignments ?s) = Some x"
    with check_good_status [OF that] have "as_status x = ''leased''" by simp
    then show "lease_evolves x (?f x)"
      by (auto simp: lease_evolves_def same_lease_def intro!: r_into_rtranclp lease_status_step.intros)
  qed simp
  with grows_lease_trans [OF grows_expire [of "assignments s" ?now]]
    check_never_overdue [of ?now "NormalizeTenant t" "NormalizeModel m" c ji ai rd b s]
  show ?thesis
    by (auto simp: AcceptTrainingAssignmentSubmission_def Let_def grows_expire split: submission_check.split)
qed

lemma leases_grow_advance:
  "grows lease_evolves (assignments s) (assignments (AdvanceTrainingJobRound clk t m rd v s))"
  by (auto simp: AdvanceTrainingJobRound_def Let_def close_assignment_def lease_evolves_def same_lease_def
      intro!: grows_upd_all r_into_rtranclp lease_status_step.intros split: option.split)

lemma leases_grow_lease:
  "grows lease_evolves (assignments s) (assignments (snd (LeaseTrainingAssignment clk t m c v dm dt s)))"
  by (cases rule: LeaseTrainingAssignment_cases [of t m s clk c v dm dt])
    (auto simp: grows_expire intro: grows_append)

text \<open>Every step moves every lease along its life only, and new leases are appended.\<close>

lemma store_step_leases: "store_step s s' \<Longrightarrow> grows lease_evolves (assignments s) (assignments s')"
  by (induction rule: store_step.induct)
    (auto simp: frame_simps intro: leases_grow_lease leases_grow_validate leases_grow_accept leases_grow_advance)

lemma store_run_leases: "store_step\<^sup>*\<^sup>* s s' \<Longrightarrow> grows lease_evolves (assignments s) (assignments s')"
  by (induction rule: rtranclp_induct) (auto intro: grows_lease_trans store_step_leases)

lemma lease_terminal:
  assumes "lease_status_step\<^sup>*\<^sup>* st st'" and "st \<in> {''expired'', ''missed'', ''aggregated''}"
  shows "st' = st"
  using assms
  by (induction rule: rtranclp_induct)
    (auto elim: lease_status_from_expired lease_status_from_missed lease_status_from_aggregated)

lemma lease_submitted_run:
  assumes "lease_status_step\<^sup>*\<^sup>* ''submitted'' st'"
  shows "st' = ''submitted'' \<or> st' = ''aggregated''"
  using assms
  by (induction rule: rtranclp_induct)
    (auto simp: lease_status_from_submitted elim: lease_status_from_aggregated)

end
