(* ===== verification/Store_Properties.thy ===== *)
theory Store_Properties
  imports Store_Steps
begin

text \<open>
  What clients of the state store rely on: the catalog of models and its rollback, the leasing
  protocol (capacity, one lease per client and round, a lease accepted at most once, its deadline),
  the rounds of a job, the audit trail, and what is on disk after each operation.
\<close>

section \<open>Supporting lemmas: leases\<close>

lemma find_strengthen:
  "find P xs = Some a \<Longrightarrow> Q a \<Longrightarrow> (\<And>x. x \<in> set xs \<Longrightarrow> Q x \<Longrightarrow> P x) \<Longrightarrow> find Q xs = Some a"
  by (induction xs) (auto split: if_splits)

lemma find_expired:
  assumes "\<And>x. Q x \<Longrightarrow> \<not> lease_lapsed now x \<and> as_status x = ''leased''"
  shows "find Q (upd_all (lease_lapsed now) (expire_lease now) as) = find Q as"
proof (induction as)
  case (Cons a as)
  have "\<not> Q (expire_lease now a)" using assms [of "expire_lease now a"] by auto
  with Cons assms show ?case by (auto simp: upd_all_def)
qed (simp add: upd_all_def)

lemma live_lease_leased: "live_lease now j r a \<Longrightarrow> as_status a = ''leased'' \<and> now < as_expires_at a"
  by (simp add: live_lease_def)

lemma live_lease_not_lapsed: "live_lease now j r a \<Longrightarrow> \<not> lease_lapsed now a"
  by (auto simp: live_lease_def lease_lapsed_def)

lemma live_lease_earlier: "live_lease now' j r a \<Longrightarrow> now \<le> now' \<Longrightarrow> live_lease now j r a"
  by (auto simp: live_lease_def)

lemma live_lease_expire_count:
  "count_where (live_lease now j r) (upd_all (lease_lapsed now) (expire_lease now) as) =
   count_where (live_lease now j r) as"
  by (rule count_where_upd_all_same) (auto simp: live_lease_def lease_lapsed_def)

lemma round_capacity_start [simp]: "round_capacity (start_job now j) dm = round_capacity j dm"
  by (simp add: round_capacity_def)

lemma start_job_again [simp]: "start_job now' (start_job now j) = start_job now j"
  by (simp add: start_job_def)

lemma active_start_job [simp]: "active_job_in t m (start_job now j) = active_job_in t m j"
  by (auto simp: active_job_in_def start_job_def IsActiveJobStatus_def)

lemma new_lease_simps [simp]:
  "as_job_id (new_lease clk t m c v dt j) = jb_job_id j"
  "as_client_id (new_lease clk t m c v dt j) = c"
  "as_round_index (new_lease clk t m c v dt j) = max 1 (jb_current_round j)"
  "as_status (new_lease clk t m c v dt j) = ''leased''"
  "as_tenant_id (new_lease clk t m c v dt j) = t" "as_model_id (new_lease clk t m c v dt j) = m"
  "as_base_model_version (new_lease clk t m c v dt j) = v"
  by (simp_all add: new_lease_def Let_def)

lemma lease_capacity_bound:
  assumes "LeaseTrainingAssignment clk t m c v dm dt s = (Some (a, job, d), s')"
  shows "a \<in> set (assignments s') \<and> as_client_id a = c \<and> as_job_id a = jb_job_id job \<and>
    as_round_index a = max 1 (jb_current_round job) \<and> as_status a = ''leased'' \<and>
    int (count_where (live_lease (CurrentTimestamp (clk 0)) (jb_job_id job) (max 1 (jb_current_round job))) (assignments s'))
      \<le> max (round_capacity job dm)
          (int (count_where (live_lease (CurrentTimestamp (clk 0)) (jb_job_id job) (max 1 (jb_current_round job))) (assignments s)))"
proof -
  have fs: "fst (LeaseTrainingAssignment clk t m c v dm dt s) = Some (a, job, d)"
    "snd (LeaseTrainingAssignment clk t m c v dm dt s) = s'" using assms by auto
  show ?thesis
  proof (cases rule: LeaseTrainingAssignment_cases [of t m s clk c v dm dt])
    case (again job0 a0)
    have a0: "a0 \<in> set (assignments s')" "as_client_id a0 = c"
      "live_lease (CurrentTimestamp (clk 0)) (jb_job_id job0) (max 1 (jb_current_round job0)) a0"
      using find_SomeD [OF again(3)] again(6) fs(2) by auto
    have "a = a0" "job = start_job (CurrentTimestamp (clk 0)) job0" using again(4) fs(1) by auto
    moreover have "as_job_id a0 = jb_job_id job0 \<and> as_round_index a0 = max 1 (jb_current_round job0) \<and>
        as_status a0 = ''leased''"
      using a0(3) unfolding live_lease_def by simp
    ultimately show ?thesis using a0(1,2) again(6) fs(2) by (simp add: live_lease_expire_count)
  next
    case (issued job0)
    then show ?thesis using fs by (auto simp: live_lease_expire_count)
  qed (use fs in auto)
qed

lemma lease_again:
  assumes first: "LeaseTrainingAssignment clk t m c v dm dt s = (Some (a, job, d), s')"
    and later: "CurrentTimestamp (clk 0) \<le> CurrentTimestamp (clk' 0)"
    and live: "CurrentTimestamp (clk' 0) < as_expires_at a"
  shows "fst (LeaseTrainingAssignment clk' t m c v' dm' dt' s') = Some (a, job, d)"
proof -
  let ?now = "CurrentTimestamp (clk 0)" and ?now' = "CurrentTimestamp (clk' 0)"
  let ?t = "NormalizeTenant t" and ?m = "NormalizeModel m"
  let ?P = "active_job_in ?t ?m"
  let ?as = "upd_all (lease_lapsed ?now) (expire_lease ?now) (assignments s)"
  let ?Q = "\<lambda>n j a. live_lease n (jb_job_id j) (max 1 (jb_current_round j)) a \<and> as_client_id a = c"
  have fs: "fst (LeaseTrainingAssignment clk t m c v dm dt s) = Some (a, job, d)"
    "snd (LeaseTrainingAssignment clk t m c v dm dt s) = s'" using first by auto
  obtain job0 where j0: "rfind ?P (training_jobs s) = Some job0"
    and open0: "\<not> (0 < jb_target_rounds job0 \<and> jb_target_rounds job0 \<le> jb_completed_rounds job0)"
    and job: "job = start_job ?now job0"
    and d: "d = find (dataset_in ?t ?m (jb_dataset_id job0)) (datasets s)"
    and js: "training_jobs s' = upd_last ?P (start_job ?now) (training_jobs s)"
    and found: "find (?Q ?now job0) (assignments s') = Some a \<or>
      (\<exists>bs. assignments s' = bs @ [a] \<and> find (?Q ?now job0) bs = None \<and> ?Q ?now' job0 a)"
  proof (cases rule: LeaseTrainingAssignment_cases [of t m s clk c v dm dt])
    case (again job0 a0)
    with fs show ?thesis by (intro that) auto
  next
    case (issued job0)
    have "?Q ?now' job0 a" using issued fs live by (auto simp: live_lease_def)
    with issued fs show ?thesis by (intro that) auto
  qed (use fs in auto)
  have Qa: "?Q ?now' job0 a"
    using found live by (auto dest!: find_SomeD simp: live_lease_def)
  have here: "find (?Q ?now' job0) (assignments s') = Some a"
  proof -
    have weaker: "?Q ?now job0 x" if "?Q ?now' job0 x" for x
      using that later live_lease_earlier by blast
    from found show ?thesis
    proof
      assume "find (?Q ?now job0) (assignments s') = Some a"
      then show ?thesis by (rule find_strengthen) (use Qa weaker in auto)
    next
      assume "\<exists>bs. assignments s' = bs @ [a] \<and> find (?Q ?now job0) bs = None \<and> ?Q ?now' job0 a"
      then obtain bs where bs: "assignments s' = bs @ [a]" "find (?Q ?now job0) bs = None" by blast
      then have "find (?Q ?now' job0) bs = None"
        using weaker unfolding find_None_iff by blast
      with bs Qa show ?thesis by (simp add: find_append)
    qed
  qed
  have here': "find (?Q ?now' (start_job ?now job0))
      (upd_all (lease_lapsed ?now') (expire_lease ?now') (assignments s')) = Some a"
    unfolding start_job_simps
    by (subst find_expired) (use here live_lease_not_lapsed live_lease_leased in blast)+
  have ds: "datasets s' = datasets s" using fs frame_simps by metis
  have rf: "rfind ?P (training_jobs s') = Some (start_job ?now job0)"
    unfolding js by (subst rfind_upd_last) (simp_all add: j0)
  show ?thesis
  proof (cases rule: LeaseTrainingAssignment_cases [of t m s' clk' c v' dm' dt'])
    case (again job1 a1)
    then show ?thesis using rf here' job d ds by (auto simp: start_job_simps)
  qed (use rf here' open0 in auto)
qed

lemma lease_deadline:
  assumes "as = new_lease clk t m c v dt job"
    and "jb_assignment_ttl_seconds job > 0"
    and "c_year (gmtime (clk 1 + 1000 * nat (jb_assignment_ttl_seconds job))) < 10000"
    and "c_year (gmtime b) < 10000"
  shows "lease_lapsed (CurrentTimestamp b) as \<longleftrightarrow> clk 1 + 1000 * nat (jb_assignment_ttl_seconds job) \<le> b"
proof -
  have e: "as_expires_at as = CurrentTimestamp (clk 1 + 1000 * nat (jb_assignment_ttl_seconds job))"
    using assms(1,2) by (simp add: new_lease_def Let_def TimestampAfterSeconds_eq max_def)
  have st: "as_status as = ''leased''" using assms(1) by simp
  show ?thesis
    unfolding lease_lapsed_def e st using timestamp_le_iff [OF assms(3,4)] by simp
qed

section \<open>Supporting lemmas: submissions\<close>

lemma grows_find_id:
  assumes "grows lease_evolves as bs" and "find (\<lambda>a. as_assignment_id a = i) as = Some a"
  obtains b where "find (\<lambda>a. as_assignment_id a = i) bs = Some b" "lease_evolves a b"
proof -
  from assms(2) obtain n where n: "n < length as" "as_assignment_id (as ! n) = i" "a = as ! n"
    and before: "\<forall>k<n. as_assignment_id (as ! k) \<noteq> i"
    unfolding find_Some_iff by blast
  have same: "as_assignment_id (bs ! k) = as_assignment_id (as ! k)" if "k < length as" for k
    using assms(1) that by (auto simp: grows_def lease_evolves_def same_lease_def)
  have "n < length bs" using assms(1) n by (auto simp: grows_def)
  moreover have "\<forall>k<n. as_assignment_id (bs ! k) \<noteq> i" using before n same by auto
  ultimately have "find (\<lambda>a. as_assignment_id a = i) bs = Some (bs ! n)"
    unfolding find_Some_iff using n same by auto
  moreover have "lease_evolves a (bs ! n)" using assms(1) n by (auto simp: grows_def)
  ultimately show ?thesis by (rule that)
qed

lemma check_closed_lease:
  assumes "rfind (active_job_in t m) (training_jobs s) \<noteq> None"
    and "find (\<lambda>a. as_assignment_id a = ai) (assignments s) = Some a" and "as_status a \<noteq> ''leased''"
  shows "\<exists>msg. CheckAssignmentSubmission now t m c ji ai rd b s = Rejected msg"
  using assms by (auto simp: CheckAssignmentSubmission_def)

lemma accept_good_cases:
  assumes "AcceptTrainingAssignmentSubmission clk t m c ji ai rd b s = (Inr (), s')"
    and "GetActiveTrainingJob t m s \<noteq> None"
  obtains a where "CheckAssignmentSubmission (CurrentTimestamp (clk 0)) (NormalizeTenant t) (NormalizeModel m)
      c ji ai rd b (ExpireAssignmentsLocked (CurrentTimestamp (clk 0)) s) = LeaseGood a"
    "find (\<lambda>a. as_assignment_id a = ai) (assignments s') = Some (a\<lparr>as_status := ''submitted'',
       as_updated_at := CurrentTimestamp (clk 0), as_detail := ''Client submitted weights''\<rparr>)"
proof -
  let ?c = "CheckAssignmentSubmission (CurrentTimestamp (clk 0)) (NormalizeTenant t) (NormalizeModel m)
      c ji ai rd b (ExpireAssignmentsLocked (CurrentTimestamp (clk 0)) s)"
  have "?c \<noteq> NoActiveJob"
    using assms(2) by (auto simp: GetActiveTrainingJob_def CheckAssignmentSubmission_def
        split: option.splits if_splits)
  with assms(1) obtain a where a: "?c = LeaseGood a"
    by (auto simp: AcceptTrainingAssignmentSubmission_def Let_def split: submission_check.splits)
  have s': "s' = snd (AcceptTrainingAssignmentSubmission clk t m c ji ai rd b s)"
    using assms(1) by simp
  have as': "assignments s' = upd_first (\<lambda>a. as_assignment_id a = ai)
      (\<lambda>a. a\<lparr>as_status := ''submitted'', as_updated_at := CurrentTimestamp (clk 0),
         as_detail := ''Client submitted weights''\<rparr>)
      (assignments (ExpireAssignmentsLocked (CurrentTimestamp (clk 0)) s))"
    unfolding s' by (simp add: AcceptTrainingAssignmentSubmission_def Let_def a)
  have "find (\<lambda>a. as_assignment_id a = ai) (assignments s') = Some (a\<lparr>as_status := ''submitted'',
       as_updated_at := CurrentTimestamp (clk 0), as_detail := ''Client submitted weights''\<rparr>)"
    unfolding as' by (subst find_upd_first) (use check_good_status [OF a] in simp_all)
  with a show ?thesis by (rule that)
qed

lemma accept_once:
  assumes acc: "AcceptTrainingAssignmentSubmission clk t m c ji ai rd b s = (Inr (), s')"
    and job: "GetActiveTrainingJob t m s \<noteq> None"
    and run: "store_step\<^sup>*\<^sup>* s' s''"
    and job': "GetActiveTrainingJob t' m' s'' \<noteq> None"
  shows "\<exists>msg. fst (AcceptTrainingAssignmentSubmission clk' t' m' c' ji' ai rd' b' s'') = Inl msg"
proof -
  let ?e = "ExpireAssignmentsLocked (CurrentTimestamp (clk' 0)) s''"
  obtain a where fa: "find (\<lambda>a. as_assignment_id a = ai) (assignments s') = Some a"
    and st: "as_status a = ''submitted''"
    by (rule accept_good_cases [OF acc job]) simp
  have gr: "grows lease_evolves (assignments s') (assignments ?e)"
    using grows_lease_trans [OF store_run_leases [OF run] grows_expire] by simp
  obtain e where e: "find (\<lambda>a. as_assignment_id a = ai) (assignments ?e) = Some e"
    and ev: "lease_evolves a e"
    by (rule grows_find_id [OF gr fa])
  have sub: "lease_status_step\<^sup>*\<^sup>* ''submitted'' (as_status e)"
    using ev st unfolding lease_evolves_def by simp
  have nl: "as_status e \<noteq> ''leased''" using lease_submitted_run [OF sub] by auto
  have active: "rfind (active_job_in (NormalizeTenant t') (NormalizeModel m')) (training_jobs ?e) \<noteq> None"
    using job' by (simp add: GetActiveTrainingJob_def)
  obtain msg where "CheckAssignmentSubmission (CurrentTimestamp (clk' 0)) (NormalizeTenant t')
      (NormalizeModel m') c' ji' ai rd' b' ?e = Rejected msg"
    using check_closed_lease [OF active e nl] by metis
  then show ?thesis by (simp add: AcceptTrainingAssignmentSubmission_def Let_def)
qed

section \<open>Supporting lemmas: rounds and jobs\<close>

lemma advance_assignments:
  assumes "GetActiveTrainingJob t m s = Some j"
  shows "assignments (AdvanceTrainingJobRound clk t m rd v s) =
      upd_all (\<lambda>a. as_job_id a = jb_job_id j \<and> as_round_index a = rd)
        (close_assignment (CurrentTimestamp (clk 0))) (assignments s)"
  using assms by (simp add: GetActiveTrainingJob_def AdvanceTrainingJobRound_def Let_def)

lemma close_assignment_status:
  "as_status (close_assignment now a) \<noteq> ''leased''" "as_status (close_assignment now a) \<noteq> ''submitted''"
  by (simp_all add: close_assignment_def)

lemma advance_closes_round:
  assumes "GetActiveTrainingJob t m s = Some j"
  shows "\<forall>a\<in>set (assignments (AdvanceTrainingJobRound clk t m rd v s)).
      as_job_id a = jb_job_id j \<and> as_round_index a = rd \<longrightarrow> as_status a \<noteq> ''leased'' \<and> as_status a \<noteq> ''submitted''"
  unfolding advance_assignments [OF assms] upd_all_def using close_assignment_status by auto

lemma advance_job_record:
  assumes "GetActiveTrainingJob t m s = Some j"
  shows "\<exists>j'\<in>set (training_jobs (AdvanceTrainingJobRound clk t m rd v s)).
      jb_job_id j' = jb_job_id j \<and> jb_completed_rounds j' = jb_completed_rounds j + 1 \<and>
      jb_current_round j' = rd + 1 \<and> jb_active_model_version j' = v \<and>
      jb_status j' = (if 0 < jb_target_rounds j \<and> jb_target_rounds j \<le> jb_completed_rounds j + 1
                      then ''completed'' else ''running'')"
proof -
  let ?P = "active_job_in (NormalizeTenant t) (NormalizeModel m)"
  let ?f = "advance_job (CurrentTimestamp (clk 0)) rd v"
  have f: "rfind ?P (training_jobs s) = Some j" using assms by (simp add: GetActiveTrainingJob_def)
  have "?f j \<in> set (upd_last ?P ?f (training_jobs s))"
  proof -
    have "find ?P (rev (training_jobs s)) = Some j" using f by (simp add: rfind_def)
    then have "?f j \<in> set (upd_first ?P ?f (rev (training_jobs s)))"
    proof (induction "rev (training_jobs s)" arbitrary: s)
      case (Cons x xs)
      have "find P ys = Some y \<Longrightarrow> g y \<in> set (upd_first P g ys)" for P g ys and y :: PersistedTrainingJobRecord
        by (induction ys) (auto split: if_splits)
      with Cons.prems show ?case by blast
    qed simp
    then show ?thesis by (simp add: upd_last_def)
  qed
  moreover have "training_jobs (AdvanceTrainingJobRound clk t m rd v s) = upd_last ?P ?f (training_jobs s)"
    using f by (simp add: AdvanceTrainingJobRound_def Let_def)
  ultimately show ?thesis
    by (intro bexI [of _ "?f j"]) (simp_all add: advance_job_def Let_def)
qed

lemma create_job_active:
  assumes "CreateTrainingJob clk r s = (j, s')" and "IsActiveJobStatus (jb_status j)"
  shows "GetActiveTrainingJob (jb_tenant_id r) (jb_model_id r) s' = Some j"
proof -
  have js: "\<exists>old. training_jobs s' = old @ [j]" and
    sc: "jb_tenant_id j = NormalizeTenant (jb_tenant_id r)" "jb_model_id j = NormalizeModel (jb_model_id r)"
    using assms(1) by (auto simp: CreateTrainingJob_def Let_def)
  then show ?thesis
    using assms(2) by (auto simp: GetActiveTrainingJob_def rfind_def active_job_in_def)
qed

section \<open>Supporting lemmas: durability\<close>

lemma in_sync_ops:
  "in_sync (RecordClientRegistration clk r s)"
  "in_sync (UpdateClientLastRound t m c rd s)"
  "in_sync (RecordWeightSubmission clk t m c rd s)"
  "in_sync (snd (RecordAggregatedModel clk t m rd p st kv cc wd s))"
  "in_sync (RecordAuditEvent clk e s)"
  "in_sync (snd (UpsertDataset clk d s))"
  "in_sync (snd (CreateTrainingJob clk j s))"
  "in_sync (snd (UpsertWorker clk w s))"
  by (simp_all add: RecordClientRegistration_def UpdateClientLastRound_def RecordWeightSubmission_def
      RecordAggregatedModel_def RecordAuditEvent_def UpsertDataset_def CreateTrainingJob_def
      UpsertWorker_def Let_def split: option.split)

lemma in_sync_or_same:
  "in_sync (snd (RollbackModel clk t m v s)) \<or> snd (RollbackModel clk t m v s) = s \<or> rest"
  "in_sync (UpdateActiveKeyVersion clk kv s) \<or> UpdateActiveKeyVersion clk kv s = s \<or> rest"
  "in_sync (AdvanceTrainingJobRound clk t m rd v s) \<or> AdvanceTrainingJobRound clk t m rd v s = s \<or> rest"
  "in_sync (snd (LeaseWorkerTask clk w as job d s)) \<or> snd (LeaseWorkerTask clk w as job d s) = s \<or> rest"
  "in_sync (snd (UpdateWorkerTaskStatus clk wi ki ts msg p' s)) \<or> snd (UpdateWorkerTaskStatus clk wi ki ts msg p' s) = s \<or> rest"
  "in_sync (snd (RecordWorkerHeartbeat clk wi ki msg s)) \<or> snd (RecordWorkerHeartbeat clk wi ki msg s) = s \<or> rest"
  by (simp_all add: RollbackModel_def UpdateActiveKeyVersion_def AdvanceTrainingJobRound_def
      LeaseWorkerTask_def UpdateWorkerTaskStatus_def RecordWorkerHeartbeat_def Let_def split: option.split)

lemma step_durable:
  assumes "store_step s s'"
  shows "in_sync s' \<or> s' = s \<or> (\<exists>now. s' = ExpireAssignmentsLocked now s)"
  using assms
proof (cases rule: store_step.cases)
  case (step_lease clk t m c v dm dt)
  then show ?thesis by (auto simp: LeaseTrainingAssignment_def Let_def split: option.split)
next
  case (step_validate clk t m c ji a rd b)
  then show ?thesis
    by (auto simp: ValidateTrainingAssignmentSubmission_def Let_def split: submission_check.split)
next
  case (step_accept clk t m c ji a rd b)
  then show ?thesis
    by (auto simp: AcceptTrainingAssignmentSubmission_def Let_def split: submission_check.split)
qed (simp_all only: in_sync_ops in_sync_or_same simp_thms)

text \<open>What the file misses is only the expiry of leases, which the next sweep finds again.\<close>

lemma reachable_durable:
  "reachable_store s \<Longrightarrow> \<exists>s0 nows. in_sync s0 \<and> s = fold ExpireAssignmentsLocked nows s0"
proof (induction rule: reachable_store.induct)
  case (reach_start path retention)
  show ?case by (intro exI [of _ "SaveLocked (StateStore path retention None)"] exI [of _ "[]"]) simp
next
  case (reach_step s s')
  then obtain s0 nows where s0: "in_sync s0" "s = fold ExpireAssignmentsLocked nows s0" by blast
  from step_durable [OF reach_step.hyps(2)] show ?case
  proof (elim disjE exE)
    assume "in_sync s'"
    then show ?thesis by (intro exI [of _ s'] exI [of _ "[]"]) simp
  next
    assume "s' = s"
    with s0 show ?thesis by blast
  next
    fix now assume "s' = ExpireAssignmentsLocked now s"
    with s0 have "s' = fold ExpireAssignmentsLocked (nows @ [now]) s0" by simp
    with s0(1) show ?thesis by blast
  qed
qed

section \<open>Supporting lemmas: rollback, clients, audit\<close>

lemma rollback_none_iff:
  "fst (RollbackModel clk t m v s) = None \<longleftrightarrow>
   (\<forall>r\<in>set (models s). model_in (NormalizeTenant t) (NormalizeModel m) r \<longrightarrow> md_version r \<noteq> v)"
proof -
  have "fst (RollbackModel clk t m v s) = None \<longleftrightarrow>
      find (\<lambda>r. model_in (NormalizeTenant t) (NormalizeModel m) r \<and> md_version r = v) (models s) = None"
    by (simp add: RollbackModel_def Let_def split: option.split)
  then show ?thesis by (auto simp: find_None_iff)
qed

lemma find_upd_first_skip:
  "(\<And>r. P r \<Longrightarrow> \<not> Q r \<and> \<not> Q (f r)) \<Longrightarrow> find Q (upd_first P f rs) = find Q rs"
  by (induction rs) auto

lemma rollback_other_scope:
  assumes "(NormalizeTenant t', NormalizeModel m') \<noteq> (NormalizeTenant t, NormalizeModel m)"
  shows "GetActiveModelRecord t' m' (snd (RollbackModel clk t m v s)) = GetActiveModelRecord t' m' s"
proof -
  let ?a = "active_in (NormalizeTenant t') (NormalizeModel m')"
  have "find ?a (upd_first (\<lambda>r. model_in (NormalizeTenant t) (NormalizeModel m) r \<and> md_version r = v)
      (\<lambda>r. r\<lparr>md_active := True\<rparr>) (deactivate_scope (NormalizeTenant t) (NormalizeModel m) (models s))) =
    find ?a (deactivate_scope (NormalizeTenant t) (NormalizeModel m) (models s))"
    by (rule find_upd_first_skip) (use assms in \<open>auto dest: active_in_modelD model_in_scope\<close>)
  then show ?thesis using find_active_other [OF assms, of "models s"]
    by (simp add: active_record_unfold RollbackModel_def Let_def split: option.split)
qed

definition client_evolves :: "PersistedClientRecord \<Rightarrow> PersistedClientRecord \<Rightarrow> bool" where
  "client_evolves a b \<longleftrightarrow> client_key b = client_key a \<and> cl_registered_at b = cl_registered_at a \<and>
     (cl_peer_identity a \<noteq> '''' \<longrightarrow> cl_peer_identity b = cl_peer_identity a) \<and>
     cl_last_active_round a \<le> cl_last_active_round b"

lemma grows_client_trans:
  "grows client_evolves as bs \<Longrightarrow> grows client_evolves bs cs \<Longrightarrow> grows client_evolves as cs"
  by (erule (1) grows_trans) (auto simp: client_evolves_def)

lemma grows_client_refl [simp, intro]: "grows client_evolves as as"
  by (rule grows_refl) (simp add: client_evolves_def)

lemma clients_grow_register:
  "grows client_evolves (clients s) (clients (RecordClientRegistration clk r s))"
  unfolding RecordClientRegistration_clients
  by (auto simp: client_evolves_def client_key_def intro: grows_append grows_refl
      intro!: grows_upd_found split: option.split)

lemma clients_grow_last_round:
  "grows client_evolves (clients s) (clients (UpdateClientLastRound t m c rd s))"
  by (simp add: UpdateClientLastRound_def)
    (rule grows_upd_found; simp add: client_evolves_def client_key_def)

lemma store_step_clients: "store_step s s' \<Longrightarrow> grows client_evolves (clients s) (clients s')"
  by (induction rule: store_step.induct)
    (simp_all add: frame_simps clients_grow_register clients_grow_last_round)

lemma store_run_clients: "store_step\<^sup>*\<^sup>* s s' \<Longrightarrow> grows client_evolves (clients s) (clients s')"
  by (induction rule: rtranclp_induct) (auto intro: grows_client_trans store_step_clients)

lemma push_audit_list:
  "1 \<le> audit_retention s \<Longrightarrow>
   ListAuditEvents n (push_audit e s) = take n (e # ListAuditEvents (audit_retention s - 1) s)"
proof -
  assume r: "1 \<le> audit_retention s"
  have "rev (audit_events (push_audit e s)) = take (audit_retention s) (rev (audit_events s @ [e]))"
    unfolding push_audit_events rev_drop
    by (cases "audit_retention s \<le> Suc (length (audit_events s))") simp_all
  also have "\<dots> = e # take (audit_retention s - 1) (rev (audit_events s))"
    using r by (cases "audit_retention s") auto
  finally show ?thesis by (simp add: ListAuditEvents_take)
qed

lemma ListAuditEvents_save [simp]: "ListAuditEvents n (SaveLocked s) = ListAuditEvents n s"
  by (simp add: ListAuditEvents_def)

section \<open>Supporting lemmas: messages and superseded jobs\<close>

lemma accept_message:
  "fst (AcceptTrainingAssignmentSubmission clk t m c ji ai rd b s) \<noteq> Inl ''assignment lease expired''"
proof -
  let ?c = "CheckAssignmentSubmission (CurrentTimestamp (clk 0)) (NormalizeTenant t) (NormalizeModel m)
      c ji ai rd b (ExpireAssignmentsLocked (CurrentTimestamp (clk 0)) s)"
  have "?c \<noteq> Rejected ''assignment lease expired''" and "?c \<noteq> LeaseOverdue"
    by (simp add: CheckAssignmentSubmission_def split: option.split)
      (rule check_never_overdue)
  then show ?thesis
    by (cases ?c) (auto simp: AcceptTrainingAssignmentSubmission_def Let_def)
qed

lemma create_job_jobs:
  assumes "CreateTrainingJob clk r s = (j, s')"
  shows "training_jobs s' =
      upd_all (active_job_in (NormalizeTenant (jb_tenant_id r)) (NormalizeModel (jb_model_id r)))
        (\<lambda>j. j\<lparr>jb_status := ''superseded''\<rparr>) (training_jobs s) @ [j]"
    "jb_tenant_id j = NormalizeTenant (jb_tenant_id r)" "jb_model_id j = NormalizeModel (jb_model_id r)"
  using assms by (auto simp: CreateTrainingJob_def Let_def)

lemma create_job_count:
  assumes "CreateTrainingJob clk r s = (j, s')" and "IsActiveJobStatus (jb_status j)"
  shows "count_where (active_job_in (NormalizeTenant (jb_tenant_id r)) (NormalizeModel (jb_model_id r)))
    (training_jobs s') = 1"
proof -
  let ?P = "active_job_in (NormalizeTenant (jb_tenant_id r)) (NormalizeModel (jb_model_id r))"
  have "count_where ?P (upd_all ?P (\<lambda>j. j\<lparr>jb_status := ''superseded''\<rparr>) (training_jobs s)) = 0"
    by (rule count_where_upd_all_none) (auto simp: IsActiveJobStatus_def)
  then show ?thesis
    using create_job_jobs [OF assms(1)] assms(2) by (simp add: active_job_in_def)
qed

lemma create_job_other_scope:
  assumes "CreateTrainingJob clk r s = (j, s')"
  shows "\<forall>t m. (NormalizeTenant t, NormalizeModel m) \<noteq>
        (NormalizeTenant (jb_tenant_id r), NormalizeModel (jb_model_id r)) \<longrightarrow>
       GetActiveTrainingJob t m s' = GetActiveTrainingJob t m s"
proof (intro allI impI)
  fix t m
  let ?P = "active_job_in (NormalizeTenant (jb_tenant_id r)) (NormalizeModel (jb_model_id r))"
  let ?Q = "active_job_in (NormalizeTenant t) (NormalizeModel m)"
  assume ne: "(NormalizeTenant t, NormalizeModel m) \<noteq>
        (NormalizeTenant (jb_tenant_id r), NormalizeModel (jb_model_id r))"
  have skip: "rfind ?Q (upd_all ?P f js) = rfind ?Q js"
    if "\<And>x. jb_tenant_id (f x) = jb_tenant_id x \<and> jb_model_id (f x) = jb_model_id x" for f js
    using that ne unfolding rfind_def upd_all_def rev_map
    by (induction js rule: rev_induct) (auto simp: active_job_in_def)
  have "\<not> ?Q j" using create_job_jobs(2,3) [OF assms] ne by (auto simp: active_job_in_def)
  then show "GetActiveTrainingJob t m s' = GetActiveTrainingJob t m s"
    using skip [of "\<lambda>j. j\<lparr>jb_status := ''superseded''\<rparr>" "training_jobs s"]
    by (simp add: GetActiveTrainingJob_def create_job_jobs(1) [OF assms] rfind_def)
qed

end
