(* ===== verification/Store_Scenario.thy ===== *)
theory Store_Scenario
  imports Store_Properties
begin

text \<open>
  A concrete run of the state store, evaluated step by step: an empty store, a training job for
  one scope, a lease of its first round, the submission under that lease, and the aggregated
  model. The witnesses of the guarantees instantiate them on these stores.
\<close>

section \<open>Evaluating timestamps\<close>

lemma digit_simps [simp]:
  "digit 0 = CHR ''0''" "digit (Suc 0) = CHR ''1''" "digit 2 = CHR ''2''" "digit 3 = CHR ''3''"
  "digit 4 = CHR ''4''" "digit 5 = CHR ''5''" "digit 6 = CHR ''6''" "digit 7 = CHR ''7''"
  "digit 8 = CHR ''8''" "digit 9 = CHR ''9''"
  by (simp_all add: digit_def char_of_def bit_iff_odd)

lemmas timestamp_eval = CurrentTimestamp_def gmtime_def periods.simps year_length_def leap_year_def
  month_length_def format_civil_def setw0_def dec.simps Let_def

lemma replicate_two: "replicate 2 c = [c, c]"
  by (simp add: numeral_2_eq_2)

lemma timestamps:
  "CurrentTimestamp 0 = ''1970-01-01T00:00:00.000Z''"
  "CurrentTimestamp 1000 = ''1970-01-01T00:00:01.000Z''"
  "CurrentTimestamp 2000 = ''1970-01-01T00:00:02.000Z''"
  "CurrentTimestamp 61000 = ''1970-01-01T00:01:01.000Z''"
  by (simp_all add: timestamp_eval replicate_two)

section \<open>The run\<close>

lemma store_run_one: "store_step s s' \<Longrightarrow> store_step\<^sup>*\<^sup>* s s'"
  by (rule r_into_rtranclp)

definition demo_job :: PersistedTrainingJobRecord where
  "demo_job = \<lparr>jb_job_id = ''job-1'', jb_tenant_id = ''acme'', jb_model_id = ''cnn'',
     jb_dataset_id = ''mnist'', jb_target_rounds = 2, jb_planned_clients = 2,
     jb_min_clients_per_round = 1, jb_assignment_ttl_seconds = 60, jb_status = '''',
     jb_current_round = 0, jb_completed_rounds = 0, jb_active_model_version = 0,
     jb_created_at = '''', jb_activated_at = '''', jb_notes = ''''\<rparr>"

definition demo_empty :: state_store where
  "demo_empty = SaveLocked (StateStore ''state.json'' 100 None)"

definition demo_planned :: state_store where
  "demo_planned = snd (CreateTrainingJob (\<lambda>_. 0) demo_job demo_empty)"

definition demo_leased :: state_store where
  "demo_leased = snd (LeaseTrainingAssignment (\<lambda>_. 1000) ''acme'' ''cnn'' ''alice'' 0 1 60 demo_planned)"

definition demo_saved_job :: PersistedTrainingJobRecord where
  "demo_saved_job = demo_job\<lparr>jb_status := ''planned'', jb_current_round := 1,
     jb_created_at := CurrentTimestamp 0\<rparr>"

definition demo_lease :: PersistedAssignmentLease where
  "demo_lease = new_lease (\<lambda>_. 1000) ''acme'' ''cnn'' ''alice'' 0 60 demo_saved_job"

lemma demo_empty_tables [simp]:
  "clients demo_empty = []" "models demo_empty = []" "datasets demo_empty = []"
  "training_jobs demo_empty = []" "assignments demo_empty = []" "workers demo_empty = []"
  "worker_tasks demo_empty = []" "audit_events demo_empty = []" "audit_retention demo_empty = 100"
  by (simp_all add: demo_empty_def StateStore_def empty_image_def store_image.defs)

lemma demo_saved_job_simps [simp]:
  "jb_job_id demo_saved_job = ''job-1''" "jb_tenant_id demo_saved_job = ''acme''"
  "jb_model_id demo_saved_job = ''cnn''" "jb_dataset_id demo_saved_job = ''mnist''"
  "jb_target_rounds demo_saved_job = 2" "jb_planned_clients demo_saved_job = 2"
  "jb_min_clients_per_round demo_saved_job = 1" "jb_assignment_ttl_seconds demo_saved_job = 60"
  "jb_status demo_saved_job = ''planned''" "jb_current_round demo_saved_job = 1"
  "jb_completed_rounds demo_saved_job = 0"
  by (simp_all add: demo_saved_job_def demo_job_def)

lemma demo_create:
  "CreateTrainingJob (\<lambda>_. 0) demo_job demo_empty = (demo_saved_job, demo_planned)"
proof -
  have "fst (CreateTrainingJob (\<lambda>_. 0) demo_job demo_empty) = demo_saved_job"
    by (simp add: CreateTrainingJob_def Let_def demo_saved_job_def demo_job_def NormalizeTenant_def
        NormalizeModel_def)
  then show ?thesis by (simp add: demo_planned_def prod_eq_iff)
qed

lemma demo_planned_tables [simp]:
  "training_jobs demo_planned = [demo_saved_job]" "assignments demo_planned = []"
  "models demo_planned = []" "datasets demo_planned = []" "clients demo_planned = []"
  "worker_tasks demo_planned = []" "audit_retention demo_planned = 100"
  using demo_create
  by (simp_all add: demo_planned_def CreateTrainingJob_def Let_def upd_all_def frame_simps)

lemma demo_active [simp]:
  "active_job_in ''acme'' ''cnn'' demo_saved_job"
  "NormalizeTenant ''acme'' = ''acme''" "NormalizeModel ''cnn'' = ''cnn''"
  by (simp_all add: active_job_in_def IsActiveJobStatus_def NormalizeTenant_def NormalizeModel_def)

lemma demo_lease_call:
  "LeaseTrainingAssignment (\<lambda>_. 1000) ''acme'' ''cnn'' ''alice'' 0 1 60 demo_planned =
   (Some (demo_lease, start_job (CurrentTimestamp 1000) demo_saved_job, None), demo_leased)"
  "assignments demo_leased = [demo_lease]"
  "training_jobs demo_leased = [start_job (CurrentTimestamp 1000) demo_saved_job]"
proof -
  have "fst (LeaseTrainingAssignment (\<lambda>_. 1000) ''acme'' ''cnn'' ''alice'' 0 1 60 demo_planned) =
      Some (demo_lease, start_job (CurrentTimestamp 1000) demo_saved_job, None)"
    "assignments demo_leased = [demo_lease]"
    "training_jobs demo_leased = [start_job (CurrentTimestamp 1000) demo_saved_job]"
    by (simp_all add: demo_leased_def demo_lease_def LeaseTrainingAssignment_def Let_def rfind_def upd_all_def
        upd_last_def round_capacity_def new_lease_def)
  then show
    "LeaseTrainingAssignment (\<lambda>_. 1000) ''acme'' ''cnn'' ''alice'' 0 1 60 demo_planned =
     (Some (demo_lease, start_job (CurrentTimestamp 1000) demo_saved_job, None), demo_leased)"
    "assignments demo_leased = [demo_lease]"
    "training_jobs demo_leased = [start_job (CurrentTimestamp 1000) demo_saved_job]"
    by (simp_all add: demo_leased_def prod_eq_iff)
qed

lemma demo_lease_simps [simp]:
  "as_status demo_lease = ''leased''" "as_client_id demo_lease = ''alice''"
  "as_tenant_id demo_lease = ''acme''" "as_model_id demo_lease = ''cnn''"
  "as_job_id demo_lease = ''job-1''" "as_round_index demo_lease = 1"
  "as_base_model_version demo_lease = 0" "as_expires_at demo_lease = ''1970-01-01T00:01:01.000Z''"
  "as_assignment_id demo_lease = ''job-1::round:1::client:alice::1970-01-01T00:00:01.000Z''"
  by (simp_all add: demo_lease_def new_lease_def Let_def TimestampAfterSeconds_eq timestamps to_string_def
      dec.simps)

lemma demo_accept:
  "fst (AcceptTrainingAssignmentSubmission (\<lambda>_. 2000) ''acme'' ''cnn'' ''alice'' ''job-1''
     (as_assignment_id demo_lease) 1 0 demo_leased) = Inr ()"
  by (simp add: AcceptTrainingAssignmentSubmission_def CheckAssignmentSubmission_def Let_def rfind_def
      demo_lease_call upd_all_def lease_lapsed_def timestamps)

lemma demo_reachable: "reachable_store demo_empty" "reachable_store demo_planned" "reachable_store demo_leased"
proof -
  show e: "reachable_store demo_empty" unfolding demo_empty_def by (rule reach_start)
  show p: "reachable_store demo_planned" unfolding demo_planned_def by (rule reach_step [OF e step_create_job])
  show "reachable_store demo_leased" unfolding demo_leased_def by (rule reach_step [OF p step_lease])
qed

lemma demo_submitted:
  "AcceptTrainingAssignmentSubmission (\<lambda>_. 2000) ''acme'' ''cnn'' ''alice'' ''job-1''
     (as_assignment_id demo_lease) 1 0 demo_leased =
   (Inr (), snd (AcceptTrainingAssignmentSubmission (\<lambda>_. 2000) ''acme'' ''cnn'' ''alice'' ''job-1''
     (as_assignment_id demo_lease) 1 0 demo_leased))"
  using demo_accept by (simp add: prod_eq_iff)

lemma demo_still_active:
  "GetActiveTrainingJob ''acme'' ''cnn'' demo_leased \<noteq> None"
  "GetActiveTrainingJob ''acme'' ''cnn'' (snd (AcceptTrainingAssignmentSubmission (\<lambda>_. 2000) ''acme'' ''cnn''
     ''alice'' ''job-1'' (as_assignment_id demo_lease) 1 0 demo_leased)) \<noteq> None"
  by (simp_all add: GetActiveTrainingJob_def frame_simps demo_lease_call rfind_def)

section \<open>A registration\<close>

definition demo_client :: "string \<Rightarrow> PersistedClientRecord" where
  "demo_client peer = \<lparr>cl_tenant_id = ''acme'', cl_model_id = ''cnn'', cl_client_id = ''alice'',
     cl_peer_identity = peer, cl_local_dataset_size = 10, cl_hardware_info = ''cpu'',
     cl_dataset_fingerprint = ''f'', cl_last_active_round = 0, cl_registered_at = ''now''\<rparr>"

definition demo_registered :: state_store where
  "demo_registered = RecordClientRegistration (\<lambda>_. 0) (demo_client ''CN=alice'') demo_empty"

lemma demo_registered_clients [simp]: "clients demo_registered = [demo_client ''CN=alice'']"
  by (simp add: demo_registered_def RecordClientRegistration_clients demo_client_def client_key_def)

end
