(* ===== verification/Store_Guarantees.thy ===== *)
theory Store_Guarantees
  imports Store_Scenario
begin

text \<open>
  The guarantees of the state store, each for every store and every argument, with a witness on
  the run of \<open>Store_Scenario\<close>.
\<close>

section \<open>The tables\<close>

text \<open>C16: In every store reachable from an empty one by any sequence of operations the tables are
  well-formed: unique keys, at most one active model version and at most one active training job
  per tenant and model, versions from 1 on, leases that belong to a job, task progress between 0
  and 100, and an audit trail within its retention.\<close>

theorem reachable_store_well_formed:
  "reachable_store s \<Longrightarrow> store_wf s"
  by (rule reachable_wf)

theorem reachable_store_well_formed_witness: "store_wf demo_leased"
  by (rule reachable_store_well_formed [OF demo_reachable(3)])

text \<open>Along any sequence of store operations a registered client stays registered in its
  place, keeps its registration time, keeps the certificate identity it is bound to once it has
  one, and its last active round never decreases.\<close>

theorem client_binding_permanent:
  assumes "store_step\<^sup>*\<^sup>* s s'" and "i < length (clients s)"
  shows "i < length (clients s') \<and> client_key (clients s' ! i) = client_key (clients s ! i) \<and>
    cl_registered_at (clients s' ! i) = cl_registered_at (clients s ! i) \<and>
    (cl_peer_identity (clients s ! i) \<noteq> '''' \<longrightarrow>
       cl_peer_identity (clients s' ! i) = cl_peer_identity (clients s ! i)) \<and>
    cl_last_active_round (clients s ! i) \<le> cl_last_active_round (clients s' ! i)"
  using store_run_clients [OF assms(1)] assms(2) by (auto simp: grows_def client_evolves_def)

theorem client_binding_permanent_witness:
  "cl_peer_identity (clients (RecordClientRegistration (\<lambda>_. 0) (demo_client ''CN=mallory'') demo_registered) ! 0)
     = ''CN=alice''"
  using client_binding_permanent
      [OF store_run_one [OF step_register [of demo_registered "\<lambda>_. 0" "demo_client ''CN=mallory''"]], of 0]
  by (simp add: demo_client_def)

text \<open>However often and in whatever order clients register, the table holds exactly one row
  per tenant, model and client.\<close>

theorem one_row_per_client:
  assumes "clients s = []"
  shows "length (clients (fold (RecordClientRegistration clk) rs s)) =
    card ((\<lambda>r. (NormalizeTenant (cl_tenant_id r), NormalizeModel (cl_model_id r), cl_client_id r)) ` set rs)"
  by (rule client_table.upserts_count) (rule assms)

theorem one_row_per_client_witness:
  "length (clients (fold (RecordClientRegistration (\<lambda>_. 0)) [demo_client ''x'', demo_client ''y''] demo_empty)) = 1"
  by (subst one_row_per_client) (simp_all add: demo_client_def)

section \<open>The model catalog\<close>

text \<open>Recording an aggregated model gives it a version above every version of its scope, makes
  it the active version of the scope, and leaves the active model of every other scope alone.\<close>

theorem aggregated_model_becomes_active:
  assumes "RecordAggregatedModel clk t m rd path strat kv cc wd s = (v, s')"
  shows "GetActiveModelVersion t m s' = v \<and> 1 \<le> v \<and>
    (\<forall>r\<in>set (models s). model_in (NormalizeTenant t) (NormalizeModel m) r \<longrightarrow> md_version r < v) \<and>
    (\<forall>t' m'. (NormalizeTenant t', NormalizeModel m') \<noteq> (NormalizeTenant t, NormalizeModel m) \<longrightarrow>
       GetActiveModelRecord t' m' s' = GetActiveModelRecord t' m' s)"
proof -
  have "v = next_model_version (NormalizeTenant t) (NormalizeModel m) (models s)"
    using assms RecordAggregatedModel_version [of clk t m rd path strat kv cc wd s] by simp
  then show ?thesis
    using record_then_active [OF assms] record_other_scope [OF assms] next_model_version_ge1
    by (auto intro: next_model_version_gt)
qed

theorem aggregated_model_becomes_active_witness:
  "GetActiveModelVersion ''acme'' ''cnn''
     (snd (RecordAggregatedModel (\<lambda>_. 0) ''acme'' ''cnn'' 1 ''p'' ''fedavg'' 1 2 3 demo_empty)) = 1"
  using aggregated_model_becomes_active
      [of "\<lambda>_. 0" "''acme''" "''cnn''" 1 "''p''" "''fedavg''" 1 2 3 demo_empty 1
        "snd (RecordAggregatedModel (\<lambda>_. 0) ''acme'' ''cnn'' 1 ''p'' ''fedavg'' 1 2 3 demo_empty)"]
  by (simp add: RecordAggregatedModel_def Let_def next_model_version_def)

text \<open>A rollback succeeds exactly when the scope has the requested version; then that version
  is the active one of its scope and no other scope changes. Otherwise the store is unchanged.\<close>

theorem rollback_exact:
  "case RollbackModel clk t m v s of
     (None, s') \<Rightarrow> s' = s \<and>
       \<not> (\<exists>r\<in>set (models s). model_in (NormalizeTenant t) (NormalizeModel m) r \<and> md_version r = v)
   | (Some r, s') \<Rightarrow> GetActiveModelRecord t m s' = Some r \<and> md_version r = v \<and>
       (\<exists>r\<in>set (models s). model_in (NormalizeTenant t) (NormalizeModel m) r \<and> md_version r = v) \<and>
       (\<forall>t' m'. (NormalizeTenant t', NormalizeModel m') = (NormalizeTenant t, NormalizeModel m) \<or>
          GetActiveModelRecord t' m' s' = GetActiveModelRecord t' m' s)"
proof (cases "RollbackModel clk t m v s")
  case (Pair o' s')
  have none: "o' = None \<longleftrightarrow>
      \<not> (\<exists>r\<in>set (models s). model_in (NormalizeTenant t) (NormalizeModel m) r \<and> md_version r = v)"
    using rollback_none_iff [of clk t m v s] Pair by auto
  have other: "GetActiveModelRecord t' m' s' = GetActiveModelRecord t' m' s"
    if "(NormalizeTenant t', NormalizeModel m') \<noteq> (NormalizeTenant t, NormalizeModel m)" for t' m'
    using rollback_other_scope [OF that, of clk v s] Pair by simp
  show ?thesis
  proof (cases o')
    case None
    with none rollback_missing [of s t m v clk] Pair show ?thesis by simp
  next
    case (Some r)
    with none other rollback_then_active [of clk t m v s r s'] Pair show ?thesis by auto
  qed
qed

theorem rollback_exact_witness:
  "RollbackModel (\<lambda>_. 0) ''acme'' ''cnn'' 7 demo_empty = (None, demo_empty)"
  using rollback_exact [where clk = "\<lambda>_. 0" and t = "''acme''" and m = "''cnn''" and v = 7 and s = demo_empty]
  by (simp add: RollbackModel_def Let_def)

section \<open>Leases\<close>

text \<open>C38: Over any sequence of store operations a lease keeps its identity, job, client, round and
  deadline, its status only moves along leased, expired, submitted, missed and aggregated, and an
  expired, missed or aggregated lease never changes its status again.\<close>

theorem lease_life_cycle:
  assumes "store_step\<^sup>*\<^sup>* s s'" and "i < length (assignments s)"
  shows "i < length (assignments s') \<and> same_lease (assignments s ! i) (assignments s' ! i) \<and>
    lease_status_step\<^sup>*\<^sup>* (as_status (assignments s ! i)) (as_status (assignments s' ! i)) \<and>
    (as_status (assignments s ! i) \<in> {''expired'', ''missed'', ''aggregated''} \<longrightarrow>
       as_status (assignments s' ! i) = as_status (assignments s ! i))"
proof -
  have "i < length (assignments s')" and ev: "lease_evolves (assignments s ! i) (assignments s' ! i)"
    using store_run_leases [OF assms(1)] assms(2) by (auto simp: grows_def)
  then show ?thesis unfolding lease_evolves_def by (blast intro: lease_terminal)
qed

theorem lease_life_cycle_witness:
  "same_lease demo_lease (assignments (AdvanceTrainingJobRound (\<lambda>_. 2000) ''acme'' ''cnn'' 1 1 demo_leased) ! 0)"
  using lease_life_cycle
      [OF store_run_one [OF step_advance [of demo_leased "\<lambda>_. 2000" "''acme''" "''cnn''" 1 1]], of 0]
  by (simp add: demo_lease_call)

text \<open>C20: A lease that is handed out is in the store, for the asking client and the current round
  of the active job; the live leases of the round never grow beyond the round's capacity by
  handing one out.\<close>

theorem lease_within_capacity:
  assumes "LeaseTrainingAssignment clk t m c v dm dt s = (Some (a, job, d), s')"
  shows "a \<in> set (assignments s') \<and> as_client_id a = c \<and> as_job_id a = jb_job_id job \<and>
    as_round_index a = max 1 (jb_current_round job) \<and> as_status a = ''leased'' \<and>
    int (count_where (live_lease (CurrentTimestamp (clk 0)) (jb_job_id job) (max 1 (jb_current_round job)))
         (assignments s'))
      \<le> max (round_capacity job dm)
          (int (count_where (live_lease (CurrentTimestamp (clk 0)) (jb_job_id job)
             (max 1 (jb_current_round job))) (assignments s)))"
  using lease_capacity_bound [OF assms] .

theorem lease_within_capacity_witness: "demo_lease \<in> set (assignments demo_leased)"
  using lease_within_capacity [OF demo_lease_call(1)] by blast

text \<open>Asking again before the deadline gives the client the lease it already holds, with the
  same job and dataset; no second lease is issued.\<close>

theorem lease_idempotent:
  assumes "LeaseTrainingAssignment clk t m c v dm dt s = (Some (a, job, d), s')"
    and "CurrentTimestamp (clk 0) \<le> CurrentTimestamp (clk' 0)"
    and "CurrentTimestamp (clk' 0) < as_expires_at a"
  shows "fst (LeaseTrainingAssignment clk' t m c v' dm' dt' s') = Some (a, job, d)"
  using lease_again [of clk t m c v dm dt s a job d s' clk', OF assms] .

theorem lease_idempotent_witness:
  "fst (LeaseTrainingAssignment (\<lambda>_. 2000) ''acme'' ''cnn'' ''alice'' 5 9 99 demo_leased) =
   Some (demo_lease, start_job (CurrentTimestamp 1000) demo_saved_job, None)"
  by (rule lease_idempotent [OF demo_lease_call(1)]) (simp_all add: timestamps)

text \<open>A new lease lapses exactly when its job's time to live has passed since it was issued:
  comparing the two timestamps as texts compares the instants (up to the year 9999).\<close>

theorem lease_deadline_exact:
  assumes "jb_assignment_ttl_seconds job > 0"
    and "c_year (gmtime (clk 1 + 1000 * nat (jb_assignment_ttl_seconds job))) < 10000"
    and "c_year (gmtime b) < 10000"
  shows "lease_lapsed (CurrentTimestamp b) (new_lease clk t m c v dt job) \<longleftrightarrow>
    clk 1 + 1000 * nat (jb_assignment_ttl_seconds job) \<le> b"
  by (rule lease_deadline [OF refl]) (use assms in simp_all)

theorem lease_deadline_exact_witness: "\<not> lease_lapsed (CurrentTimestamp 2000) demo_lease"
  unfolding demo_lease_def
  by (subst lease_deadline_exact) (simp_all add: timestamp_eval)

text \<open>Once a submission under an assignment id has been accepted, no later submission under
  that id is accepted while its scope has an active job, by whichever client and through whatever
  operations happen in between.\<close>

theorem assignment_accepted_once:
  assumes "AcceptTrainingAssignmentSubmission clk t m c ji ai rd b s = (Inr (), s')"
    and "GetActiveTrainingJob t m s \<noteq> None"
    and "store_step\<^sup>*\<^sup>* s' s''"
    and "GetActiveTrainingJob t' m' s'' \<noteq> None"
  shows "\<exists>msg. fst (AcceptTrainingAssignmentSubmission clk' t' m' c' ji' ai rd' b' s'') = Inl msg"
  using accept_once [OF assms] .

theorem assignment_accepted_once_witness:
  "\<exists>msg. fst (AcceptTrainingAssignmentSubmission (\<lambda>_. 2000) ''acme'' ''cnn'' ''alice'' ''job-1''
     (as_assignment_id demo_lease) 1 0
     (snd (AcceptTrainingAssignmentSubmission (\<lambda>_. 2000) ''acme'' ''cnn'' ''alice'' ''job-1''
        (as_assignment_id demo_lease) 1 0 demo_leased))) = Inl msg"
  by (rule assignment_accepted_once [OF demo_submitted demo_still_active(1) rtranclp.rtrancl_refl demo_still_active(2)])

text \<open>A submission whose lease has lapsed is refused by the status check: expiry runs first and
  turns the lease to expired, so the answer is never the dedicated "assignment lease expired".\<close>

theorem lapsed_lease_message:
  assumes "find (\<lambda>a. as_assignment_id a = ai) (assignments s) = Some a"
    and "lease_lapsed (CurrentTimestamp (clk 0)) a"
    and "GetActiveTrainingJob t m s = Some j"
    and "ai \<noteq> ''''" and "jb_job_id j \<noteq> ''''"
    and "as_client_id a = c" and "as_tenant_id a = NormalizeTenant t" and "as_model_id a = NormalizeModel m"
  shows "fst (AcceptTrainingAssignmentSubmission clk t m c (jb_job_id j) ai rd b s) =
      Inl ''assignment is not in a leasable state'' \<and>
    (\<forall>ji ai' rd' b' c' t' m' s'. fst (AcceptTrainingAssignmentSubmission clk t' m' c' ji ai' rd' b' s') \<noteq>
      Inl ''assignment lease expired'')"
proof
  have "find (\<lambda>a. as_assignment_id a = ai) (assignments (ExpireAssignmentsLocked (CurrentTimestamp (clk 0)) s)) =
      Some (expire_lease (CurrentTimestamp (clk 0)) a)"
    by (simp add: find_upd_all assms)
  then have "CheckAssignmentSubmission (CurrentTimestamp (clk 0)) (NormalizeTenant t) (NormalizeModel m) c
      (jb_job_id j) ai rd b (ExpireAssignmentsLocked (CurrentTimestamp (clk 0)) s) =
      Rejected ''assignment is not in a leasable state''"
    using assms by (simp add: CheckAssignmentSubmission_def GetActiveTrainingJob_def)
  then show "fst (AcceptTrainingAssignmentSubmission clk t m c (jb_job_id j) ai rd b s) =
      Inl ''assignment is not in a leasable state''"
    by (simp add: AcceptTrainingAssignmentSubmission_def Let_def)
next
  show "\<forall>ji ai' rd' b' c' t' m' s'. fst (AcceptTrainingAssignmentSubmission clk t' m' c' ji ai' rd' b' s') \<noteq>
      Inl ''assignment lease expired''"
    using accept_message by blast
qed

theorem lapsed_lease_message_witness:
  "fst (AcceptTrainingAssignmentSubmission (\<lambda>_. 61000) ''acme'' ''cnn'' ''alice'' ''job-1''
     (as_assignment_id demo_lease) 1 0 demo_leased) = Inl ''assignment is not in a leasable state''"
  using lapsed_lease_message [of "as_assignment_id demo_lease" demo_leased demo_lease "\<lambda>_. 61000" "''acme''"
      "''cnn''" "start_job (CurrentTimestamp 1000) demo_saved_job" "''alice''" 1 0]
  by (simp add: demo_lease_call lease_lapsed_def timestamps GetActiveTrainingJob_def rfind_def)

section \<open>Jobs and rounds\<close>

text \<open>Creating a job with an active status makes it the active job of its scope; every other
  job of the scope that was active is superseded and no other scope's active job changes.\<close>

theorem created_job_supersedes:
  assumes "CreateTrainingJob clk r s = (j, s')" and "IsActiveJobStatus (jb_status j)"
  shows "GetActiveTrainingJob (jb_tenant_id r) (jb_model_id r) s' = Some j \<and>
    count_where (active_job_in (NormalizeTenant (jb_tenant_id r)) (NormalizeModel (jb_model_id r)))
      (training_jobs s') = 1 \<and>
    (\<forall>t m. (NormalizeTenant t, NormalizeModel m) \<noteq>
        (NormalizeTenant (jb_tenant_id r), NormalizeModel (jb_model_id r)) \<longrightarrow>
       GetActiveTrainingJob t m s' = GetActiveTrainingJob t m s)"
  using create_job_active [OF assms] create_job_count [OF assms] create_job_other_scope [OF assms(1)]
  by blast

theorem created_job_supersedes_witness:
  "GetActiveTrainingJob ''acme'' ''cnn'' demo_planned = Some demo_saved_job"
  using created_job_supersedes [OF demo_create] by (simp add: IsActiveJobStatus_def) (simp add: demo_job_def)

text \<open>Advancing the active job after a round closes the round: none of its leases stays leased
  or submitted; the job counts one completed round more, moves to the next round and to the given
  model version, and is completed exactly when its target is reached.\<close>

theorem advance_round_exact:
  assumes "GetActiveTrainingJob t m s = Some j"
  shows "(\<forall>a\<in>set (assignments (AdvanceTrainingJobRound clk t m rd v s)).
      as_job_id a = jb_job_id j \<and> as_round_index a = rd \<longrightarrow>
      as_status a \<noteq> ''leased'' \<and> as_status a \<noteq> ''submitted'') \<and>
    (\<exists>j'\<in>set (training_jobs (AdvanceTrainingJobRound clk t m rd v s)).
      jb_job_id j' = jb_job_id j \<and> jb_completed_rounds j' = jb_completed_rounds j + 1 \<and>
      jb_current_round j' = rd + 1 \<and> jb_active_model_version j' = v \<and>
      jb_status j' = (if 0 < jb_target_rounds j \<and> jb_target_rounds j \<le> jb_completed_rounds j + 1
                      then ''completed'' else ''running''))"
  using advance_closes_round [OF assms] advance_job_record [OF assms] by blast

theorem advance_round_exact_witness:
  "\<exists>j'\<in>set (training_jobs (AdvanceTrainingJobRound (\<lambda>_. 2000) ''acme'' ''cnn'' 1 1 demo_leased)).
     jb_current_round j' = 2 \<and> jb_status j' = ''running''"
proof -
  have "GetActiveTrainingJob ''acme'' ''cnn'' demo_leased = Some (start_job (CurrentTimestamp 1000) demo_saved_job)"
    by (simp add: GetActiveTrainingJob_def demo_lease_call rfind_def)
  from advance_round_exact [OF this, of "\<lambda>_. 2000" 1 1] show ?thesis by auto
qed

section \<open>Workers\<close>

text \<open>A task report changes the store only for the worker that holds the task: an unknown task
  or another worker's task is refused with the store unchanged; otherwise the task carries the
  clamped progress, the reported status (its own when none is given), and keeps its identity.\<close>

theorem task_report_exact:
  "case UpdateWorkerTaskStatus clk w k st d p s of
     (Inl _, s') \<Rightarrow> s' = s \<and>
       (\<nexists>x. find (\<lambda>x. tk_task_id x = k) (worker_tasks s) = Some x \<and> tk_worker_id x = w)
   | (Inr _, s') \<Rightarrow> (\<exists>x y. find (\<lambda>x. tk_task_id x = k) (worker_tasks s) = Some x \<and> tk_worker_id x = w \<and>
       find (\<lambda>x. tk_task_id x = k) (worker_tasks s') = Some y \<and>
       tk_worker_id y = w \<and> tk_assignment_id y = tk_assignment_id x \<and>
       tk_status y = (if st = '''' then tk_status x else st) \<and>
       tk_progress_percent y = max 0 (min 100 p)) \<and>
       assignments s' = assignments s \<and> in_sync s'"
proof (cases "find (\<lambda>x. tk_task_id x = k) (worker_tasks s)")
  case None
  then show ?thesis by (simp add: UpdateWorkerTaskStatus_def Let_def)
next
  case (Some x)
  have "find (\<lambda>x. tk_task_id x = k) (upd_first (\<lambda>x. tk_task_id x = k)
      (\<lambda>_. report_task now st d p x) (worker_tasks s)) = Some (report_task now st d p x)" for now
    using Some find_SomeD [OF Some] by (subst find_upd_first) (simp_all add: report_task_def Let_def)
  with Some show ?thesis by (simp add: UpdateWorkerTaskStatus_def Let_def) (simp add: report_task_def Let_def)
qed

section \<open>Audit and durability\<close>

text \<open>An audit event recorded last is listed first, completed with the time and the default
  scope, followed by the events listed before; the trail never exceeds the retention.\<close>

theorem audit_newest_first:
  assumes "store_wf s"
  shows "ListAuditEvents n (RecordAuditEvent clk e s) =
      take n (e\<lparr>ev_timestamp := (if ev_timestamp e = '''' then CurrentTimestamp (clk 0) else ev_timestamp e),
           ev_tenant_id := NormalizeTenant (ev_tenant_id e), ev_model_id := NormalizeModel (ev_model_id e)\<rparr>
         # ListAuditEvents (audit_retention s - 1) s) \<and>
    length (audit_events (RecordAuditEvent clk e s)) \<le> audit_retention s"
  using assms push_audit_bounded by (simp add: RecordAuditEvent_def push_audit_list store_wf_def)

theorem audit_newest_first_witness:
  "map ev_action (ListAuditEvents 1 (RecordAuditEvent (\<lambda>_. 0) (audit_event '''' ''login'' '''' '''' '''' '''') demo_leased)) =
   [''login'']"
  using audit_newest_first [OF reachable_wf [OF demo_reachable(3)]] by (simp add: audit_event_def)



end
