(* ===== verification/Store_Persist.thy ===== *)
theory Store_Persist
  imports Store_Steps "HOL-Library.Monad_Syntax"
begin

text \<open>
  \<open>server/state_store.cpp\<close>, \<open>Load\<close> and \<open>SaveLocked\<close>: the store as a JSON document, the document
  as a file, and the replacement of the file through a temporary one. The JSON library
  (nlohmann/json) is not part of the repository: it is the parameter \<open>json_ops\<close>, with what the
  code relies on stated by \<open>json_laws\<close>. \<open>None\<close> is a thrown exception.
\<close>

section \<open>The JSON library\<close>

record ('j, 'x) json_ops =
  mk_str :: "string \<Rightarrow> 'j"
  mk_int :: "int \<Rightarrow> 'j"
  mk_bool :: "bool \<Rightarrow> 'j"
  mk_strs :: "string list \<Rightarrow> 'j"
  mk_arr :: "'j list \<Rightarrow> 'j"
  mk_obj :: "(string \<times> 'j) list \<Rightarrow> 'j"
  value_str :: "'j \<Rightarrow> string \<Rightarrow> string \<Rightarrow> string option"
  value_int :: "'j \<Rightarrow> string \<Rightarrow> int \<Rightarrow> int option"
  value_bool :: "'j \<Rightarrow> string \<Rightarrow> bool \<Rightarrow> bool option"
  contains :: "'j \<Rightarrow> string \<Rightarrow> bool"
  at_strs :: "'j \<Rightarrow> string \<Rightarrow> string list option"
  at_elems :: "'j \<Rightarrow> string \<Rightarrow> 'j list option"
  dump :: "'j \<Rightarrow> 'x"
  parse :: "'x \<Rightarrow> 'j option"

text \<open>\<open>value(key, default)\<close> on an object built from an initializer list finds what was put there;
  a dumped document parses to itself.\<close>

definition json_laws :: "('j, 'x) json_ops \<Rightarrow> bool" where
  "json_laws J \<longleftrightarrow>
     (\<forall>fs k v d. map_of fs k = Some (mk_str J v) \<longrightarrow> value_str J (mk_obj J fs) k d = Some v) \<and>
     (\<forall>fs k v d. map_of fs k = Some (mk_int J v) \<longrightarrow> value_int J (mk_obj J fs) k d = Some v) \<and>
     (\<forall>fs k v d. map_of fs k = Some (mk_bool J v) \<longrightarrow> value_bool J (mk_obj J fs) k d = Some v) \<and>
     (\<forall>fs k. contains J (mk_obj J fs) k \<longleftrightarrow> map_of fs k \<noteq> None) \<and>
     (\<forall>fs k v. map_of fs k = Some (mk_strs J v) \<longrightarrow> at_strs J (mk_obj J fs) k = Some v) \<and>
     (\<forall>fs k v. map_of fs k = Some (mk_arr J v) \<longrightarrow> at_elems J (mk_obj J fs) k = Some v) \<and>
     (\<forall>j. parse J (dump J j) = Some j)"

section \<open>Writing the records\<close>

definition client_json :: "('j, 'x) json_ops \<Rightarrow> PersistedClientRecord \<Rightarrow> 'j" where
  "client_json J r = mk_obj J
     [(''tenant_id'', mk_str J (cl_tenant_id r)), (''model_id'', mk_str J (cl_model_id r)),
      (''client_id'', mk_str J (cl_client_id r)), (''peer_identity'', mk_str J (cl_peer_identity r)),
      (''local_dataset_size'', mk_int J (cl_local_dataset_size r)),
      (''hardware_info'', mk_str J (cl_hardware_info r)),
      (''dataset_fingerprint'', mk_str J (cl_dataset_fingerprint r)),
      (''last_active_round'', mk_int J (cl_last_active_round r)),
      (''registered_at'', mk_str J (cl_registered_at r))]"

definition model_json :: "('j, 'x) json_ops \<Rightarrow> PersistedModelRecord \<Rightarrow> 'j" where
  "model_json J r = mk_obj J
     [(''tenant_id'', mk_str J (md_tenant_id r)), (''model_id'', mk_str J (md_model_id r)),
      (''version'', mk_int J (md_version r)), (''latest_round'', mk_int J (md_latest_round r)),
      (''checkpoint_path'', mk_str J (md_checkpoint_path r)),
      (''aggregation_strategy'', mk_str J (md_aggregation_strategy r)),
      (''key_version'', mk_int J (md_key_version r)), (''client_count'', mk_int J (md_client_count r)),
      (''weight_dimension'', mk_int J (md_weight_dimension r)), (''active'', mk_bool J (md_active r)),
      (''created_at'', mk_str J (md_created_at r))]"

definition dataset_json :: "('j, 'x) json_ops \<Rightarrow> PersistedDatasetRecord \<Rightarrow> 'j" where
  "dataset_json J r = mk_obj J
     [(''tenant_id'', mk_str J (ds_tenant_id r)), (''model_id'', mk_str J (ds_model_id r)),
      (''dataset_id'', mk_str J (ds_dataset_id r)), (''fingerprint'', mk_str J (ds_fingerprint r)),
      (''storage_uri'', mk_str J (ds_storage_uri r)), (''format'', mk_str J (ds_format r)),
      (''sample_count'', mk_int J (ds_sample_count r)), (''shard_count'', mk_int J (ds_shard_count r)),
      (''active'', mk_bool J (ds_active r)), (''created_at'', mk_str J (ds_created_at r))]"

definition job_json :: "('j, 'x) json_ops \<Rightarrow> PersistedTrainingJobRecord \<Rightarrow> 'j" where
  "job_json J r = mk_obj J
     [(''job_id'', mk_str J (jb_job_id r)), (''tenant_id'', mk_str J (jb_tenant_id r)),
      (''model_id'', mk_str J (jb_model_id r)), (''dataset_id'', mk_str J (jb_dataset_id r)),
      (''target_rounds'', mk_int J (jb_target_rounds r)),
      (''planned_clients'', mk_int J (jb_planned_clients r)),
      (''min_clients_per_round'', mk_int J (jb_min_clients_per_round r)),
      (''assignment_ttl_seconds'', mk_int J (jb_assignment_ttl_seconds r)),
      (''status'', mk_str J (jb_status r)), (''current_round'', mk_int J (jb_current_round r)),
      (''completed_rounds'', mk_int J (jb_completed_rounds r)),
      (''active_model_version'', mk_int J (jb_active_model_version r)),
      (''created_at'', mk_str J (jb_created_at r)), (''activated_at'', mk_str J (jb_activated_at r)),
      (''notes'', mk_str J (jb_notes r))]"

definition assignment_json :: "('j, 'x) json_ops \<Rightarrow> PersistedAssignmentLease \<Rightarrow> 'j" where
  "assignment_json J r = mk_obj J
     [(''assignment_id'', mk_str J (as_assignment_id r)), (''job_id'', mk_str J (as_job_id r)),
      (''tenant_id'', mk_str J (as_tenant_id r)), (''model_id'', mk_str J (as_model_id r)),
      (''dataset_id'', mk_str J (as_dataset_id r)), (''client_id'', mk_str J (as_client_id r)),
      (''round_index'', mk_int J (as_round_index r)),
      (''base_model_version'', mk_int J (as_base_model_version r)),
      (''status'', mk_str J (as_status r)), (''issued_at'', mk_str J (as_issued_at r)),
      (''expires_at'', mk_str J (as_expires_at r)), (''updated_at'', mk_str J (as_updated_at r)),
      (''detail'', mk_str J (as_detail r))]"

definition worker_json :: "('j, 'x) json_ops \<Rightarrow> PersistedWorkerRecord \<Rightarrow> 'j" where
  "worker_json J r = mk_obj J
     [(''worker_id'', mk_str J (wk_worker_id r)), (''trainer_client_id'', mk_str J (wk_trainer_client_id r)),
      (''tenant_id'', mk_str J (wk_tenant_id r)), (''model_id'', mk_str J (wk_model_id r)),
      (''hostname'', mk_str J (wk_hostname r)), (''launcher'', mk_str J (wk_launcher r)),
      (''max_parallel_tasks'', mk_int J (wk_max_parallel_tasks r)), (''labels'', mk_strs J (wk_labels r)),
      (''status'', mk_str J (wk_status r)), (''registered_at'', mk_str J (wk_registered_at r)),
      (''last_heartbeat_at'', mk_str J (wk_last_heartbeat_at r)),
      (''active_task_id'', mk_str J (wk_active_task_id r))]"

definition task_json :: "('j, 'x) json_ops \<Rightarrow> PersistedWorkerTaskRecord \<Rightarrow> 'j" where
  "task_json J r = mk_obj J
     [(''task_id'', mk_str J (tk_task_id r)), (''worker_id'', mk_str J (tk_worker_id r)),
      (''trainer_client_id'', mk_str J (tk_trainer_client_id r)), (''job_id'', mk_str J (tk_job_id r)),
      (''assignment_id'', mk_str J (tk_assignment_id r)), (''tenant_id'', mk_str J (tk_tenant_id r)),
      (''model_id'', mk_str J (tk_model_id r)), (''dataset_id'', mk_str J (tk_dataset_id r)),
      (''round_index'', mk_int J (tk_round_index r)),
      (''base_model_version'', mk_int J (tk_base_model_version r)),
      (''status'', mk_str J (tk_status r)), (''detail'', mk_str J (tk_detail r)),
      (''progress_percent'', mk_int J (tk_progress_percent r)), (''issued_at'', mk_str J (tk_issued_at r)),
      (''started_at'', mk_str J (tk_started_at r)), (''completed_at'', mk_str J (tk_completed_at r)),
      (''updated_at'', mk_str J (tk_updated_at r))]"

definition event_json :: "('j, 'x) json_ops \<Rightarrow> PersistedAuditEvent \<Rightarrow> 'j" where
  "event_json J r = mk_obj J
     [(''timestamp'', mk_str J (ev_timestamp r)), (''action'', mk_str J (ev_action r)),
      (''tenant_id'', mk_str J (ev_tenant_id r)), (''model_id'', mk_str J (ev_model_id r)),
      (''client_id'', mk_str J (ev_client_id r)), (''detail'', mk_str J (ev_detail r))]"

definition store_json :: "('j, 'x) json_ops \<Rightarrow> store_image \<Rightarrow> 'j" where
  "store_json J s = mk_obj J
     [(''completed_rounds'', mk_int J (completed_rounds s)),
      (''total_submissions'', mk_int J (total_submissions s)),
      (''active_key_version'', mk_int J (active_key_version s)),
      (''clients'', mk_arr J (map (client_json J) (clients s))),
      (''models'', mk_arr J (map (model_json J) (models s))),
      (''datasets'', mk_arr J (map (dataset_json J) (datasets s))),
      (''training_jobs'', mk_arr J (map (job_json J) (training_jobs s))),
      (''assignments'', mk_arr J (map (assignment_json J) (assignments s))),
      (''workers'', mk_arr J (map (worker_json J) (workers s))),
      (''worker_tasks'', mk_arr J (map (task_json J) (worker_tasks s))),
      (''audit_events'', mk_arr J (map (event_json J) (audit_events s)))]"

text \<open>The content of the file \<open>SaveLocked\<close> leaves behind.\<close>

definition file_text :: "('j, 'x) json_ops \<Rightarrow> state_store \<Rightarrow> 'x option" where
  "file_text J s = map_option (\<lambda>i. dump J (store_json J i)) (persisted s)"

section \<open>Reading the records\<close>

text \<open>\<open>now\<close> is the reading of the clock a missing timestamp defaults to; the argument is evaluated
  whether or not it is used.\<close>

definition client_of_json :: "('j, 'x) json_ops \<Rightarrow> string \<Rightarrow> 'j \<Rightarrow> PersistedClientRecord option" where
  "client_of_json J now j = do {
     t \<leftarrow> value_str J j ''tenant_id'' '''';
     m \<leftarrow> value_str J j ''model_id'' '''';
     c \<leftarrow> value_str J j ''client_id'' '''';
     p \<leftarrow> value_str J j ''peer_identity'' '''';
     n \<leftarrow> value_int J j ''local_dataset_size'' 0;
     h \<leftarrow> value_str J j ''hardware_info'' '''';
     f \<leftarrow> value_str J j ''dataset_fingerprint'' '''';
     l \<leftarrow> value_int J j ''last_active_round'' (- 1);
     r \<leftarrow> value_str J j ''registered_at'' now;
     Some \<lparr>cl_tenant_id = NormalizeTenant t, cl_model_id = NormalizeModel m, cl_client_id = c,
       cl_peer_identity = p, cl_local_dataset_size = n, cl_hardware_info = h,
       cl_dataset_fingerprint = f, cl_last_active_round = l, cl_registered_at = r\<rparr> }"

definition model_of_json :: "('j, 'x) json_ops \<Rightarrow> string \<Rightarrow> 'j \<Rightarrow> PersistedModelRecord option" where
  "model_of_json J now j = do {
     t \<leftarrow> value_str J j ''tenant_id'' '''';
     m \<leftarrow> value_str J j ''model_id'' '''';
     v \<leftarrow> value_int J j ''version'' 0;
     r \<leftarrow> value_int J j ''latest_round'' (- 1);
     p \<leftarrow> value_str J j ''checkpoint_path'' '''';
     s \<leftarrow> value_str J j ''aggregation_strategy'' ''fedavg'';
     k \<leftarrow> value_int J j ''key_version'' 1;
     n \<leftarrow> value_int J j ''client_count'' 0;
     d \<leftarrow> value_int J j ''weight_dimension'' 0;
     a \<leftarrow> value_bool J j ''active'' False;
     c \<leftarrow> value_str J j ''created_at'' now;
     Some \<lparr>md_tenant_id = NormalizeTenant t, md_model_id = NormalizeModel m, md_version = v,
       md_latest_round = r, md_checkpoint_path = p, md_aggregation_strategy = s, md_key_version = k,
       md_client_count = n, md_weight_dimension = d, md_active = a, md_created_at = c\<rparr> }"

definition dataset_of_json :: "('j, 'x) json_ops \<Rightarrow> string \<Rightarrow> 'j \<Rightarrow> PersistedDatasetRecord option" where
  "dataset_of_json J now j = do {
     t \<leftarrow> value_str J j ''tenant_id'' '''';
     m \<leftarrow> value_str J j ''model_id'' '''';
     i \<leftarrow> value_str J j ''dataset_id'' '''';
     f \<leftarrow> value_str J j ''fingerprint'' '''';
     u \<leftarrow> value_str J j ''storage_uri'' '''';
     g \<leftarrow> value_str J j ''format'' '''';
     n \<leftarrow> value_int J j ''sample_count'' 0;
     h \<leftarrow> value_int J j ''shard_count'' 0;
     a \<leftarrow> value_bool J j ''active'' True;
     c \<leftarrow> value_str J j ''created_at'' now;
     Some \<lparr>ds_tenant_id = NormalizeTenant t, ds_model_id = NormalizeModel m, ds_dataset_id = i,
       ds_fingerprint = f, ds_storage_uri = u, ds_format = g, ds_sample_count = n,
       ds_shard_count = h, ds_active = a, ds_created_at = c\<rparr> }"

definition job_of_json :: "('j, 'x) json_ops \<Rightarrow> string \<Rightarrow> 'j \<Rightarrow> PersistedTrainingJobRecord option" where
  "job_of_json J now j = do {
     i \<leftarrow> value_str J j ''job_id'' '''';
     t \<leftarrow> value_str J j ''tenant_id'' '''';
     m \<leftarrow> value_str J j ''model_id'' '''';
     d \<leftarrow> value_str J j ''dataset_id'' '''';
     r \<leftarrow> value_int J j ''target_rounds'' 0;
     p \<leftarrow> value_int J j ''planned_clients'' 0;
     n \<leftarrow> value_int J j ''min_clients_per_round'' 0;
     l \<leftarrow> value_int J j ''assignment_ttl_seconds'' 120;
     s \<leftarrow> value_str J j ''status'' ''planned'';
     cr \<leftarrow> value_int J j ''current_round'' 1;
     dr \<leftarrow> value_int J j ''completed_rounds'' 0;
     v \<leftarrow> value_int J j ''active_model_version'' 0;
     c \<leftarrow> value_str J j ''created_at'' now;
     a \<leftarrow> value_str J j ''activated_at'' '''';
     x \<leftarrow> value_str J j ''notes'' '''';
     Some \<lparr>jb_job_id = i, jb_tenant_id = NormalizeTenant t, jb_model_id = NormalizeModel m,
       jb_dataset_id = d, jb_target_rounds = r, jb_planned_clients = p, jb_min_clients_per_round = n,
       jb_assignment_ttl_seconds = l, jb_status = s, jb_current_round = cr, jb_completed_rounds = dr,
       jb_active_model_version = v, jb_created_at = c, jb_activated_at = a, jb_notes = x\<rparr> }"

definition assignment_of_json :: "('j, 'x) json_ops \<Rightarrow> 'j \<Rightarrow> PersistedAssignmentLease option" where
  "assignment_of_json J j = do {
     i \<leftarrow> value_str J j ''assignment_id'' '''';
     b \<leftarrow> value_str J j ''job_id'' '''';
     t \<leftarrow> value_str J j ''tenant_id'' '''';
     m \<leftarrow> value_str J j ''model_id'' '''';
     d \<leftarrow> value_str J j ''dataset_id'' '''';
     c \<leftarrow> value_str J j ''client_id'' '''';
     r \<leftarrow> value_int J j ''round_index'' 0;
     v \<leftarrow> value_int J j ''base_model_version'' 0;
     s \<leftarrow> value_str J j ''status'' ''leased'';
     a \<leftarrow> value_str J j ''issued_at'' '''';
     e \<leftarrow> value_str J j ''expires_at'' '''';
     u \<leftarrow> value_str J j ''updated_at'' '''';
     x \<leftarrow> value_str J j ''detail'' '''';
     Some \<lparr>as_assignment_id = i, as_job_id = b, as_tenant_id = NormalizeTenant t,
       as_model_id = NormalizeModel m, as_dataset_id = d, as_client_id = c, as_round_index = r,
       as_base_model_version = v, as_status = s, as_issued_at = a, as_expires_at = e,
       as_updated_at = u, as_detail = x\<rparr> }"

definition worker_of_json :: "('j, 'x) json_ops \<Rightarrow> string \<Rightarrow> 'j \<Rightarrow> PersistedWorkerRecord option" where
  "worker_of_json J now j = do {
     i \<leftarrow> value_str J j ''worker_id'' '''';
     c \<leftarrow> value_str J j ''trainer_client_id'' '''';
     t \<leftarrow> value_str J j ''tenant_id'' '''';
     m \<leftarrow> value_str J j ''model_id'' '''';
     h \<leftarrow> value_str J j ''hostname'' '''';
     l \<leftarrow> value_str J j ''launcher'' '''';
     p \<leftarrow> value_int J j ''max_parallel_tasks'' 1;
     ls \<leftarrow> (if contains J j ''labels'' then at_strs J j ''labels'' else Some []);
     s \<leftarrow> value_str J j ''status'' ''idle'';
     r \<leftarrow> value_str J j ''registered_at'' now;
     b \<leftarrow> value_str J j ''last_heartbeat_at'' '''';
     a \<leftarrow> value_str J j ''active_task_id'' '''';
     Some \<lparr>wk_worker_id = i, wk_trainer_client_id = c, wk_tenant_id = NormalizeTenant t,
       wk_model_id = NormalizeModel m, wk_hostname = h, wk_launcher = l, wk_max_parallel_tasks = p,
       wk_labels = ls, wk_status = s, wk_registered_at = r, wk_last_heartbeat_at = b,
       wk_active_task_id = a\<rparr> }"

definition task_of_json :: "('j, 'x) json_ops \<Rightarrow> 'j \<Rightarrow> PersistedWorkerTaskRecord option" where
  "task_of_json J j = do {
     i \<leftarrow> value_str J j ''task_id'' '''';
     w \<leftarrow> value_str J j ''worker_id'' '''';
     c \<leftarrow> value_str J j ''trainer_client_id'' '''';
     b \<leftarrow> value_str J j ''job_id'' '''';
     a \<leftarrow> value_str J j ''assignment_id'' '''';
     t \<leftarrow> value_str J j ''tenant_id'' '''';
     m \<leftarrow> value_str J j ''model_id'' '''';
     d \<leftarrow> value_str J j ''dataset_id'' '''';
     r \<leftarrow> value_int J j ''round_index'' 0;
     v \<leftarrow> value_int J j ''base_model_version'' 0;
     s \<leftarrow> value_str J j ''status'' ''leased'';
     x \<leftarrow> value_str J j ''detail'' '''';
     p \<leftarrow> value_int J j ''progress_percent'' 0;
     ia \<leftarrow> value_str J j ''issued_at'' '''';
     sa \<leftarrow> value_str J j ''started_at'' '''';
     ca \<leftarrow> value_str J j ''completed_at'' '''';
     ua \<leftarrow> value_str J j ''updated_at'' '''';
     Some \<lparr>tk_task_id = i, tk_worker_id = w, tk_trainer_client_id = c, tk_job_id = b,
       tk_assignment_id = a, tk_tenant_id = NormalizeTenant t, tk_model_id = NormalizeModel m,
       tk_dataset_id = d, tk_round_index = r, tk_base_model_version = v, tk_status = s,
       tk_detail = x, tk_progress_percent = p, tk_issued_at = ia, tk_started_at = sa,
       tk_completed_at = ca, tk_updated_at = ua\<rparr> }"

definition event_of_json :: "('j, 'x) json_ops \<Rightarrow> string \<Rightarrow> 'j \<Rightarrow> PersistedAuditEvent option" where
  "event_of_json J now j = do {
     ts \<leftarrow> value_str J j ''timestamp'' now;
     a \<leftarrow> value_str J j ''action'' '''';
     t \<leftarrow> value_str J j ''tenant_id'' '''';
     m \<leftarrow> value_str J j ''model_id'' '''';
     c \<leftarrow> value_str J j ''client_id'' '''';
     x \<leftarrow> value_str J j ''detail'' '''';
     Some \<lparr>ev_timestamp = ts, ev_action = a, ev_tenant_id = NormalizeTenant t,
       ev_model_id = NormalizeModel m, ev_client_id = c, ev_detail = x\<rparr> }"

text \<open>The loop over one array: an absent array is empty, each record reads the clock once, and the
  first exception ends the loop. The result pairs the rows with the next reading of the clock.\<close>

primrec read_rows :: "(string \<Rightarrow> 'j \<Rightarrow> 'r option) \<Rightarrow> clock \<Rightarrow> nat \<Rightarrow> 'j list \<Rightarrow> 'r list option" where
  "read_rows f clk k [] = Some []"
| "read_rows f clk k (j # js) = do {
     r \<leftarrow> f (CurrentTimestamp (clk k)) j;
     rs \<leftarrow> read_rows f clk (Suc k) js;
     Some (r # rs) }"

definition read_table ::
  "('j, 'x) json_ops \<Rightarrow> (string \<Rightarrow> 'j \<Rightarrow> 'r option) \<Rightarrow> clock \<Rightarrow> nat \<Rightarrow> 'j \<Rightarrow> string \<Rightarrow> ('r list \<times> nat) option" where
  "read_table J f clk k j key =
     (if contains J j key then do {
        js \<leftarrow> at_elems J j key;
        rs \<leftarrow> read_rows f clk k js;
        Some (rs, k + length js) }
      else Some ([], k))"

definition store_of_json :: "('j, 'x) json_ops \<Rightarrow> clock \<Rightarrow> 'j \<Rightarrow> (store_image \<times> nat) option" where
  "store_of_json J clk j = do {
     cr \<leftarrow> value_int J j ''completed_rounds'' 0;
     ts \<leftarrow> value_int J j ''total_submissions'' 0;
     kv \<leftarrow> value_int J j ''active_key_version'' 1;
     (cs, k1) \<leftarrow> read_table J (client_of_json J) clk 0 j ''clients'';
     (ms, k2) \<leftarrow> read_table J (model_of_json J) clk k1 j ''models'';
     (ds, k3) \<leftarrow> read_table J (dataset_of_json J) clk k2 j ''datasets'';
     (js, k4) \<leftarrow> read_table J (job_of_json J) clk k3 j ''training_jobs'';
     (as, k5) \<leftarrow> read_table J (\<lambda>_. assignment_of_json J) clk k4 j ''assignments'';
     (ws, k6) \<leftarrow> read_table J (worker_of_json J) clk k5 j ''workers'';
     (ks, k7) \<leftarrow> read_table J (\<lambda>_. task_of_json J) clk k6 j ''worker_tasks'';
     (es, k8) \<leftarrow> read_table J (event_of_json J) clk k7 j ''audit_events'';
     Some (\<lparr>clients = cs, models = ms, datasets = ds, training_jobs = js, assignments = as,
       workers = ws, worker_tasks = ks, audit_events = es, completed_rounds = cr,
       total_submissions = ts, active_key_version = kv\<rparr>, k8) }"

text \<open>Replacing the members of a store by an image.\<close>

definition with_image :: "store_image \<Rightarrow> state_store \<Rightarrow> state_store" where
  "with_image i s = store_image.extend i
     \<lparr>store_path = store_path s, audit_retention = audit_retention s, persisted = persisted s\<rparr>"

text \<open>What \<open>Load\<close> does when reading fails: every member is cleared and the store saved.\<close>

definition reset_store :: "state_store \<Rightarrow> state_store" where
  "reset_store s = SaveLocked (with_image empty_image s)"

text \<open>\<open>Load\<close>: no file gives the store as constructed, saved; a document that does not parse or
  does not have the expected types gives the empty store, saved.\<close>

definition Load :: "('j, 'x) json_ops \<Rightarrow> clock \<Rightarrow> 'x option \<Rightarrow> state_store \<Rightarrow> state_store" where
  "Load J clk file s =
     (case file of
        None \<Rightarrow> SaveLocked s
      | Some text \<Rightarrow>
          (case do { j \<leftarrow> parse J text; store_of_json J clk j } of
             None \<Rightarrow> reset_store s
           | Some (i, k) \<Rightarrow>
               SaveLocked (TrimAuditEventsLocked
                 (ExpireAssignmentsLocked (CurrentTimestamp (clk k)) (with_image i s)))))"

section \<open>Replacing the file\<close>

text \<open>
  The file system is a map from paths to contents, a content is the text written so far. The
  steps of \<open>SaveLocked\<close>: open the temporary file (truncating it), write the text piece by piece,
  flush, rename over the target; opening, writing and renaming may fail.
\<close>

datatype save_state = Opening | Writing nat | Flushed | Renamed | Failed

definition temp_path :: "string \<Rightarrow> string" where
  "temp_path path = path @ ''.tmp''"

inductive save_step ::
  "string \<Rightarrow> 'c list \<Rightarrow> save_state \<times> (string \<rightharpoonup> 'c list) \<Rightarrow> save_state \<times> (string \<rightharpoonup> 'c list) \<Rightarrow> bool"
  for path :: string and content :: "'c list" where
  open_temp: "save_step path content (Opening, fs) (Writing 0, fs(temp_path path \<mapsto> []))"
| open_fails: "save_step path content (Opening, fs) (Failed, fs)"
| write_some: "n \<le> n' \<Longrightarrow> n' \<le> length content \<Longrightarrow>
    save_step path content (Writing n, fs) (Writing n', fs(temp_path path \<mapsto> take n' content))"
| write_fails: "save_step path content (Writing n, fs) (Failed, fs)"
| flush_temp: "n = length content \<Longrightarrow> save_step path content (Writing n, fs) (Flushed, fs)"
| rename_temp: "save_step path content (Flushed, fs) (Renamed, (fs(path := fs (temp_path path)))(temp_path path := None))"
| rename_fails: "save_step path content (Flushed, fs) (Failed, fs(temp_path path := None))"

section \<open>Lemmas: reading back what was written\<close>

lemma json_value:
  assumes "json_laws J"
  shows "map_of fs k = Some (mk_str J v) \<Longrightarrow> value_str J (mk_obj J fs) k d = Some v"
    "map_of fs k = Some (mk_int J i) \<Longrightarrow> value_int J (mk_obj J fs) k e = Some i"
    "map_of fs k = Some (mk_bool J b) \<Longrightarrow> value_bool J (mk_obj J fs) k c = Some b"
    "contains J (mk_obj J fs) k \<longleftrightarrow> map_of fs k \<noteq> None"
    "map_of fs k = Some (mk_strs J l) \<Longrightarrow> at_strs J (mk_obj J fs) k = Some l"
    "map_of fs k = Some (mk_arr J a) \<Longrightarrow> at_elems J (mk_obj J fs) k = Some a"
    "parse J (dump J j) = Some j"
  using assms unfolding json_laws_def by simp_all

definition scoped_client :: "PersistedClientRecord \<Rightarrow> PersistedClientRecord" where
  "scoped_client r = r\<lparr>cl_tenant_id := NormalizeTenant (cl_tenant_id r), cl_model_id := NormalizeModel (cl_model_id r)\<rparr>"

definition scoped_model :: "PersistedModelRecord \<Rightarrow> PersistedModelRecord" where
  "scoped_model r = r\<lparr>md_tenant_id := NormalizeTenant (md_tenant_id r), md_model_id := NormalizeModel (md_model_id r)\<rparr>"

definition scoped_dataset :: "PersistedDatasetRecord \<Rightarrow> PersistedDatasetRecord" where
  "scoped_dataset r = r\<lparr>ds_tenant_id := NormalizeTenant (ds_tenant_id r), ds_model_id := NormalizeModel (ds_model_id r)\<rparr>"

definition scoped_job :: "PersistedTrainingJobRecord \<Rightarrow> PersistedTrainingJobRecord" where
  "scoped_job r = r\<lparr>jb_tenant_id := NormalizeTenant (jb_tenant_id r), jb_model_id := NormalizeModel (jb_model_id r)\<rparr>"

definition scoped_assignment :: "PersistedAssignmentLease \<Rightarrow> PersistedAssignmentLease" where
  "scoped_assignment r = r\<lparr>as_tenant_id := NormalizeTenant (as_tenant_id r), as_model_id := NormalizeModel (as_model_id r)\<rparr>"

definition scoped_worker :: "PersistedWorkerRecord \<Rightarrow> PersistedWorkerRecord" where
  "scoped_worker r = r\<lparr>wk_tenant_id := NormalizeTenant (wk_tenant_id r), wk_model_id := NormalizeModel (wk_model_id r)\<rparr>"

definition scoped_task :: "PersistedWorkerTaskRecord \<Rightarrow> PersistedWorkerTaskRecord" where
  "scoped_task r = r\<lparr>tk_tenant_id := NormalizeTenant (tk_tenant_id r), tk_model_id := NormalizeModel (tk_model_id r)\<rparr>"

definition scoped_event :: "PersistedAuditEvent \<Rightarrow> PersistedAuditEvent" where
  "scoped_event r = r\<lparr>ev_tenant_id := NormalizeTenant (ev_tenant_id r), ev_model_id := NormalizeModel (ev_model_id r)\<rparr>"

lemma record_roundtrips:
  assumes J: "json_laws J"
  shows "client_of_json J now (client_json J c) = Some (scoped_client c)"
    "model_of_json J now (model_json J m) = Some (scoped_model m)"
    "dataset_of_json J now (dataset_json J d) = Some (scoped_dataset d)"
    "job_of_json J now (job_json J b) = Some (scoped_job b)"
    "assignment_of_json J (assignment_json J a) = Some (scoped_assignment a)"
    "worker_of_json J now (worker_json J w) = Some (scoped_worker w)"
    "task_of_json J (task_json J k) = Some (scoped_task k)"
    "event_of_json J now (event_json J e) = Some (scoped_event e)"
  by (simp_all add: client_of_json_def client_json_def model_of_json_def model_json_def dataset_of_json_def
      dataset_json_def job_of_json_def job_json_def assignment_of_json_def assignment_json_def
      worker_of_json_def worker_json_def task_of_json_def task_json_def event_of_json_def event_json_def
      json_value [OF J] scoped_client_def scoped_model_def scoped_dataset_def scoped_job_def
      scoped_assignment_def scoped_worker_def scoped_task_def scoped_event_def)

lemma read_rows_map:
  "(\<And>now r. f now (g r) = Some (h r)) \<Longrightarrow> read_rows f clk k (map g rs) = Some (map h rs)"
  by (induction rs arbitrary: k) simp_all

definition scoped_image :: "store_image \<Rightarrow> store_image" where
  "scoped_image i = i\<lparr>clients := map scoped_client (clients i), models := map scoped_model (models i),
     datasets := map scoped_dataset (datasets i), training_jobs := map scoped_job (training_jobs i),
     assignments := map scoped_assignment (assignments i), workers := map scoped_worker (workers i),
     worker_tasks := map scoped_task (worker_tasks i), audit_events := map scoped_event (audit_events i)\<rparr>"

lemma read_table_map:
  assumes "json_laws J" and "map_of fs key = Some (mk_arr J (map g rs))"
    and "\<And>now r. f now (g r) = Some (h r)"
  shows "read_table J f clk k (mk_obj J fs) key = Some (map h rs, k + length rs)"
  using assms(2) by (simp add: read_table_def json_value [OF assms(1)] read_rows_map [of f g h] assms(3))

lemma store_roundtrip:
  assumes J: "json_laws J"
  shows "\<exists>k. store_of_json J clk (store_json J i) = Some (scoped_image i, k)"
  unfolding store_json_def store_of_json_def
  by (simp add: json_value [OF J] read_table_map [OF J] record_roundtrips [OF J] scoped_image_def)

section \<open>Lemmas: the file is the old or the new one\<close>

lemma temp_path_neq [simp]: "temp_path path \<noteq> path" "path \<noteq> temp_path path"
  by (simp_all add: temp_path_def)

definition save_inv ::
  "string \<Rightarrow> 'c list \<Rightarrow> (string \<rightharpoonup> 'c list) \<Rightarrow> save_state \<times> (string \<rightharpoonup> 'c list) \<Rightarrow> bool" where
  "save_inv path text fs0 c \<longleftrightarrow>
     (\<forall>q. q \<noteq> path \<and> q \<noteq> temp_path path \<longrightarrow> snd c q = fs0 q) \<and>
     (case fst c of
        Opening \<Rightarrow> snd c = fs0
      | Writing n \<Rightarrow> n \<le> length text \<and> snd c path = fs0 path \<and> snd c (temp_path path) = Some (take n text)
      | Flushed \<Rightarrow> snd c path = fs0 path \<and> snd c (temp_path path) = Some text
      | Renamed \<Rightarrow> snd c path = Some text \<and> snd c (temp_path path) = None
      | Failed \<Rightarrow> snd c path = fs0 path)"

lemma save_inv_step: "save_step path text c c' \<Longrightarrow> save_inv path text fs0 c \<Longrightarrow> save_inv path text fs0 c'"
  by (induction rule: save_step.induct) (auto simp: save_inv_def)

lemma save_inv_run:
  "(save_step path text)\<^sup>*\<^sup>* (Opening, fs0) c \<Longrightarrow> save_inv path text fs0 c"
proof (induction rule: rtranclp_induct)
  case base
  show ?case by (simp add: save_inv_def)
next
  case (step c c')
  then show ?case by (blast intro: save_inv_step)
qed

end
