(* ===== verification/Persist_Guarantees.thy ===== *)
theory Persist_Guarantees
  imports Store_Persist Store_Scenario
begin

text \<open>
  The guarantees of the state file: what a restart reads is what was written, a file that cannot be
  read is replaced by an empty store, and a crash while saving leaves the old or the new file.
\<close>

section \<open>A JSON library that keeps the laws\<close>

text \<open>Documents as trees; the dumped form of a document is the document.\<close>

datatype json_tree =
    JStr string
  | JInt int
  | JBool bool
  | JStrs "string list"
  | JArr "json_tree list"
  | JObj "(string \<times> json_tree) list"

fun member_of :: "json_tree \<Rightarrow> string \<Rightarrow> json_tree option" where
  "member_of (JObj fs) k = map_of fs k"
| "member_of _ k = None"

definition tree_json :: "(json_tree, json_tree) json_ops" where
  "tree_json = \<lparr>mk_str = JStr, mk_int = JInt, mk_bool = JBool, mk_strs = JStrs, mk_arr = JArr, mk_obj = JObj,
     value_str = (\<lambda>j k d. case member_of j k of None \<Rightarrow> Some d | Some (JStr v) \<Rightarrow> Some v | _ \<Rightarrow> None),
     value_int = (\<lambda>j k d. case member_of j k of None \<Rightarrow> Some d | Some (JInt v) \<Rightarrow> Some v | _ \<Rightarrow> None),
     value_bool = (\<lambda>j k d. case member_of j k of None \<Rightarrow> Some d | Some (JBool v) \<Rightarrow> Some v | _ \<Rightarrow> None),
     contains = (\<lambda>j k. member_of j k \<noteq> None),
     at_strs = (\<lambda>j k. case member_of j k of Some (JStrs v) \<Rightarrow> Some v | _ \<Rightarrow> None),
     at_elems = (\<lambda>j k. case member_of j k of Some (JArr v) \<Rightarrow> Some v | _ \<Rightarrow> None),
     dump = (\<lambda>j. j), parse = Some\<rparr>"

lemma tree_json_laws: "json_laws tree_json"
  unfolding json_laws_def tree_json_def by simp

section \<open>Restart\<close>

text \<open>C14: Whatever store was saved last, a server that starts from its file holds exactly the saved
  records, counters and audit trail again (with empty scopes replaced by the default ones), with
  the leases that lapsed in the meantime expired and the trail cut to the configured retention,
  and writes that state back.\<close>

theorem restart_restores_saved_store:
  assumes "json_laws J" and "persisted s = Some i"
  shows "\<exists>k. Load J clk (file_text J s) s0 =
    SaveLocked (TrimAuditEventsLocked (ExpireAssignmentsLocked (CurrentTimestamp (clk k))
      (with_image (scoped_image i) s0)))"
proof -
  obtain k where "store_of_json J clk (store_json J i) = Some (scoped_image i, k)"
    using store_roundtrip [OF assms(1)] by blast
  then have "Load J clk (file_text J s) s0 =
    SaveLocked (TrimAuditEventsLocked (ExpireAssignmentsLocked (CurrentTimestamp (clk k))
      (with_image (scoped_image i) s0)))"
    by (simp add: Load_def reset_store_def file_text_def assms(2) json_value(7) [OF assms(1)])
  then show ?thesis by (rule exI)
qed

theorem restart_restores_saved_store_witness:
  "\<exists>k. Load tree_json (\<lambda>_. 0) (file_text tree_json (SaveLocked demo_registered)) demo_empty =
    SaveLocked (TrimAuditEventsLocked (ExpireAssignmentsLocked (CurrentTimestamp ((\<lambda>_. 0) k))
      (with_image (scoped_image (image demo_registered)) demo_empty)))"
  using restart_restores_saved_store [OF tree_json_laws, of "SaveLocked demo_registered" "image demo_registered"
      "\<lambda>_. 0" demo_empty] by (simp add: SaveLocked_def)

text \<open>A state file that does not parse, or whose members do not have the expected types, does
  not stop the server: the store starts empty and the file is overwritten with the empty store.\<close>

theorem unreadable_file_is_replaced:
  assumes "\<forall>j. parse J content = Some j \<longrightarrow> store_of_json J clk j = None"
  shows "image (Load J clk (Some content) s) = empty_image \<and>
    persisted (Load J clk (Some content) s) = Some empty_image \<and>
    audit_retention (Load J clk (Some content) s) = audit_retention s"
proof -
  have "do { j \<leftarrow> parse J content; store_of_json J clk j } = None"
    using assms by (cases "parse J content") auto
  then have "Load J clk (Some content) s = SaveLocked (with_image empty_image s)"
    by (simp add: Load_def reset_store_def)
  then show ?thesis
    by (simp add: SaveLocked_def with_image_def image_def store_image.defs empty_image_def)
qed

theorem unreadable_file_is_replaced_witness:
  "image (Load tree_json (\<lambda>_. 0) (Some (JObj [(''completed_rounds'', JStr ''seven'')])) demo_registered) = empty_image"
  using unreadable_file_is_replaced [of tree_json "JObj [(''completed_rounds'', JStr ''seven'')]" "\<lambda>_. 0" demo_registered]
  by (simp add: tree_json_def store_of_json_def)

section \<open>Atomic replacement\<close>

text \<open>At every moment while the store is being saved, and after every failure, the state file
  holds its old content in full; once the rename has happened it holds the new content in full.
  No other file than the temporary one is touched.\<close>

theorem save_replaces_atomically:
  assumes "(save_step path content)\<^sup>*\<^sup>* (Opening, fs0) (st, fs)"
  shows "fs path = (if st = Renamed then Some content else fs0 path) \<and>
    (\<forall>q. q = path \<or> q = temp_path path \<or> fs q = fs0 q)"
  using save_inv_run [OF assms] by (cases st) (auto simp: save_inv_def)

lemma demo_save_run:
  "(save_step ''s.json'' [1::nat, 2])\<^sup>*\<^sup>* (Opening, [''s.json'' \<mapsto> [0]])
     (Writing 1, [''s.json'' \<mapsto> [0], ''s.json.tmp'' \<mapsto> [1]])"
proof -
  have "save_step ''s.json'' [1::nat, 2] (Opening, [''s.json'' \<mapsto> [0]])
      (Writing 0, [''s.json'' \<mapsto> [0], temp_path ''s.json'' \<mapsto> []])"
    by (rule open_temp)
  moreover have "save_step ''s.json'' [1::nat, 2] (Writing 0, [''s.json'' \<mapsto> [0], temp_path ''s.json'' \<mapsto> []])
      (Writing 1, [''s.json'' \<mapsto> [0], ''s.json.tmp'' \<mapsto> [1]])"
    using write_some [of 0 1 "[1::nat, 2]" "''s.json''" "[''s.json'' \<mapsto> [0], temp_path ''s.json'' \<mapsto> []]"]
    by (simp add: temp_path_def)
  ultimately show ?thesis by (rule converse_rtranclp_into_rtranclp [OF _ r_into_rtranclp])
qed

theorem save_replaces_atomically_witness:
  "[''s.json'' \<mapsto> [0::nat], ''s.json.tmp'' \<mapsto> [1]] ''s.json'' = Some [0]"
  using save_replaces_atomically [OF demo_save_run] by simp

end
