(* ===== verification/Aggregation.thy ===== *)
theory Aggregation
  imports Identity Complex_Main "HOL-Library.Multiset"
begin

text \<open>
  \<open>server/weight_buffer.cpp\<close>, the numerical half: clipping, validation, the three aggregation
  rules, momentum and the noise for differential privacy. The arithmetic of \<open>float\<close> is the record
  \<open>arith\<close>, so that every definition keeps the order of the C++ operations; \<open>real_arith\<close> is exact
  arithmetic, over which the mathematical properties are stated (rounding is not modelled there).
  An \<open>unordered_map\<close> from clients to vectors is the list of its entries in iteration order.
\<close>

section \<open>Arithmetic\<close>

record 'f arith =
  ar_add :: "'f \<Rightarrow> 'f \<Rightarrow> 'f"
  ar_sub :: "'f \<Rightarrow> 'f \<Rightarrow> 'f"
  ar_mul :: "'f \<Rightarrow> 'f \<Rightarrow> 'f"
  ar_div :: "'f \<Rightarrow> 'f \<Rightarrow> 'f"
  ar_sqrt :: "'f \<Rightarrow> 'f"
  ar_log :: "'f \<Rightarrow> 'f"
  ar_lt :: "'f \<Rightarrow> 'f \<Rightarrow> bool"
  ar_le :: "'f \<Rightarrow> 'f \<Rightarrow> bool"
  ar_of_int :: "int \<Rightarrow> 'f"
  ar_floor :: "'f \<Rightarrow> nat"
  ar_finite :: "'f \<Rightarrow> bool"
  ar_max :: 'f

abbreviation ar_zero :: "'f arith \<Rightarrow> 'f" where
  "ar_zero A \<equiv> ar_of_int A 0"

text \<open>\<open>std::sort\<close> on floats.\<close>

primrec insert_by :: "('f \<Rightarrow> 'f \<Rightarrow> bool) \<Rightarrow> 'f \<Rightarrow> 'f list \<Rightarrow> 'f list" where
  "insert_by lt x [] = [x]"
| "insert_by lt x (y # ys) = (if lt y x then y # insert_by lt x ys else x # y # ys)"

definition sort_by :: "('f \<Rightarrow> 'f \<Rightarrow> bool) \<Rightarrow> 'f list \<Rightarrow> 'f list" where
  "sort_by lt xs = foldr (insert_by lt) xs []"

section \<open>Clipping\<close>

definition ClipWeights :: "'f arith \<Rightarrow> 'f \<Rightarrow> 'f list \<Rightarrow> 'f list" where
  "ClipWeights A clip_norm weights =
     (let l2 = ar_sqrt A (foldl (\<lambda>l2 w. ar_add A l2 (ar_mul A w w)) (ar_zero A) weights)
      in if ar_lt A (ar_zero A) clip_norm \<and> ar_lt A clip_norm l2 then
           let scale = ar_div A clip_norm l2 in map (\<lambda>value. ar_mul A value scale) weights
         else weights)"

text \<open>\<open>gauss sigma i\<close> is the \<open>i\<close>-th draw from \<open>std::normal_distribution<float>(0, sigma)\<close>.\<close>

definition ApplyDifferentialPrivacy ::
  "'f arith \<Rightarrow> ('f \<Rightarrow> nat \<Rightarrow> 'f) \<Rightarrow> 'f \<Rightarrow> 'f \<Rightarrow> 'f \<Rightarrow> nat \<Rightarrow> 'f list \<Rightarrow> 'f list" where
  "ApplyDifferentialPrivacy A gauss clip_norm epsilon delta num_clients weights =
     (if ar_le A epsilon (ar_zero A) \<or> ar_le A delta (ar_zero A) \<or> ar_le A (ar_of_int A 1) delta \<or>
         num_clients = 0 then weights
      else
        let sigma = ar_div A
              (ar_mul A clip_norm (ar_sqrt A (ar_mul A (ar_of_int A 2)
                (ar_log A (ar_div A (ar_div A (ar_of_int A 5) (ar_of_int A 4)) delta)))))
              (ar_mul A epsilon (ar_sqrt A (ar_of_int A (int num_clients))));
            noisy = map (\<lambda>i. ar_add A (weights ! i) (gauss sigma i)) [0..<length weights]
        in ClipWeights A clip_norm noisy)"

section \<open>Validation\<close>

text \<open>The first failing check of the loop over the entries; \<open>None\<close> is "valid".\<close>

fun validate_entries :: "'f arith \<Rightarrow> nat \<Rightarrow> (string \<times> 'f list) list \<Rightarrow> string option" where
  "validate_entries A expected_size [] = None"
| "validate_entries A expected_size ((client_id, values) # rest) =
     (if length values \<noteq> expected_size then Some ''Mismatched tensor dimensions''
      else if list_ex (\<lambda>v. \<not> ar_finite A v) values then
        Some (''Non-finite tensor value from client '' @ client_id)
      else validate_entries A expected_size rest)"

definition ValidateWeights :: "'f arith \<Rightarrow> (string \<times> 'f list) list \<Rightarrow> string option" where
  "ValidateWeights A weights =
     (case weights of
        [] \<Rightarrow> Some ''No weights submitted''
      | (_, first) # _ \<Rightarrow>
          if length first = 0 then Some ''Empty weight tensor''
          else validate_entries A (length first) weights)"

section \<open>Federated averaging\<close>

text \<open>The sum is an \<open>int\<close> of 32 bits and wraps around (formally undefined in C++; what the compilers in use do).\<close>

definition int32 :: "int \<Rightarrow> int" where
  "int32 x = signed_take_bit 31 x"

definition total_samples :: "(string \<times> int) list \<Rightarrow> int" where
  "total_samples dataset_sizes = foldl (\<lambda>total (_, n). int32 (total + max 1 n)) 0 dataset_sizes"

definition client_samples :: "(string \<times> int) list \<Rightarrow> string \<Rightarrow> int" where
  "client_samples dataset_sizes client_id =
     (case map_of dataset_sizes client_id of None \<Rightarrow> 1 | Some n \<Rightarrow> max 1 n)"

definition fedavg_factor ::
  "'f arith \<Rightarrow> (string \<times> 'f list) list \<Rightarrow> (string \<times> int) list \<Rightarrow> string \<Rightarrow> 'f" where
  "fedavg_factor A weights dataset_sizes client_id =
     (if total_samples dataset_sizes > 0 then
        ar_div A (ar_of_int A (client_samples dataset_sizes client_id))
                 (ar_of_int A (total_samples dataset_sizes))
      else ar_div A (ar_of_int A 1) (ar_of_int A (int (length weights))))"

definition AggFedAvg :: "'f arith \<Rightarrow> (string \<times> 'f list) list \<Rightarrow> (string \<times> int) list \<Rightarrow> 'f list" where
  "AggFedAvg A weights dataset_sizes =
     (let dim = length (snd (hd weights)) in
      foldl (\<lambda>result (client_id, values).
          let factor = fedavg_factor A weights dataset_sizes client_id in
          map (\<lambda>i. ar_add A (result ! i) (ar_mul A (values ! i) factor)) [0..<dim])
        (replicate dim (ar_zero A)) weights)"

section \<open>Krum\<close>

definition krum_dist :: "'f arith \<Rightarrow> 'f list list \<Rightarrow> nat \<Rightarrow> nat \<Rightarrow> 'f" where
  "krum_dist A vectors i j =
     (if i = j then ar_zero A
      else
        let a = min i j; b = max i j in
        foldl (\<lambda>dist d. let diff = ar_sub A (vectors ! a ! d) (vectors ! b ! d)
                        in ar_add A dist (ar_mul A diff diff))
          (ar_zero A) [0..<length (vectors ! a)])"

definition krum_neighbours :: "nat \<Rightarrow> nat" where
  "krum_neighbours n =
     (let f = (if n \<ge> 3 then (n - 3) div 2 else 0) in if n > f + 2 then n - f - 2 else 1)"

definition krum_score :: "'f arith \<Rightarrow> 'f list list \<Rightarrow> nat \<Rightarrow> 'f" where
  "krum_score A vectors i =
     (let n = length vectors;
          candidate = sort_by (ar_lt A) (map (krum_dist A vectors i) [0..<n])
      in foldl (\<lambda>score j. ar_add A score (candidate ! j)) (ar_zero A)
           [1..<Suc (min (krum_neighbours n) (n - 1))])"

definition krum_best :: "'f arith \<Rightarrow> 'f list list \<Rightarrow> nat" where
  "krum_best A vectors =
     fst (foldl (\<lambda>(best_idx, best_score) i.
            let score = krum_score A vectors i in
            if ar_lt A score best_score then (i, score) else (best_idx, best_score))
          (0, ar_max A) [0..<length vectors])"

definition AggKrum :: "'f arith \<Rightarrow> (string \<times> 'f list) list \<Rightarrow> 'f list" where
  "AggKrum A weights =
     (if length weights < 3 then AggFedAvg A weights (map (\<lambda>(client_id, _). (client_id, 1)) weights)
      else let vectors = map snd weights in vectors ! krum_best A vectors)"

section \<open>Trimmed mean\<close>

definition trim_bounds :: "nat \<Rightarrow> nat \<Rightarrow> nat \<times> nat" where
  "trim_bounds n trim_count =
     (let start = trim_count; stop = (if n > trim_count then n - trim_count else n)
      in if start \<ge> stop then (0, n) else (start, stop))"

definition trimmed_axis :: "'f arith \<Rightarrow> nat \<Rightarrow> 'f list \<Rightarrow> 'f" where
  "trimmed_axis A trim_count axis_values =
     (let sorted = sort_by (ar_lt A) axis_values;
          (start, stop) = trim_bounds (length axis_values) trim_count;
          total = foldl (\<lambda>total i. ar_add A total (sorted ! i)) (ar_zero A) [start..<stop]
      in ar_div A total (ar_of_int A (int (stop - start))))"

definition trim_count_of :: "'f arith \<Rightarrow> 'f \<Rightarrow> nat \<Rightarrow> nat" where
  "trim_count_of A beta n =
     ar_floor A (ar_mul A (if ar_lt A (ar_zero A) beta then beta else ar_zero A) (ar_of_int A (int n)))"

definition AggTrimmedMean :: "'f arith \<Rightarrow> (string \<times> 'f list) list \<Rightarrow> 'f \<Rightarrow> 'f list" where
  "AggTrimmedMean A weights beta =
     (let dim = length (snd (hd weights));
          trim_count = trim_count_of A beta (length weights)
      in map (\<lambda>d. trimmed_axis A trim_count (map (\<lambda>(_, values). values ! d) weights)) [0..<dim])"

section \<open>Server momentum\<close>

text \<open>The smoothed result and the new velocity; a velocity of another length starts at zero.\<close>

definition ApplyMomentum ::
  "'f arith \<Rightarrow> 'f \<Rightarrow> 'f list \<Rightarrow> 'f list \<Rightarrow> 'f list \<Rightarrow> 'f list \<times> 'f list" where
  "ApplyMomentum A server_momentum latest velocity result =
     (let v0 = (if length velocity \<noteq> length result then replicate (length result) (ar_zero A) else velocity);
          v = map (\<lambda>i. ar_add A (ar_mul A server_momentum (v0 ! i)) (ar_sub A (result ! i) (latest ! i)))
                [0..<length result]
      in (map (\<lambda>i. ar_add A (latest ! i) (v ! i)) [0..<length result], v))"

section \<open>Exact arithmetic\<close>

definition real_arith :: "real arith" where
  "real_arith = \<lparr>ar_add = (+), ar_sub = (-), ar_mul = (*), ar_div = (/), ar_sqrt = sqrt, ar_log = ln,
     ar_lt = (<), ar_le = (\<le>), ar_of_int = of_int, ar_floor = (\<lambda>x. nat \<lfloor>x\<rfloor>),
     ar_finite = (\<lambda>_. True), ar_max = 340282346638528859811704183484516925440\<rparr>"

end
