(* ===== verification/Paths.thy ===== *)
theory Paths
  imports PQFL_Prelude
begin

text \<open>
  The lexical operations of \<open>std::filesystem::path\<close> the server uses, on POSIX paths: \<open>operator/\<close>,
  \<open>parent_path\<close>, \<open>filename\<close>, \<open>stem\<close> and \<open>extension\<close>.
\<close>

text \<open>\<open>operator/\<close>: an absolute right operand replaces the left one.\<close>

definition path_join :: "string \<Rightarrow> string \<Rightarrow> string" where
  "path_join a b =
     (if take 1 b = ''/'' then b
      else if a = '''' \<or> last a = CHR ''/'' then a @ b
      else a @ ''/'' @ b)"

definition path_filename :: "string \<Rightarrow> string" where
  "path_filename p = rev (takeWhile (\<lambda>c. c \<noteq> CHR ''/'') (rev p))"

definition parent_path :: "string \<Rightarrow> string" where
  "parent_path p =
     (let d = dropWhile (\<lambda>c. c \<noteq> CHR ''/'') (rev p);
          s = rev (dropWhile (\<lambda>c. c = CHR ''/'') d)
      in if s = '''' \<and> d \<noteq> '''' then ''/'' else s)"

text \<open>The extension starts at the last dot, unless there is none or it is the first character.\<close>

definition path_extension :: "string \<Rightarrow> string" where
  "path_extension p =
     (let f = path_filename p; after = rev (takeWhile (\<lambda>c. c \<noteq> CHR ''.'') (rev f))
      in if f = ''.'' \<or> f = ''..'' \<or> length f \<le> Suc (length after) then ''''
         else CHR ''.'' # after)"

definition path_stem :: "string \<Rightarrow> string" where
  "path_stem p =
     (let f = path_filename p in take (length f - length (path_extension p)) f)"

lemma path_join_relative:
  "take 1 b \<noteq> ''/'' \<Longrightarrow> path_join a b = a @ (if a = '''' \<or> last a = CHR ''/'' then '''' else ''/'') @ b"
  by (simp add: path_join_def)

lemma path_join_inj:
  "take 1 b \<noteq> ''/'' \<Longrightarrow> take 1 c \<noteq> ''/'' \<Longrightarrow> path_join a b = path_join a c \<longleftrightarrow> b = c"
  by (simp add: path_join_relative)

end
