(* ===== verification/Weight_Buffer.thy ===== *)
theory Weight_Buffer
  imports Aggregation Paths Store_Models "HOL-Library.AList"
begin

text \<open>
  \<open>server/weight_buffer.cpp\<close>, the stateful half: submissions collected per round, the attempt to
  aggregate when enough clients have submitted, the checkpoint, and the latest model per scope.
  An inner \<open>unordered_map\<close> from clients to vectors is an association list with distinct keys; the
  order in which the hash table iterates over it is \<open>env_order\<close>. Encryption, the file system and
  the random draws are the other fields of the environment.
\<close>

section \<open>State\<close>

record 'f LatestModelSnapshot =
  ls_round :: int
  ls_model_version :: int
  ls_weights :: "'f list"

record AggregationAttemptResult =
  ag_accepted :: bool
  ag_aggregated :: bool
  ag_model_version :: int
  ag_message :: string

record 'f weight_buffer =
  round_weights :: "string \<rightharpoonup> (string \<times> 'f list) list"
  round_dataset_sizes :: "string \<rightharpoonup> (string \<times> int) list"
  buffer_rounds :: "string set"
  latest_models :: "string \<rightharpoonup> 'f LatestModelSnapshot"
  optimizer_velocity :: "string \<rightharpoonup> 'f list"

definition empty_buffer :: "'f weight_buffer" where
  "empty_buffer = \<lparr>round_weights = Map.empty, round_dataset_sizes = Map.empty, buffer_rounds = {},
     latest_models = Map.empty, optimizer_velocity = Map.empty\<rparr>"

datatype write_outcome = Written | OpenFailed | WriteFailed

record ('f, 'b) buffer_env =
  env_order :: "(string \<times> 'f list) list \<Rightarrow> (string \<times> 'f list) list"
  env_gauss :: "'f \<Rightarrow> nat \<Rightarrow> 'f"
  env_bytes :: "'f list \<Rightarrow> 'b"
  env_encrypt :: "'b \<Rightarrow> string + 'b"
  env_mkdir :: "string \<Rightarrow> string option"
  env_write :: "string \<Rightarrow> 'b \<Rightarrow> write_outcome"
  env_key_version :: int

record 'f agg_params =
  ap_required_clients :: nat
  ap_strategy :: string
  ap_clip_norm :: 'f
  ap_dp_epsilon :: 'f
  ap_dp_delta :: 'f
  ap_trimmed_beta :: 'f
  ap_server_momentum :: 'f
  ap_checkpoint_dir :: string

record 'f add_request =
  rq_tenant_id :: string
  rq_model_id :: string
  rq_client_id :: string
  rq_round :: int
  rq_dataset_size :: int
  rq_weights :: "'f list"

abbreviation rq_scope :: "'f add_request \<Rightarrow> string" where
  "rq_scope q \<equiv> ScopeKey (rq_tenant_id q) (rq_model_id q)"

abbreviation rq_key :: "'f add_request \<Rightarrow> string" where
  "rq_key q \<equiv> RoundKey (rq_tenant_id q) (rq_model_id q) (rq_round q)"

section \<open>Submissions\<close>

definition GetLatestModelVersionLocked :: "'f weight_buffer \<Rightarrow> string \<Rightarrow> int" where
  "GetLatestModelVersionLocked b scope =
     (case latest_models b scope of None \<Rightarrow> 0 | Some it \<Rightarrow> ls_model_version it)"

definition erase_in :: "string \<Rightarrow> string \<Rightarrow> (string \<rightharpoonup> (string \<times> 'a) list) \<Rightarrow> (string \<rightharpoonup> (string \<times> 'a) list)" where
  "erase_in round_key client_id m =
     (case m round_key of
        None \<Rightarrow> m
      | Some es \<Rightarrow> (let es' = AList.delete client_id es in m(round_key := (if es' = [] then None else Some es'))))"

definition RemoveSubmissionLocked :: "string \<Rightarrow> string \<Rightarrow> 'f weight_buffer \<Rightarrow> 'f weight_buffer" where
  "RemoveSubmissionLocked round_key client_id b =
     b\<lparr>round_weights := erase_in round_key client_id (round_weights b),
       round_dataset_sizes := erase_in round_key client_id (round_dataset_sizes b)\<rparr>"

text \<open>\<open>m[round_key][client_id] = v\<close>.\<close>

definition entries :: "(string \<rightharpoonup> (string \<times> 'a) list) \<Rightarrow> string \<Rightarrow> (string \<times> 'a) list" where
  "entries m round_key = (case m round_key of None \<Rightarrow> [] | Some es \<Rightarrow> es)"

definition StoreSubmission :: "'f arith \<Rightarrow> 'f agg_params \<Rightarrow> 'f add_request \<Rightarrow> 'f weight_buffer \<Rightarrow> 'f weight_buffer" where
  "StoreSubmission A P q b =
     b\<lparr>round_weights := (round_weights b)(rq_key q \<mapsto>
         AList.update (rq_client_id q) (ClipWeights A (ap_clip_norm P) (rq_weights q))
           (entries (round_weights b) (rq_key q))),
       round_dataset_sizes := (round_dataset_sizes b)(rq_key q \<mapsto>
         AList.update (rq_client_id q) (max 1 (rq_dataset_size q))
           (entries (round_dataset_sizes b) (rq_key q)))\<rparr>"

section \<open>The attempt to aggregate\<close>

definition AggregateClients ::
  "'f arith \<Rightarrow> 'f agg_params \<Rightarrow> (string \<times> 'f list) list \<Rightarrow> (string \<times> int) list \<Rightarrow> 'f list" where
  "AggregateClients A P client_map sizes =
     (if ap_strategy P = ''krum'' then AggKrum A client_map
      else if ap_strategy P = ''trimmed_mean'' then AggTrimmedMean A client_map (ap_trimmed_beta P)
      else AggFedAvg A client_map sizes)"

definition SmoothResult ::
  "'f arith \<Rightarrow> 'f agg_params \<Rightarrow> string \<Rightarrow> 'f list \<Rightarrow> 'f weight_buffer \<Rightarrow> 'f list \<times> 'f weight_buffer" where
  "SmoothResult A P scope result b =
     (case latest_models b scope of
        None \<Rightarrow> (result, b)
      | Some latest \<Rightarrow>
          if ls_weights latest \<noteq> [] \<and> length (ls_weights latest) = length result \<and>
             ar_lt A (ar_zero A) (ap_server_momentum P) then
            let velocity = (case optimizer_velocity b scope of None \<Rightarrow> [] | Some v \<Rightarrow> v);
                (smoothed, v) = ApplyMomentum A (ap_server_momentum P) (ls_weights latest) velocity result
            in (smoothed, b\<lparr>optimizer_velocity := (optimizer_velocity b)(scope \<mapsto> v)\<rparr>)
          else (result, b))"

definition PrivateResult ::
  "'f arith \<Rightarrow> ('f, 'b) buffer_env \<Rightarrow> 'f agg_params \<Rightarrow> nat \<Rightarrow> 'f list \<Rightarrow> 'f list" where
  "PrivateResult A E P num_clients result =
     (if ar_lt A (ar_zero A) (ap_dp_epsilon P) then
        ApplyDifferentialPrivacy A (env_gauss E) (ap_clip_norm P) (ap_dp_epsilon P) (ap_dp_delta P)
          num_clients result
      else result)"

definition scoped_dir :: "string \<Rightarrow> string \<Rightarrow> string \<Rightarrow> string" where
  "scoped_dir checkpoint_dir tenant_id model_id =
     path_join (path_join checkpoint_dir (NormalizeTenant tenant_id)) (NormalizeModel model_id)"

definition checkpoint_path :: "string \<Rightarrow> string \<Rightarrow> string \<Rightarrow> int \<Rightarrow> string" where
  "checkpoint_path checkpoint_dir tenant_id model_id rd =
     path_join (scoped_dir checkpoint_dir tenant_id model_id)
       (''global_model_round_'' @ to_string rd @ ''.bin'')"

text \<open>The \<open>try\<close> block that encrypts and writes the checkpoint: the message of the failure, if any.\<close>

definition PersistCheckpoint :: "('f, 'b) buffer_env \<Rightarrow> string \<Rightarrow> 'f list \<Rightarrow> string option" where
  "PersistCheckpoint E path result =
     (case env_encrypt E (env_bytes E result) of
        Inl e \<Rightarrow> Some (''Aggregation persistence failed: '' @ e)
      | Inr encrypted_blob \<Rightarrow>
          (case env_write E path encrypted_blob of
             Written \<Rightarrow> None
           | _ \<Rightarrow> Some ''Failed to persist encrypted checkpoint''))"

definition refused :: "'f weight_buffer \<Rightarrow> string \<Rightarrow> string \<Rightarrow> AggregationAttemptResult" where
  "refused b scope message =
     \<lparr>ag_accepted = False, ag_aggregated = False, ag_model_version = GetLatestModelVersionLocked b scope,
      ag_message = message\<rparr>"

text \<open>
  The result is \<open>Inl\<close> of the message when an exception escapes (from \<open>create_directories\<close>, outside
  the \<open>try\<close> block); the out-parameter \<open>aggregated_weights\<close> is written only on aggregation.
\<close>

definition AddWeightAndCheckAggregate ::
  "'f arith \<Rightarrow> ('f, 'b) buffer_env \<Rightarrow> 'f agg_params \<Rightarrow> clock \<Rightarrow> 'f add_request \<Rightarrow> 'f weight_buffer \<times> state_store
     \<Rightarrow> (string + AggregationAttemptResult \<times> 'f list option) \<times> ('f weight_buffer \<times> state_store)" where
  "AddWeightAndCheckAggregate A E P clk q = (\<lambda>(b, s).
     let scope = rq_scope q; round_key = rq_key q in
     if round_key \<in> buffer_rounds b then
       (Inr (refused b scope ''Round already aggregated'', None), (b, s))
     else
       let b1 = StoreSubmission A P q b;
           client_map = env_order E (entries (round_weights b1) round_key)
       in
       if length client_map < max 1 (ap_required_clients P) then
         (Inr (\<lparr>ag_accepted = True, ag_aggregated = False,
                ag_model_version = GetLatestModelVersionLocked b1 scope,
                ag_message = ''Weights received, waiting for more clients''\<rparr>, None), (b1, s))
       else
         (case ValidateWeights A client_map of
            Some reason \<Rightarrow>
              (let b2 = RemoveSubmissionLocked round_key (rq_client_id q) b1 in
               (Inr (refused b2 scope (''Aggregation validation failed: '' @ reason), None), (b2, s)))
          | None \<Rightarrow>
              let result0 = AggregateClients A P client_map (entries (round_dataset_sizes b1) round_key);
                  (result1, b2) = SmoothResult A P scope result0 b1;
                  result = PrivateResult A E P (length client_map) result1;
                  dir = scoped_dir (ap_checkpoint_dir P) (rq_tenant_id q) (rq_model_id q);
                  path = checkpoint_path (ap_checkpoint_dir P) (rq_tenant_id q) (rq_model_id q) (rq_round q)
              in
              case env_mkdir E dir of
                Some e \<Rightarrow> (Inl e, (b2, s))
              | None \<Rightarrow>
                  (case PersistCheckpoint E path result of
                     Some message \<Rightarrow>
                       (let b3 = RemoveSubmissionLocked round_key (rq_client_id q) b2 in
                        (Inr (refused b3 scope message, None), (b3, s)))
                   | None \<Rightarrow>
                       let (version, s') = RecordAggregatedModel clk (rq_tenant_id q) (rq_model_id q)
                             (rq_round q) path (ap_strategy P) (env_key_version E)
                             (int (length client_map)) (int (length result)) s;
                           b3 = b2\<lparr>latest_models := (latest_models b2)(scope \<mapsto>
                                  \<lparr>ls_round = rq_round q, ls_model_version = version, ls_weights = result\<rparr>),
                                buffer_rounds := insert round_key (buffer_rounds b2)\<rparr>
                       in (Inr (\<lparr>ag_accepted = True, ag_aggregated = True, ag_model_version = version,
                                ag_message = ''Aggregation completed for round '' @ to_string (rq_round q)\<rparr>,
                              Some result), (b3, s')))))"

section \<open>Queries and restoring\<close>

definition IsRoundCompleted :: "string \<Rightarrow> string \<Rightarrow> int \<Rightarrow> 'f weight_buffer \<Rightarrow> bool" where
  "IsRoundCompleted tenant_id model_id rd b \<longleftrightarrow> RoundKey tenant_id model_id rd \<in> buffer_rounds b"

definition HasClientSubmission :: "string \<Rightarrow> string \<Rightarrow> int \<Rightarrow> string \<Rightarrow> 'f weight_buffer \<Rightarrow> bool" where
  "HasClientSubmission tenant_id model_id rd client_id b \<longleftrightarrow>
     (case round_weights b (RoundKey tenant_id model_id rd) of
        None \<Rightarrow> False | Some es \<Rightarrow> map_of es client_id \<noteq> None)"

definition GetNumClients :: "string \<Rightarrow> string \<Rightarrow> int \<Rightarrow> 'f weight_buffer \<Rightarrow> nat" where
  "GetNumClients tenant_id model_id rd b =
     (case round_weights b (RoundKey tenant_id model_id rd) of None \<Rightarrow> 0 | Some es \<Rightarrow> length es)"

definition GetLatestGlobalModel :: "string \<Rightarrow> string \<Rightarrow> 'f weight_buffer \<Rightarrow> 'f LatestModelSnapshot" where
  "GetLatestGlobalModel tenant_id model_id b =
     (case latest_models b (ScopeKey tenant_id model_id) of
        None \<Rightarrow> \<lparr>ls_round = - 1, ls_model_version = 0, ls_weights = []\<rparr> | Some it \<Rightarrow> it)"

definition RestoreLatestGlobalModel ::
  "string \<Rightarrow> string \<Rightarrow> int \<Rightarrow> int \<Rightarrow> 'f list \<Rightarrow> 'f weight_buffer \<Rightarrow> 'f weight_buffer" where
  "RestoreLatestGlobalModel tenant_id model_id rd model_version weights b =
     b\<lparr>latest_models := (latest_models b)(ScopeKey tenant_id model_id \<mapsto>
        \<lparr>ls_round = rd, ls_model_version = model_version, ls_weights = weights\<rparr>)\<rparr>"

section \<open>The branches of the attempt\<close>

lemma SmoothResult_frame [simp]:
  "round_weights (snd (SmoothResult A P scope r b)) = round_weights b"
  "round_dataset_sizes (snd (SmoothResult A P scope r b)) = round_dataset_sizes b"
  "buffer_rounds (snd (SmoothResult A P scope r b)) = buffer_rounds b"
  "latest_models (snd (SmoothResult A P scope r b)) = latest_models b"
  by (simp_all add: SmoothResult_def Let_def split: option.split prod.split)

lemma StoreSubmission_frame [simp]:
  "buffer_rounds (StoreSubmission A P q b) = buffer_rounds b"
  "latest_models (StoreSubmission A P q b) = latest_models b"
  "optimizer_velocity (StoreSubmission A P q b) = optimizer_velocity b"
  by (simp_all add: StoreSubmission_def)

lemma RemoveSubmission_frame [simp]:
  "buffer_rounds (RemoveSubmissionLocked k c b) = buffer_rounds b"
  "latest_models (RemoveSubmissionLocked k c b) = latest_models b"
  "optimizer_velocity (RemoveSubmissionLocked k c b) = optimizer_velocity b"
  by (simp_all add: RemoveSubmissionLocked_def)

text \<open>The list the attempt works on: the stored submissions, in iteration order.\<close>

definition round_clients :: "'f arith \<Rightarrow> ('f, 'b) buffer_env \<Rightarrow> 'f agg_params \<Rightarrow> 'f add_request \<Rightarrow> 'f weight_buffer \<Rightarrow> (string \<times> 'f list) list" where
  "round_clients A E P q b = env_order E (entries (round_weights (StoreSubmission A P q b)) (rq_key q))"

definition round_result :: "'f arith \<Rightarrow> ('f, 'b) buffer_env \<Rightarrow> 'f agg_params \<Rightarrow> 'f add_request \<Rightarrow> 'f weight_buffer \<Rightarrow> 'f list \<times> 'f weight_buffer" where
  "round_result A E P q b =
     (let b1 = StoreSubmission A P q b; ws = round_clients A E P q b;
          (r, b2) = SmoothResult A P (rq_scope q)
            (AggregateClients A P ws (entries (round_dataset_sizes b1) (rq_key q))) b1
      in (PrivateResult A E P (length ws) r, b2))"

lemma AddWeight_cases:
  fixes A E P clk q b s
  defines "R \<equiv> AddWeightAndCheckAggregate A E P clk q (b, s)"
    and "b1 \<equiv> StoreSubmission A P q b" and "ws \<equiv> round_clients A E P q b"
    and "path \<equiv> checkpoint_path (ap_checkpoint_dir P) (rq_tenant_id q) (rq_model_id q) (rq_round q)"
  obtains
    (late) "rq_key q \<in> buffer_rounds b"
      "R = (Inr (refused b (rq_scope q) ''Round already aggregated'', None), (b, s))"
  | (waiting) "rq_key q \<notin> buffer_rounds b" "length ws < max 1 (ap_required_clients P)"
      "R = (Inr (\<lparr>ag_accepted = True, ag_aggregated = False,
                ag_model_version = GetLatestModelVersionLocked b1 (rq_scope q),
                ag_message = ''Weights received, waiting for more clients''\<rparr>, None), (b1, s))"
  | (invalid) reason b2 where "rq_key q \<notin> buffer_rounds b" "max 1 (ap_required_clients P) \<le> length ws"
      "ValidateWeights A ws = Some reason" "b2 = RemoveSubmissionLocked (rq_key q) (rq_client_id q) b1"
      "R = (Inr (refused b2 (rq_scope q) (''Aggregation validation failed: '' @ reason), None), (b2, s))"
  | (thrown) e where "rq_key q \<notin> buffer_rounds b" "max 1 (ap_required_clients P) \<le> length ws"
      "ValidateWeights A ws = None"
      "env_mkdir E (scoped_dir (ap_checkpoint_dir P) (rq_tenant_id q) (rq_model_id q)) = Some e"
      "R = (Inl e, (snd (round_result A E P q b), s))"
  | (unsaved) message b3 where "rq_key q \<notin> buffer_rounds b" "max 1 (ap_required_clients P) \<le> length ws"
      "ValidateWeights A ws = None"
      "PersistCheckpoint E path (fst (round_result A E P q b)) = Some message"
      "b3 = RemoveSubmissionLocked (rq_key q) (rq_client_id q) (snd (round_result A E P q b))"
      "R = (Inr (refused b3 (rq_scope q) message, None), (b3, s))"
  | (aggregated) v s' where "rq_key q \<notin> buffer_rounds b" "max 1 (ap_required_clients P) \<le> length ws"
      "ValidateWeights A ws = None"
      "PersistCheckpoint E path (fst (round_result A E P q b)) = None"
      "RecordAggregatedModel clk (rq_tenant_id q) (rq_model_id q) (rq_round q) path (ap_strategy P)
         (env_key_version E) (int (length ws)) (int (length (fst (round_result A E P q b)))) s = (v, s')"
      "R = (Inr (\<lparr>ag_accepted = True, ag_aggregated = True, ag_model_version = v,
              ag_message = ''Aggregation completed for round '' @ to_string (rq_round q)\<rparr>,
            Some (fst (round_result A E P q b))),
         ((snd (round_result A E P q b))\<lparr>latest_models := (latest_models b)(rq_scope q \<mapsto>
            \<lparr>ls_round = rq_round q, ls_model_version = v, ls_weights = fst (round_result A E P q b)\<rparr>),
            buffer_rounds := insert (rq_key q) (buffer_rounds b)\<rparr>, s'))"
proof -
  let ?smooth = "SmoothResult A P (rq_scope q) (AggregateClients A P ws
    (entries (round_dataset_sizes b1) (rq_key q))) b1"
  obtain r1 b2 where sm: "?smooth = (r1, b2)" by fastforce
  let ?res = "PrivateResult A E P (length ws) r1"
  have rr: "round_result A E P q b = (?res, b2)"
    using sm by (simp add: round_result_def Let_def ws_def b1_def)
  have fr: "latest_models b2 = latest_models b" "buffer_rounds b2 = buffer_rounds b"
    using SmoothResult_frame(3,4) [of A P "rq_scope q" "AggregateClients A P ws
      (entries (round_dataset_sizes b1) (rq_key q))" b1]
    unfolding sm by (simp_all add: b1_def)
  note R = R_def [unfolded AddWeightAndCheckAggregate_def Let_def prod.case round_clients_def [symmetric]
      ws_def [symmetric] b1_def [symmetric] path_def [symmetric]]
  show ?thesis
  proof (cases "rq_key q \<in> buffer_rounds b")
    case True
    then show ?thesis by (intro late) (simp_all add: R)
  next
    case open': False
    show ?thesis
    proof (cases "length ws < max 1 (ap_required_clients P)")
      case True
      with open' show ?thesis by (intro waiting) (simp_all add: R)
    next
      case False
      have enough: "max 1 (ap_required_clients P) \<le> length ws"
        "\<not> length ws < max (Suc 0) (ap_required_clients P)"
        using False by (simp_all only: not_less One_nat_def)
      show ?thesis
      proof (cases "ValidateWeights A ws")
        case (Some reason)
        with open' enough(2) show ?thesis by (intro invalid [OF open' enough(1) Some refl]) (simp add: R)
      next
        case None
        note base = open' enough(2) None
        show ?thesis
        proof (cases "env_mkdir E (scoped_dir (ap_checkpoint_dir P) (rq_tenant_id q) (rq_model_id q))")
          case (Some e)
          with base show ?thesis by (intro thrown [OF open' enough(1) None Some]) (simp add: R sm rr)
        next
          case dir: None
          show ?thesis
          proof (cases "PersistCheckpoint E path ?res")
            case (Some message)
            with base dir show ?thesis by (intro unsaved [OF open' enough(1) None _ refl]) (simp_all add: R sm rr)
          next
            case saved: None
            obtain v s' where "RecordAggregatedModel clk (rq_tenant_id q) (rq_model_id q) (rq_round q) path
                (ap_strategy P) (env_key_version E) (int (length ws)) (int (length ?res)) s = (v, s')"
              by fastforce
            with base dir saved show ?thesis by (intro aggregated [OF open' enough(1) None]) (simp_all add: R sm rr fr)
          qed
        qed
      qed
    qed
  qed
qed

end
