(* ===== verification/Aggregation_Real.thy ===== *)
theory Aggregation_Real
  imports Aggregation
begin

text \<open>
  The mathematics of the aggregation rules over exact arithmetic: clipping bounds the norm,
  averaging is the weighted mean and stays within the range of the submissions, trimming tolerates
  as many outliers on each side as it trims, Krum selects a submission of least score.
\<close>

section \<open>Loops as sums\<close>

lemma real_arith_simps [simp]:
  "ar_add real_arith = (+)" "ar_sub real_arith = (-)" "ar_mul real_arith = (*)"
  "ar_div real_arith = (/)" "ar_sqrt real_arith = sqrt" "ar_log real_arith = ln"
  "ar_lt real_arith = (<)" "ar_le real_arith = (\<le>)" "ar_of_int real_arith = of_int"
  "ar_floor real_arith = (\<lambda>x. nat \<lfloor>x\<rfloor>)" "ar_finite real_arith = (\<lambda>_. True)"
  by (simp_all add: real_arith_def)

lemma foldl_sum: "foldl (\<lambda>a x. a + f x) (a::real) xs = a + sum_list (map f xs)"
  by (induction xs arbitrary: a) simp_all

lemma sum_list_const_mult: "sum_list (map (\<lambda>x. f x * c) xs) = sum_list (map f xs) * (c::real)"
  by (induction xs) (simp_all add: algebra_simps)

lemma sum_list_mono_on:
  "(\<And>x. x \<in> set xs \<Longrightarrow> f x \<le> g x) \<Longrightarrow> sum_list (map f xs) \<le> sum_list (map (g :: 'a \<Rightarrow> real) xs)"
  by (induction xs) (simp_all add: add_mono)

lemma sum_list_mset_eq: "mset xs = mset ys \<Longrightarrow> sum_list (map f xs) = sum_list (map (f :: 'a \<Rightarrow> real) ys)"
  by (metis mset_map sum_mset_sum_list)

section \<open>Clipping\<close>

definition l2_norm :: "real list \<Rightarrow> real" where
  "l2_norm xs = sqrt (sum_list (map (\<lambda>w. w * w) xs))"

lemma l2_norm_nonneg [simp]: "0 \<le> l2_norm xs"
  unfolding l2_norm_def by (intro real_sqrt_ge_zero sum_list_nonneg) auto

lemma l2_norm_scale: "l2_norm (map (\<lambda>w. w * c) xs) = l2_norm xs * \<bar>c\<bar>"
proof -
  have "sum_list (map (\<lambda>w. w * w) (map (\<lambda>w. w * c) xs)) = sum_list (map (\<lambda>w. w * w) xs) * (c * c)"
    by (induction xs) (simp_all add: algebra_simps)
  then show ?thesis by (simp add: l2_norm_def real_sqrt_mult)
qed

lemma ClipWeights_real:
  "ClipWeights real_arith c ws =
     (if 0 < c \<and> c < l2_norm ws then map (\<lambda>w. w * (c / l2_norm ws)) ws else ws)"
  by (simp add: ClipWeights_def Let_def l2_norm_def foldl_sum)

lemma ClipWeights_norm:
  assumes "0 < c"
  shows "l2_norm (ClipWeights real_arith c ws) = min c (l2_norm ws)"
proof (cases "c < l2_norm ws")
  case True
  then have pos: "0 < l2_norm ws" using assms by linarith
  have "ClipWeights real_arith c ws = map (\<lambda>w. w * (c / l2_norm ws)) ws"
    using True assms by (simp add: ClipWeights_real)
  then show ?thesis using True pos assms by (simp only: l2_norm_scale) simp
qed (use assms in \<open>simp add: ClipWeights_real\<close>)

section \<open>Federated averaging\<close>

lemma axpy_fold:
  assumes "length r = n"
  shows "length (foldl (\<lambda>result (c, values). map (\<lambda>i. result ! i + values ! i * F c) [0..<n]) r W) = n \<and>
    (\<forall>i<n. foldl (\<lambda>result (c, values). map (\<lambda>i. result ! i + values ! i * F c) [0..<n]) r W ! i =
       r ! i + sum_list (map (\<lambda>(c, v). v ! i * (F c :: real)) W))"
  using assms
proof (induction W arbitrary: r)
  case (Cons p W)
  obtain c v where p: "p = (c, v)" by fastforce
  let ?r = "map (\<lambda>i. r ! i + v ! i * F c) [0..<n]"
  have "length ?r = n" by simp
  from Cons.IH [OF this] show ?case by (simp add: p)
qed simp

lemma AggFedAvg_real:
  "length (AggFedAvg real_arith W S) = length (snd (hd W))"
  "i < length (snd (hd W)) \<Longrightarrow> AggFedAvg real_arith W S ! i =
     sum_list (map (\<lambda>(c, v). v ! i * fedavg_factor real_arith W S c) W)"
  using axpy_fold [of "replicate (length (snd (hd W))) 0" "length (snd (hd W))" "fedavg_factor real_arith W S" W]
  by (simp_all add: AggFedAvg_def Let_def)

definition same_clients :: "(string \<times> 'f list) list \<Rightarrow> (string \<times> int) list \<Rightarrow> bool" where
  "same_clients W S \<longleftrightarrow> distinct (map fst W) \<and> distinct (map fst S) \<and> fst ` set W = fst ` set S"

text \<open>The number of samples without the bounds of \<open>int\<close>.\<close>

definition sample_sum :: "(string \<times> int) list \<Rightarrow> int" where
  "sample_sum S = sum_list (map (\<lambda>x. max 1 (snd x)) S)"

lemma int32_add [simp]: "int32 (int32 a + b) = int32 (a + b)"
  using signed_take_bit_add [of 31 "signed_take_bit 31 a" b] signed_take_bit_add [of 31 a b]
  by (simp only: int32_def signed_take_bit_signed_take_bit min.idem)

lemma int32_fits: "0 \<le> x \<Longrightarrow> x < 2 ^ 31 \<Longrightarrow> int32 x = x"
  by (simp add: int32_def signed_take_bit_int_eq_self)

lemma total_samples_wrap: "total_samples S = int32 (sample_sum S)"
proof -
  have "foldl (\<lambda>total (_::string, n). int32 (total + max 1 n)) (int32 a) S = int32 (a + sample_sum S)" for a
    by (induction S arbitrary: a) (simp_all add: sample_sum_def case_prod_unfold add.assoc)
  from this [of 0] show ?thesis by (simp add: total_samples_def int32_fits)
qed

lemma sample_sum_clients:
  assumes "same_clients W S"
  shows "sample_sum S = sum_list (map (\<lambda>(c, _). client_samples S c) W)"
proof -
  have S: "distinct (map fst S)" and W: "distinct (map fst W)" and eq: "set (map fst W) = set (map fst S)"
    using assms by (auto simp: same_clients_def)
  have each: "max 1 (snd x) = client_samples S (fst x)" if "x \<in> set S" for x
    using map_of_is_SomeI [OF S, of "fst x" "snd x"] that by (simp add: client_samples_def)
  have "sample_sum S = sum_list (map (client_samples S) (map fst S))"
    using each by (simp add: sample_sum_def comp_def cong: map_cong)
  also have "\<dots> = sum_list (map (client_samples S) (map fst W))"
    using S W eq by (metis sum_list_distinct_conv_sum_set)
  finally show ?thesis by (simp add: comp_def case_prod_unfold)
qed

lemma client_samples_pos [simp]: "1 \<le> client_samples S c" "0 < client_samples S c" "0 \<le> client_samples S c"
  by (simp_all add: client_samples_def less_max_iff_disj le_max_iff_disj split: option.split)

lemma sample_sum_pos:
  assumes "same_clients W S" and "W \<noteq> []"
  shows "0 < sample_sum S"
proof -
  obtain p W' where W: "W = p # W'" using assms(2) by (cases W) auto
  have "0 \<le> sum_list (map (\<lambda>(c, _). client_samples S c) W')"
    by (intro sum_list_nonneg) auto
  then show ?thesis
    unfolding sample_sum_clients [OF assms(1)] W by (cases p) (simp add: add_pos_nonneg)
qed

lemma total_samples_sum:
  assumes "same_clients W S" and "W \<noteq> []" and "sample_sum S < 2 ^ 31"
  shows "total_samples S = sample_sum S" "0 < total_samples S"
  using sample_sum_pos [OF assms(1,2)] assms(3) by (simp_all add: total_samples_wrap int32_fits)

text \<open>The average as one formula.\<close>

lemma AggFedAvg_mean:
  assumes "0 < total_samples S" and "i < length (snd (hd W))"
  shows "AggFedAvg real_arith W S ! i =
    sum_list (map (\<lambda>(c, v). v ! i * of_int (client_samples S c)) W) / of_int (total_samples S)"
proof -
  have F: "fedavg_factor real_arith W S c = of_int (client_samples S c) / of_int (total_samples S)" for c
    using assms(1) by (simp add: fedavg_factor_def)
  show ?thesis
    unfolding AggFedAvg_real(2) [OF assms(2)] F
    using sum_list_const_mult [of "\<lambda>(c, v). v ! i * of_int (client_samples S c)" "1 / of_int (total_samples S)" W]
    by (simp add: case_prod_unfold)
qed

text \<open>The average when the sum has wrapped around to zero or below.\<close>

lemma AggFedAvg_unweighted:
  assumes "\<not> 0 < total_samples S" and "i < length (snd (hd W))"
  shows "AggFedAvg real_arith W S ! i = sum_list (map (\<lambda>(c, v). v ! i) W) / length W"
proof -
  have F: "fedavg_factor real_arith W S c = 1 / length W" for c
    using assms(1) by (simp add: fedavg_factor_def)
  show ?thesis
    unfolding AggFedAvg_real(2) [OF assms(2)] F
    using sum_list_const_mult [of "\<lambda>(c, v). v ! i" "1 / length W" W] by (simp add: case_prod_unfold)
qed

lemma AggFedAvg_range:
  assumes "same_clients W S" and "W \<noteq> []" and "i < length (snd (hd W))" and fits: "sample_sum S < 2 ^ 31"
    and "\<And>c v. (c, v) \<in> set W \<Longrightarrow> lo \<le> v ! i \<and> v ! i \<le> hi"
  shows "lo \<le> AggFedAvg real_arith W S ! i \<and> AggFedAvg real_arith W S ! i \<le> hi"
proof -
  let ?n = "\<lambda>(c, v). real_of_int (client_samples S c)"
  have pos: "0 < real_of_int (total_samples S)"
    using total_samples_sum(2) [OF assms(1,2) fits] by simp
  have tot: "sum_list (map ?n W) = of_int (total_samples S)"
    unfolding total_samples_sum(1) [OF assms(1,2) fits] sample_sum_clients [OF assms(1)] by (induction W) (auto simp: case_prod_unfold)
  have nn: "0 \<le> real_of_int (client_samples S c)" for c
    by simp
  have "lo * of_int (total_samples S) = sum_list (map (\<lambda>(c, v). lo * of_int (client_samples S c)) W)"
    unfolding tot [symmetric] by (induction W) (simp_all add: case_prod_unfold algebra_simps)
  also have "\<dots> \<le> sum_list (map (\<lambda>(c, v). v ! i * of_int (client_samples S c)) W)"
    using assms(5) nn by (intro sum_list_mono_on) (auto intro: mult_right_mono)
  finally have l: "lo * of_int (total_samples S) \<le> sum_list (map (\<lambda>(c, v). v ! i * of_int (client_samples S c)) W)" .
  have "sum_list (map (\<lambda>(c, v). v ! i * of_int (client_samples S c)) W) \<le>
      sum_list (map (\<lambda>(c, v). hi * of_int (client_samples S c)) W)"
    using assms(5) nn by (intro sum_list_mono_on) (auto intro: mult_right_mono)
  also have "\<dots> = hi * of_int (total_samples S)"
    unfolding tot [symmetric] by (induction W) (simp_all add: case_prod_unfold algebra_simps)
  finally show ?thesis
    using l pos unfolding AggFedAvg_mean [OF total_samples_sum(2) [OF assms(1,2) fits] assms(3)] by (simp add: field_simps)
qed

section \<open>Sorting\<close>

lemma insert_by_insort: "insert_by (<) x (ys :: real list) = insort x ys"
  by (induction ys) (auto simp: not_less)

lemma sort_by_sort: "sort_by (<) (xs :: real list) = sort xs"
proof -
  have "insert_by (<) = (insort :: real \<Rightarrow> real list \<Rightarrow> real list)"
    by (intro ext) (rule insert_by_insort)
  then show ?thesis by (simp add: sort_by_def sort_key_def)
qed

lemma mset_insert_by [simp]: "mset (insert_by lt x ys) = add_mset x (mset ys)"
  by (induction ys) auto

lemma mset_sort_by [simp]: "mset (sort_by lt xs) = mset xs"
  by (induction xs) (simp_all add: sort_by_def)

lemma length_sort_by [simp]: "length (sort_by lt xs) = length xs"
  by (metis mset_sort_by size_mset)

section \<open>Trimmed mean\<close>

lemma sorted_nth_ge:
  assumes "sorted ys" and "length (filter (\<lambda>x. x < lo) ys) \<le> i" and "i < length ys"
  shows "(lo::real) \<le> ys ! i"
proof (rule ccontr)
  assume "\<not> lo \<le> ys ! i"
  then have "\<forall>j\<le>i. ys ! j < lo" using assms(1,3) sorted_nth_mono by fastforce
  then have "filter (\<lambda>x. x < lo) (take (Suc i) ys) = take (Suc i) ys"
    using assms(3) by (auto simp: filter_id_conv in_set_conv_nth)
  moreover have "length (filter (\<lambda>x. x < lo) (take (Suc i) ys)) \<le> length (filter (\<lambda>x. x < lo) ys)"
    by (metis append_take_drop_id filter_append le_add1 length_append)
  ultimately show False using assms(2,3) by simp
qed

lemma sorted_nth_le:
  assumes "sorted ys" and "i + length (filter (\<lambda>x. hi < x) ys) < length ys"
  shows "ys ! i \<le> (hi::real)"
proof (rule ccontr)
  assume "\<not> ys ! i \<le> hi"
  then have "\<forall>j. i \<le> j \<and> j < length ys \<longrightarrow> hi < ys ! j" using assms(1) sorted_nth_mono by fastforce
  then have "filter (\<lambda>x. hi < x) (drop i ys) = drop i ys"
    by (auto simp: filter_id_conv in_set_conv_nth)
  moreover have "length (filter (\<lambda>x. hi < x) (drop i ys)) \<le> length (filter (\<lambda>x. hi < x) ys)"
    by (metis append_take_drop_id filter_append le_add2 length_append)
  ultimately show False using assms(2) by simp
qed

lemma length_filter_sort: "length (filter P (sort xs)) = length (filter P (xs :: real list))"
  by (metis mset_filter mset_sort size_mset)

lemma trimmed_axis_real:
  assumes "trim_bounds (length xs) t = (a, b)"
  shows "trimmed_axis real_arith t xs = sum_list (map ((!) (sort xs)) [a..<b]) / real (b - a)"
  using foldl_sum [of "(!) (sort xs)" 0 "[a..<b]"] assms
  by (simp add: trimmed_axis_def Let_def sort_by_sort)

lemma mean_range:
  assumes "xs \<noteq> []" and "\<And>x. x \<in> set xs \<Longrightarrow> lo \<le> f x \<and> f x \<le> hi"
  shows "lo \<le> sum_list (map f xs) / real (length xs) \<and> sum_list (map f xs) / real (length xs) \<le> hi"
proof -
  have "sum_list (map (\<lambda>_. lo) xs) \<le> sum_list (map f xs)" "sum_list (map f xs) \<le> sum_list (map (\<lambda>_. hi) xs)"
    using assms(2) by (auto intro: sum_list_mono_on)
  then show ?thesis using assms(1) by (simp add: sum_list_triv field_simps)
qed

lemma trimmed_axis_robust:
  assumes "2 * t < length xs"
    and "length (filter (\<lambda>x. x < lo) xs) \<le> t" and "length (filter (\<lambda>x. hi < x) xs) \<le> t"
  shows "lo \<le> trimmed_axis real_arith t xs \<and> trimmed_axis real_arith t xs \<le> hi"
proof -
  let ?n = "length xs"
  have "t < ?n" "\<not> ?n - t \<le> t" using assms(1) by linarith+
  then have b: "trim_bounds ?n t = (t, ?n - t)" by (simp add: trim_bounds_def Let_def)
  have "lo \<le> sort xs ! i \<and> sort xs ! i \<le> hi" if "i \<in> set [t..<?n - t]" for i
    using that assms sorted_nth_ge [of "sort xs" lo i] sorted_nth_le [of "sort xs" i hi]
    by (auto simp: length_filter_sort)
  moreover have "[t..<?n - t] \<noteq> []" using assms(1) by simp
  ultimately have "lo \<le> sum_list (map ((!) (sort xs)) [t..<?n - t]) / real (length [t..<?n - t]) \<and>
      sum_list (map ((!) (sort xs)) [t..<?n - t]) / real (length [t..<?n - t]) \<le> hi"
    by (intro mean_range)
  then show ?thesis unfolding trimmed_axis_real [OF b] length_upt .
qed

lemma trimmed_axis_mset: "mset xs = mset ys \<Longrightarrow> trimmed_axis real_arith t xs = trimmed_axis real_arith t ys"
proof -
  assume eq: "mset xs = mset ys"
  have "sort xs = sort ys" by (rule properties_for_sort) (simp_all add: eq)
  moreover have "length xs = length ys" using eq by (rule mset_eq_length)
  ultimately show ?thesis by (simp add: trimmed_axis_def sort_by_sort)
qed

section \<open>Krum\<close>

lemma best_fold:
  fixes f :: "nat \<Rightarrow> real"
  defines "G \<equiv> \<lambda>(bi, bs) i. if f i < bs then (i, f i) else (bi, bs)"
  shows "(\<forall>i<n. snd (foldl G (0, m) [0..<n]) \<le> f i) \<and> snd (foldl G (0, m) [0..<n]) \<le> m \<and>
    (snd (foldl G (0, m) [0..<n]) = m \<and> fst (foldl G (0, m) [0..<n]) = 0 \<or>
     fst (foldl G (0, m) [0..<n]) < n \<and>
       snd (foldl G (0, m) [0..<n]) = f (fst (foldl G (0, m) [0..<n])))"
proof (induction n)
  case (Suc n)
  obtain bi bs where b: "foldl G (0, m) [0..<n] = (bi, bs)" by fastforce
  have "foldl G (0, m) [0..<Suc n] = G (bi, bs) n" by (simp add: b)
  then have "foldl G (0, m) [0..<Suc n] = (if f n < bs then (n, f n) else (bi, bs))"
    by (simp add: G_def)
  with Suc b show ?case by (auto simp: less_Suc_eq)
qed simp

lemma krum_best_least:
  assumes "\<exists>i<length vs. krum_score real_arith vs i < ar_max real_arith"
  shows "krum_best real_arith vs < length vs \<and>
    (\<forall>i<length vs. krum_score real_arith vs (krum_best real_arith vs) \<le> krum_score real_arith vs i)"
  using best_fold [where f = "krum_score real_arith vs" and m = "ar_max real_arith" and n = "length vs"] assms
  unfolding krum_best_def Let_def real_arith_simps by fastforce

lemma krum_best_bound:
  "vs \<noteq> [] \<Longrightarrow> krum_best A vs < length vs"
proof -
  have "fst (foldl (\<lambda>(bi, bs) i. let s = krum_score A vs i in if ar_lt A s bs then (i, s) else (bi, bs))
      (0, m) [0..<n]) < max 1 n" for m n
    by (induction n) (auto simp: Let_def split: prod.splits)
  from this [of "ar_max A" "length vs"] show "vs \<noteq> [] \<Longrightarrow> ?thesis"
    unfolding krum_best_def by (cases vs) simp_all
qed

end
