(* ===== verification/Buffer_Properties.thy ===== *)
theory Buffer_Properties
  imports Weight_Buffer Aggregation_Real
begin

text \<open>
  What the services rely on in the weight buffer: the two tables of a round always name the same
  clients, a round is aggregated at most once, an aggregate lies within the submissions it is made
  of, and one unusable submission blocks its round.
\<close>

section \<open>The contract: every key is settled at most once\<close>

locale settle_once =
  fixes call :: "'c \<Rightarrow> 's \<Rightarrow> 's"
    and settled :: "'s \<Rightarrow> 'k set"
    and settles :: "'c \<Rightarrow> 's \<Rightarrow> 'k option"
  assumes settled_mono: "settled s \<subseteq> settled (call c s)"
    and settles_new: "settles c s = Some k \<Longrightarrow> k \<notin> settled s \<and> k \<in> settled (call c s)"
begin

primrec settled_keys :: "'c list \<Rightarrow> 's \<Rightarrow> 'k list" where
  "settled_keys [] s = []"
| "settled_keys (c # cs) s =
     (case settles c s of None \<Rightarrow> [] | Some k \<Rightarrow> [k]) @ settled_keys cs (call c s)"

lemma settled_keys_fresh: "k \<in> set (settled_keys cs s) \<Longrightarrow> k \<notin> settled s"
proof (induction cs arbitrary: s)
  case (Cons c cs)
  then show ?case
    using settled_mono [of s c] settles_new [of c s] by (auto split: option.splits)
qed simp

lemma settled_keys_distinct: "distinct (settled_keys cs s)"
proof (induction cs arbitrary: s)
  case (Cons c cs)
  then show ?case
    using settles_new [of c s] settled_keys_fresh [of _ cs "call c s"]
    by (auto split: option.split)
qed simp

lemma settled_keys_settled: "k \<in> set (settled_keys cs s) \<Longrightarrow> k \<in> settled (fold call cs s)"
proof (induction cs arbitrary: s)
  case (Cons c cs)
  have "settled (call c s) \<subseteq> settled (fold call cs (call c s))"
    by (induction cs arbitrary: c s) (use settled_mono in \<open>auto, blast\<close>)
  then show ?case
    using Cons settles_new [of c s] by (auto split: option.splits)
qed simp

lemma settled_stays: "settled s \<subseteq> settled (fold call cs s)"
  by (induction cs arbitrary: s) (use settled_mono in \<open>auto, blast\<close>)

end

section \<open>Calls of the buffer\<close>

datatype ('f, 'b) buffer_op =
    AddCall "('f, 'b) buffer_env" "'f agg_params" clock "'f add_request"
  | RestoreCall string string int int "'f list"

fun buffer_call :: "'f arith \<Rightarrow> ('f, 'b) buffer_op \<Rightarrow> 'f weight_buffer \<times> state_store \<Rightarrow> 'f weight_buffer \<times> state_store" where
  "buffer_call A (AddCall E P clk q) bs = snd (AddWeightAndCheckAggregate A E P clk q bs)"
| "buffer_call A (RestoreCall t m rd v ws) (b, s) = (RestoreLatestGlobalModel t m rd v ws b, s)"

text \<open>The round a call aggregates.\<close>

fun aggregates :: "'f arith \<Rightarrow> ('f, 'b) buffer_op \<Rightarrow> 'f weight_buffer \<times> state_store \<Rightarrow> string option" where
  "aggregates A (AddCall E P clk q) bs =
     (case fst (AddWeightAndCheckAggregate A E P clk q bs) of
        Inr (r, _) \<Rightarrow> if ag_aggregated r then Some (rq_key q) else None
      | Inl _ \<Rightarrow> None)"
| "aggregates A (RestoreCall t m rd v ws) bs = None"

lemma round_result_frame [simp]:
  "round_weights (snd (round_result A E P q b)) = round_weights (StoreSubmission A P q b)"
  "round_dataset_sizes (snd (round_result A E P q b)) = round_dataset_sizes (StoreSubmission A P q b)"
  "buffer_rounds (snd (round_result A E P q b)) = buffer_rounds b"
  "latest_models (snd (round_result A E P q b)) = latest_models b"
proof -
  let ?s = "SmoothResult A P (rq_scope q) (AggregateClients A P (round_clients A E P q b)
    (entries (round_dataset_sizes (StoreSubmission A P q b)) (rq_key q))) (StoreSubmission A P q b)"
  have "snd (round_result A E P q b) = snd ?s"
    by (simp add: round_result_def Let_def split: prod.split)
  then show
    "round_weights (snd (round_result A E P q b)) = round_weights (StoreSubmission A P q b)"
    "round_dataset_sizes (snd (round_result A E P q b)) = round_dataset_sizes (StoreSubmission A P q b)"
    "buffer_rounds (snd (round_result A E P q b)) = buffer_rounds b"
    "latest_models (snd (round_result A E P q b)) = latest_models b"
    by simp_all
qed

lemma AddWeight_settled:
  "buffer_rounds b \<subseteq> buffer_rounds (fst (snd (AddWeightAndCheckAggregate A E P clk q (b, s))))"
  by (cases rule: AddWeight_cases [of q b A E P clk s]) auto

lemma AddWeight_aggregates:
  assumes "fst (AddWeightAndCheckAggregate A E P clk q (b, s)) = Inr (r, w)" and "ag_aggregated r"
  shows "rq_key q \<notin> buffer_rounds b \<and>
    rq_key q \<in> buffer_rounds (fst (snd (AddWeightAndCheckAggregate A E P clk q (b, s))))"
  by (cases rule: AddWeight_cases [of q b A E P clk s]) (use assms in \<open>auto simp: refused_def\<close>)

interpretation buffer: settle_once "buffer_call A" "\<lambda>bs. buffer_rounds (fst bs)" "aggregates A"
proof
  fix bs c
  show "buffer_rounds (fst bs) \<subseteq> buffer_rounds (fst (buffer_call A c bs))"
    by (cases c; cases bs) (simp_all add: AddWeight_settled RestoreLatestGlobalModel_def)
next
  fix c bs k
  assume "aggregates A c bs = Some k"
  then show "k \<notin> buffer_rounds (fst bs) \<and> k \<in> buffer_rounds (fst (buffer_call A c bs))"
    by (cases c; cases bs)
      (use AddWeight_aggregates in \<open>auto split: sum.splits prod.splits if_splits\<close>, blast+)
qed

section \<open>The two tables of a round name the same clients\<close>

definition buffer_ok :: "'f weight_buffer \<Rightarrow> bool" where
  "buffer_ok b \<longleftrightarrow> (\<forall>k. same_clients (entries (round_weights b) k) (entries (round_dataset_sizes b) k))"

lemma entries_update [simp]:
  "entries (m(k \<mapsto> es)) k' = (if k' = k then es else entries m k')"
  by (simp add: entries_def)

lemma entries_erase [simp]:
  "entries (erase_in k c m) k' = (if k' = k then AList.delete c (entries m k) else entries m k')"
  by (auto simp: entries_def erase_in_def Let_def split: option.split)

lemma same_clients_update:
  "same_clients W S \<Longrightarrow> same_clients (AList.update c v W) (AList.update c n S)"
  by (simp add: same_clients_def AList.distinct_update AList.dom_update)

lemma same_clients_delete:
  "same_clients W S \<Longrightarrow> same_clients (AList.delete c W) (AList.delete c S)"
  unfolding same_clients_def AList.delete_keys set_map [symmetric]
  by (simp add: distinct_removeAll set_removeAll)

lemma buffer_ok_store: "buffer_ok b \<Longrightarrow> buffer_ok (StoreSubmission A P q b)"
  by (simp add: buffer_ok_def StoreSubmission_def same_clients_update)

lemma buffer_ok_remove: "buffer_ok b \<Longrightarrow> buffer_ok (RemoveSubmissionLocked k c b)"
  by (simp add: buffer_ok_def RemoveSubmissionLocked_def same_clients_delete)

lemma buffer_ok_cong:
  "round_weights b' = round_weights b \<Longrightarrow> round_dataset_sizes b' = round_dataset_sizes b \<Longrightarrow>
   buffer_ok b' = buffer_ok b"
  by (simp add: buffer_ok_def)

lemma buffer_ok_result: "buffer_ok b \<Longrightarrow> buffer_ok (snd (round_result A E P q b))"
  using buffer_ok_store [of b A P q] by (simp add: buffer_ok_def)

lemma buffer_ok_add:
  assumes ok: "buffer_ok b"
  shows "buffer_ok (fst (snd (AddWeightAndCheckAggregate A E P clk q (b, s))))"
proof (cases rule: AddWeight_cases [of q b A E P clk s])
  case (aggregated v s')
  then show ?thesis using buffer_ok_result [OF ok, of A E P q] by (simp add: buffer_ok_def)
qed (simp_all add: ok buffer_ok_store buffer_ok_remove buffer_ok_result)

lemma buffer_ok_empty: "buffer_ok empty_buffer"
  by (simp add: buffer_ok_def empty_buffer_def entries_def same_clients_def)

section \<open>Validation\<close>

lemma validate_entries_None:
  "validate_entries A n ws = None \<longleftrightarrow> (\<forall>(c, v)\<in>set ws. length v = n \<and> (\<forall>x\<in>set v. ar_finite A x))"
proof (induction ws)
  case (Cons p ws)
  obtain c v where p: "p = (c, v)" by fastforce
  show ?case unfolding p validate_entries.simps list_ex_iff using Cons.IH by auto
qed simp

lemma ValidateWeights_None:
  "ValidateWeights A ws = None \<longleftrightarrow> ws \<noteq> [] \<and> snd (hd ws) \<noteq> [] \<and>
     (\<forall>(c, v)\<in>set ws. length v = length (snd (hd ws)) \<and> (\<forall>x\<in>set v. ar_finite A x))"
proof (cases ws)
  case (Cons p ws')
  obtain c v where p: "p = (c, v)" by fastforce
  have "ValidateWeights A ws = (if v = [] then Some ''Empty weight tensor'' else validate_entries A (length v) ws)"
    by (simp add: ValidateWeights_def Cons p del: validate_entries.simps)
  moreover have "hd ws = (c, v)" "ws \<noteq> []" by (simp_all add: Cons p)
  ultimately show ?thesis by (simp add: validate_entries_None)
qed (simp add: ValidateWeights_def)

section \<open>An aggregate lies within its submissions\<close>

definition permutes_entries :: "('f, 'b) buffer_env \<Rightarrow> bool" where
  "permutes_entries E \<longleftrightarrow> (\<forall>es. mset (env_order E es) = mset es)"

lemma same_clients_perm:
  "same_clients W S \<Longrightarrow> mset W' = mset W \<Longrightarrow> same_clients W' S"
  unfolding same_clients_def by (metis mset_eq_imp_distinct_iff mset_map set_mset_mset)

lemma round_result_plain:
  assumes "\<not> ar_lt A (ar_zero A) (ap_server_momentum P)" and "\<not> ar_lt A (ar_zero A) (ap_dp_epsilon P)"
  shows "fst (round_result A E P q b) = AggregateClients A P (round_clients A E P q b)
    (entries (round_dataset_sizes (StoreSubmission A P q b)) (rq_key q))"
  using assms
  by (simp add: round_result_def Let_def SmoothResult_def PrivateResult_def split: option.split prod.split)

lemma fedavg_round_range:
  fixes b :: "real weight_buffer"
  assumes ok: "buffer_ok b" and perm: "permutes_entries E"
    and res: "fst (AddWeightAndCheckAggregate real_arith E P clk q (b, s)) = Inr (r, Some w)"
    and plain: "ap_server_momentum P \<le> 0" "ap_dp_epsilon P \<le> 0"
    and strat: "ap_strategy P \<noteq> ''krum''" "ap_strategy P \<noteq> ''trimmed_mean''"
    and i: "i < length w"
    and range: "\<And>c v. (c, v) \<in> set (entries (round_weights (StoreSubmission real_arith P q b)) (rq_key q)) \<Longrightarrow>
      lo \<le> v ! i \<and> v ! i \<le> hi"
    and fits: "sample_sum (entries (round_dataset_sizes (StoreSubmission real_arith P q b)) (rq_key q)) < 2 ^ 31"
  shows "lo \<le> w ! i \<and> w ! i \<le> hi"
proof -
  let ?ws = "round_clients real_arith E P q b"
  let ?S = "entries (round_dataset_sizes (StoreSubmission real_arith P q b)) (rq_key q)"
  have ms: "mset ?ws = mset (entries (round_weights (StoreSubmission real_arith P q b)) (rq_key q))"
    using perm by (simp add: round_clients_def permutes_entries_def)
  have same: "same_clients ?ws ?S"
    using same_clients_perm [OF _ ms] buffer_ok_store [OF ok] by (simp add: buffer_ok_def)
  have w: "w = AggFedAvg real_arith ?ws ?S" and ne: "?ws \<noteq> []"
  proof -
    have "w = fst (round_result real_arith E P q b) \<and> ?ws \<noteq> []"
      by (cases rule: AddWeight_cases [of q b real_arith E P clk s]) (use res in auto)
    then show "w = AggFedAvg real_arith ?ws ?S" "?ws \<noteq> []"
      using plain strat round_result_plain [of real_arith P E q b] by (auto simp: AggregateClients_def)
  qed
  have "set ?ws = set (entries (round_weights (StoreSubmission real_arith P q b)) (rq_key q))"
    using ms by (rule mset_eq_setD)
  with AggFedAvg_range [OF same ne _ fits, of i lo hi] i range show ?thesis
    by (simp add: w AggFedAvg_real)
qed

section \<open>One unusable submission blocks its round\<close>

definition poisoned :: "'f arith \<Rightarrow> string \<Rightarrow> string \<Rightarrow> 'f weight_buffer \<Rightarrow> bool" where
  "poisoned A key client b \<longleftrightarrow> key \<notin> buffer_rounds b \<and>
     (\<exists>v. map_of (entries (round_weights b) key) client = Some v \<and> (\<exists>x\<in>set v. \<not> ar_finite A x))"

lemma map_of_store:
  "map_of (entries (round_weights (StoreSubmission A P q b)) key) c =
     (if key = rq_key q \<and> c = rq_client_id q then Some (ClipWeights A (ap_clip_norm P) (rq_weights q))
      else map_of (entries (round_weights b) key) c)"
  by (auto simp: StoreSubmission_def AList.update_conv')

lemma map_of_remove:
  "map_of (entries (round_weights (RemoveSubmissionLocked k c b)) key) c' =
     (if key = k \<and> c' = c then None else map_of (entries (round_weights b) key) c')"
  by (auto simp: RemoveSubmissionLocked_def AList.delete_conv')

lemma poisoned_step:
  assumes p: "poisoned A key c b" and other: "rq_key q \<noteq> key \<or> rq_client_id q \<noteq> c"
    and perm: "permutes_entries E"
  shows "poisoned A key c (fst (snd (AddWeightAndCheckAggregate A E P clk q (b, s))))"
proof -
  obtain v x where v: "map_of (entries (round_weights b) key) c = Some v" "x \<in> set v" "\<not> ar_finite A x"
    and open': "key \<notin> buffer_rounds b"
    using p by (auto simp: poisoned_def)
  have kept: "map_of (entries (round_weights (StoreSubmission A P q b)) key) c = Some v"
    using v other by (auto simp: map_of_store)
  have invalid: "ValidateWeights A (round_clients A E P q b) \<noteq> None" if "rq_key q = key"
  proof -
    have "(c, v) \<in> set (entries (round_weights (StoreSubmission A P q b)) (rq_key q))"
      using kept that map_of_SomeD by metis
    then have "(c, v) \<in> set (round_clients A E P q b)"
      using perm mset_eq_setD unfolding round_clients_def permutes_entries_def by blast
    with v(2,3) show ?thesis by (auto simp: ValidateWeights_None)
  qed
  show ?thesis
    by (cases rule: AddWeight_cases [of q b A E P clk s])
      (use p kept other open' v invalid in \<open>auto simp: poisoned_def map_of_remove\<close>)
qed

definition spares :: "string \<Rightarrow> string \<Rightarrow> ('f, 'b) buffer_op \<Rightarrow> bool" where
  "spares key c call = (case call of
     AddCall E P clk q \<Rightarrow> permutes_entries E \<and> (rq_key q \<noteq> key \<or> rq_client_id q \<noteq> c)
   | RestoreCall t m rd v ws \<Rightarrow> True)"

lemma poisoned_run:
  assumes "poisoned A key c (fst bs)" and "\<forall>call\<in>set calls. spares key c call"
  shows "poisoned A key c (fst (fold (buffer_call A) calls bs))"
  using assms
proof (induction calls arbitrary: bs)
  case (Cons call calls)
  have "poisoned A key c (fst (buffer_call A call bs))"
  proof (cases call; cases bs)
    fix E P clk q b s
    assume c: "call = AddCall E P clk q" "bs = (b, s)"
    then have "permutes_entries E" "rq_key q \<noteq> key \<or> rq_client_id q \<noteq> c" "poisoned A key c b"
      using Cons.prems by (auto simp: spares_def)
    then show ?thesis by (simp add: c poisoned_step)
  qed (use Cons.prems in \<open>simp add: poisoned_def RestoreLatestGlobalModel_def\<close>)
  with Cons show ?case by simp
qed simp

end
