(* ===== verification/Config_Model.thy ===== *)
theory Config_Model
  imports Aggregation
begin

text \<open>
  \<open>server/config.hpp\<close> and \<open>server/config.cpp\<close>: the settings of the server with their defaults, and
  \<open>Validate\<close>, the checks that guard a loaded configuration. The result of \<open>Validate\<close> is the message
  of the exception, if any. \<open>A\<close> is the arithmetic of \<open>float\<close>.
\<close>

record 'f config =
  cfg_address :: string
  cfg_key_path :: string
  cfg_payload_key_path :: string
  cfg_log_level :: string
  cfg_required_clients :: int
  cfg_target_rounds :: int
  cfg_learning_rate :: 'f
  cfg_batch_size :: int
  cfg_aggregation_strategy :: string
  cfg_server_momentum :: 'f
  cfg_default_assignment_ttl_seconds :: int
  cfg_dp_epsilon :: 'f
  cfg_dp_delta :: 'f
  cfg_clip_norm :: 'f
  cfg_trimmed_mean_beta :: 'f
  cfg_checkpoint_dir :: string
  cfg_state_store_path :: string
  cfg_audit_event_retention :: int
  cfg_admin_peer_identities :: "string list"
  cfg_worker_peer_identities :: "string list"

definition ratio :: "'f arith \<Rightarrow> int \<Rightarrow> int \<Rightarrow> 'f" where
  "ratio A p q = ar_div A (ar_of_int A p) (ar_of_int A q)"

definition default_config :: "'f arith \<Rightarrow> 'f config" where
  "default_config A = \<lparr>
     cfg_address = ''0.0.0.0:50051'', cfg_key_path = ''data/master.key'',
     cfg_payload_key_path = ''data/payload.key'', cfg_log_level = ''INFO'',
     cfg_required_clients = 2, cfg_target_rounds = 100, cfg_learning_rate = ratio A 1 100,
     cfg_batch_size = 32, cfg_aggregation_strategy = ''fedavg'', cfg_server_momentum = ar_of_int A 0,
     cfg_default_assignment_ttl_seconds = 120, cfg_dp_epsilon = ar_of_int A 1,
     cfg_dp_delta = ratio A 1 100000, cfg_clip_norm = ar_of_int A 1, cfg_trimmed_mean_beta = ratio A 1 10,
     cfg_checkpoint_dir = ''models'', cfg_state_store_path = ''data/state.json'',
     cfg_audit_event_retention = 2000, cfg_admin_peer_identities = [''pqfl-admin''],
     cfg_worker_peer_identities = [''pqfl-worker'']\<rparr>"

text \<open>The sequence of \<open>Require(condition, message)\<close>: the message of the first condition that fails.\<close>

fun require_all :: "(bool \<times> string) list \<Rightarrow> string option" where
  "require_all [] = None"
| "require_all ((condition, message) # rs) = (if condition then require_all rs else Some message)"

definition Validate :: "'f arith \<Rightarrow> 'f config \<Rightarrow> string option" where
  "Validate A c = (let zero = ar_of_int A 0 in require_all
     [(cfg_address c \<noteq> '''', ''config.address must not be empty''),
      (cfg_key_path c \<noteq> '''', ''config.key_path must not be empty''),
      (cfg_payload_key_path c \<noteq> '''', ''config.payload_key_path must not be empty''),
      (cfg_checkpoint_dir c \<noteq> '''', ''config.checkpoint_dir must not be empty''),
      (cfg_state_store_path c \<noteq> '''', ''config.state_store_path must not be empty''),
      (cfg_required_clients c \<ge> 1, ''config.fl.required_clients must be >= 1''),
      (cfg_target_rounds c \<ge> 1, ''config.fl.target_rounds must be >= 1''),
      (ar_lt A zero (cfg_learning_rate c), ''config.fl.learning_rate must be > 0''),
      (cfg_batch_size c \<ge> 1, ''config.fl.batch_size must be >= 1''),
      (cfg_default_assignment_ttl_seconds c \<ge> 30, ''config.fl.default_assignment_ttl_seconds must be >= 30''),
      (cfg_aggregation_strategy c \<in> {''fedavg'', ''krum'', ''trimmed_mean''},
       ''config.fl.aggregation_strategy must be one of fedavg, krum, trimmed_mean''),
      (ar_le A zero (cfg_clip_norm c), ''config.privacy.clip_norm must be >= 0''),
      (ar_le A zero (cfg_server_momentum c), ''config.fl.server_momentum must be >= 0''),
      (ar_le A zero (cfg_trimmed_mean_beta c) \<and> ar_lt A (cfg_trimmed_mean_beta c) (ratio A 1 2),
       ''config.privacy.trimmed_mean_beta must be in [0, 0.5)''),
      (ar_lt A zero (cfg_dp_epsilon c), ''config.privacy.dp_epsilon must be > 0''),
      (ar_lt A zero (cfg_dp_delta c) \<and> ar_lt A (cfg_dp_delta c) (ar_of_int A 1),
       ''config.privacy.dp_delta must be in (0, 1)''),
      (cfg_admin_peer_identities c \<noteq> [], ''config.admin_peer_identities must contain at least one identity''),
      (cfg_worker_peer_identities c \<noteq> [], ''config.worker_peer_identities must contain at least one identity'')])"

lemma require_all_None: "require_all rs = None \<longleftrightarrow> (\<forall>(c, m)\<in>set rs. c)"
  by (induction rs rule: require_all.induct) auto

lemma require_all_append:
  "require_all (rs @ ss) = (case require_all rs of None \<Rightarrow> require_all ss | Some m \<Rightarrow> Some m)"
  by (induction rs rule: require_all.induct) auto

end
