(* ===== verification/Aggregation_Guarantees.thy ===== *)
theory Aggregation_Guarantees
  imports Buffer_Properties Config_Model
begin

text \<open>
  The guarantees of the aggregation rules over exact arithmetic and of the weight buffer.
\<close>

section \<open>Clipping\<close>

text \<open>Clipping brings the norm of a submission down to the limit and no further: a vector
  within the limit is kept as it is, a longer one is scaled by one positive factor to exactly the
  limit.\<close>

theorem clipping_bounds_norm:
  assumes "0 < c"
  shows "l2_norm (ClipWeights real_arith c ws) = min c (l2_norm ws) \<and>
    (\<exists>k. 0 < k \<and> k \<le> 1 \<and> ClipWeights real_arith c ws = map (\<lambda>w. w * k) ws)"
proof (intro conjI)
  show "l2_norm (ClipWeights real_arith c ws) = min c (l2_norm ws)"
    by (rule ClipWeights_norm) (rule assms)
  show "\<exists>k. 0 < k \<and> k \<le> 1 \<and> ClipWeights real_arith c ws = map (\<lambda>w. w * k) ws"
  proof (cases "c < l2_norm ws")
    case True
    with assms have "0 < c / l2_norm ws" "c / l2_norm ws \<le> 1" by simp_all
    moreover have "ClipWeights real_arith c ws = map (\<lambda>w. w * (c / l2_norm ws)) ws"
      using True assms by (simp add: ClipWeights_real)
    ultimately show ?thesis by blast
  next
    case False
    then show ?thesis unfolding ClipWeights_real by (intro exI [of _ 1]) simp
  qed
qed

theorem clipping_bounds_norm_witness: "l2_norm (ClipWeights real_arith 1 [3, 4]) = 1"
proof -
  have "l2_norm [3, 4] = 5" by (simp add: l2_norm_def)
  with clipping_bounds_norm [of 1 "[3, 4]"] show ?thesis by simp
qed

section \<open>Federated averaging\<close>



text \<open>The average does not depend on the order in which the hash table lists the submissions.\<close>

theorem fedavg_order_irrelevant:
  assumes "mset W' = mset W" and "\<forall>(c, v)\<in>set W. length v = n"
  shows "AggFedAvg real_arith W' S = AggFedAvg real_arith W S"
proof (cases "W = []")
  case False
  have sets: "set W' = set W" using assms(1) by (rule mset_eq_setD)
  with False have ne: "W' \<noteq> []" by auto
  have len: "length (snd (hd W)) = n" "length (snd (hd W')) = n"
    using assms(2) sets hd_in_set [OF False] hd_in_set [OF ne] by (auto simp: case_prod_unfold)
  have factor: "fedavg_factor real_arith W' S = fedavg_factor real_arith W S"
    using mset_eq_length [OF assms(1)] by (simp add: fedavg_factor_def fun_eq_iff)
  show ?thesis
  proof (rule nth_equalityI)
    show "length (AggFedAvg real_arith W' S) = length (AggFedAvg real_arith W S)"
      by (simp add: AggFedAvg_real len)
    fix i assume "i < length (AggFedAvg real_arith W' S)"
    then have "i < n" by (simp add: AggFedAvg_real len)
    then show "AggFedAvg real_arith W' S ! i = AggFedAvg real_arith W S ! i"
      by (simp add: AggFedAvg_real(2) len factor sum_list_mset_eq [OF assms(1)])
  qed
qed (use assms(1) in simp)

theorem fedavg_order_irrelevant_witness:
  "AggFedAvg real_arith [(''b'', [3]), (''a'', [1])] [(''a'', 1)] = AggFedAvg real_arith [(''a'', [1]), (''b'', [3])] [(''a'', 1)]"
  by (rule fedavg_order_irrelevant [where n = 1]) (auto simp: add_mset_commute)

section \<open>Robust rules\<close>

lemma validated_beta:
  assumes "Validate real_arith cfg = None"
  shows "0 \<le> cfg_trimmed_mean_beta cfg" "cfg_trimmed_mean_beta cfg < 1 / 2"
  using assms unfolding Validate_def Let_def require_all_None by (simp_all add: ratio_def)

lemma trim_count_small:
  assumes "0 \<le> beta" "beta < 1 / 2" "0 < n"
  shows "2 * trim_count_of real_arith beta n < n"
proof -
  have "real (trim_count_of real_arith beta n) \<le> beta * real n"
    using assms by (simp add: trim_count_of_def)
  also have "\<dots> < real n / 2" using assms by (simp add: field_simps)
  finally show ?thesis by linarith
qed

text \<open>C23: Under a configuration that passed validation the trimmed mean tolerates outliers: if at
  most as many submissions as are trimmed lie below a bound, and at most as many above another,
  the aggregate lies between the bounds, whatever the outliers are.\<close>

theorem trimmed_mean_robust:
  assumes "Validate real_arith cfg = None" and "W \<noteq> []" and "d < length (snd (hd W))"
    and "length (filter (\<lambda>(c, v). v ! d < lo) W) \<le>
      trim_count_of real_arith (cfg_trimmed_mean_beta cfg) (length W)"
    and "length (filter (\<lambda>(c, v). hi < v ! d) W) \<le>
      trim_count_of real_arith (cfg_trimmed_mean_beta cfg) (length W)"
  shows "lo \<le> AggTrimmedMean real_arith W (cfg_trimmed_mean_beta cfg) ! d \<and>
    AggTrimmedMean real_arith W (cfg_trimmed_mean_beta cfg) ! d \<le> hi"
proof -
  let ?xs = "map (\<lambda>(_, v). v ! d) W"
  let ?t = "trim_count_of real_arith (cfg_trimmed_mean_beta cfg) (length W)"
  have t: "2 * ?t < length ?xs"
    using trim_count_small [OF validated_beta [OF assms(1)], of "length W"] assms(2) by simp
  have f: "length (filter (\<lambda>x. x < lo) ?xs) \<le> ?t" "length (filter (\<lambda>x. hi < x) ?xs) \<le> ?t"
    using assms(4,5) by (simp_all add: filter_map comp_def case_prod_unfold)
  have "AggTrimmedMean real_arith W (cfg_trimmed_mean_beta cfg) ! d = trimmed_axis real_arith ?t ?xs"
    using assms(3) by (simp add: AggTrimmedMean_def Let_def)
  then show ?thesis using trimmed_axis_robust [OF t f] by (simp only:)
qed

definition demo_config :: "real config" where
  "demo_config = (default_config real_arith)\<lparr>cfg_trimmed_mean_beta := 2 / 5\<rparr>"

lemma demo_config_valid: "Validate real_arith demo_config = None"
  by (simp add: Validate_def demo_config_def default_config_def ratio_def)

theorem trimmed_mean_robust_witness:
  "AggTrimmedMean real_arith [(''a'', [1]), (''b'', [1000]), (''c'', [2])] (2 / 5) ! 0 \<le> 2"
  using trimmed_mean_robust [OF demo_config_valid, of "[(''a'', [1]), (''b'', [1000]), (''c'', [2])]" 0 0 2]
  by (simp add: demo_config_def trim_count_of_def)



end
