(* ===== verification/Buffer_Guarantees.thy ===== *)
theory Buffer_Guarantees
  imports Aggregation_Guarantees Store_Scenario
begin

text \<open>
  The guarantees of the weight buffer along arbitrary sequences of calls. The witnesses run on an
  environment whose disk always works and whose encryption is the identity.
\<close>

definition demo_env :: "(real, real list) buffer_env" where
  "demo_env = \<lparr>env_order = (\<lambda>es. es), env_gauss = (\<lambda>sigma i. 0), env_bytes = (\<lambda>v. v), env_encrypt = Inr,
     env_mkdir = (\<lambda>_. None), env_write = (\<lambda>_ _. Written), env_key_version = 1\<rparr>"

definition demo_params :: "nat \<Rightarrow> real agg_params" where
  "demo_params n = \<lparr>ap_required_clients = n, ap_strategy = ''fedavg'', ap_clip_norm = 0, ap_dp_epsilon = 0,
     ap_dp_delta = 0, ap_trimmed_beta = 0, ap_server_momentum = 0, ap_checkpoint_dir = ''models''\<rparr>"

definition demo_request :: "string \<Rightarrow> real list \<Rightarrow> real add_request" where
  "demo_request c v = \<lparr>rq_tenant_id = ''acme'', rq_model_id = ''cnn'', rq_client_id = c, rq_round = 1,
     rq_dataset_size = 5, rq_weights = v\<rparr>"

text \<open>Real numbers of which those from 1000 on stand for values that are not finite.\<close>

definition bounded_arith :: "real arith" where
  "bounded_arith = real_arith\<lparr>ar_finite := (\<lambda>x. x < 1000)\<rparr>"

lemma demo_permutes: "permutes_entries demo_env"
  by (simp add: permutes_entries_def demo_env_def)

lemma demo_aggregation:
  "\<exists>r. fst (AddWeightAndCheckAggregate real_arith demo_env (demo_params 1) clk (demo_request ''a'' [2]) (empty_buffer, s))
     = Inr (r, Some [2])"
  by (simp add: AddWeightAndCheckAggregate_def demo_env_def demo_params_def demo_request_def StoreSubmission_def
      empty_buffer_def entries_def ClipWeights_def ValidateWeights_def AggregateClients_def SmoothResult_def
      PrivateResult_def PersistCheckpoint_def AggFedAvg_def fedavg_factor_def total_samples_def int32_def client_samples_def
      Let_def case_prod_unfold)

section \<open>Rounds\<close>

text \<open>The rounds aggregated along a run, in order.\<close>

primrec aggregated_rounds ::
  "'f arith \<Rightarrow> ('f, 'b) buffer_op list \<Rightarrow> 'f weight_buffer \<times> state_store \<Rightarrow> string list" where
  "aggregated_rounds A [] bs = []"
| "aggregated_rounds A (c # cs) bs =
     (case aggregates A c bs of None \<Rightarrow> [] | Some k \<Rightarrow> [k]) @ aggregated_rounds A cs (buffer_call A c bs)"

lemma aggregated_rounds_eq: "aggregated_rounds A cs bs = buffer.settled_keys A cs bs"
  by (induction cs arbitrary: bs) simp_all

text \<open>C12: Along any sequence of submissions and restorations no round of a tenant and model is
  aggregated twice, none that was complete before is aggregated again, and every aggregated round
  is complete afterwards.\<close>

theorem round_aggregated_once:
  "distinct (aggregated_rounds A calls bs) \<and>
   set (aggregated_rounds A calls bs) \<inter> buffer_rounds (fst bs) = {} \<and>
   set (aggregated_rounds A calls bs) \<subseteq> buffer_rounds (fst (fold (buffer_call A) calls bs))"
  using buffer.settled_keys_distinct [of A calls bs] buffer.settled_keys_fresh [of _ A calls bs]
    buffer.settled_keys_settled [of _ A calls bs]
  by (auto simp: aggregated_rounds_eq)

text \<open>With averaging, and without momentum and noise, every coordinate of the model that an
  attempt produces lies between the least and the greatest value of the clipped submissions of the
  round, in whatever order the hash table lists them, as long as their sample counts fit an \<open>int\<close>.\<close>

theorem aggregate_within_submissions:
  fixes b :: "real weight_buffer"
  assumes "buffer_ok b" and "permutes_entries E"
    and "fst (AddWeightAndCheckAggregate real_arith E P clk q (b, s)) = Inr (r, Some w)"
    and "ap_server_momentum P \<le> 0" and "ap_dp_epsilon P \<le> 0" and "ap_strategy P = ''fedavg''"
    and "i < length w"
    and "sample_sum (entries (round_dataset_sizes (StoreSubmission real_arith P q b)) (rq_key q)) < 2 ^ 31"
  shows "Min ((\<lambda>(c, v). v ! i) ` set (entries (round_weights (StoreSubmission real_arith P q b)) (rq_key q))) \<le> w ! i \<and>
    w ! i \<le> Max ((\<lambda>(c, v). v ! i) ` set (entries (round_weights (StoreSubmission real_arith P q b)) (rq_key q)))"
proof (rule fedavg_round_range [OF assms(1-5)])
  fix c v assume "(c, v) \<in> set (entries (round_weights (StoreSubmission real_arith P q b)) (rq_key q))"
  then show "Min ((\<lambda>(c, v). v ! i) ` set (entries (round_weights (StoreSubmission real_arith P q b)) (rq_key q))) \<le> v ! i \<and>
    v ! i \<le> Max ((\<lambda>(c, v). v ! i) ` set (entries (round_weights (StoreSubmission real_arith P q b)) (rq_key q)))"
    by (force intro: Min_le Max_ge)
qed (use assms in simp_all)

theorem aggregate_within_submissions_witness:
  "\<exists>r w. fst (AddWeightAndCheckAggregate real_arith demo_env (demo_params 1) (\<lambda>_. 0) (demo_request ''a'' [2])
      (empty_buffer, demo_empty)) = Inr (r, Some w) \<and> w ! 0 \<le> 2"
proof -
  obtain r where r: "fst (AddWeightAndCheckAggregate real_arith demo_env (demo_params 1) (\<lambda>_. 0)
      (demo_request ''a'' [2]) (empty_buffer, demo_empty)) = Inr (r, Some [2])"
    using demo_aggregation by blast
  from aggregate_within_submissions [OF buffer_ok_empty demo_permutes this, of 0] have "[2] ! 0 \<le> (2::real)"
    by (simp add: demo_params_def StoreSubmission_def demo_request_def entries_def empty_buffer_def ClipWeights_def)
  with r show ?thesis by blast
qed

text \<open>When an attempt is refused, by the validation of the submissions or by a checkpoint that
  cannot be written, the store, the latest models and the completed rounds are as before, the
  submission of the caller is gone and every other one is kept.\<close>

theorem refused_attempt_keeps_round_open:
  assumes "AddWeightAndCheckAggregate A E P clk q (b, s) = (Inr (r, w), (b', s'))"
    and "\<not> ag_accepted r" and "rq_key q \<notin> buffer_rounds b"
  shows "s' = s \<and> latest_models b' = latest_models b \<and> buffer_rounds b' = buffer_rounds b \<and> w = None \<and>
    (\<forall>key c. map_of (entries (round_weights b') key) c =
       (if key = rq_key q \<and> c = rq_client_id q then None else map_of (entries (round_weights b) key) c))"
  by (cases rule: AddWeight_cases [of q b A E P clk s])
    (use assms in \<open>auto simp: map_of_remove map_of_store refused_def\<close>)

theorem refused_attempt_keeps_round_open_witness:
  "\<exists>r b'. AddWeightAndCheckAggregate bounded_arith demo_env (demo_params 1) (\<lambda>_. 0) (demo_request ''a'' [1000])
      (empty_buffer, demo_empty) = (Inr (r, None), (b', demo_empty)) \<and> latest_models b' = Map.empty"
proof -
  have "\<exists>r b'. AddWeightAndCheckAggregate bounded_arith demo_env (demo_params 1) (\<lambda>_. 0) (demo_request ''a'' [1000])
      (empty_buffer, demo_empty) = (Inr (r, None), (b', demo_empty)) \<and> \<not> ag_accepted r"
    by (simp add: AddWeightAndCheckAggregate_def demo_env_def demo_params_def demo_request_def StoreSubmission_def
      empty_buffer_def entries_def ClipWeights_def ValidateWeights_def bounded_arith_def refused_def Let_def)
  then obtain r b' where "AddWeightAndCheckAggregate bounded_arith demo_env (demo_params 1) (\<lambda>_. 0)
      (demo_request ''a'' [1000]) (empty_buffer, demo_empty) = (Inr (r, None), (b', demo_empty))" "\<not> ag_accepted r" by blast
  with refused_attempt_keeps_round_open [OF this(1,2)] show ?thesis by (simp add: empty_buffer_def)
qed



section \<open>Sample counts\<close>

definition overflow_params :: "real agg_params" where
  "overflow_params = (demo_params 3)\<lparr>ap_clip_norm := 1\<rparr>"

definition counted :: "string \<Rightarrow> real \<Rightarrow> int \<Rightarrow> real add_request" where
  "counted c x n = (demo_request c [x])\<lparr>rq_dataset_size := n\<rparr>"

definition submitted :: "clock \<Rightarrow> real add_request \<Rightarrow> real weight_buffer \<times> state_store \<Rightarrow> real weight_buffer \<times> state_store" where
  "submitted clk q bs = snd (AddWeightAndCheckAggregate real_arith demo_env overflow_params clk q bs)"

lemma unclipped: "\<bar>x\<bar> \<le> 1 \<Longrightarrow> ClipWeights real_arith 1 [x] = [x]"
  by (simp add: ClipWeights_def Let_def)

lemma two_wait:
  assumes "\<bar>x\<bar> \<le> 1" "\<bar>y\<bar> \<le> 1"
  shows "submitted clk (counted ''b'' y m) (submitted clk (counted ''a'' x n) (empty_buffer, s)) =
    (empty_buffer\<lparr>round_weights := [rq_key (counted ''a'' x n) \<mapsto> [(''a'', [x]), (''b'', [y])]],
       round_dataset_sizes := [rq_key (counted ''a'' x n) \<mapsto> [(''a'', max 1 n), (''b'', max 1 m)]]\<rparr>, s)"
  using assms
  by (simp add: submitted_def counted_def AddWeightAndCheckAggregate_def demo_env_def overflow_params_def demo_params_def
      demo_request_def StoreSubmission_def empty_buffer_def entries_def unclipped Let_def)

lemma third_aggregates:
  assumes "\<bar>z\<bar> \<le> 1"
  shows "\<exists>r. fst (AddWeightAndCheckAggregate real_arith demo_env overflow_params clk (counted ''c'' z k)
      (empty_buffer\<lparr>round_weights := [rq_key (counted ''c'' z k) \<mapsto> [(''a'', [x]), (''b'', [y])]],
        round_dataset_sizes := [rq_key (counted ''c'' z k) \<mapsto> [(''a'', n), (''b'', m)]]\<rparr>, s)) =
    Inr (r, Some (AggFedAvg real_arith [(''a'', [x]), (''b'', [y]), (''c'', [z])] [(''a'', n), (''b'', m), (''c'', max 1 k)]))"
  using assms
  by (simp add: counted_def AddWeightAndCheckAggregate_def demo_env_def overflow_params_def demo_params_def demo_request_def
      StoreSubmission_def empty_buffer_def entries_def unclipped ValidateWeights_def AggregateClients_def SmoothResult_def
      PrivateResult_def PersistCheckpoint_def Let_def case_prod_unfold)



end
