(* ===== verification/Client_Registry.thy ===== *)
theory Client_Registry
  imports Identity "HOL-Library.Mapping"
begin

text \<open>
  \<open>server/client_registry.cpp\<close>: the in-memory registry of the clients of a running server, a hash
  map from \<open>ClientKey\<close> to \<open>ClientInfo\<close> under one mutex. Its contract with the services, that a
  certificate identity once bound to a client stays bound, is a locale.
\<close>

record ClientInfo =
  ci_tenant_id :: string
  ci_model_id :: string
  ci_client_id :: string
  ci_peer_identity :: string
  ci_local_dataset_size :: int
  ci_hardware_info :: string
  ci_dataset_fingerprint :: string
  ci_registered_at :: string
  ci_last_active_round :: int

type_synonym registry = "(string, ClientInfo) mapping"

section \<open>Operations\<close>

definition Register :: "ClientInfo \<Rightarrow> registry \<Rightarrow> bool \<times> registry" where
  "Register info r =
     (let key = ClientKey (ci_tenant_id info) (ci_model_id info) (ci_client_id info) in
      case Mapping.lookup r key of
        Some _ \<Rightarrow> (False, r)
      | None \<Rightarrow> (True, Mapping.update key info r))"

definition IsRegistered :: "string \<Rightarrow> string \<Rightarrow> string \<Rightarrow> registry \<Rightarrow> bool" where
  "IsRegistered tenant_id model_id client_id r \<longleftrightarrow>
     Mapping.lookup r (ClientKey tenant_id model_id client_id) \<noteq> None"

definition IsRegisteredForPeer :: "string \<Rightarrow> string \<Rightarrow> string \<Rightarrow> string \<Rightarrow> registry \<Rightarrow> bool" where
  "IsRegisteredForPeer tenant_id model_id client_id peer_identity r \<longleftrightarrow>
     (case Mapping.lookup r (ClientKey tenant_id model_id client_id) of
        None \<Rightarrow> False
      | Some it \<Rightarrow> ci_peer_identity it \<noteq> '''' \<and> ci_peer_identity it = peer_identity)"

definition BindPeerIdentityIfMissing ::
  "string \<Rightarrow> string \<Rightarrow> string \<Rightarrow> string \<Rightarrow> registry \<Rightarrow> bool \<times> registry" where
  "BindPeerIdentityIfMissing tenant_id model_id client_id peer_identity r =
     (let key = ClientKey tenant_id model_id client_id in
      case Mapping.lookup r key of
        None \<Rightarrow> (False, r)
      | Some it \<Rightarrow>
          if ci_peer_identity it = '''' then
            (True, Mapping.update key (it\<lparr>ci_peer_identity := peer_identity\<rparr>) r)
          else (ci_peer_identity it = peer_identity, r))"

definition GetDatasetSize :: "string \<Rightarrow> string \<Rightarrow> string \<Rightarrow> registry \<Rightarrow> int" where
  "GetDatasetSize tenant_id model_id client_id r =
     (case Mapping.lookup r (ClientKey tenant_id model_id client_id) of
        None \<Rightarrow> 0 | Some it \<Rightarrow> ci_local_dataset_size it)"

definition UpdateLastActiveRound :: "string \<Rightarrow> string \<Rightarrow> string \<Rightarrow> int \<Rightarrow> registry \<Rightarrow> registry" where
  "UpdateLastActiveRound tenant_id model_id client_id round r =
     (let key = ClientKey tenant_id model_id client_id in
      case Mapping.lookup r key of
        None \<Rightarrow> r
      | Some it \<Rightarrow> Mapping.update key (it\<lparr>ci_last_active_round := max (ci_last_active_round it) round\<rparr>) r)"

definition GetClientCount :: "registry \<Rightarrow> nat" where
  "GetClientCount r = Mapping.size r"

text \<open>The calls that change the registry.\<close>

datatype registry_op =
    CallRegister ClientInfo
  | CallBind string string string string
  | CallUpdateRound string string string int

fun registry_call :: "registry_op \<Rightarrow> registry \<Rightarrow> registry" where
  "registry_call (CallRegister info) r = snd (Register info r)"
| "registry_call (CallBind t m c p) r = snd (BindPeerIdentityIfMissing t m c p r)"
| "registry_call (CallUpdateRound t m c round) r = UpdateLastActiveRound t m c round r"

section \<open>The contract: an identity once bound stays bound\<close>

text \<open>
  \<open>peer s k\<close> is the identity bound to key \<open>k\<close> in state \<open>s\<close>: \<open>None\<close> when the key is unknown, the empty
  string when no identity is bound yet.
\<close>

locale identity_binding =
  fixes call :: "'c \<Rightarrow> 's \<Rightarrow> 's"
    and peer :: "'s \<Rightarrow> 'k \<Rightarrow> string option"
  assumes keeps_identity: "peer s k = Some p \<Longrightarrow> p \<noteq> '''' \<Longrightarrow> peer (call a s) k = Some p"
    and keeps_key: "peer s k \<noteq> None \<Longrightarrow> peer (call a s) k \<noteq> None"
begin

lemma calls_keep_identity:
  "peer s k = Some p \<Longrightarrow> p \<noteq> '''' \<Longrightarrow> peer (fold call as s) k = Some p"
  by (induction as arbitrary: s) (auto intro: keeps_identity)

lemma calls_keep_key: "peer s k \<noteq> None \<Longrightarrow> peer (fold call as s) k \<noteq> None"
  by (induction as arbitrary: s) (simp_all add: keeps_key del: not_None_eq)

text \<open>Two identities bound to one key at different times are the same.\<close>

lemma identity_unique:
  assumes "peer s k = Some p" "p \<noteq> ''''" and "peer (fold call as s) k = Some q"
  shows "q = p"
  using calls_keep_identity [OF assms(1,2), of as] assms(3) by simp

end

definition registry_peer :: "registry \<Rightarrow> string \<Rightarrow> string option" where
  "registry_peer r key = map_option ci_peer_identity (Mapping.lookup r key)"

lemma registry_peer_update [simp]:
  "registry_peer (Mapping.update key info r) k =
     (if k = key then Some (ci_peer_identity info) else registry_peer r k)"
  by (simp add: registry_peer_def lookup_update')

lemma registry_call_peer:
  "registry_peer (registry_call a r) k =
     (case a of
        CallRegister info \<Rightarrow>
          if k = ClientKey (ci_tenant_id info) (ci_model_id info) (ci_client_id info) \<and> registry_peer r k = None
          then Some (ci_peer_identity info) else registry_peer r k
      | CallBind t m c p \<Rightarrow>
          if k = ClientKey t m c \<and> registry_peer r k = Some '''' then Some p else registry_peer r k
      | CallUpdateRound t m c round \<Rightarrow> registry_peer r k)"
  by (cases a) (auto simp: Register_def BindPeerIdentityIfMissing_def UpdateLastActiveRound_def Let_def
      registry_peer_def lookup_update' split: option.splits)

interpretation registry: identity_binding registry_call registry_peer
  by unfold_locales (auto simp: registry_call_peer split: registry_op.split)

section \<open>What the queries answer\<close>

lemma IsRegistered_peer: "IsRegistered t m c r \<longleftrightarrow> registry_peer r (ClientKey t m c) \<noteq> None"
  by (simp add: IsRegistered_def registry_peer_def)

lemma IsRegisteredForPeer_peer:
  "IsRegisteredForPeer t m c p r \<longleftrightarrow> registry_peer r (ClientKey t m c) = Some p \<and> p \<noteq> ''''"
  by (auto simp: IsRegisteredForPeer_def registry_peer_def split: option.splits)

lemma Register_result:
  "fst (Register info r) \<longleftrightarrow> \<not> IsRegistered (ci_tenant_id info) (ci_model_id info) (ci_client_id info) r"
  by (simp add: Register_def IsRegistered_def Let_def split: option.split)

lemma Bind_result:
  "fst (BindPeerIdentityIfMissing t m c p r) \<longleftrightarrow>
     registry_peer r (ClientKey t m c) = Some '''' \<or> registry_peer r (ClientKey t m c) = Some p"
  by (auto simp: BindPeerIdentityIfMissing_def registry_peer_def Let_def split: option.split)

lemma Register_lookup:
  "Mapping.lookup (snd (Register info r)) k =
     (if k = ClientKey (ci_tenant_id info) (ci_model_id info) (ci_client_id info) \<and> Mapping.lookup r k = None
      then Some info else Mapping.lookup r k)"
  by (auto simp: Register_def Let_def lookup_update' split: option.split)

lemma GetDatasetSize_registered:
  "Mapping.lookup r (ClientKey t m c) = Some info \<Longrightarrow>
   GetDatasetSize t m c (registry_call a r) = ci_local_dataset_size info"
  by (cases a) (auto simp: GetDatasetSize_def Register_def BindPeerIdentityIfMissing_def UpdateLastActiveRound_def
      Let_def lookup_update' split: option.split)

end
