(* ===== verification/Crypto_Engine.thy ===== *)
theory Crypto_Engine
  imports Identity Paths "HOL-Library.Word" "HOL-Library.AList"
begin

text \<open>
  \<open>server/crypto_engine.cpp\<close>: the key store with its versions, the format of blobs at rest, key
  rotation, and the derivation of session keys. OpenSSL (AES-256-GCM, HMAC-SHA-256, random bytes)
  and liboqs (ML-KEM-1024) are not part of the repository: they are the record \<open>crypto_prims\<close>, with
  what the code relies on stated by \<open>aead_correct\<close> and \<open>kem_correct\<close>. \<open>Inl\<close> is the message of a
  thrown \<open>std::runtime_error\<close>.
\<close>

type_synonym byte = "8 word"

definition KEY_SIZE :: nat where "KEY_SIZE = 32"

definition IV_SIZE :: nat where "IV_SIZE = 12"

definition TAG_SIZE :: nat where "TAG_SIZE = 16"

definition BLOB_HEADER_SIZE :: nat where "BLOB_HEADER_SIZE = 8"

definition BLOB_MAGIC :: "byte list" where "BLOB_MAGIC = [0x50, 0x51, 0x46, 0x32]"

section \<open>The primitives\<close>

text \<open>The EVP calls an encryption or decryption can fail at.\<close>

datatype evp_fault = NoContext | InitFails | UpdateFails | FinalFails | TagFails

record crypto_prims =
  evp_encrypt :: "byte list \<Rightarrow> byte list \<Rightarrow> byte list \<Rightarrow> evp_fault + byte list \<times> byte list"
  evp_decrypt :: "byte list \<Rightarrow> byte list \<Rightarrow> byte list \<Rightarrow> byte list \<Rightarrow> evp_fault + byte list"
  hmac_sha256 :: "byte list \<Rightarrow> string \<Rightarrow> byte list option"
  kem_encaps :: "byte list \<Rightarrow> (byte list \<times> byte list) option"
  kem_decaps :: "byte list \<Rightarrow> byte list \<Rightarrow> byte list option"
  kem_public_length :: nat
  kem_secret_length :: nat
  kem_ciphertext_length :: nat

text \<open>Decrypting what was encrypted under the same key and IV gives the plaintext; tags have 16 bytes.\<close>

definition aead_correct :: "crypto_prims \<Rightarrow> bool" where
  "aead_correct C \<longleftrightarrow> (\<forall>k iv p c t. evp_encrypt C k iv p = Inr (c, t) \<longrightarrow>
     length t = TAG_SIZE \<and> evp_decrypt C k iv t c = Inr p)"

text \<open>Decapsulating what was encapsulated for a key pair's public key gives the same secret.\<close>

definition kem_correct :: "crypto_prims \<Rightarrow> byte list \<Rightarrow> byte list \<Rightarrow> bool" where
  "kem_correct C pk sk \<longleftrightarrow> (\<forall>ct ss. kem_encaps C pk = Some (ct, ss) \<longrightarrow>
     length ct = kem_ciphertext_length C \<and> kem_decaps C sk ct = Some ss)"

text \<open>What generating a key pair relies on besides: the keys have the lengths of the algorithm.\<close>

definition kem_pair :: "crypto_prims \<Rightarrow> byte list \<Rightarrow> byte list \<Rightarrow> bool" where
  "kem_pair C pk sk \<longleftrightarrow> kem_correct C pk sk \<and> length pk = kem_public_length C \<and> length sk = kem_secret_length C"

section \<open>The engine\<close>

record crypto_engine =
  ce_key_path :: string
  ce_payload_key_path :: string
  ce_key :: "byte list"
  ce_active_key_version :: int
  ce_key_versions :: "(int \<times> byte list) list"
  ce_payload_secret :: "byte list"
  ce_kem_public_key :: "byte list"
  ce_kem_secret_key :: "byte list"

definition ReadUint32BigEndian :: "byte list \<Rightarrow> 32 word" where
  "ReadUint32BigEndian data =
     (let w = (\<lambda>i. ucast (data ! i) :: 32 word) in
      or (or (or (push_bit 24 (w 0)) (push_bit 16 (w 1))) (push_bit 8 (w 2))) (w 3))"

definition WriteUint32BigEndian :: "32 word \<Rightarrow> byte list" where
  "WriteUint32BigEndian value =
     [ucast (and (drop_bit 24 value) 0xFF), ucast (and (drop_bit 16 value) 0xFF),
      ucast (and (drop_bit 8 value) 0xFF), ucast (and value 0xFF)]"

text \<open>\<open>iv\<close> is what \<open>RAND_bytes\<close> produced, \<open>None\<close> when it failed.\<close>

definition EncryptWithKey ::
  "crypto_prims \<Rightarrow> byte list \<Rightarrow> byte list option \<Rightarrow> byte list \<Rightarrow> string + byte list \<times> byte list \<times> byte list" where
  "EncryptWithKey C key iv plaintext =
     (case iv of
        None \<Rightarrow> Inl ''Failed to generate IV''
      | Some iv_out \<Rightarrow>
          (case evp_encrypt C key iv_out plaintext of
             Inl NoContext \<Rightarrow> Inl ''Failed to create cipher context''
           | Inl InitFails \<Rightarrow> Inl ''EncryptInit failed''
           | Inl UpdateFails \<Rightarrow> Inl ''EncryptUpdate failed''
           | Inl FinalFails \<Rightarrow> Inl ''EncryptFinal failed''
           | Inl TagFails \<Rightarrow> Inl ''Failed to get GCM tag''
           | Inr (ciphertext, tag) \<Rightarrow> Inr (ciphertext, iv_out, tag)))"

definition DecryptWithKey ::
  "crypto_prims \<Rightarrow> byte list \<Rightarrow> byte list \<Rightarrow> byte list \<Rightarrow> byte list \<Rightarrow> string + byte list" where
  "DecryptWithKey C key ciphertext iv tag =
     (case evp_decrypt C key iv tag ciphertext of
        Inl NoContext \<Rightarrow> Inl ''Failed to create cipher context''
      | Inl InitFails \<Rightarrow> Inl ''DecryptInit failed''
      | Inl UpdateFails \<Rightarrow> Inl ''DecryptUpdate failed''
      | Inl TagFails \<Rightarrow> Inl ''Failed to set expected GCM tag''
      | Inl FinalFails \<Rightarrow> Inl ''Decryption failed: GCM tag mismatch (integrity violation)''
      | Inr plaintext \<Rightarrow> Inr plaintext)"

definition EncryptBlob :: "crypto_prims \<Rightarrow> byte list option \<Rightarrow> crypto_engine \<Rightarrow> byte list \<Rightarrow> string + byte list" where
  "EncryptBlob C iv e plaintext =
     (case EncryptWithKey C (ce_key e) iv plaintext of
        Inl err \<Rightarrow> Inl err
      | Inr (ciphertext, iv_out, tag) \<Rightarrow>
          Inr (BLOB_MAGIC @ WriteUint32BigEndian (word_of_int (ce_active_key_version e)) @
               iv_out @ ciphertext @ tag))"

definition DecryptBlob :: "crypto_prims \<Rightarrow> crypto_engine \<Rightarrow> byte list \<Rightarrow> string + byte list" where
  "DecryptBlob C e blob =
     (if BLOB_HEADER_SIZE + IV_SIZE + TAG_SIZE \<le> length blob \<and> take 4 blob = BLOB_MAGIC then
        let version = ReadUint32BigEndian (drop 4 blob) in
        case map_of (ce_key_versions e) (sint version) of
          None \<Rightarrow> Inl ''Unknown key version for encrypted blob''
        | Some key \<Rightarrow>
            let iv = take IV_SIZE (drop BLOB_HEADER_SIZE blob);
                tag = drop (length blob - TAG_SIZE) blob;
                ciphertext = drop (BLOB_HEADER_SIZE + IV_SIZE) (take (length blob - TAG_SIZE) blob)
            in DecryptWithKey C key ciphertext iv tag
      else if length blob < IV_SIZE + TAG_SIZE then Inl ''Invalid ciphertext blob length''
      else
        let iv = take IV_SIZE blob;
            tag = drop (length blob - TAG_SIZE) blob;
            ciphertext = drop IV_SIZE (take (length blob - TAG_SIZE) blob)
        in DecryptWithKey C (ce_key e) ciphertext iv tag)"

definition Encrypt :: "crypto_prims \<Rightarrow> byte list option \<Rightarrow> crypto_engine \<Rightarrow> byte list
    \<Rightarrow> string + byte list \<times> byte list \<times> byte list" where
  "Encrypt C iv e plaintext = EncryptWithKey C (ce_key e) iv plaintext"

definition Decrypt :: "crypto_prims \<Rightarrow> crypto_engine \<Rightarrow> byte list \<Rightarrow> byte list \<Rightarrow> byte list \<Rightarrow> string + byte list" where
  "Decrypt C e ciphertext iv tag = DecryptWithKey C (ce_key e) ciphertext iv tag"

definition GetActiveKeyVersion :: "crypto_engine \<Rightarrow> int" where
  "GetActiveKeyVersion e = ce_active_key_version e"

section \<open>Key files\<close>

definition VersionedKeyPath :: "string \<Rightarrow> int \<Rightarrow> string" where
  "VersionedKeyPath key_path version =
     path_join (parent_path key_path)
       (path_stem key_path @ ''.v'' @ to_string version @ path_extension key_path)"

text \<open>The key registry as a parsed file: the active version and the listed keys, or a file that does
  not parse.\<close>

datatype key_registry = Unparsable string | KeyRegistry int "(int \<times> string) list"

record key_files =
  kf_registry :: "key_registry option"
  kf_files :: "string \<rightharpoonup> byte list"

definition SaveKeyRegistry :: "crypto_engine \<Rightarrow> key_files \<Rightarrow> key_files" where
  "SaveKeyRegistry e fs = fs\<lparr>kf_registry := Some (KeyRegistry (ce_active_key_version e)
     (map (\<lambda>(version, _). (version, VersionedKeyPath (ce_key_path e) version)) (ce_key_versions e)))\<rparr>"

definition load_key_bytes :: "key_files \<Rightarrow> string \<Rightarrow> string + byte list" where
  "load_key_bytes fs path =
     (case kf_files fs path of
        None \<Rightarrow> Inl (''Failed to open key file: '' @ path)
      | Some content \<Rightarrow>
          if length content < KEY_SIZE then Inl (''Corrupted key file: '' @ path)
          else Inr (take KEY_SIZE content))"

text \<open>The loop over the entries of the registry.\<close>

fun load_keys :: "key_files \<Rightarrow> (int \<times> string) list \<Rightarrow> (int \<times> byte list) list \<Rightarrow> string + (int \<times> byte list) list" where
  "load_keys fs [] keys = Inr keys"
| "load_keys fs ((version, path) # es) keys =
     (if version \<le> 0 \<or> path = '''' then load_keys fs es keys
      else case load_key_bytes fs path of
             Inl err \<Rightarrow> Inl err
           | Inr key \<Rightarrow> load_keys fs es (AList.update version key keys))"

definition LoadSecretFile :: "key_files \<Rightarrow> string \<Rightarrow> string + byte list" where
  "LoadSecretFile fs path =
     (if path = '''' then Inr []
      else case kf_files fs path of
             None \<Rightarrow> Inr []
           | Some content \<Rightarrow>
               if length content < KEY_SIZE then
                 Inl (''Secret file must contain exactly 32 bytes: '' @ path)
               else Inr (take KEY_SIZE content))"

definition LoadOrGeneratePayloadSecret ::
  "byte list option \<Rightarrow> crypto_engine \<Rightarrow> key_files \<Rightarrow> (string + crypto_engine) \<times> key_files" where
  "LoadOrGeneratePayloadSecret rand e fs =
     (case LoadSecretFile fs (ce_payload_key_path e) of
        Inl err \<Rightarrow> (Inl err, fs)
      | Inr secret \<Rightarrow>
          if secret \<noteq> [] then (Inr (e\<lparr>ce_payload_secret := secret\<rparr>), fs)
          else case rand of
                 None \<Rightarrow> (Inl ''Failed to generate payload encryption secret.'', fs)
               | Some bytes \<Rightarrow>
                   (Inr (e\<lparr>ce_payload_secret := bytes\<rparr>),
                    fs\<lparr>kf_files := (kf_files fs)(ce_payload_key_path e \<mapsto> bytes)\<rparr>))"

text \<open>The last steps of \<open>LoadOrGenerateKey\<close>: the active key must be among the loaded ones.\<close>

definition finish_load ::
  "byte list option \<Rightarrow> crypto_engine \<Rightarrow> key_files \<Rightarrow> (string + crypto_engine) \<times> key_files" where
  "finish_load payload_rand e fs =
     (case map_of (ce_key_versions e) (ce_active_key_version e) of
        None \<Rightarrow> (Inl ''Active key version missing from key registry.'', fs)
      | Some key \<Rightarrow> LoadOrGeneratePayloadSecret payload_rand (e\<lparr>ce_key := key\<rparr>) fs)"

text \<open>\<open>rand\<close> and \<open>payload_rand\<close> are the outcomes of the two calls of \<open>RAND_bytes\<close>.\<close>

definition LoadOrGenerateKey ::
  "byte list option \<Rightarrow> byte list option \<Rightarrow> crypto_engine \<Rightarrow> key_files \<Rightarrow> (string + crypto_engine) \<times> key_files" where
  "LoadOrGenerateKey rand payload_rand e fs =
     (case kf_registry fs of
        Some (Unparsable err) \<Rightarrow> (Inl err, fs)
      | Some (KeyRegistry active listed) \<Rightarrow>
          (case load_keys fs listed [] of
             Inl err \<Rightarrow> (Inl err, fs)
           | Inr keys \<Rightarrow>
               finish_load payload_rand (e\<lparr>ce_active_key_version := active, ce_key_versions := keys\<rparr>) fs)
      | None \<Rightarrow>
          (case kf_files fs (ce_key_path e) of
             Some content \<Rightarrow>
               (case load_key_bytes fs (ce_key_path e) of
                  Inl err \<Rightarrow> (Inl err, fs)
                | Inr key \<Rightarrow>
                    let e1 = e\<lparr>ce_active_key_version := 1, ce_key_versions := [(1, key)]\<rparr>;
                        fs1 = fs\<lparr>kf_files := (kf_files fs)(VersionedKeyPath (ce_key_path e) 1 \<mapsto> content)\<rparr>
                    in finish_load payload_rand e1 (SaveKeyRegistry e1 fs1))
           | None \<Rightarrow>
               (case rand of
                  None \<Rightarrow> (Inl ''Failed to generate random key.'', fs)
                | Some key \<Rightarrow>
                    let e1 = e\<lparr>ce_active_key_version := 1, ce_key_versions := [(1, key)]\<rparr>;
                        fs1 = fs\<lparr>kf_files := (kf_files fs)(ce_key_path e \<mapsto> key,
                                VersionedKeyPath (ce_key_path e) 1 \<mapsto> key)\<rparr>
                    in finish_load payload_rand e1 (SaveKeyRegistry e1 fs1))))"

definition RotateMasterKey ::
  "byte list option \<Rightarrow> crypto_engine \<Rightarrow> key_files \<Rightarrow> (string + int) \<times> crypto_engine \<times> key_files" where
  "RotateMasterKey rand e fs =
     (case rand of
        None \<Rightarrow> (Inl ''Failed to generate rotated key.'', e, fs)
      | Some key_bytes \<Rightarrow>
          let new_version = ce_active_key_version e + 1;
              fs1 = fs\<lparr>kf_files := (kf_files fs)(VersionedKeyPath (ce_key_path e) new_version \<mapsto> key_bytes)\<rparr>;
              e1 = e\<lparr>ce_key_versions := AList.update new_version key_bytes (ce_key_versions e),
                     ce_active_key_version := new_version, ce_key := key_bytes\<rparr>
          in (Inr new_version, e1, SaveKeyRegistry e1 fs1))"

section \<open>The start of the engine\<close>

text \<open>The outcome of \<open>OQS_KEM_new\<close> and \<open>OQS_KEM_keypair\<close>.\<close>

datatype kem_outcome = NoKem | KeypairFails | Keypair "byte list" "byte list"

definition InitializeKem :: "kem_outcome \<Rightarrow> crypto_engine \<Rightarrow> string + crypto_engine" where
  "InitializeKem kem e =
     (case kem of
        NoKem \<Rightarrow> Inl ''Failed to initialize ML-KEM-1024''
      | KeypairFails \<Rightarrow> Inl ''Failed to generate ML-KEM-1024 payload keypair''
      | Keypair public_key secret_key \<Rightarrow>
          Inr (e\<lparr>ce_kem_public_key := public_key, ce_kem_secret_key := secret_key\<rparr>))"

text \<open>The constructor: the paths and default members, the key, the payload secret, the KEM pair.\<close>

definition CryptoEngine ::
  "byte list option \<Rightarrow> byte list option \<Rightarrow> kem_outcome \<Rightarrow> string \<Rightarrow> string \<Rightarrow> key_files
     \<Rightarrow> (string + crypto_engine) \<times> key_files" where
  "CryptoEngine rand payload_rand kem key_path payload_key_path fs =
     (let e = \<lparr>ce_key_path = key_path,
            ce_payload_key_path = (if payload_key_path = '''' then key_path @ ''.payload'' else payload_key_path),
            ce_key = replicate KEY_SIZE 0, ce_active_key_version = 1, ce_key_versions = [],
            ce_payload_secret = [], ce_kem_public_key = [], ce_kem_secret_key = []\<rparr>
      in case LoadOrGenerateKey rand payload_rand e fs of
           (Inl err, fs1) \<Rightarrow> (Inl err, fs1)
         | (Inr e1, fs1) \<Rightarrow> (InitializeKem kem e1, fs1))"

section \<open>Session keys\<close>

definition session_context :: "string list \<Rightarrow> string" where
  "session_context context_parts =
     foldl (\<lambda>to_mac part. to_mac @ ''|'' @ dec (length part) @ '':'' @ part) ''pqfl-session-v3'' context_parts"

definition DeriveSessionKeyWithSecret ::
  "crypto_prims \<Rightarrow> byte list \<Rightarrow> string list \<Rightarrow> string + byte list" where
  "DeriveSessionKeyWithSecret C secret context_parts =
     (if length secret \<noteq> KEY_SIZE then Inl ''Payload secret must contain exactly 32 bytes''
      else case hmac_sha256 C secret (session_context context_parts) of
             None \<Rightarrow> Inl ''Failed to derive payload session key''
           | Some mac \<Rightarrow>
               if length mac < KEY_SIZE then Inl ''Failed to derive payload session key''
               else Inr (take KEY_SIZE mac))"

definition DeriveSessionKey :: "crypto_prims \<Rightarrow> crypto_engine \<Rightarrow> string list \<Rightarrow> string + byte list" where
  "DeriveSessionKey C e context_parts = DeriveSessionKeyWithSecret C (ce_payload_secret e) context_parts"

definition DeriveSessionKeyFromKemSecret ::
  "crypto_prims \<Rightarrow> byte list \<Rightarrow> string list \<Rightarrow> string + byte list" where
  "DeriveSessionKeyFromKemSecret C kem_secret context_parts =
     DeriveSessionKeyWithSecret C kem_secret context_parts"

definition DeriveKemSessionKey ::
  "crypto_prims \<Rightarrow> crypto_engine \<Rightarrow> string list \<Rightarrow> byte list \<Rightarrow> string + byte list" where
  "DeriveKemSessionKey C e context_parts kem_ciphertext =
     (if length kem_ciphertext \<noteq> kem_ciphertext_length C then Inl ''Invalid ML-KEM-1024 ciphertext length''
      else case kem_decaps C (ce_kem_secret_key e) kem_ciphertext of
             None \<Rightarrow> Inl ''ML-KEM-1024 decapsulation failed''
           | Some shared_secret \<Rightarrow> DeriveSessionKeyFromKemSecret C shared_secret context_parts)"

definition EncapsulateKem :: "crypto_prims \<Rightarrow> byte list \<Rightarrow> (byte list \<times> byte list) option" where
  "EncapsulateKem C public_key =
     (if length public_key \<noteq> kem_public_length C then None else kem_encaps C public_key)"

definition GenerateKemKeypair :: "kem_outcome \<Rightarrow> (byte list \<times> byte list) option" where
  "GenerateKemKeypair kem = (case kem of Keypair public_key secret_key \<Rightarrow> Some (public_key, secret_key) | _ \<Rightarrow> None)"

definition DecapsulateKem :: "crypto_prims \<Rightarrow> byte list \<Rightarrow> byte list \<Rightarrow> byte list option" where
  "DecapsulateKem C secret_key kem_ciphertext =
     (if length secret_key \<noteq> kem_secret_length C \<or> length kem_ciphertext \<noteq> kem_ciphertext_length C then None
      else kem_decaps C secret_key kem_ciphertext)"

end
