(* ===== verification/Federated_Service.thy ===== *)
theory Federated_Service
  imports Weight_Buffer Client_Registry Crypto_Engine Config_Model Store_Workers
begin

text \<open>
  \<open>server/federated_service.cpp\<close>: the handlers of the \<open>FederatedLearning\<close> service. \<open>Proceed\<close> calls
  run one at a time under \<open>proceed_mutex_\<close>; a handler is a function from the request, the
  authentication context and the server to the response and the server. The server is what the
  call objects share: the crypto engine, the state store, the registry and the weight buffer.
  The \<open>k\<close>-th operation a handler performs on the store reads its own clock \<open>clks k\<close>.
\<close>

section \<open>The server and the messages\<close>

record 'f server =
  sv_crypto :: crypto_engine
  sv_store :: state_store
  sv_registry :: registry
  sv_buffer :: "'f weight_buffer"

datatype status_code = OK | INVALID_ARGUMENT | UNAUTHENTICATED | FAILED_PRECONDITION | PERMISSION_DENIED
  | NOT_FOUND | INTERNAL

type_synonym grpc_status = "status_code \<times> string"

record ClientRegistration =
  rg_tenant_id :: string
  rg_model_id :: string
  rg_client_id :: string
  rg_local_dataset_size :: int
  rg_hardware_info :: string
  rg_dataset_fingerprint :: string

record RegistrationResponse =
  rr_accepted :: bool
  rr_assigned_id :: string
  rr_current_round :: int
  rr_active_model_version :: int

record ConfigRequest =
  cq_tenant_id :: string
  cq_model_id :: string
  cq_client_id :: string

record 'f TrainingConfig =
  tc_target_rounds :: int
  tc_learning_rate :: 'f
  tc_batch_size :: int
  tc_required_clients :: int
  tc_clip_norm :: 'f
  tc_aggregation_strategy :: string
  tc_tenant_id :: string
  tc_model_id :: string
  tc_active_model_version :: int
  tc_active_key_version :: int
  tc_server_momentum :: 'f
  tc_job_id :: string
  tc_dataset_id :: string
  tc_dataset_fingerprint :: string
  tc_assigned_round_index :: int
  tc_assignment_id :: string
  tc_assignment_expires_at :: string
  tc_base_model_version :: int
  tc_job_status :: string
  tc_assignment_ready :: bool
  tc_assignment_message :: string
  tc_payload_kem_public_key :: "byte list"
  tc_payload_kem_algorithm :: string

record WeightPayload =
  wp_client_id :: string
  wp_round_index :: int
  wp_local_dataset_size :: int
  wp_encrypted_weights :: "byte list"
  wp_iv :: "byte list"
  wp_auth_tag :: "byte list"
  wp_tenant_id :: string
  wp_model_id :: string
  wp_base_model_version :: int
  wp_client_nonce :: string
  wp_job_id :: string
  wp_assignment_id :: string
  wp_kem_ciphertext :: "byte list"
  wp_key_agreement :: string

record AggregationResponse =
  ar_accepted :: bool
  ar_message :: string
  ar_clients_received :: int
  ar_clients_required :: int
  ar_aggregation_triggered :: bool
  ar_active_model_version :: int
  ar_active_key_version :: int

section \<open>RegisterClient\<close>

definition rejected_registration :: RegistrationResponse where
  "rejected_registration = \<lparr>rr_accepted = False, rr_assigned_id = '''', rr_current_round = - 1,
     rr_active_model_version = 0\<rparr>"

definition RegisterClient ::
  "(nat \<Rightarrow> clock) \<Rightarrow> server_context \<Rightarrow> ClientRegistration \<Rightarrow> 'f server
     \<Rightarrow> (grpc_status \<times> RegistrationResponse) \<times> 'f server" where
  "RegisterClient clks ctx q sv =
     (if ValidateFederatedRequestIds (rg_tenant_id q) (rg_model_id q) (rg_client_id q) \<noteq> '''' then
        (((OK, ''''), rejected_registration), sv)
      else if \<not> IsPeerAuthenticated ctx then
        (((UNAUTHENTICATED, ''Authenticated client certificate required''), rejected_registration), sv)
      else
        let peer_identity = NormalizePeerIdentity (GetPeerIdentity ctx) in
        if peer_identity = '''' then
          (((UNAUTHENTICATED, ''Peer identity is required''), rejected_registration), sv)
        else
          let info = \<lparr>ci_tenant_id = NormalizeTenant (rg_tenant_id q),
                ci_model_id = NormalizeModel (rg_model_id q), ci_client_id = rg_client_id q,
                ci_peer_identity = peer_identity,
                ci_local_dataset_size = max 1 (rg_local_dataset_size q),
                ci_hardware_info = rg_hardware_info q,
                ci_dataset_fingerprint = rg_dataset_fingerprint q,
                ci_registered_at = CurrentTimestamp (clks 0 0), ci_last_active_round = - 1\<rparr>;
              (accepted, registry) = Register info (sv_registry sv);
              latest = GetLatestGlobalModel (ci_tenant_id info) (ci_model_id info) (sv_buffer sv);
              response = \<lparr>rr_accepted = accepted, rr_assigned_id = rg_client_id q,
                rr_current_round = ls_round latest,
                rr_active_model_version =
                  GetActiveModelVersion (ci_tenant_id info) (ci_model_id info) (sv_store sv)\<rparr>;
              s1 = RecordClientRegistration (clks 1)
                \<lparr>cl_tenant_id = ci_tenant_id info, cl_model_id = ci_model_id info,
                 cl_client_id = ci_client_id info, cl_peer_identity = ci_peer_identity info,
                 cl_local_dataset_size = ci_local_dataset_size info,
                 cl_hardware_info = ci_hardware_info info,
                 cl_dataset_fingerprint = ci_dataset_fingerprint info,
                 cl_last_active_round = ci_last_active_round info,
                 cl_registered_at = ci_registered_at info\<rparr> (sv_store sv);
              s2 = RecordAuditEvent (clks 3)
                (audit_event (CurrentTimestamp (clks 2 0))
                  (if accepted then ''client_registered'' else ''client_register_duplicate'')
                  (ci_tenant_id info) (ci_model_id info) (ci_client_id info)
                  (''Dataset size '' @ to_string (ci_local_dataset_size info))) s1
          in (((OK, ''''), response), sv\<lparr>sv_registry := registry, sv_store := s2\<rparr>))"

section \<open>GetTrainingConfig\<close>

definition empty_training_config :: "'f arith \<Rightarrow> 'f TrainingConfig" where
  "empty_training_config A = \<lparr>tc_target_rounds = 0, tc_learning_rate = ar_of_int A 0, tc_batch_size = 0,
     tc_required_clients = 0, tc_clip_norm = ar_of_int A 0, tc_aggregation_strategy = '''',
     tc_tenant_id = '''', tc_model_id = '''', tc_active_model_version = 0, tc_active_key_version = 0,
     tc_server_momentum = ar_of_int A 0, tc_job_id = '''', tc_dataset_id = '''',
     tc_dataset_fingerprint = '''', tc_assigned_round_index = 0, tc_assignment_id = '''',
     tc_assignment_expires_at = '''', tc_base_model_version = 0, tc_job_status = '''',
     tc_assignment_ready = False, tc_assignment_message = '''', tc_payload_kem_public_key = [],
     tc_payload_kem_algorithm = ''''\<rparr>"

text \<open>The response of an ad-hoc participant, before a lease is sought.\<close>

definition adhoc_config :: "'f arith \<Rightarrow> 'f config \<Rightarrow> string \<Rightarrow> string \<Rightarrow> 'f server \<Rightarrow> 'f TrainingConfig" where
  "adhoc_config A cfg tenant_id model_id sv = (empty_training_config A)\<lparr>
     tc_target_rounds := cfg_target_rounds cfg, tc_learning_rate := cfg_learning_rate cfg,
     tc_batch_size := cfg_batch_size cfg, tc_required_clients := cfg_required_clients cfg,
     tc_clip_norm := cfg_clip_norm cfg, tc_aggregation_strategy := cfg_aggregation_strategy cfg,
     tc_tenant_id := tenant_id, tc_model_id := model_id,
     tc_active_model_version := GetActiveModelVersion tenant_id model_id (sv_store sv),
     tc_active_key_version := GetActiveKeyVersion (sv_crypto sv),
     tc_server_momentum := cfg_server_momentum cfg, tc_assignment_ready := False,
     tc_assignment_message := ''No active scheduled training job; ad-hoc participation only'',
     tc_payload_kem_public_key := ce_kem_public_key (sv_crypto sv),
     tc_payload_kem_algorithm := ''ML-KEM-1024''\<rparr>"

definition leased_config ::
  "'f config \<Rightarrow> PersistedAssignmentLease \<Rightarrow> PersistedTrainingJobRecord \<Rightarrow> PersistedDatasetRecord
     \<Rightarrow> 'f TrainingConfig \<Rightarrow> 'f TrainingConfig" where
  "leased_config cfg assignment job dataset r = r\<lparr>
     tc_target_rounds := (if jb_target_rounds job > 0 then jb_target_rounds job else cfg_target_rounds cfg),
     tc_required_clients :=
       (if jb_min_clients_per_round job > 0 then jb_min_clients_per_round job else cfg_required_clients cfg),
     tc_job_id := jb_job_id job, tc_dataset_id := ds_dataset_id dataset,
     tc_dataset_fingerprint := ds_fingerprint dataset,
     tc_assigned_round_index := as_round_index assignment,
     tc_assignment_id := as_assignment_id assignment,
     tc_assignment_expires_at := as_expires_at assignment,
     tc_base_model_version := as_base_model_version assignment,
     tc_job_status := jb_status job, tc_assignment_ready := True,
     tc_assignment_message := ''Training assignment leased for this client''\<rparr>"

definition GetTrainingConfig ::
  "'f arith \<Rightarrow> 'f config \<Rightarrow> clock \<Rightarrow> server_context \<Rightarrow> ConfigRequest \<Rightarrow> 'f server
     \<Rightarrow> (grpc_status \<times> 'f TrainingConfig) \<times> 'f server" where
  "GetTrainingConfig A cfg clk ctx q sv =
     (let tenant_id = NormalizeTenant (cq_tenant_id q);
          model_id = NormalizeModel (cq_model_id q);
          validation_error = ValidateFederatedRequestIds (cq_tenant_id q) (cq_model_id q) (cq_client_id q)
      in
      if validation_error \<noteq> '''' then (((INVALID_ARGUMENT, validation_error), empty_training_config A), sv)
      else if \<not> IsPeerAuthenticated ctx then
        (((UNAUTHENTICATED, ''Authenticated client certificate required''), empty_training_config A), sv)
      else if \<not> IsRegisteredForPeer tenant_id model_id (cq_client_id q)
                  (NormalizePeerIdentity (GetPeerIdentity ctx)) (sv_registry sv) then
        (((FAILED_PRECONDITION,
           ''Client must register with the same certificate identity before requesting config''),
          empty_training_config A), sv)
      else
        let r = adhoc_config A cfg tenant_id model_id sv in
        case LeaseTrainingAssignment clk tenant_id model_id (cq_client_id q) (tc_active_model_version r)
               (cfg_required_clients cfg) (cfg_default_assignment_ttl_seconds cfg) (sv_store sv) of
          (None, s) \<Rightarrow> (((OK, ''''), r), sv\<lparr>sv_store := s\<rparr>)
        | (Some (assignment, job, dataset), s) \<Rightarrow>
            (((OK, ''''), leased_config cfg assignment job
                (case dataset of None \<Rightarrow> default_dataset | Some d \<Rightarrow> d) r), sv\<lparr>sv_store := s\<rparr>))"

section \<open>SubmitWeights\<close>

text \<open>The checks of the request that read no state, in order.\<close>

definition CheckSubmitRequest :: "WeightPayload \<Rightarrow> string option" where
  "CheckSubmitRequest q =
     (let validation_error = ValidateFederatedRequestIds (wp_tenant_id q) (wp_model_id q) (wp_client_id q)
      in
      if validation_error \<noteq> '''' then Some validation_error
      else if wp_round_index q \<le> 0 then Some ''round_index must be >= 1''
      else if wp_local_dataset_size q \<le> 0 then Some ''local_dataset_size must be >= 1''
      else if wp_encrypted_weights q = [] then Some ''encrypted_weights must not be empty''
      else if length (wp_iv q) \<noteq> 12 \<or> length (wp_auth_tag q) \<noteq> 16 then Some ''iv/auth_tag length mismatch''
      else if wp_key_agreement q = ''ml-kem-1024'' \<and> wp_kem_ciphertext q = [] then
        Some ''ML-KEM-1024 key agreement requires kem_ciphertext''
      else None)"

definition submit_context :: "server_context \<Rightarrow> WeightPayload \<Rightarrow> string list" where
  "submit_context ctx q =
     [GetPeerIdentity ctx, NormalizeTenant (wp_tenant_id q), NormalizeModel (wp_model_id q),
      wp_client_id q, to_string (wp_round_index q), ''submit'']
     @ (if wp_client_nonce q \<noteq> '''' then [wp_client_nonce q] else [])"

definition SubmitSessionKey ::
  "crypto_prims \<Rightarrow> server_context \<Rightarrow> WeightPayload \<Rightarrow> crypto_engine \<Rightarrow> string + byte list" where
  "SubmitSessionKey C ctx q e =
     (if wp_kem_ciphertext q \<noteq> [] then DeriveKemSessionKey C e (submit_context ctx q) (wp_kem_ciphertext q)
      else DeriveSessionKey C e (submit_context ctx q))"

definition DecryptSubmission ::
  "crypto_prims \<Rightarrow> server_context \<Rightarrow> WeightPayload \<Rightarrow> crypto_engine \<Rightarrow> string + byte list" where
  "DecryptSubmission C ctx q e =
     (case SubmitSessionKey C ctx q e of
        Inl err \<Rightarrow> Inl err
      | Inr session_key \<Rightarrow>
          DecryptWithKey C session_key (wp_encrypted_weights q) (wp_iv q) (wp_auth_tag q))"

text \<open>\<open>memcpy\<close> between bytes and floats: four bytes at a time.\<close>

fun floats_of :: "(byte list \<Rightarrow> 'f) \<Rightarrow> byte list \<Rightarrow> 'f list" where
  "floats_of of_bytes (b0 # b1 # b2 # b3 # bs) = of_bytes [b0, b1, b2, b3] # floats_of of_bytes bs"
| "floats_of of_bytes _ = []"

definition bytes_of :: "('f \<Rightarrow> byte list) \<Rightarrow> 'f list \<Rightarrow> byte list" where
  "bytes_of to_bytes fs = concat (map to_bytes fs)"

text \<open>What the handler takes from its environment: the random IV of the checkpoint, the file system,
  the iteration order of the hash map, the noise, the representation of floats.\<close>

record 'f submit_env =
  se_order :: "(string \<times> 'f list) list \<Rightarrow> (string \<times> 'f list) list"
  se_gauss :: "'f \<Rightarrow> nat \<Rightarrow> 'f"
  se_to_bytes :: "'f \<Rightarrow> byte list"
  se_of_bytes :: "byte list \<Rightarrow> 'f"
  se_iv :: "byte list option"
  se_mkdir :: "string \<Rightarrow> string option"
  se_write :: "string \<Rightarrow> byte list \<Rightarrow> write_outcome"

definition buffer_env_of :: "crypto_prims \<Rightarrow> 'f submit_env \<Rightarrow> crypto_engine \<Rightarrow> ('f, byte list) buffer_env" where
  "buffer_env_of C N e = \<lparr>env_order = se_order N, env_gauss = se_gauss N,
     env_bytes = bytes_of (se_to_bytes N), env_encrypt = EncryptBlob C (se_iv N) e,
     env_mkdir = se_mkdir N, env_write = se_write N, env_key_version = GetActiveKeyVersion e\<rparr>"

definition agg_params_of :: "'f config \<Rightarrow> int \<Rightarrow> 'f agg_params" where
  "agg_params_of cfg required_clients = \<lparr>ap_required_clients = nat required_clients,
     ap_strategy = cfg_aggregation_strategy cfg, ap_clip_norm = cfg_clip_norm cfg,
     ap_dp_epsilon = cfg_dp_epsilon cfg, ap_dp_delta = cfg_dp_delta cfg,
     ap_trimmed_beta = cfg_trimmed_mean_beta cfg, ap_server_momentum = cfg_server_momentum cfg,
     ap_checkpoint_dir = cfg_checkpoint_dir cfg\<rparr>"

definition refuse :: "'f server \<Rightarrow> string \<Rightarrow> AggregationResponse" where
  "refuse sv message = \<lparr>ar_accepted = False, ar_message = message, ar_clients_received = 0,
     ar_clients_required = 0, ar_aggregation_triggered = False, ar_active_model_version = 0,
     ar_active_key_version = GetActiveKeyVersion (sv_crypto sv)\<rparr>"

definition refuse_at :: "'f server \<Rightarrow> int \<Rightarrow> string \<Rightarrow> AggregationResponse" where
  "refuse_at sv version message = (refuse sv message)\<lparr>ar_active_model_version := version\<rparr>"

text \<open>The response once the buffer has been asked.\<close>

definition submit_response ::
  "'f server \<Rightarrow> WeightPayload \<Rightarrow> int \<Rightarrow> AggregationAttemptResult \<Rightarrow> bool \<Rightarrow> bool \<Rightarrow> string \<Rightarrow> AggregationResponse" where
  "submit_response sv q required_clients result accepted triggered message =
     \<lparr>ar_accepted = accepted, ar_message = message,
      ar_clients_received = int (GetNumClients (NormalizeTenant (wp_tenant_id q))
        (NormalizeModel (wp_model_id q)) (wp_round_index q) (sv_buffer sv)),
      ar_clients_required = required_clients, ar_aggregation_triggered = triggered,
      ar_active_model_version = ag_model_version result,
      ar_active_key_version = GetActiveKeyVersion (sv_crypto sv)\<rparr>"

text \<open>The second half of the handler: the weights are decrypted, the submission is recorded, the
  buffer attempts to aggregate, and the lease is consumed. \<open>Inl\<close> is an exception that escapes.\<close>

definition CommitSubmission ::
  "'f arith \<Rightarrow> crypto_prims \<Rightarrow> 'f submit_env \<Rightarrow> 'f config \<Rightarrow> (nat \<Rightarrow> clock) \<Rightarrow> WeightPayload
     \<Rightarrow> PersistedTrainingJobRecord option \<Rightarrow> 'f list \<Rightarrow> 'f server \<Rightarrow> (string + AggregationResponse) \<times> 'f server" where
  "CommitSubmission A C N cfg clks q active_job weights sv =
     (let tenant_id = NormalizeTenant (wp_tenant_id q);
          model_id = NormalizeModel (wp_model_id q);
          registry = UpdateLastActiveRound tenant_id model_id (wp_client_id q) (wp_round_index q) (sv_registry sv);
          s1 = UpdateClientLastRound tenant_id model_id (wp_client_id q) (wp_round_index q) (sv_store sv);
          s2 = RecordWeightSubmission (clks 1) tenant_id model_id (wp_client_id q) (wp_round_index q) s1;
          required_clients = (case active_job of
              Some job \<Rightarrow> if jb_min_clients_per_round job > 0 then jb_min_clients_per_round job
                          else cfg_required_clients cfg
            | None \<Rightarrow> cfg_required_clients cfg);
          request = \<lparr>rq_tenant_id = tenant_id, rq_model_id = model_id, rq_client_id = wp_client_id q,
            rq_round = wp_round_index q, rq_dataset_size = max 1 (wp_local_dataset_size q),
            rq_weights = weights\<rparr>;
          (outcome, (buffer, s3)) = AddWeightAndCheckAggregate A (buffer_env_of C N (sv_crypto sv))
            (agg_params_of cfg required_clients) (clks 2) request (sv_buffer sv, s2);
          sv1 = sv\<lparr>sv_registry := registry, sv_buffer := buffer, sv_store := s3\<rparr>
      in
      case outcome of
        Inl err \<Rightarrow> (Inl err, sv1)
      | Inr (result, _) \<Rightarrow>
          if \<not> ag_accepted result then
            (Inr (submit_response sv1 q required_clients result False False (ag_message result)), sv1)
          else
            (case active_job of
               None \<Rightarrow>
                 (Inr (submit_response sv1 q required_clients result True (ag_aggregated result)
                    (ag_message result)), sv1)
             | Some _ \<Rightarrow>
                 (case AcceptTrainingAssignmentSubmission (clks 3) tenant_id model_id (wp_client_id q)
                         (wp_job_id q) (wp_assignment_id q) (wp_round_index q) (wp_base_model_version q) s3 of
                    (Inl assignment_error, s4) \<Rightarrow>
                      (let sv2 = sv1\<lparr>sv_store := s4\<rparr> in
                       (Inr (submit_response sv2 q required_clients result False False assignment_error), sv2))
                  | (Inr _, s4) \<Rightarrow>
                      (let s5 = (if ag_aggregated result
                                 then AdvanceTrainingJobRound (clks 4) tenant_id model_id (wp_round_index q)
                                        (ag_model_version result) s4
                                 else s4);
                           sv2 = sv1\<lparr>sv_store := s5\<rparr>
                       in (Inr (submit_response sv2 q required_clients result True (ag_aggregated result)
                             (ag_message result)), sv2)))))"

definition SubmitWeights ::
  "'f arith \<Rightarrow> crypto_prims \<Rightarrow> 'f submit_env \<Rightarrow> 'f config \<Rightarrow> (nat \<Rightarrow> clock) \<Rightarrow> server_context \<Rightarrow> WeightPayload
     \<Rightarrow> 'f server \<Rightarrow> (string + AggregationResponse) \<times> 'f server" where
  "SubmitWeights A C N cfg clks ctx q sv =
     (case CheckSubmitRequest q of
        Some message \<Rightarrow> (Inr (refuse sv message), sv)
      | None \<Rightarrow>
        let tenant_id = NormalizeTenant (wp_tenant_id q); model_id = NormalizeModel (wp_model_id q) in
        if \<not> IsPeerAuthenticated ctx then
          (Inr (refuse sv ''Authenticated client certificate required''), sv)
        else if \<not> IsRegisteredForPeer tenant_id model_id (wp_client_id q)
                    (NormalizePeerIdentity (GetPeerIdentity ctx)) (sv_registry sv) then
          (Inr (refuse sv ''Client must register with the same certificate identity before submitting weights''), sv)
        else
          let current_model_version = GetActiveModelVersion tenant_id model_id (sv_store sv) in
          if wp_base_model_version q > 0 \<and> current_model_version > 0 \<and>
             wp_base_model_version q \<noteq> current_model_version then
            (Inr (refuse_at sv current_model_version ''Submission is based on a stale global model version''), sv)
          else
            let active_job = GetActiveTrainingJob tenant_id model_id (sv_store sv);
                (check, sv1) = (case active_job of
                    None \<Rightarrow> (Inr (), sv)
                  | Some _ \<Rightarrow>
                      let (check, s) = ValidateTrainingAssignmentSubmission (clks 0) tenant_id model_id
                            (wp_client_id q) (wp_job_id q) (wp_assignment_id q) (wp_round_index q)
                            (wp_base_model_version q) (sv_store sv)
                      in (check, sv\<lparr>sv_store := s\<rparr>))
            in
            case check of
              Inl assignment_error \<Rightarrow> (Inr (refuse_at sv1 current_model_version assignment_error), sv1)
            | Inr _ \<Rightarrow>
              if IsRoundCompleted tenant_id model_id (wp_round_index q) (sv_buffer sv1) then
                (Inr (refuse_at sv1 current_model_version ''Round already aggregated''), sv1)
              else if HasClientSubmission tenant_id model_id (wp_round_index q) (wp_client_id q) (sv_buffer sv1) then
                (Inr (refuse_at sv1 current_model_version ''Client already submitted weights for this round''), sv1)
              else
                (case DecryptSubmission C ctx q (sv_crypto sv1) of
                   Inl err \<Rightarrow> (Inr (refuse sv1 (''Decryption failed: '' @ err)), sv1)
                 | Inr plaintext \<Rightarrow>
                     if length plaintext mod 4 \<noteq> 0 then (Inr (refuse sv1 ''Invalid weight dimensions''), sv1)
                     else CommitSubmission A C N cfg clks q active_job
                            (floats_of (se_of_bytes N) plaintext) sv1))"

section \<open>Start-up\<close>

text \<open>One iteration of \<open>RestorePersistedModels\<close>: \<open>files\<close> is the content of the checkpoints on disk.\<close>

definition RestoreModel ::
  "crypto_prims \<Rightarrow> (byte list \<Rightarrow> 'f) \<Rightarrow> (string \<rightharpoonup> byte list) \<Rightarrow> crypto_engine \<Rightarrow> PersistedModelRecord
     \<Rightarrow> 'f weight_buffer \<Rightarrow> 'f weight_buffer" where
  "RestoreModel C of_bytes files e model b =
     (case files (md_checkpoint_path model) of
        None \<Rightarrow> b
      | Some blob \<Rightarrow>
          (case DecryptBlob C e blob of
             Inl _ \<Rightarrow> b
           | Inr plaintext \<Rightarrow>
               if length plaintext mod 4 \<noteq> 0 then b
               else RestoreLatestGlobalModel (md_tenant_id model) (md_model_id model)
                      (md_latest_round model) (md_version model) (floats_of of_bytes plaintext) b))"

definition RestorePersistedModels ::
  "crypto_prims \<Rightarrow> (byte list \<Rightarrow> 'f) \<Rightarrow> (string \<rightharpoonup> byte list) \<Rightarrow> crypto_engine \<Rightarrow> state_store
     \<Rightarrow> 'f weight_buffer \<Rightarrow> 'f weight_buffer" where
  "RestorePersistedModels C of_bytes files e s b =
     foldl (\<lambda>b model. RestoreModel C of_bytes files e model b) b (GetActiveModels s)"

text \<open>The constructor of the service: the registry is filled from the store, then the models.\<close>

definition registry_of_clients :: "PersistedClientRecord list \<Rightarrow> registry" where
  "registry_of_clients cs = foldl (\<lambda>r c. snd (Register
     \<lparr>ci_tenant_id = cl_tenant_id c, ci_model_id = cl_model_id c, ci_client_id = cl_client_id c,
      ci_peer_identity = cl_peer_identity c, ci_local_dataset_size = cl_local_dataset_size c,
      ci_hardware_info = cl_hardware_info c, ci_dataset_fingerprint = cl_dataset_fingerprint c,
      ci_registered_at = cl_registered_at c, ci_last_active_round = cl_last_active_round c\<rparr> r))
     Mapping.empty cs"

definition FederatedServiceImpl ::
  "crypto_prims \<Rightarrow> (byte list \<Rightarrow> 'f) \<Rightarrow> (string \<rightharpoonup> byte list) \<Rightarrow> crypto_engine \<Rightarrow> state_store \<Rightarrow> 'f server" where
  "FederatedServiceImpl C of_bytes files e s =
     \<lparr>sv_crypto = e, sv_store = s, sv_registry = registry_of_clients (ListClients '''' '''' s),
      sv_buffer = RestorePersistedModels C of_bytes files e s empty_buffer\<rparr>"

section \<open>Signing\<close>

text \<open>The text whose signature accompanies a streamed model.\<close>

definition signed_payload :: "string \<Rightarrow> string \<Rightarrow> int \<Rightarrow> int \<Rightarrow> string \<Rightarrow> string" where
  "signed_payload tenant_id model_id rd version ciphertext =
     NormalizeTenant tenant_id @ ''|'' @ NormalizeModel model_id @ ''|'' @ to_string rd @ ''|'' @
     to_string version @ ''|'' @ ciphertext"

end
