(* ===== verification/Crypto_Properties.thy ===== *)
theory Crypto_Properties
  imports Crypto_Engine
begin

text \<open>
  What the rest of the server relies on in the crypto engine: blobs decrypt under the version they
  name however often the key was rotated since, the key files reproduce the engine, the context of
  a session key is encoded injectively, and both sides of the key encapsulation derive one key.
\<close>

section \<open>The blob layout\<close>

lemma low_byte: "ucast (and x 0xFF :: 32 word) = (ucast x :: byte)"
proof -
  have "(0xFF :: 32 word) = mask 8" by (simp add: mask_eq_exp_minus_1)
  then have "and x 0xFF = take_bit 8 x" by (simp only: take_bit_eq_mask)
  then show ?thesis by (simp only:) (rule bit_word_eqI, simp add: bit_simps)
qed

lemma uint32_roundtrip: "ReadUint32BigEndian (WriteUint32BigEndian v @ xs) = v"
proof (rule bit_word_eqI)
  fix n assume "n < LENGTH(32)"
  then have n: "n < 32" by simp
  show "bit (ReadUint32BigEndian (WriteUint32BigEndian v @ xs)) n = bit v n"
    unfolding ReadUint32BigEndian_def WriteUint32BigEndian_def Let_def low_byte
    using n by (cases "n < 8"; cases "n < 16"; cases "n < 24") (simp_all add: bit_simps, arith+)
qed

lemma length_WriteUint32 [simp]: "length (WriteUint32BigEndian v) = 4"
  by (simp add: WriteUint32BigEndian_def)

lemma sint_version: "0 \<le> v \<Longrightarrow> v < 2 ^ 31 \<Longrightarrow> sint (word_of_int v :: 32 word) = v"
  by transfer (simp add: signed_take_bit_int_eq_self)

lemma EncryptBlob_layout:
  assumes "EncryptBlob C iv e p = Inr blob"
  obtains i c t where "iv = Some i" "evp_encrypt C (ce_key e) i p = Inr (c, t)"
    "blob = BLOB_MAGIC @ WriteUint32BigEndian (word_of_int (ce_active_key_version e)) @ i @ c @ t"
  using assms
  by (auto simp: EncryptBlob_def EncryptWithKey_def split: option.splits sum.splits evp_fault.splits)

lemma DecryptBlob_versioned:
  assumes "length i = IV_SIZE" and "length t = TAG_SIZE" and "0 \<le> v" "v < 2 ^ 31"
  shows "DecryptBlob C e (BLOB_MAGIC @ WriteUint32BigEndian (word_of_int v) @ i @ c @ t) =
    (case map_of (ce_key_versions e) v of
       None \<Rightarrow> Inl ''Unknown key version for encrypted blob''
     | Some key \<Rightarrow> DecryptWithKey C key c i t)"
proof -
  let ?w = "WriteUint32BigEndian (word_of_int v)"
  let ?b = "BLOB_MAGIC @ ?w @ i @ c @ t"
  have len: "length BLOB_MAGIC = 4" by (simp add: BLOB_MAGIC_def)
  have split:
    "BLOB_HEADER_SIZE + IV_SIZE + TAG_SIZE \<le> length ?b" "take 4 ?b = BLOB_MAGIC"
    "drop 4 ?b = ?w @ i @ c @ t" "take IV_SIZE (drop BLOB_HEADER_SIZE ?b) = i"
    "drop (length ?b - TAG_SIZE) ?b = t"
    "drop (BLOB_HEADER_SIZE + IV_SIZE) (take (length ?b - TAG_SIZE) ?b) = c"
    using assms(1,2) len by (simp_all add: BLOB_HEADER_SIZE_def)
  show ?thesis
    unfolding DecryptBlob_def split Let_def
    using split(1) by (simp add: uint32_roundtrip sint_version [OF assms(3,4)])
qed

lemma DecryptBlob_legacy:
  assumes "length i = IV_SIZE" and "length t = TAG_SIZE"
    and "take 4 (i @ c @ t) \<noteq> BLOB_MAGIC"
  shows "DecryptBlob C e (i @ c @ t) = DecryptWithKey C (ce_key e) c i t"
  using assms by (simp add: DecryptBlob_def Let_def)

lemma DecryptBlob_short:
  "length blob < IV_SIZE + TAG_SIZE \<Longrightarrow> DecryptBlob C e blob = Inl ''Invalid ciphertext blob length''"
  by (simp add: DecryptBlob_def)

section \<open>The contract of a key ring\<close>

locale key_ring =
  fixes ok :: "'s \<Rightarrow> bool"
    and rotate :: "'r \<Rightarrow> 's \<Rightarrow> 's"
    and key_of :: "'s \<Rightarrow> int \<Rightarrow> 'k option"
  assumes ok_rotate: "ok s \<Longrightarrow> ok (rotate r s)"
    and keeps_key: "ok s \<Longrightarrow> key_of s v = Some k \<Longrightarrow> key_of (rotate r s) v = Some k"
begin

lemma rotations_ok: "ok s \<Longrightarrow> ok (fold rotate rs s)"
  by (induction rs arbitrary: s) (auto intro: ok_rotate)

lemma rotations_keep: "ok s \<Longrightarrow> key_of s v = Some k \<Longrightarrow> key_of (fold rotate rs s) v = Some k"
  by (induction rs arbitrary: s) (auto intro: ok_rotate keeps_key)

end

definition engine_ok :: "crypto_engine \<Rightarrow> bool" where
  "engine_ok e \<longleftrightarrow> map_of (ce_key_versions e) (ce_active_key_version e) = Some (ce_key e) \<and>
     1 \<le> ce_active_key_version e \<and>
     (\<forall>v k. map_of (ce_key_versions e) v = Some k \<longrightarrow> v \<le> ce_active_key_version e)"

definition rotate :: "byte list option \<Rightarrow> crypto_engine \<times> key_files \<Rightarrow> crypto_engine \<times> key_files" where
  "rotate rand s = snd (RotateMasterKey rand (fst s) (snd s))"

lemma rotate_cases:
  "fst (rotate None s) = fst s" "snd (rotate None s) = snd s"
  "fst (rotate (Some k) s) = (fst s)\<lparr>
     ce_key_versions := AList.update (ce_active_key_version (fst s) + 1) k (ce_key_versions (fst s)),
     ce_active_key_version := ce_active_key_version (fst s) + 1, ce_key := k\<rparr>"
  by (simp_all add: rotate_def RotateMasterKey_def Let_def)

lemma engine_ok_rotate: "engine_ok (fst s) \<Longrightarrow> engine_ok (fst (rotate r s))"
  by (cases r) (auto simp: rotate_cases engine_ok_def AList.update_conv' split: if_splits)

interpretation engine: key_ring "\<lambda>s. engine_ok (fst s)" rotate "\<lambda>s. map_of (ce_key_versions (fst s))"
proof
  fix s :: "crypto_engine \<times> key_files" and r v k
  assume ok: "engine_ok (fst s)"
  then show "engine_ok (fst (rotate r s))" by (rule engine_ok_rotate)
  assume "map_of (ce_key_versions (fst s)) v = Some k"
  moreover from this ok have "v \<le> ce_active_key_version (fst s)" by (auto simp: engine_ok_def)
  ultimately show "map_of (ce_key_versions (fst (rotate r s))) v = Some k"
    by (cases r) (auto simp: rotate_cases AList.update_conv')
qed

text \<open>A blob decrypts after any rotations of the engine that encrypted it.\<close>

lemma DecryptBlob_rotated:
  assumes "aead_correct C" and "engine_ok e" and "ce_active_key_version e < 2 ^ 31" and "length iv = IV_SIZE"
    and "EncryptBlob C (Some iv) e plaintext = Inr blob"
  shows "DecryptBlob C (fst (fold rotate rs (e, fs))) blob = Inr plaintext"
proof -
  obtain c t where enc: "evp_encrypt C (ce_key e) iv plaintext = Inr (c, t)"
    and blob: "blob = BLOB_MAGIC @ WriteUint32BigEndian (word_of_int (ce_active_key_version e)) @ iv @ c @ t"
    by (rule EncryptBlob_layout [OF assms(5)]) simp
  have aead: "length t = TAG_SIZE" "evp_decrypt C (ce_key e) iv t c = Inr plaintext"
    using assms(1) enc by (auto simp: aead_correct_def)
  have pos: "0 \<le> ce_active_key_version e" and key: "map_of (ce_key_versions e) (ce_active_key_version e) = Some (ce_key e)"
    using assms(2) by (simp_all add: engine_ok_def del: map_of_eq_Some_iff)
  have "map_of (ce_key_versions (fst (fold rotate rs (e, fs)))) (ce_active_key_version e) = Some (ce_key e)"
    by (rule engine.rotations_keep) (use assms(2) key in simp_all)
  then show ?thesis
    unfolding blob DecryptBlob_versioned [OF assms(4) aead(1) pos assms(3)]
    by (simp add: DecryptWithKey_def aead(2) del: map_of_eq_Some_iff)
qed

section \<open>The key files reproduce the engine\<close>

lemma filename_no_slash: "CHR ''/'' \<notin> set (path_filename p)"
  by (auto simp: path_filename_def dest: set_takeWhileD)

lemma VersionedKeyPath_relative:
  "take 1 (path_stem kp @ ''.v'' @ to_string v @ path_extension kp) \<noteq> ''/''"
proof
  assume a: "take 1 (path_stem kp @ ''.v'' @ to_string v @ path_extension kp) = ''/''"
  have "CHR ''/'' \<notin> set (path_stem kp)"
    using filename_no_slash [of kp] by (auto simp: path_stem_def Let_def dest: in_set_takeD)
  with a show False by (cases "path_stem kp") auto
qed

lemma VersionedKeyPath_inj [simp]: "VersionedKeyPath kp v = VersionedKeyPath kp w \<longleftrightarrow> v = w"
  unfolding VersionedKeyPath_def path_join_inj [OF VersionedKeyPath_relative VersionedKeyPath_relative] by simp

lemma VersionedKeyPath_not_Nil [simp]: "VersionedKeyPath kp v \<noteq> ''''"
  unfolding VersionedKeyPath_def path_join_relative [OF VersionedKeyPath_relative] by simp

definition listed_keys :: "crypto_engine \<Rightarrow> (int \<times> string) list" where
  "listed_keys e = map (\<lambda>(v, _). (v, VersionedKeyPath (ce_key_path e) v)) (ce_key_versions e)"

definition disk_ok :: "crypto_engine \<Rightarrow> key_files \<Rightarrow> bool" where
  "disk_ok e fs \<longleftrightarrow>
     kf_registry fs = Some (KeyRegistry (ce_active_key_version e) (listed_keys e)) \<and>
     distinct (map fst (ce_key_versions e)) \<and>
     (\<forall>(v, k)\<in>set (ce_key_versions e). 0 < v \<and> length k = KEY_SIZE \<and>
        kf_files fs (VersionedKeyPath (ce_key_path e) v) = Some k) \<and>
     kf_files fs (ce_payload_key_path e) = Some (ce_payload_secret e) \<and>
     length (ce_payload_secret e) = KEY_SIZE \<and> ce_payload_key_path e \<noteq> '''' \<and>
     (\<forall>v. VersionedKeyPath (ce_key_path e) v \<noteq> ce_payload_key_path e)"

lemma load_keys_listed:
  assumes "distinct (map fst vs)"
    and "\<forall>(v, k)\<in>set vs. 0 < v \<and> length k = KEY_SIZE \<and> kf_files fs (VersionedKeyPath kp v) = Some k"
  shows "\<exists>keys'. load_keys fs (map (\<lambda>(v, _). (v, VersionedKeyPath kp v)) vs) keys = Inr keys' \<and>
    map_of keys' = map_of keys ++ map_of vs"
  using assms
proof (induction vs arbitrary: keys)
  case (Cons p vs)
  obtain v k where p: "p = (v, k)" by fastforce
  from Cons.prems p have v: "0 < v" "length k = KEY_SIZE" "kf_files fs (VersionedKeyPath kp v) = Some k"
    and rest: "distinct (map fst vs)"
      "\<forall>(v, k)\<in>set vs. 0 < v \<and> length k = KEY_SIZE \<and> kf_files fs (VersionedKeyPath kp v) = Some k"
    and new: "map_of vs v = None"
    by (auto simp: map_of_eq_None_iff)
  obtain keys' where keys': "load_keys fs (map (\<lambda>(v, _). (v, VersionedKeyPath kp v)) vs) (AList.update v k keys) = Inr keys'"
    "map_of keys' = map_of (AList.update v k keys) ++ map_of vs"
    using Cons.IH [OF rest] by blast
  have "load_key_bytes fs (VersionedKeyPath kp v) = Inr k"
    using v by (simp add: load_key_bytes_def)
  with v(1) keys' new show ?case
    by (auto simp: p AList.update_conv' map_add_def fun_eq_iff split: option.split)
qed simp

lemma reload:
  assumes ok: "engine_ok e" and disk: "disk_ok e fs"
    and same: "ce_key_path e0 = ce_key_path e" "ce_payload_key_path e0 = ce_payload_key_path e"
  shows "\<exists>e'. LoadOrGenerateKey r pr e0 fs = (Inr e', fs) \<and> ce_key e' = ce_key e \<and>
    ce_active_key_version e' = ce_active_key_version e \<and>
    map_of (ce_key_versions e') = map_of (ce_key_versions e) \<and> ce_payload_secret e' = ce_payload_secret e"
proof -
  have d: "distinct (map fst (ce_key_versions e))"
    "\<forall>(v, k)\<in>set (ce_key_versions e). 0 < v \<and> length k = KEY_SIZE \<and>
        kf_files fs (VersionedKeyPath (ce_key_path e) v) = Some k"
    using disk by (simp_all add: disk_ok_def)
  obtain keys where keys: "load_keys fs (listed_keys e) [] = Inr keys" "map_of keys = map_of (ce_key_versions e)"
    using load_keys_listed [OF d, of "[]"] by (auto simp: listed_keys_def)
  have secret: "LoadSecretFile fs (ce_payload_key_path e) = Inr (ce_payload_secret e)" "ce_payload_secret e \<noteq> []"
    using disk by (auto simp: disk_ok_def LoadSecretFile_def KEY_SIZE_def)
  show ?thesis
    using disk keys secret ok same
    by (simp add: LoadOrGenerateKey_def disk_ok_def finish_load_def engine_ok_def LoadOrGeneratePayloadSecret_def
        del: map_of_eq_Some_iff Some_eq_map_of_iff)
qed

lemma alist_update_new: "k \<notin> fst ` set al \<Longrightarrow> AList.update k v al = al @ [(k, v)]"
  by (induction al) auto

lemma disk_ok_rotate:
  assumes ok: "engine_ok (fst s)" and disk: "disk_ok (fst s) (snd s)" and len: "length k = KEY_SIZE"
  shows "disk_ok (fst (rotate (Some k) s)) (snd (rotate (Some k) s))"
proof -
  let ?v = "ce_active_key_version (fst s) + 1"
  have new: "?v \<notin> fst ` set (ce_key_versions (fst s))"
  proof
    assume "?v \<in> fst ` set (ce_key_versions (fst s))"
    then obtain k' where "map_of (ce_key_versions (fst s)) ?v = Some k'"
      by (metis map_of_eq_None_iff not_Some_eq)
    with ok show False by (auto simp: engine_ok_def)
  qed
  have upd: "AList.update ?v k (ce_key_versions (fst s)) = ce_key_versions (fst s) @ [(?v, k)]"
    using new by (rule alist_update_new)
  have "1 \<le> ?v" using ok by (simp add: engine_ok_def)
  then have keys: "\<forall>(v, x)\<in>set (ce_key_versions (fst s) @ [(?v, k)]). 0 < v \<and> length x = KEY_SIZE \<and>
      ((kf_files (snd s))(VersionedKeyPath (ce_key_path (fst s)) ?v \<mapsto> k))
        (VersionedKeyPath (ce_key_path (fst s)) v) = Some x"
    using disk len new unfolding disk_ok_def by (auto simp: rev_image_eqI)
  have payload: "VersionedKeyPath (ce_key_path (fst s)) ?v \<noteq> ce_payload_key_path (fst s)"
    using disk by (simp add: disk_ok_def)
  have dist: "distinct (map fst (ce_key_versions (fst s) @ [(?v, k)]))"
    using disk new by (simp add: disk_ok_def)
  show ?thesis
    using disk keys payload [symmetric] dist
    by (simp add: rotate_def RotateMasterKey_def Let_def upd disk_ok_def SaveKeyRegistry_def listed_keys_def
        del: distinct_append)
qed

section \<open>Session contexts\<close>

definition context_part :: "string \<Rightarrow> string" where
  "context_part p = ''|'' @ dec (length p) @ '':'' @ p"

lemma session_context_concat: "session_context ps = ''pqfl-session-v3'' @ concat (map context_part ps)"
proof -
  have "foldl (\<lambda>s p. s @ ''|'' @ dec (length p) @ '':'' @ p) a ps = a @ concat (map context_part ps)" for a
    by (induction ps arbitrary: a) (simp_all add: context_part_def)
  then show ?thesis by (simp add: session_context_def)
qed

lemma colon_not_in_dec: "CHR '':'' \<notin> set (dec n)"
  using dec_digits [of "CHR '':''" n] by (auto simp: is_digit_def)

lemma context_part_inj:
  assumes "context_part p @ xs = context_part q @ ys"
  shows "p = q \<and> xs = ys"
proof -
  have "dec (length p) @ CHR '':'' # (p @ xs) = dec (length q) @ CHR '':'' # (q @ ys)"
    using assms by (simp add: context_part_def)
  from append_sep_inj [OF this colon_not_in_dec colon_not_in_dec]
  have "length p = length q" "p @ xs = q @ ys" by simp_all
  then show ?thesis by (simp add: append_eq_append_conv)
qed

lemma contexts_inj: "concat (map context_part ps) = concat (map context_part qs) \<Longrightarrow> ps = qs"
proof (induction ps arbitrary: qs)
  case Nil
  then show ?case by (cases qs) (auto simp: context_part_def)
next
  case (Cons p ps)
  show ?case
  proof (cases qs)
    case Nil
    with Cons.prems show ?thesis by (simp add: context_part_def)
  next
    case (Cons q qs')
    with Cons.prems context_part_inj [of p "concat (map context_part ps)" q "concat (map context_part qs')"]
      Cons.IH [of qs'] show ?thesis by simp
  qed
qed

end
