(* ===== verification/Federated_Properties.thy ===== *)
theory Federated_Properties
  imports Federated_Service Buffer_Properties Crypto_Properties Store_Properties
begin

text \<open>
  Supporting lemmas on the handlers of the federated service: when a submission is accepted, what
  it leaves in the store, what a registration changes, and what is restored at start-up.
\<close>

section \<open>Submissions\<close>

lemma refuse_not_accepted [simp]: "\<not> ar_accepted (refuse sv m)" "\<not> ar_accepted (refuse_at sv v m)"
  by (simp_all add: refuse_def refuse_at_def)

text \<open>The server after the lease was validated: only its store may differ.\<close>

definition validated ::
  "(nat \<Rightarrow> clock) \<Rightarrow> WeightPayload \<Rightarrow> 'f server \<Rightarrow> (string + unit) \<times> 'f server" where
  "validated clks q sv =
     (case GetActiveTrainingJob (wp_tenant_id q) (wp_model_id q) (sv_store sv) of
        None \<Rightarrow> (Inr (), sv)
      | Some _ \<Rightarrow>
          let (check, s) = ValidateTrainingAssignmentSubmission (clks 0) (wp_tenant_id q) (wp_model_id q)
                (wp_client_id q) (wp_job_id q) (wp_assignment_id q) (wp_round_index q)
                (wp_base_model_version q) (sv_store sv)
          in (check, sv\<lparr>sv_store := s\<rparr>))"

lemma GetActiveTrainingJob_normalize [simp]:
  "GetActiveTrainingJob (NormalizeTenant t) (NormalizeModel m) s = GetActiveTrainingJob t m s"
  by (simp add: GetActiveTrainingJob_def)

lemma Validate_normalize [simp]:
  "ValidateTrainingAssignmentSubmission clk (NormalizeTenant t) (NormalizeModel m) c ji ai rd b s =
   ValidateTrainingAssignmentSubmission clk t m c ji ai rd b s"
  by (simp add: ValidateTrainingAssignmentSubmission_def Let_def)

lemma Accept_normalize [simp]:
  "AcceptTrainingAssignmentSubmission clk (NormalizeTenant t) (NormalizeModel m) c ji ai rd b s =
   AcceptTrainingAssignmentSubmission clk t m c ji ai rd b s"
  by (simp add: AcceptTrainingAssignmentSubmission_def Let_def)

lemma Advance_normalize [simp]:
  "AdvanceTrainingJobRound clk (NormalizeTenant t) (NormalizeModel m) rd v s = AdvanceTrainingJobRound clk t m rd v s"
  by (simp add: AdvanceTrainingJobRound_def Let_def)

lemma validated_frame [simp]:
  "sv_registry (snd (validated clks q sv)) = sv_registry sv"
  "sv_buffer (snd (validated clks q sv)) = sv_buffer sv"
  "sv_crypto (snd (validated clks q sv)) = sv_crypto sv"
  "training_jobs (sv_store (snd (validated clks q sv))) = training_jobs (sv_store sv)"
proof -
  have "training_jobs (snd (ValidateTrainingAssignmentSubmission clk t m c ji ai rd b s)) = training_jobs s"
    for clk t m c ji ai rd b s by (simp add: frame_simps)
  then show
    "sv_registry (snd (validated clks q sv)) = sv_registry sv"
    "sv_buffer (snd (validated clks q sv)) = sv_buffer sv"
    "sv_crypto (snd (validated clks q sv)) = sv_crypto sv"
    "training_jobs (sv_store (snd (validated clks q sv))) = training_jobs (sv_store sv)"
    by (simp_all add: validated_def Let_def case_prod_unfold split: option.split)
qed

text \<open>The handler as one expression: the guards in order, then the commit.\<close>

lemma SubmitWeights_unfold:
  "SubmitWeights A C N cfg clks ctx q sv =
     (case CheckSubmitRequest q of
        Some message \<Rightarrow> (Inr (refuse sv message), sv)
      | None \<Rightarrow>
        let v = GetActiveModelVersion (wp_tenant_id q) (wp_model_id q) (sv_store sv) in
        if \<not> IsPeerAuthenticated ctx then
          (Inr (refuse sv ''Authenticated client certificate required''), sv)
        else if \<not> IsRegisteredForPeer (wp_tenant_id q) (wp_model_id q) (wp_client_id q)
                    (NormalizePeerIdentity (GetPeerIdentity ctx)) (sv_registry sv) then
          (Inr (refuse sv ''Client must register with the same certificate identity before submitting weights''), sv)
        else if wp_base_model_version q > 0 \<and> v > 0 \<and> wp_base_model_version q \<noteq> v then
          (Inr (refuse_at sv v ''Submission is based on a stale global model version''), sv)
        else case validated clks q sv of
            (Inl e, sv1) \<Rightarrow> (Inr (refuse_at sv1 v e), sv1)
          | (Inr _, sv1) \<Rightarrow>
              if IsRoundCompleted (wp_tenant_id q) (wp_model_id q) (wp_round_index q) (sv_buffer sv) then
                (Inr (refuse_at sv1 v ''Round already aggregated''), sv1)
              else if HasClientSubmission (wp_tenant_id q) (wp_model_id q) (wp_round_index q) (wp_client_id q) (sv_buffer sv) then
                (Inr (refuse_at sv1 v ''Client already submitted weights for this round''), sv1)
              else
                (case DecryptSubmission C ctx q (sv_crypto sv) of
                   Inl err \<Rightarrow> (Inr (refuse sv1 (''Decryption failed: '' @ err)), sv1)
                 | Inr plaintext \<Rightarrow>
                     if length plaintext mod 4 \<noteq> 0 then (Inr (refuse sv1 ''Invalid weight dimensions''), sv1)
                     else CommitSubmission A C N cfg clks q
                            (GetActiveTrainingJob (wp_tenant_id q) (wp_model_id q) (sv_store sv))
                            (floats_of (se_of_bytes N) plaintext) sv1))"
proof -
  have reg: "IsRegisteredForPeer (NormalizeTenant t) (NormalizeModel m) c p r = IsRegisteredForPeer t m c p r"
    for t m c p r by (simp add: IsRegisteredForPeer_def)
  have ver: "GetActiveModelVersion (NormalizeTenant t) (NormalizeModel m) s = GetActiveModelVersion t m s"
    for t m s by (simp add: GetActiveModelVersion_def)
  have buf: "IsRoundCompleted (NormalizeTenant t) (NormalizeModel m) rd b = IsRoundCompleted t m rd b"
    "HasClientSubmission (NormalizeTenant t) (NormalizeModel m) rd c b = HasClientSubmission t m rd c b"
    for t m rd c and b :: "'a weight_buffer"
    by (simp_all add: IsRoundCompleted_def HasClientSubmission_def)
  obtain check sv1 where v: "validated clks q sv = (check, sv1)" by fastforce
  then have fr: "sv_buffer sv1 = sv_buffer sv" "sv_crypto sv1 = sv_crypto sv"
    using validated_frame [of clks q sv] by simp_all
  have "(case GetActiveTrainingJob (wp_tenant_id q) (wp_model_id q) (sv_store sv) of
          None \<Rightarrow> (Inr (), sv)
        | Some _ \<Rightarrow>
            let (check, s) = ValidateTrainingAssignmentSubmission (clks 0) (wp_tenant_id q) (wp_model_id q)
                  (wp_client_id q) (wp_job_id q) (wp_assignment_id q) (wp_round_index q)
                  (wp_base_model_version q) (sv_store sv)
            in (check, sv\<lparr>sv_store := s\<rparr>)) = (check, sv1)"
    using v by (simp add: validated_def)
  note E = this [unfolded Let_def]
  show ?thesis
    unfolding SubmitWeights_def Let_def reg ver buf GetActiveTrainingJob_normalize Validate_normalize
    unfolding E v prod.case fr by (cases check) simp_all
qed

lemma SubmitWeights_accepted:
  assumes "fst (SubmitWeights A C N cfg clks ctx q sv) = Inr r" and "ar_accepted r"
  obtains plaintext sv1 where "CheckSubmitRequest q = None" "IsPeerAuthenticated ctx"
    "IsRegisteredForPeer (wp_tenant_id q) (wp_model_id q) (wp_client_id q)
       (NormalizePeerIdentity (GetPeerIdentity ctx)) (sv_registry sv)"
    "\<not> IsRoundCompleted (wp_tenant_id q) (wp_model_id q) (wp_round_index q) (sv_buffer sv)"
    "\<not> HasClientSubmission (wp_tenant_id q) (wp_model_id q) (wp_round_index q) (wp_client_id q) (sv_buffer sv)"
    "DecryptSubmission C ctx q (sv_crypto sv) = Inr plaintext" "length plaintext mod 4 = 0"
    "validated clks q sv = (Inr (), sv1)"
    "SubmitWeights A C N cfg clks ctx q sv = CommitSubmission A C N cfg clks q
       (GetActiveTrainingJob (wp_tenant_id q) (wp_model_id q) (sv_store sv))
       (floats_of (se_of_bytes N) plaintext) sv1"
  using assms unfolding SubmitWeights_unfold
  by (auto simp: Let_def split: option.splits if_splits sum.splits prod.splits)

text \<open>A submission from a peer without a certificate, or with another one than the client is bound
  to, changes nothing at all.\<close>

lemma submit_unauthorised:
  assumes "\<not> IsPeerAuthenticated ctx \<or>
    \<not> IsRegisteredForPeer (wp_tenant_id q) (wp_model_id q) (wp_client_id q)
        (NormalizePeerIdentity (GetPeerIdentity ctx)) (sv_registry sv)"
  shows "snd (SubmitWeights A C N cfg clks ctx q sv) = sv \<and>
    (\<exists>r. fst (SubmitWeights A C N cfg clks ctx q sv) = Inr r \<and> \<not> ar_accepted r)"
  using assms unfolding SubmitWeights_unfold by (auto simp: Let_def split: option.split)

lemma AddWeight_store_jobs:
  "training_jobs (snd (snd (AddWeightAndCheckAggregate A E P clk q (b, s)))) = training_jobs s \<and>
   assignments (snd (snd (AddWeightAndCheckAggregate A E P clk q (b, s)))) = assignments s"
proof (cases rule: AddWeight_cases [of q b A E P clk s])
  case (aggregated v s')
  then have "s' = snd (RecordAggregatedModel clk (rq_tenant_id q) (rq_model_id q) (rq_round q)
      (checkpoint_path (ap_checkpoint_dir P) (rq_tenant_id q) (rq_model_id q) (rq_round q)) (ap_strategy P)
      (env_key_version E) (int (length (round_clients A E P q b)))
      (int (length (fst (round_result A E P q b)))) s)" by simp
  with aggregated show ?thesis by (simp add: frame_simps)
qed simp_all

text \<open>The buffer's part of a commit.\<close>

definition commit_outcome ::
  "'f arith \<Rightarrow> crypto_prims \<Rightarrow> 'f submit_env \<Rightarrow> 'f config \<Rightarrow> (nat \<Rightarrow> clock) \<Rightarrow> WeightPayload
     \<Rightarrow> PersistedTrainingJobRecord option \<Rightarrow> 'f list \<Rightarrow> 'f server
     \<Rightarrow> (string + AggregationAttemptResult \<times> 'f list option) \<times> ('f weight_buffer \<times> state_store)" where
  "commit_outcome A C N cfg clks q active_job weights sv =
     (let required_clients = (case active_job of
              Some job \<Rightarrow> if jb_min_clients_per_round job > 0 then jb_min_clients_per_round job
                          else cfg_required_clients cfg
            | None \<Rightarrow> cfg_required_clients cfg)
      in AddWeightAndCheckAggregate A (buffer_env_of C N (sv_crypto sv)) (agg_params_of cfg required_clients)
        (clks 2) \<lparr>rq_tenant_id = NormalizeTenant (wp_tenant_id q), rq_model_id = NormalizeModel (wp_model_id q),
          rq_client_id = wp_client_id q, rq_round = wp_round_index q,
          rq_dataset_size = max 1 (wp_local_dataset_size q), rq_weights = weights\<rparr>
        (sv_buffer sv, RecordWeightSubmission (clks 1) (NormalizeTenant (wp_tenant_id q))
           (NormalizeModel (wp_model_id q)) (wp_client_id q) (wp_round_index q)
           (UpdateClientLastRound (NormalizeTenant (wp_tenant_id q)) (NormalizeModel (wp_model_id q))
              (wp_client_id q) (wp_round_index q) (sv_store sv))))"

lemma commit_outcome_jobs:
  "training_jobs (snd (snd (commit_outcome A C N cfg clks q j ws sv))) = training_jobs (sv_store sv)"
  unfolding commit_outcome_def Let_def by (simp add: AddWeight_store_jobs frame_simps)

lemma CommitSubmission_job:
  assumes "commit_outcome A C N cfg clks q (Some job) ws sv = (out, (b, s3))"
  shows "\<exists>R required. CommitSubmission A C N cfg clks q (Some job) ws sv =
    (let sv1 = sv\<lparr>sv_registry := R, sv_buffer := b, sv_store := s3\<rparr> in
     case out of
       Inl err \<Rightarrow> (Inl err, sv1)
     | Inr (result, _) \<Rightarrow>
         if \<not> ag_accepted result then
           (Inr (submit_response sv1 q required result False False (ag_message result)), sv1)
         else
           (case AcceptTrainingAssignmentSubmission (clks 3) (wp_tenant_id q) (wp_model_id q) (wp_client_id q)
               (wp_job_id q) (wp_assignment_id q) (wp_round_index q) (wp_base_model_version q) s3 of
              (Inl e, s4) \<Rightarrow> (Inr (submit_response (sv1\<lparr>sv_store := s4\<rparr>) q required result False False e),
                 sv1\<lparr>sv_store := s4\<rparr>)
            | (Inr _, s4) \<Rightarrow>
                (let sv2 = sv1\<lparr>sv_store := (if ag_aggregated result
                     then AdvanceTrainingJobRound (clks 4) (wp_tenant_id q) (wp_model_id q) (wp_round_index q)
                            (ag_model_version result) s4 else s4)\<rparr>
                 in (Inr (submit_response sv2 q required result True (ag_aggregated result) (ag_message result)),
                     sv2))))"
  using assms unfolding CommitSubmission_def commit_outcome_def Let_def option.case Accept_normalize Advance_normalize
  by (intro exI) simp

lemma CommitSubmission_accepted:
  assumes commit: "CommitSubmission A C N cfg clks q (Some job) ws sv = (Inr r, sv')" and acc: "ar_accepted r"
  obtains res w b s3 s4 where "commit_outcome A C N cfg clks q (Some job) ws sv = (Inr (res, w), (b, s3))"
    "ag_accepted res" "ar_aggregation_triggered r = ag_aggregated res"
    "AcceptTrainingAssignmentSubmission (clks 3) (wp_tenant_id q) (wp_model_id q) (wp_client_id q)
       (wp_job_id q) (wp_assignment_id q) (wp_round_index q) (wp_base_model_version q) s3 = (Inr (), s4)"
    "sv_store sv' = (if ag_aggregated res then AdvanceTrainingJobRound (clks 4) (wp_tenant_id q) (wp_model_id q)
       (wp_round_index q) (ag_model_version res) s4 else s4)"
    "sv_buffer sv' = b"
proof -
  obtain out b s3 where out: "commit_outcome A C N cfg clks q (Some job) ws sv = (out, (b, s3))"
    by (metis prod.collapse)
  obtain a s4 where a: "AcceptTrainingAssignmentSubmission (clks 3) (wp_tenant_id q) (wp_model_id q)
      (wp_client_id q) (wp_job_id q) (wp_assignment_id q) (wp_round_index q) (wp_base_model_version q) s3 = (a, s4)"
    by fastforce
  obtain R required where eq: "CommitSubmission A C N cfg clks q (Some job) ws sv =
    (let sv1 = sv\<lparr>sv_registry := R, sv_buffer := b, sv_store := s3\<rparr> in
     case out of
       Inl err \<Rightarrow> (Inl err, sv1)
     | Inr (result, _) \<Rightarrow>
         if \<not> ag_accepted result then
           (Inr (submit_response sv1 q required result False False (ag_message result)), sv1)
         else
           (case (a, s4) of
              (Inl e, s4) \<Rightarrow> (Inr (submit_response (sv1\<lparr>sv_store := s4\<rparr>) q required result False False e),
                 sv1\<lparr>sv_store := s4\<rparr>)
            | (Inr _, s4) \<Rightarrow>
                (let sv2 = sv1\<lparr>sv_store := (if ag_aggregated result
                     then AdvanceTrainingJobRound (clks 4) (wp_tenant_id q) (wp_model_id q) (wp_round_index q)
                            (ag_model_version result) s4 else s4)\<rparr>
                 in (Inr (submit_response sv2 q required result True (ag_aggregated result) (ag_message result)),
                     sv2))))"
    using CommitSubmission_job [OF out] unfolding a by blast
  obtain res w where o: "out = Inr (res, w)"
    using commit by (cases out) (auto simp: eq)
  have "ag_accepted res"
    using commit acc unfolding eq o by (cases "ag_accepted res") (auto simp: submit_response_def)
  moreover from this have "a = Inr ()"
    using commit acc unfolding eq o by (cases a) (auto simp: submit_response_def)
  ultimately have "ag_accepted res \<and> a = Inr () \<and> sv_buffer sv' = b \<and>
    ar_aggregation_triggered r = ag_aggregated res \<and>
    sv_store sv' = (if ag_aggregated res then AdvanceTrainingJobRound (clks 4) (wp_tenant_id q) (wp_model_id q)
       (wp_round_index q) (ag_model_version res) s4 else s4)"
    using commit unfolding eq o by (auto simp: submit_response_def)
  with that out o a show ?thesis by simp
qed

text \<open>An accepted submission of a scheduled job has consumed its lease.\<close>

lemma submit_consumes_lease:
  assumes res: "SubmitWeights A C N cfg clks ctx q sv = (Inr r, sv')" and acc: "ar_accepted r"
    and job: "GetActiveTrainingJob (wp_tenant_id q) (wp_model_id q) (sv_store sv) = Some job"
  shows "\<exists>a. find (\<lambda>a. as_assignment_id a = wp_assignment_id q) (assignments (sv_store sv')) = Some a \<and>
    (as_status a = ''submitted'' \<or> as_status a = ''aggregated'') \<and>
    as_client_id a = wp_client_id q \<and> as_round_index a = wp_round_index q"
proof -
  obtain plaintext sv1 where val: "validated clks q sv = (Inr (), sv1)"
    and commit: "CommitSubmission A C N cfg clks q (Some job) (floats_of (se_of_bytes N) plaintext) sv1 = (Inr r, sv')"
    using SubmitWeights_accepted [of A C N cfg clks ctx q sv r] res acc job by (metis fst_conv)
  from CommitSubmission_accepted [OF commit acc] obtain rs w b s3 s4 where
    out: "commit_outcome A C N cfg clks q (Some job) (floats_of (se_of_bytes N) plaintext) sv1 = (Inr (rs, w), (b, s3))"
    and a: "AcceptTrainingAssignmentSubmission (clks 3) (wp_tenant_id q) (wp_model_id q) (wp_client_id q)
       (wp_job_id q) (wp_assignment_id q) (wp_round_index q) (wp_base_model_version q) s3 = (Inr (), s4)"
    and s': "sv_store sv' = (if ag_aggregated rs then AdvanceTrainingJobRound (clks 4) (wp_tenant_id q)
       (wp_model_id q) (wp_round_index q) (ag_model_version rs) s4 else s4)" by metis
  have "training_jobs s3 = training_jobs (sv_store sv)"
    using commit_outcome_jobs [of A C N cfg clks q "Some job" "floats_of (se_of_bytes N) plaintext" sv1]
      validated_frame(4) [of clks q sv] by (simp add: out val)
  then have act: "GetActiveTrainingJob (wp_tenant_id q) (wp_model_id q) s3 \<noteq> None"
    using job by (simp add: GetActiveTrainingJob_def)
  obtain a0 where good: "CheckAssignmentSubmission (CurrentTimestamp (clks 3 0)) (NormalizeTenant (wp_tenant_id q))
      (NormalizeModel (wp_model_id q)) (wp_client_id q) (wp_job_id q) (wp_assignment_id q) (wp_round_index q)
      (wp_base_model_version q) (ExpireAssignmentsLocked (CurrentTimestamp (clks 3 0)) s3) = LeaseGood a0"
    and f4: "find (\<lambda>a. as_assignment_id a = wp_assignment_id q) (assignments s4) = Some (a0\<lparr>as_status := ''submitted'',
       as_updated_at := CurrentTimestamp (clks 3 0), as_detail := ''Client submitted weights''\<rparr>)"
    by (rule accept_good_cases [OF a act])
  have gr: "grows lease_evolves (assignments s4) (assignments (sv_store sv'))"
    unfolding s' using leases_grow_advance by auto
  obtain a1 where "find (\<lambda>a. as_assignment_id a = wp_assignment_id q) (assignments (sv_store sv')) = Some a1"
    and ev: "lease_evolves (a0\<lparr>as_status := ''submitted'', as_updated_at := CurrentTimestamp (clks 3 0),
      as_detail := ''Client submitted weights''\<rparr>) a1"
    by (rule grows_find_id [OF gr f4])
  moreover have "as_status a1 = ''submitted'' \<or> as_status a1 = ''aggregated''"
    using ev lease_submitted_run unfolding lease_evolves_def by simp
  ultimately show ?thesis
    using check_good_status [OF good] ev by (auto simp: lease_evolves_def same_lease_def)
qed

section \<open>Registration\<close>

lemma RegisterClient_refused:
  assumes "ValidateFederatedRequestIds (rg_tenant_id q) (rg_model_id q) (rg_client_id q) \<noteq> '''' \<or>
    \<not> IsPeerAuthenticated ctx \<or> NormalizePeerIdentity (GetPeerIdentity ctx) = ''''"
  shows "snd (RegisterClient clks ctx q sv) = sv \<and> \<not> rr_accepted (snd (fst (RegisterClient clks ctx q sv)))"
  using assms by (auto simp: RegisterClient_def rejected_registration_def)

lemma RegisterClient_duplicate:
  assumes "ValidateFederatedRequestIds (rg_tenant_id q) (rg_model_id q) (rg_client_id q) = ''''"
    and "IsPeerAuthenticated ctx" and "NormalizePeerIdentity (GetPeerIdentity ctx) \<noteq> ''''"
    and known: "IsRegistered (rg_tenant_id q) (rg_model_id q) (rg_client_id q) (sv_registry sv)"
    and row: "find (client_in (NormalizeTenant (rg_tenant_id q)) (NormalizeModel (rg_model_id q)) (rg_client_id q))
      (clients (sv_store sv)) = Some c"
  shows "\<not> rr_accepted (snd (fst (RegisterClient clks ctx q sv)))"
    and "sv_registry (snd (RegisterClient clks ctx q sv)) = sv_registry sv"
    and "\<exists>c'. find (client_in (NormalizeTenant (rg_tenant_id q)) (NormalizeModel (rg_model_id q)) (rg_client_id q))
        (clients (sv_store (snd (RegisterClient clks ctx q sv)))) = Some c' \<and>
      cl_local_dataset_size c' = max 1 (rg_local_dataset_size q) \<and>
      cl_hardware_info c' = rg_hardware_info q \<and> cl_dataset_fingerprint c' = rg_dataset_fingerprint q"
proof -
  obtain info where reg: "Register info (sv_registry sv) = (False, sv_registry sv)"
    and eq: "RegisterClient clks ctx q sv =
      (let t = NormalizeTenant (rg_tenant_id q); m = NormalizeModel (rg_model_id q) in
       (((OK, ''''), \<lparr>rr_accepted = False, rr_assigned_id = rg_client_id q,
          rr_current_round = ls_round (GetLatestGlobalModel t m (sv_buffer sv)),
          rr_active_model_version = GetActiveModelVersion t m (sv_store sv)\<rparr>),
        sv\<lparr>sv_registry := sv_registry sv,
          sv_store := RecordAuditEvent (clks 3) (audit_event (CurrentTimestamp (clks 2 0))
            ''client_register_duplicate'' t m (rg_client_id q)
            (''Dataset size '' @ to_string (max 1 (rg_local_dataset_size q))))
            (RecordClientRegistration (clks 1) \<lparr>cl_tenant_id = t, cl_model_id = m,
               cl_client_id = rg_client_id q, cl_peer_identity = NormalizePeerIdentity (GetPeerIdentity ctx),
               cl_local_dataset_size = max 1 (rg_local_dataset_size q),
               cl_hardware_info = rg_hardware_info q, cl_dataset_fingerprint = rg_dataset_fingerprint q,
               cl_last_active_round = - 1, cl_registered_at = CurrentTimestamp (clks 0 0)\<rparr> (sv_store sv))\<rparr>))"
  proof -
    let ?info = "\<lparr>ci_tenant_id = NormalizeTenant (rg_tenant_id q), ci_model_id = NormalizeModel (rg_model_id q),
      ci_client_id = rg_client_id q, ci_peer_identity = NormalizePeerIdentity (GetPeerIdentity ctx),
      ci_local_dataset_size = max 1 (rg_local_dataset_size q), ci_hardware_info = rg_hardware_info q,
      ci_dataset_fingerprint = rg_dataset_fingerprint q, ci_registered_at = CurrentTimestamp (clks 0 0),
      ci_last_active_round = - 1\<rparr>"
    have r: "Register ?info (sv_registry sv) = (False, sv_registry sv)"
      using known by (auto simp: Register_def IsRegistered_def Let_def)
    show ?thesis
      by (rule that [OF r]) (use assms(1-3) r in \<open>simp add: RegisterClient_def Let_def\<close>)
  qed
  show "\<not> rr_accepted (snd (fst (RegisterClient clks ctx q sv)))"
    "sv_registry (snd (RegisterClient clks ctx q sv)) = sv_registry sv"
    by (simp_all add: eq Let_def)
  show "\<exists>c'. find (client_in (NormalizeTenant (rg_tenant_id q)) (NormalizeModel (rg_model_id q)) (rg_client_id q))
        (clients (sv_store (snd (RegisterClient clks ctx q sv)))) = Some c' \<and>
      cl_local_dataset_size c' = max 1 (rg_local_dataset_size q) \<and>
      cl_hardware_info c' = rg_hardware_info q \<and> cl_dataset_fingerprint c' = rg_dataset_fingerprint q"
    by (simp add: eq Let_def frame_simps RecordClientRegistration_def row)
      (subst find_upd_first, simp add: client_in_def, auto simp: row)
qed

section \<open>Checkpoints\<close>

text \<open>The representation of a float: four bytes that read back as the float.\<close>

definition float_bytes :: "('f \<Rightarrow> byte list) \<Rightarrow> (byte list \<Rightarrow> 'f) \<Rightarrow> bool" where
  "float_bytes to_bytes of_bytes \<longleftrightarrow> (\<forall>x. length (to_bytes x) = 4 \<and> of_bytes (to_bytes x) = x)"

lemma floats_of_bytes:
  assumes "float_bytes to_bytes of_bytes"
  shows "floats_of of_bytes (bytes_of to_bytes fs) = fs \<and> length (bytes_of to_bytes fs) mod 4 = 0"
proof (induction fs)
  case (Cons x fs)
  have "length (to_bytes x) = Suc (Suc (Suc (Suc 0)))" using assms by (simp add: float_bytes_def)
  then obtain b0 b1 b2 b3 where b: "to_bytes x = [b0, b1, b2, b3]" by (auto simp: length_Suc_conv)
  have "of_bytes [b0, b1, b2, b3] = x" using assms b by (metis float_bytes_def)
  with Cons b show ?case by (simp add: bytes_of_def)
qed (simp add: bytes_of_def)

end
