(* ===== verification/Crypto_Guarantees.thy ===== *)
theory Crypto_Guarantees
  imports Crypto_Properties
begin

text \<open>
  The guarantees of the crypto engine. The witnesses run on a cipher that does not encipher: it
  keeps the laws the engine relies on.
\<close>

definition null_prims :: crypto_prims where
  "null_prims = \<lparr>evp_encrypt = (\<lambda>k iv p. Inr (p, replicate TAG_SIZE 0)), evp_decrypt = (\<lambda>k iv t c. Inr c),
     hmac_sha256 = (\<lambda>k m. Some k), kem_encaps = (\<lambda>pk. Some ([7], pk)),
     kem_decaps = (\<lambda>sk ct. Some sk), kem_public_length = 32, kem_secret_length = 32, kem_ciphertext_length = 1\<rparr>"

lemma null_prims_correct: "aead_correct null_prims" "kem_correct null_prims k k"
  by (simp_all add: null_prims_def aead_correct_def kem_correct_def)

definition demo_engine :: crypto_engine where
  "demo_engine = \<lparr>ce_key_path = ''k.key'', ce_payload_key_path = ''payload'', ce_key = replicate 32 1,
     ce_active_key_version = 1, ce_key_versions = [(1, replicate 32 1)],
     ce_payload_secret = replicate 32 2, ce_kem_public_key = replicate 32 3, ce_kem_secret_key = replicate 32 3\<rparr>"

definition demo_files :: key_files where
  "demo_files = \<lparr>kf_registry = Some (KeyRegistry 1 [(1, VersionedKeyPath ''k.key'' 1)]),
     kf_files = [VersionedKeyPath ''k.key'' 1 \<mapsto> replicate 32 1, ''payload'' \<mapsto> replicate 32 2]\<rparr>"

lemma demo_engine_ok: "engine_ok demo_engine"
  by (simp add: engine_ok_def demo_engine_def)

section \<open>Blobs at rest\<close>

text \<open>A blob decrypts to what was encrypted, however often and with whatever outcome the master
  key was rotated in between.\<close>

theorem blob_survives_rotations:
  assumes "aead_correct C" and "engine_ok e" and "ce_active_key_version e < 2 ^ 31" and "length iv = IV_SIZE"
    and "EncryptBlob C (Some iv) e plaintext = Inr blob"
  shows "DecryptBlob C (fst (fold rotate rs (e, fs))) blob = Inr plaintext"
  by (rule DecryptBlob_rotated) (rule assms)+

theorem blob_survives_rotations_witness:
  "DecryptBlob null_prims (fst (fold rotate [Some (replicate 32 9), None, Some (replicate 32 8)] (demo_engine, demo_files)))
     (BLOB_MAGIC @ [0, 0, 0, 1] @ replicate 12 0 @ [5, 6] @ replicate 16 0) = Inr [5, 6]"
  by (rule blob_survives_rotations [OF null_prims_correct(1) demo_engine_ok, of "replicate 12 0"])
    (simp_all add: demo_engine_def IV_SIZE_def EncryptBlob_def EncryptWithKey_def null_prims_def
      TAG_SIZE_def WriteUint32BigEndian_def)

text \<open>A blob without the header is read under the active key, so after a rotation it is
  decrypted with another key than before; a versioned blob of an unknown version, and one shorter
  than an IV and a tag, is refused with its own message.\<close>

theorem blob_refusals:
  "(length blob < IV_SIZE + TAG_SIZE \<longrightarrow> DecryptBlob C e blob = Inl ''Invalid ciphertext blob length'') \<and>
   (length i = IV_SIZE \<and> length t = TAG_SIZE \<and> take 4 (i @ c @ t) \<noteq> BLOB_MAGIC \<longrightarrow>
      DecryptBlob C (fst (rotate (Some k) (e, fs))) (i @ c @ t) = DecryptWithKey C k c i t) \<and>
   (length i = IV_SIZE \<and> length t = TAG_SIZE \<and> 0 \<le> v \<and> v < 2 ^ 31 \<and> map_of (ce_key_versions e) v = None \<longrightarrow>
      DecryptBlob C e (BLOB_MAGIC @ WriteUint32BigEndian (word_of_int v) @ i @ c @ t) =
        Inl ''Unknown key version for encrypted blob'')"
  by (auto simp: DecryptBlob_short DecryptBlob_legacy DecryptBlob_versioned rotate_cases
      simp del: map_of_eq_None_iff)

theorem blob_refusals_witness:
  "DecryptBlob null_prims demo_engine [1, 2, 3] = Inl ''Invalid ciphertext blob length''"
  using blob_refusals [of "[1, 2, 3]" null_prims demo_engine "[]" "[]" "[]" "[]" demo_files 0]
  by (simp add: IV_SIZE_def TAG_SIZE_def)

section \<open>Key files\<close>

text \<open>After any number of successful rotations the key files on disk reproduce the engine: a
  restart finds the same active version, the same key for every version and the same payload
  secret, and writes nothing.\<close>

theorem restart_reloads_rotated_keys:
  assumes "engine_ok e" and "disk_ok e fs" and "\<forall>k\<in>set keys. length k = KEY_SIZE"
    and "ce_key_path e0 = ce_key_path e" and "ce_payload_key_path e0 = ce_payload_key_path e"
    and "fold rotate (map Some keys) (e, fs) = (e', fs')"
  shows "\<exists>e''. LoadOrGenerateKey r pr e0 fs' = (Inr e'', fs') \<and> ce_key e'' = ce_key e' \<and>
    ce_active_key_version e'' = ce_active_key_version e + int (length keys) \<and>
    map_of (ce_key_versions e'') = map_of (ce_key_versions e') \<and> ce_payload_secret e'' = ce_payload_secret e"
proof -
  have run: "engine_ok (fst s') \<and> disk_ok (fst s') (snd s') \<and> ce_key_path (fst s') = ce_key_path (fst s) \<and>
      ce_payload_key_path (fst s') = ce_payload_key_path (fst s) \<and>
      ce_payload_secret (fst s') = ce_payload_secret (fst s) \<and>
      ce_active_key_version (fst s') = ce_active_key_version (fst s) + int (length ks)"
    if "engine_ok (fst s)" "disk_ok (fst s) (snd s)" "\<forall>k\<in>set ks. length k = KEY_SIZE"
      "s' = fold rotate (map Some ks) s" for s s' ks
    using that
  proof (induction ks arbitrary: s)
    case (Cons k ks)
    have "engine_ok (fst (rotate (Some k) s))" "disk_ok (fst (rotate (Some k) s)) (snd (rotate (Some k) s))"
      using Cons.prems engine_ok_rotate disk_ok_rotate by auto
    with Cons show ?case by (simp add: rotate_cases)
  qed simp
  from run [of "(e, fs)" keys "(e', fs')"] assms
  have ok: "engine_ok e'" "disk_ok e' fs'" "ce_key_path e' = ce_key_path e"
    "ce_payload_key_path e' = ce_payload_key_path e" "ce_payload_secret e' = ce_payload_secret e"
    "ce_active_key_version e' = ce_active_key_version e + int (length keys)" by simp_all
  with reload [OF ok(1,2), of e0 r pr] assms(4,5) show ?thesis by simp
qed

lemma demo_disk_ok: "disk_ok demo_engine demo_files"
proof -
  have "VersionedKeyPath ''k.key'' v \<noteq> ''payload''" for v
  proof
    assume "VersionedKeyPath ''k.key'' v = ''payload''"
    moreover have "parent_path ''k.key'' = ''''" "path_stem ''k.key'' = ''k''" "path_extension ''k.key'' = ''.key''"
      by code_simp+
    ultimately show False by (simp add: VersionedKeyPath_def path_join_def)
  qed
  then show ?thesis
    by (simp add: disk_ok_def demo_engine_def demo_files_def listed_keys_def KEY_SIZE_def)
qed

theorem restart_reloads_rotated_keys_witness:
  "\<exists>e''. LoadOrGenerateKey None None demo_engine (snd (fold rotate (map Some [replicate 32 9]) (demo_engine, demo_files)))
      = (Inr e'', snd (fold rotate (map Some [replicate 32 9]) (demo_engine, demo_files))) \<and>
    ce_active_key_version e'' = 2"
  using restart_reloads_rotated_keys [OF demo_engine_ok demo_disk_ok, of "[replicate 32 9]" demo_engine
      "fst (fold rotate (map Some [replicate 32 9]) (demo_engine, demo_files))"
      "snd (fold rotate (map Some [replicate 32 9]) (demo_engine, demo_files))" None None]
  by (auto simp: KEY_SIZE_def demo_engine_def)

section \<open>Session keys\<close>

text \<open>Two lists of context parts are authenticated as the same text only if they are the same
  list, whatever characters the parts contain: identities, scopes, rounds and nonces cannot be
  confused with one another.\<close>

theorem session_contexts_distinct: "session_context ps = session_context qs \<longleftrightarrow> ps = qs"
  using contexts_inj by (auto simp: session_context_concat)

text \<open>A client that encapsulates against the server's public key and derives its session key
  from the shared secret obtains the key, or the error, the server derives from the ciphertext.\<close>

theorem kem_sides_agree:
  assumes "kem_correct C (ce_kem_public_key e) (ce_kem_secret_key e)"
    and "EncapsulateKem C (ce_kem_public_key e) = Some (ciphertext, secret)"
  shows "DeriveKemSessionKey C e parts ciphertext = DeriveSessionKeyFromKemSecret C secret parts"
proof -
  have "kem_encaps C (ce_kem_public_key e) = Some (ciphertext, secret)"
    using assms(2) by (simp add: EncapsulateKem_def split: if_splits)
  with assms(1) show ?thesis by (simp add: kem_correct_def DeriveKemSessionKey_def)
qed

theorem kem_sides_agree_witness:
  "DeriveKemSessionKey null_prims demo_engine [''a''] [7] = Inr (replicate 32 3)"
  using kem_sides_agree [of null_prims demo_engine "[7]" "replicate 32 3" "[''a'']"]
  by (simp add: demo_engine_def null_prims_correct)
    (simp add: null_prims_def EncapsulateKem_def DeriveSessionKeyFromKemSecret_def DeriveSessionKeyWithSecret_def KEY_SIZE_def)

end
