(* ===== verification/Service_Scenario.thy ===== *)
theory Service_Scenario
  imports Federated_Properties Crypto_Guarantees Store_Scenario
begin

text \<open>
  A concrete server with a registered client that holds a lease, and the submission it sends. Its
  floats are 32-bit words read big-endian, its cipher is the one of \<open>Crypto_Guarantees\<close>.
\<close>

definition word_arith :: "(32 word) arith" where
  "word_arith = \<lparr>ar_add = (+), ar_sub = (-), ar_mul = (*), ar_div = (div), ar_sqrt = (\<lambda>x. x), ar_log = (\<lambda>x. x),
     ar_lt = (<), ar_le = (\<le>), ar_of_int = of_int, ar_floor = unat, ar_finite = (\<lambda>_. True), ar_max = - 1\<rparr>"

definition word_env :: "(32 word) submit_env" where
  "word_env = \<lparr>se_order = (\<lambda>es. es), se_gauss = (\<lambda>_ _. 0), se_to_bytes = WriteUint32BigEndian,
     se_of_bytes = ReadUint32BigEndian, se_iv = Some (replicate 12 0), se_mkdir = (\<lambda>_. None),
     se_write = (\<lambda>_ _. Written)\<rparr>"

definition word_config :: "(32 word) config" where
  "word_config = (default_config word_arith)\<lparr>cfg_clip_norm := 0, cfg_dp_epsilon := 0\<rparr>"

definition alice :: server_context where
  "alice = Some \<lparr>auth_authenticated = True, auth_identities = [''CN=alice'']\<rparr>"

definition alice_info :: ClientInfo where
  "alice_info = \<lparr>ci_tenant_id = ''acme'', ci_model_id = ''cnn'', ci_client_id = ''alice'', ci_peer_identity = ''alice'',
     ci_local_dataset_size = 10, ci_hardware_info = ''cpu'', ci_dataset_fingerprint = ''f'',
     ci_registered_at = ''now'', ci_last_active_round = - 1\<rparr>"

definition alice_payload :: WeightPayload where
  "alice_payload = \<lparr>wp_client_id = ''alice'', wp_round_index = 1, wp_local_dataset_size = 10,
     wp_encrypted_weights = [0, 0, 0, 1], wp_iv = replicate 12 0, wp_auth_tag = replicate 16 0,
     wp_tenant_id = ''acme'', wp_model_id = ''cnn'', wp_base_model_version = 0, wp_client_nonce = ''n'',
     wp_job_id = ''job-1'', wp_assignment_id = as_assignment_id demo_lease, wp_kem_ciphertext = [],
     wp_key_agreement = ''''\<rparr>"

definition demo_server :: "(32 word) server" where
  "demo_server = \<lparr>sv_crypto = demo_engine, sv_store = demo_leased,
     sv_registry = snd (Register alice_info Mapping.empty), sv_buffer = empty_buffer\<rparr>"

lemma alice_simps [simp]:
  "IsPeerAuthenticated alice" "NormalizePeerIdentity (GetPeerIdentity alice) = ''alice''"
  by (simp_all add: alice_def IsPeerAuthenticated_def GetPeerIdentity_def NormalizePeerIdentity_def
      NormalizeIdentity_def Trim_def isspace_def Let_def)

lemma alice_registered: "IsRegisteredForPeer ''acme'' ''cnn'' ''alice'' ''alice'' (sv_registry demo_server)"
  by (simp add: demo_server_def IsRegisteredForPeer_def Register_def alice_info_def Let_def lookup_update)

lemma alice_ids: "ValidateFederatedRequestIds ''acme'' ''cnn'' ''alice'' = ''''"
  by (simp add: ValidateFederatedRequestIds_def ValidateIdentifier_def default_max_length_def
      IsAllowedIdentifierChar_def isalnum_def Let_def)

lemma alice_request: "CheckSubmitRequest alice_payload = None"
  by (simp add: CheckSubmitRequest_def alice_payload_def alice_ids Let_def)

lemma demo_job_active:
  "GetActiveTrainingJob ''acme'' ''cnn'' demo_leased = Some (start_job (CurrentTimestamp 1000) demo_saved_job)"
  by (simp add: GetActiveTrainingJob_def demo_lease_call rfind_def)

lemma alice_validated:
  "\<exists>sv1. validated (\<lambda>_ _. 2000) alice_payload demo_server = (Inr (), sv1) \<and>
     training_jobs (sv_store sv1) = training_jobs demo_leased \<and> assignments (sv_store sv1) = assignments demo_leased \<and>
     sv_crypto sv1 = demo_engine \<and> sv_buffer sv1 = empty_buffer"
proof -
  have "fst (ValidateTrainingAssignmentSubmission (\<lambda>_. 2000) ''acme'' ''cnn'' ''alice'' ''job-1''
      (as_assignment_id demo_lease) 1 0 demo_leased) = Inr ()"
    "assignments (snd (ValidateTrainingAssignmentSubmission (\<lambda>_. 2000) ''acme'' ''cnn'' ''alice'' ''job-1''
      (as_assignment_id demo_lease) 1 0 demo_leased)) = assignments demo_leased"
    by (simp_all add: ValidateTrainingAssignmentSubmission_def CheckAssignmentSubmission_def Let_def rfind_def
        demo_lease_call upd_all_def lease_lapsed_def timestamps)
  moreover have "training_jobs (snd (ValidateTrainingAssignmentSubmission clk t m c ji ai rd b s)) = training_jobs s"
    for clk t m c ji ai rd b s by (simp add: frame_simps)
  ultimately show ?thesis
    by (cases "ValidateTrainingAssignmentSubmission (\<lambda>_. 2000) ''acme'' ''cnn'' ''alice'' ''job-1''
        (as_assignment_id demo_lease) 1 0 demo_leased")
      (simp add: validated_def demo_server_def alice_payload_def demo_job_active del: demo_lease_simps,
       metis snd_conv)
qed

lemma alice_plaintext: "DecryptSubmission null_prims alice alice_payload demo_engine = Inr [0, 0, 0, 1]"
  by (simp add: DecryptSubmission_def SubmitSessionKey_def alice_payload_def DeriveSessionKey_def
      DeriveSessionKeyWithSecret_def demo_engine_def KEY_SIZE_def null_prims_def DecryptWithKey_def)

lemma alice_accept:
  assumes "training_jobs s = training_jobs demo_leased" and "assignments s = assignments demo_leased"
  shows "fst (AcceptTrainingAssignmentSubmission (\<lambda>_. 2000) ''acme'' ''cnn'' ''alice'' ''job-1''
     (as_assignment_id demo_lease) 1 0 s) = Inr ()"
  by (simp add: AcceptTrainingAssignmentSubmission_def CheckAssignmentSubmission_def Let_def rfind_def
      assms demo_lease_call upd_all_def lease_lapsed_def timestamps)

lemma alice_outcome:
  assumes "sv_crypto sv = demo_engine" and "sv_buffer sv = empty_buffer"
  shows "\<exists>r w b s3. commit_outcome word_arith null_prims word_env word_config (\<lambda>_ _. 2000) alice_payload
      (Some (start_job (CurrentTimestamp 1000) demo_saved_job)) [1] sv = (Inr (r, w), (b, s3)) \<and> ag_accepted r \<and> ag_aggregated r \<and>
    training_jobs s3 = training_jobs (sv_store sv) \<and> assignments s3 = assignments (sv_store sv)"
proof -
  let ?out = "commit_outcome word_arith null_prims word_env word_config (\<lambda>_ _. 2000) alice_payload
      (Some (start_job (CurrentTimestamp 1000) demo_saved_job)) [1] sv"
  have jobs: "training_jobs (snd (snd ?out)) = training_jobs (sv_store sv)"
    by (rule commit_outcome_jobs)
  have leases: "assignments (snd (snd ?out)) = assignments (sv_store sv)"
    unfolding commit_outcome_def Let_def by (simp add: AddWeight_store_jobs frame_simps)
  let ?E = "buffer_env_of null_prims word_env demo_engine" and ?P = "agg_params_of word_config 1"
  let ?q = "\<lparr>rq_tenant_id = ''acme'', rq_model_id = ''cnn'', rq_client_id = ''alice'', rq_round = 1,
    rq_dataset_size = 10, rq_weights = [1]\<rparr> :: (32 word) add_request"
  let ?s = "RecordWeightSubmission (\<lambda>_. 2000) ''acme'' ''cnn'' ''alice'' 1
    (UpdateClientLastRound ''acme'' ''cnn'' ''alice'' 1 (sv_store sv))"
  have eq: "?out = AddWeightAndCheckAggregate word_arith ?E ?P (\<lambda>_. 2000) ?q (empty_buffer, ?s)"
    by (simp add: commit_outcome_def alice_payload_def assms)
  have ws: "round_clients word_arith ?E ?P ?q empty_buffer = [(''alice'', [1])]"
    by (simp add: round_clients_def StoreSubmission_def empty_buffer_def Weight_Buffer.entries_def buffer_env_of_def word_env_def
        agg_params_of_def word_config_def default_config_def ClipWeights_def word_arith_def)
  have params: "ap_required_clients ?P = 1" "env_mkdir ?E = (\<lambda>_. None)" "PersistCheckpoint ?E p r = None" for p r
    by (simp_all add: agg_params_of_def buffer_env_of_def word_env_def PersistCheckpoint_def EncryptBlob_def
        EncryptWithKey_def null_prims_def)
  have none_done: "buffer_rounds empty_buffer = {}" by (simp add: empty_buffer_def)
  have valid: "ValidateWeights word_arith [(''alice'', [1])] = None"
    by (simp add: word_arith_def ValidateWeights_def)
  have "\<exists>r w. fst ?out = Inr (r, w) \<and> ag_accepted r \<and> ag_aggregated r"
    unfolding eq
    by (cases rule: AddWeight_cases [of ?q empty_buffer word_arith ?E ?P "\<lambda>_. 2000" ?s])
      (simp_all add: ws params valid none_done)
  then obtain r w where "fst ?out = Inr (r, w)" "ag_accepted r" "ag_aggregated r" by blast
  with jobs leases show ?thesis by (cases ?out) auto
qed

lemma alice_accepted:
  "\<exists>r sv'. SubmitWeights word_arith null_prims word_env word_config (\<lambda>_ _. 2000) alice alice_payload demo_server =
     (Inr r, sv') \<and> ar_accepted r"
proof -
  obtain sv1 where v: "validated (\<lambda>_ _. 2000) alice_payload demo_server = (Inr (), sv1)"
    and jobs: "training_jobs (sv_store sv1) = training_jobs demo_leased"
      "assignments (sv_store sv1) = assignments demo_leased"
    and fr: "sv_crypto sv1 = demo_engine" "sv_buffer sv1 = empty_buffer"
    using alice_validated by blast
  obtain r w b s3 where out: "commit_outcome word_arith null_prims word_env word_config (\<lambda>_ _. 2000) alice_payload
      (Some (start_job (CurrentTimestamp 1000) demo_saved_job)) [1] sv1 = (Inr (r, w), (b, s3))"
    and acc: "ag_accepted r" and s3: "training_jobs s3 = training_jobs (sv_store sv1)"
      "assignments s3 = assignments (sv_store sv1)"
    using alice_outcome [OF fr] by blast
  have a: "fst (AcceptTrainingAssignmentSubmission (\<lambda>_. 2000) ''acme'' ''cnn'' ''alice'' ''job-1''
     (as_assignment_id demo_lease) 1 0 s3) = Inr ()"
    by (rule alice_accept) (simp_all only: s3 jobs)
  have commit: "\<exists>r sv'. CommitSubmission word_arith null_prims word_env word_config (\<lambda>_ _. 2000) alice_payload
      (Some (start_job (CurrentTimestamp 1000) demo_saved_job)) [1] sv1 = (Inr r, sv') \<and> ar_accepted r"
    using CommitSubmission_job [OF out] acc a
    by (cases "AcceptTrainingAssignmentSubmission (\<lambda>_. 2000) ''acme'' ''cnn'' ''alice'' ''job-1''
        (as_assignment_id demo_lease) 1 0 s3")
      (auto simp: alice_payload_def submit_response_def simp del: demo_lease_simps)
  have pay: "wp_tenant_id alice_payload = ''acme''" "wp_model_id alice_payload = ''cnn''"
    "wp_client_id alice_payload = ''alice''" "wp_base_model_version alice_payload = 0"
    by (simp_all add: alice_payload_def)
  have buf: "\<not> IsRoundCompleted t m rd (sv_buffer demo_server)" "\<not> HasClientSubmission t m rd c (sv_buffer demo_server)"
    for t m rd c by (simp_all add: demo_server_def empty_buffer_def IsRoundCompleted_def HasClientSubmission_def)
  have srv: "sv_store demo_server = demo_leased" "sv_crypto demo_server = demo_engine"
    by (simp_all add: demo_server_def)
  have fl: "se_of_bytes word_env [0, 0, 0, 1] = 1"
    by (simp add: word_env_def ReadUint32BigEndian_def)
  show ?thesis
    using commit
    by (simp add: SubmitWeights_unfold alice_request pay alice_registered v buf srv alice_plaintext fl demo_job_active)
qed

end
