(* ===== verification/Service_Guarantees.thy ===== *)
theory Service_Guarantees
  imports Service_Scenario
begin

text \<open>
  The guarantees of the federated service: who may submit, what an accepted submission implies,
  what a registration changes, what a restart restores, and what is signed.
\<close>

section \<open>Identities\<close>

text \<open>Whatever calls the registry receives, a client that is registered under a certificate
  identity is accepted under that identity and no other.\<close>

theorem registry_identity_permanent:
  assumes "IsRegisteredForPeer t m c p r"
  shows "IsRegisteredForPeer t m c q (fold registry_call calls r) \<longleftrightarrow> q = p"
proof -
  have "registry_peer r (ClientKey t m c) = Some p" "p \<noteq> ''''"
    using assms by (simp_all add: IsRegisteredForPeer_peer)
  then have "registry_peer (fold registry_call calls r) (ClientKey t m c) = Some p"
    by (rule registry.calls_keep_identity)
  with \<open>p \<noteq> ''''\<close> show ?thesis by (auto simp: IsRegisteredForPeer_peer)
qed

theorem registry_identity_permanent_witness:
  "\<not> IsRegisteredForPeer ''acme'' ''cnn'' ''alice'' ''mallory''
     (fold registry_call [CallRegister (alice_info\<lparr>ci_peer_identity := ''mallory''\<rparr>),
       CallBind ''acme'' ''cnn'' ''alice'' ''mallory''] (sv_registry demo_server))"
  by (subst registry_identity_permanent [OF alice_registered]) simp

text \<open>For tenants and models without a colon the keys of the registry and of the weight buffer
  are unambiguous: two clients, or two rounds, share an entry only if they agree in tenant, model
  and name, the empty tenant and model standing for the default ones.\<close>

theorem composed_keys_unambiguous:
  assumes "colon_free t" "colon_free t'" "colon_free m" "colon_free m'"
  shows "(ClientKey t m c = ClientKey t' m' c' \<longleftrightarrow>
      NormalizeTenant t = NormalizeTenant t' \<and> NormalizeModel m = NormalizeModel m' \<and> c = c') \<and>
    (RoundKey t m r = RoundKey t' m' r' \<longleftrightarrow>
      NormalizeTenant t = NormalizeTenant t' \<and> NormalizeModel m = NormalizeModel m' \<and> r = r')"
  using ClientKey_inj [OF assms] RoundKey_inj [OF assms] by simp

theorem composed_keys_unambiguous_witness:
  "ClientKey ''acme'' ''cnn'' ''alice'' \<noteq> ClientKey ''acme'' '''' ''alice''"
  using composed_keys_unambiguous [of "''acme''" "''acme''" "''cnn''" "''''" "''alice''" "''alice''" 0 0]
  by (simp add: colon_free_def NormalizeModel_def)


section \<open>Submissions\<close>

text \<open>A submission over a connection without a verified certificate, or under another
  certificate than the one the client registered with, is refused and changes nothing: no store
  record, no registry entry, no buffered weights, no counter.\<close>

theorem unauthorised_submission_inert:
  assumes "\<not> IsPeerAuthenticated ctx \<or>
    \<not> IsRegisteredForPeer (wp_tenant_id q) (wp_model_id q) (wp_client_id q)
        (NormalizePeerIdentity (GetPeerIdentity ctx)) (sv_registry sv)"
  shows "snd (SubmitWeights A C N cfg clks ctx q sv) = sv \<and>
    (\<exists>r. fst (SubmitWeights A C N cfg clks ctx q sv) = Inr r \<and> \<not> ar_accepted r)"
  by (rule submit_unauthorised) (rule assms)

theorem unauthorised_submission_inert_witness:
  "snd (SubmitWeights word_arith null_prims word_env word_config (\<lambda>_ _. 0) None alice_payload demo_server) = demo_server"
  using unauthorised_submission_inert [of None alice_payload demo_server word_arith null_prims word_env word_config]
  by (simp add: IsPeerAuthenticated_def)

text \<open>An accepted submission came from an authenticated client under its own certificate, with
  well-formed identifiers and a positive round, was the client's first for a round that was not
  yet aggregated, and carried a payload that decrypts under the session key derived for this
  client and round to whole 32-bit floats.\<close>

theorem accepted_submission_checked:
  assumes "fst (SubmitWeights A C N cfg clks ctx q sv) = Inr r" and "ar_accepted r"
  shows "IsPeerAuthenticated ctx \<and>
    IsRegisteredForPeer (wp_tenant_id q) (wp_model_id q) (wp_client_id q)
      (NormalizePeerIdentity (GetPeerIdentity ctx)) (sv_registry sv) \<and>
    ValidateFederatedRequestIds (wp_tenant_id q) (wp_model_id q) (wp_client_id q) = '''' \<and> 1 \<le> wp_round_index q \<and>
    \<not> IsRoundCompleted (wp_tenant_id q) (wp_model_id q) (wp_round_index q) (sv_buffer sv) \<and>
    \<not> HasClientSubmission (wp_tenant_id q) (wp_model_id q) (wp_round_index q) (wp_client_id q) (sv_buffer sv) \<and>
    (\<exists>plaintext. DecryptSubmission C ctx q (sv_crypto sv) = Inr plaintext \<and> length plaintext mod 4 = 0)"
proof -
  obtain plaintext sv1 where "CheckSubmitRequest q = None" "IsPeerAuthenticated ctx"
    "IsRegisteredForPeer (wp_tenant_id q) (wp_model_id q) (wp_client_id q)
       (NormalizePeerIdentity (GetPeerIdentity ctx)) (sv_registry sv)"
    "\<not> IsRoundCompleted (wp_tenant_id q) (wp_model_id q) (wp_round_index q) (sv_buffer sv)"
    "\<not> HasClientSubmission (wp_tenant_id q) (wp_model_id q) (wp_round_index q) (wp_client_id q) (sv_buffer sv)"
    "DecryptSubmission C ctx q (sv_crypto sv) = Inr plaintext" "length plaintext mod 4 = 0"
    by (rule SubmitWeights_accepted [OF assms])
  then show ?thesis by (auto simp: CheckSubmitRequest_def Let_def split: if_splits)
qed

theorem accepted_submission_checked_witness:
  "\<not> HasClientSubmission ''acme'' ''cnn'' 1 ''alice'' (sv_buffer demo_server)"
proof -
  obtain r sv' where "SubmitWeights word_arith null_prims word_env word_config (\<lambda>_ _. 2000) alice alice_payload demo_server =
      (Inr r, sv')" "ar_accepted r" using alice_accepted by blast
  then show ?thesis
    using accepted_submission_checked [of word_arith null_prims word_env word_config "\<lambda>_ _. 2000" alice alice_payload
        demo_server r] by (simp add: alice_payload_def)
qed

text \<open>C6: While a scope has an active training job, an accepted submission has consumed the lease it
  names: afterwards the lease is submitted, or aggregated when the submission completed the round,
  and it is the lease of this client for this round.\<close>

theorem accepted_submission_consumes_lease:
  assumes "SubmitWeights A C N cfg clks ctx q sv = (Inr r, sv')" and "ar_accepted r"
    and "GetActiveTrainingJob (wp_tenant_id q) (wp_model_id q) (sv_store sv) = Some job"
  shows "\<exists>a. find (\<lambda>a. as_assignment_id a = wp_assignment_id q) (assignments (sv_store sv')) = Some a \<and>
    (as_status a = ''submitted'' \<or> as_status a = ''aggregated'') \<and>
    as_client_id a = wp_client_id q \<and> as_round_index a = wp_round_index q"
  by (rule submit_consumes_lease) (rule assms)+

theorem accepted_submission_consumes_lease_witness:
  "\<exists>r sv' a. SubmitWeights word_arith null_prims word_env word_config (\<lambda>_ _. 2000) alice alice_payload demo_server =
     (Inr r, sv') \<and> a \<in> set (assignments (sv_store sv')) \<and> as_client_id a = ''alice'' \<and> as_status a \<noteq> ''leased''"
proof -
  obtain r sv' where s: "SubmitWeights word_arith null_prims word_env word_config (\<lambda>_ _. 2000) alice alice_payload
      demo_server = (Inr r, sv')" "ar_accepted r" using alice_accepted by blast
  have j: "GetActiveTrainingJob (wp_tenant_id alice_payload) (wp_model_id alice_payload) (sv_store demo_server) =
      Some (start_job (CurrentTimestamp 1000) demo_saved_job)"
    by (simp add: alice_payload_def demo_server_def demo_job_active)
  obtain a where "find (\<lambda>a. as_assignment_id a = wp_assignment_id alice_payload) (assignments (sv_store sv')) = Some a"
    "as_status a = ''submitted'' \<or> as_status a = ''aggregated''" "as_client_id a = wp_client_id alice_payload"
    using accepted_submission_consumes_lease [OF s j] by blast
  moreover from this(1) have "a \<in> set (assignments (sv_store sv'))" by (auto simp: find_Some_iff)
  ultimately have "a \<in> set (assignments (sv_store sv'))" "as_client_id a = ''alice''" "as_status a \<noteq> ''leased''"
    by (auto simp: alice_payload_def)
  with s(1) show ?thesis by blast
qed

section \<open>Registration\<close>

text \<open>A registration for a name that is already taken is refused, and yet overwrites the stored
  record: the data set size, the hardware description and the data set fingerprint of the first
  registrant become those of the refused request, whichever certificate sent it.\<close>

theorem refused_registration_overwrites:
  assumes "ValidateFederatedRequestIds (rg_tenant_id q) (rg_model_id q) (rg_client_id q) = ''''"
    and "IsPeerAuthenticated ctx" and "NormalizePeerIdentity (GetPeerIdentity ctx) \<noteq> ''''"
    and "IsRegistered (rg_tenant_id q) (rg_model_id q) (rg_client_id q) (sv_registry sv)"
    and "find (client_in (NormalizeTenant (rg_tenant_id q)) (NormalizeModel (rg_model_id q)) (rg_client_id q))
      (clients (sv_store sv)) = Some c"
  shows "\<not> rr_accepted (snd (fst (RegisterClient clks ctx q sv))) \<and>
    sv_registry (snd (RegisterClient clks ctx q sv)) = sv_registry sv \<and>
    (\<exists>c'. find (client_in (NormalizeTenant (rg_tenant_id q)) (NormalizeModel (rg_model_id q)) (rg_client_id q))
        (clients (sv_store (snd (RegisterClient clks ctx q sv)))) = Some c' \<and>
      cl_local_dataset_size c' = max 1 (rg_local_dataset_size q) \<and>
      cl_hardware_info c' = rg_hardware_info q \<and> cl_dataset_fingerprint c' = rg_dataset_fingerprint q)"
  using RegisterClient_duplicate [OF assms] by simp

definition mallory_registration :: ClientRegistration where
  "mallory_registration = \<lparr>rg_tenant_id = ''acme'', rg_model_id = ''cnn'', rg_client_id = ''alice'',
     rg_local_dataset_size = 999999, rg_hardware_info = ''x'', rg_dataset_fingerprint = ''y''\<rparr>"

theorem refused_registration_overwrites_witness:
  "\<exists>c\<in>set (clients (sv_store (snd (RegisterClient (\<lambda>_ _. 0) (Some \<lparr>auth_authenticated = True,
      auth_identities = [''CN=mallory'']\<rparr>) mallory_registration (demo_server\<lparr>sv_store := demo_registered\<rparr>))))).
     cl_local_dataset_size c = 999999"
proof -
  let ?ctx = "Some \<lparr>auth_authenticated = True, auth_identities = [''CN=mallory'']\<rparr>"
  have m: "IsPeerAuthenticated ?ctx" "NormalizePeerIdentity (GetPeerIdentity ?ctx) = ''mallory''"
    by (simp_all add: IsPeerAuthenticated_def GetPeerIdentity_def NormalizePeerIdentity_def
        NormalizeIdentity_def Trim_def isspace_def Let_def)
  have r: "IsRegistered ''acme'' ''cnn'' ''alice'' (sv_registry demo_server)"
    using alice_registered by (simp add: IsRegistered_peer IsRegisteredForPeer_peer)
  have pre: "ValidateFederatedRequestIds (rg_tenant_id mallory_registration) (rg_model_id mallory_registration)
      (rg_client_id mallory_registration) = ''''" "IsPeerAuthenticated ?ctx"
    "NormalizePeerIdentity (GetPeerIdentity ?ctx) \<noteq> ''''"
    "IsRegistered (rg_tenant_id mallory_registration) (rg_model_id mallory_registration)
      (rg_client_id mallory_registration) (sv_registry (demo_server\<lparr>sv_store := demo_registered\<rparr>))"
    "find (client_in (NormalizeTenant (rg_tenant_id mallory_registration))
      (NormalizeModel (rg_model_id mallory_registration)) (rg_client_id mallory_registration))
      (clients (sv_store (demo_server\<lparr>sv_store := demo_registered\<rparr>))) = Some (demo_client ''CN=alice'')"
    by (simp_all add: mallory_registration_def alice_ids m r client_in_def demo_client_def)
  obtain c where c: "find (client_in (NormalizeTenant (rg_tenant_id mallory_registration))
      (NormalizeModel (rg_model_id mallory_registration)) (rg_client_id mallory_registration))
      (clients (sv_store (snd (RegisterClient (\<lambda>_ _. 0) ?ctx mallory_registration
        (demo_server\<lparr>sv_store := demo_registered\<rparr>))))) = Some c"
    "cl_local_dataset_size c = max 1 (rg_local_dataset_size mallory_registration)"
    using refused_registration_overwrites [OF pre, of "\<lambda>_ _. 0"] by blast
  from c(1) have "c \<in> set (clients (sv_store (snd (RegisterClient (\<lambda>_ _. 0) ?ctx mallory_registration
        (demo_server\<lparr>sv_store := demo_registered\<rparr>)))))" by (auto simp: find_Some_iff)
  with c(2) show ?thesis by (auto simp: mallory_registration_def)
qed

section \<open>Restart\<close>

text \<open>The row a name is filed under when the registry is filled.\<close>

definition client_row_key :: "PersistedClientRecord \<Rightarrow> string" where
  "client_row_key r = ClientKey (cl_tenant_id r) (cl_model_id r) (cl_client_id r)"

lemma registry_peer_Register:
  "registry_peer (snd (Register info r)) k =
     (if k = ClientKey (ci_tenant_id info) (ci_model_id info) (ci_client_id info) \<and> registry_peer r k = None
      then Some (ci_peer_identity info) else registry_peer r k)"
  using registry_call_peer [of "CallRegister info" r k] by simp

lemma registry_of_clients_peer:
  "registry_peer (registry_of_clients cs) k =
     map_option cl_peer_identity (find (\<lambda>r. client_row_key r = k) cs)"
proof -
  let ?F = "\<lambda>r c. snd (Register
     \<lparr>ci_tenant_id = cl_tenant_id c, ci_model_id = cl_model_id c, ci_client_id = cl_client_id c,
      ci_peer_identity = cl_peer_identity c, ci_local_dataset_size = cl_local_dataset_size c,
      ci_hardware_info = cl_hardware_info c, ci_dataset_fingerprint = cl_dataset_fingerprint c,
      ci_registered_at = cl_registered_at c, ci_last_active_round = cl_last_active_round c\<rparr> r)"
  have "registry_peer (foldl ?F r cs) k = (case registry_peer r k of Some p \<Rightarrow> Some p
      | None \<Rightarrow> map_option cl_peer_identity (find (\<lambda>r. client_row_key r = k) cs))" for r
    by (induction cs arbitrary: r)
      (auto simp: registry_peer_Register client_row_key_def split: option.split)
  moreover have "registry_peer Mapping.empty k = None" by (simp add: registry_peer_def)
  ultimately show ?thesis by (simp add: registry_of_clients_def)
qed

lemma client_row_key_in:
  assumes "colon_free t" "colon_free m" "colon_free (cl_tenant_id r)" "colon_free (cl_model_id r)"
    and "cl_tenant_id r \<noteq> ''''" "cl_model_id r \<noteq> ''''"
  shows "client_row_key r = ClientKey t m c \<longleftrightarrow> client_in (NormalizeTenant t) (NormalizeModel m) c r"
  using ClientKey_inj [OF assms(3,1,4,2)] assms(5,6)
  by (auto simp: client_row_key_def client_in_def NormalizeTenant_def NormalizeModel_def)

text \<open>A restarted server accepts exactly the certificate identities that the stored records bind:
  for colon-free scopes a client is registered for a peer after the restart if and only if its row
  carries that identity.\<close>

theorem restart_keeps_registrations:
  assumes "store_wf s" and "\<forall>r\<in>set (clients s). colon_free (cl_tenant_id r) \<and> colon_free (cl_model_id r)"
    and "colon_free t" "colon_free m"
  shows "IsRegisteredForPeer t m c p (sv_registry (FederatedServiceImpl C of_bytes files e s)) \<longleftrightarrow>
    p \<noteq> '''' \<and> (\<exists>r\<in>set (clients s). client_in (NormalizeTenant t) (NormalizeModel m) c r \<and> cl_peer_identity r = p)"
proof -
  have ok: "distinct (map client_key (clients s))" "\<And>r. r \<in> set (clients s) \<Longrightarrow> cl_tenant_id r \<noteq> '''' \<and> cl_model_id r \<noteq> ''''"
    using assms(1) by (auto simp: store_wf_def clients_ok_def)
  have key: "client_row_key r = ClientKey t m c \<longleftrightarrow> client_in (NormalizeTenant t) (NormalizeModel m) c r"
    if "r \<in> set (clients s)" for r
    using client_row_key_in [OF assms(3,4)] assms(2) ok(2) that by blast
  have all: "ListClients '''' '''' s = clients s" by (simp add: ListClients_def MatchesFilter_def)
  have found: "find (\<lambda>r. client_row_key r = ClientKey t m c) (clients s) = Some r \<longleftrightarrow>
      r \<in> set (clients s) \<and> client_in (NormalizeTenant t) (NormalizeModel m) c r" for r
  proof
    assume f: "find (\<lambda>r. client_row_key r = ClientKey t m c) (clients s) = Some r"
    then have "r \<in> set (clients s)" "client_row_key r = ClientKey t m c" by (auto simp: find_Some_iff)
    then show "r \<in> set (clients s) \<and> client_in (NormalizeTenant t) (NormalizeModel m) c r" using key by blast
  next
    assume r: "r \<in> set (clients s) \<and> client_in (NormalizeTenant t) (NormalizeModel m) c r"
    then have "client_row_key r = ClientKey t m c" using key by blast
    with r have "find (\<lambda>r. client_row_key r = ClientKey t m c) (clients s) \<noteq> None"
      unfolding find_None_iff by blast
    then obtain r' where r': "find (\<lambda>r. client_row_key r = ClientKey t m c) (clients s) = Some r'" by fast
    then have "r' \<in> set (clients s)" "client_row_key r' = ClientKey t m c" by (auto simp: find_Some_iff)
    then have r'': "r' \<in> set (clients s)" "client_in (NormalizeTenant t) (NormalizeModel m) c r'"
      using key by blast+
    then have "client_key r' = client_key r" using r by (simp add: client_in_key)
    then have "r' = r" using ok(1) r r''(1) unfolding distinct_map by (metis inj_onD)
    with r' show "find (\<lambda>r. client_row_key r = ClientKey t m c) (clients s) = Some r" by simp
  qed
  show ?thesis
    by (auto simp: IsRegisteredForPeer_peer FederatedServiceImpl_def all registry_of_clients_peer found)
qed

theorem restart_keeps_registrations_witness:
  "IsRegisteredForPeer ''acme'' ''cnn'' ''alice'' ''CN=alice''
     (sv_registry (FederatedServiceImpl null_prims (\<lambda>_. 0 :: 32 word) Map.empty demo_engine demo_registered))"
proof -
  have wf: "store_wf demo_registered"
    unfolding demo_registered_def
    by (rule reachable_wf [OF reach_step [OF demo_reachable(1) step_register]])
  show ?thesis
    by (subst restart_keeps_registrations [OF wf])
      (simp_all add: demo_client_def colon_free_def client_in_def)
qed


lemma word_bytes: "float_bytes WriteUint32BigEndian ReadUint32BigEndian"
  using uint32_roundtrip [of _ "[]"] by (simp add: float_bytes_def)

definition demo_model :: PersistedModelRecord where
  "demo_model = \<lparr>md_tenant_id = ''acme'', md_model_id = ''cnn'', md_version = 4, md_latest_round = 3,
     md_checkpoint_path = ''p'', md_aggregation_strategy = ''fedavg'', md_key_version = 1, md_client_count = 1,
     md_weight_dimension = 2, md_active = True, md_created_at = ''''\<rparr>"


section \<open>Signatures\<close>

lemma no_bar:
  "ValidateIdentifier t f True n = '''' \<Longrightarrow> CHR ''|'' \<notin> set (NormalizeTenant t)"
  "ValidateIdentifier m f True n = '''' \<Longrightarrow> CHR ''|'' \<notin> set (NormalizeModel m)"
  using allowed_char_not_bar
  by (fastforce simp: ValidateIdentifier_ok_iff NormalizeTenant_def NormalizeModel_def)+

lemma no_bar_number: "CHR ''|'' \<notin> set (to_string i)"
  using dec_digits [of "CHR ''|''"] by (auto simp: to_string_def is_digit_def)

text \<open>For tenants and models that pass validation, the text the server signs determines the
  tenant, the model, the round, the version and the ciphertext: no signature can be moved to
  another scope, round or version.\<close>

theorem signed_payload_unambiguous:
  assumes "ValidateIdentifier t ''tenant_id'' True n = ''''" "ValidateIdentifier t' ''tenant_id'' True n = ''''"
    and "ValidateIdentifier m ''model_id'' True n = ''''" "ValidateIdentifier m' ''model_id'' True n = ''''"
  shows "signed_payload t m r v c = signed_payload t' m' r' v' c' \<longleftrightarrow>
    NormalizeTenant t = NormalizeTenant t' \<and> NormalizeModel m = NormalizeModel m' \<and> r = r' \<and> v = v' \<and> c = c'"
proof
  assume "signed_payload t m r v c = signed_payload t' m' r' v' c'"
  then have "NormalizeTenant t @ CHR ''|'' # (NormalizeModel m @ CHR ''|'' # (to_string r @ CHR ''|'' #
      (to_string v @ CHR ''|'' # c))) = NormalizeTenant t' @ CHR ''|'' # (NormalizeModel m' @ CHR ''|'' #
      (to_string r' @ CHR ''|'' # (to_string v' @ CHR ''|'' # c')))"
    by (simp add: signed_payload_def)
  from append_sep_inj [OF this no_bar(1) [OF assms(1)] no_bar(1) [OF assms(2)]]
  have t: "NormalizeTenant t = NormalizeTenant t'" and rest: "NormalizeModel m @ CHR ''|'' # (to_string r @ CHR ''|'' #
      (to_string v @ CHR ''|'' # c)) = NormalizeModel m' @ CHR ''|'' # (to_string r' @ CHR ''|'' #
      (to_string v' @ CHR ''|'' # c'))" by blast+
  from append_sep_inj [OF rest no_bar(2) [OF assms(3)] no_bar(2) [OF assms(4)]]
  have m: "NormalizeModel m = NormalizeModel m'" and rest: "to_string r @ CHR ''|'' # (to_string v @ CHR ''|'' # c) =
      to_string r' @ CHR ''|'' # (to_string v' @ CHR ''|'' # c')" by blast+
  from append_sep_inj [OF rest no_bar_number no_bar_number]
  have "r = r'" and rest: "to_string v @ CHR ''|'' # c = to_string v' @ CHR ''|'' # c'" by simp_all
  with append_sep_inj [OF rest no_bar_number no_bar_number] t m
  show "NormalizeTenant t = NormalizeTenant t' \<and> NormalizeModel m = NormalizeModel m' \<and> r = r' \<and> v = v' \<and> c = c'"
    by simp
qed (simp add: signed_payload_def)

theorem signed_payload_unambiguous_witness:
  "signed_payload ''acme'' ''cnn'' 1 23 ''x'' \<noteq> signed_payload ''acme'' ''cnn'' 12 3 ''x''"
  using signed_payload_unambiguous [of "''acme''" 128 "''acme''" "''cnn''" "''cnn''" 1 23 "''x''" 12 3 "''x''"]
  by (simp add: ValidateIdentifier_def IsAllowedIdentifierChar_def isalnum_def Let_def)

end
