(* ===== verification/Config_Load.thy ===== *)
theory Config_Load
  imports Config_Model
begin

text \<open>
  \<open>server/config.cpp\<close>, \<open>Config::Load\<close>: every setting that the document has overrides the current
  value, in the order of the code; then the result is validated. The JSON library is the parameter
  \<open>config_json\<close>: parsing, membership, and the conversions, which throw (\<open>Inl\<close>, with what the
  exception says) when the value has another type.
\<close>

record ('j, 'x, 'f) config_json =
  jo_parse :: "'x \<Rightarrow> string + 'j"
  jo_contains :: "'j \<Rightarrow> string \<Rightarrow> bool"
  jo_member :: "'j \<Rightarrow> string \<Rightarrow> 'j"
  jo_string :: "'j \<Rightarrow> string + string"
  jo_int :: "'j \<Rightarrow> string + int"
  jo_float :: "'j \<Rightarrow> string + 'f"
  jo_strings :: "'j \<Rightarrow> string + string list"

type_synonym 'f setting = "'f config \<Rightarrow> string + 'f config"

definition read_setting ::
  "('j, 'x, 'f) config_json \<Rightarrow> 'j \<Rightarrow> string \<Rightarrow> ('j \<Rightarrow> string + 'v) \<Rightarrow> ('v \<Rightarrow> 'f config \<Rightarrow> 'f config) \<Rightarrow> 'f setting" where
  "read_setting J j key get put = (\<lambda>c.
     if jo_contains J j key then (case get (jo_member J j key) of Inl e \<Rightarrow> Inl e | Inr v \<Rightarrow> Inr (put v c))
     else Inr c)"

fun read_settings :: "'f setting list \<Rightarrow> 'f setting" where
  "read_settings [] c = Inr c"
| "read_settings (f # fs) c = (case f c of Inl e \<Rightarrow> Inl e | Inr c' \<Rightarrow> read_settings fs c')"

definition read_section ::
  "('j, 'x, 'f) config_json \<Rightarrow> 'j \<Rightarrow> string \<Rightarrow> ('j \<Rightarrow> 'f setting list) \<Rightarrow> 'f setting" where
  "read_section J j key fs = (if jo_contains J j key then read_settings (fs (jo_member J j key)) else Inr)"

definition network_settings :: "('j, 'x, 'f) config_json \<Rightarrow> 'j \<Rightarrow> 'f setting list" where
  "network_settings J j =
     [read_setting J j ''address'' (jo_string J) (\<lambda>v c. c\<lparr>cfg_address := v\<rparr>),
      read_setting J j ''key_path'' (jo_string J) (\<lambda>v c. c\<lparr>cfg_key_path := v\<rparr>),
      read_setting J j ''payload_key_path'' (jo_string J) (\<lambda>v c. c\<lparr>cfg_payload_key_path := v\<rparr>),
      read_setting J j ''log_level'' (jo_string J) (\<lambda>v c. c\<lparr>cfg_log_level := v\<rparr>)]"

definition fl_settings :: "('j, 'x, 'f) config_json \<Rightarrow> 'j \<Rightarrow> 'f setting list" where
  "fl_settings J fl =
     [read_setting J fl ''required_clients'' (jo_int J) (\<lambda>v c. c\<lparr>cfg_required_clients := v\<rparr>),
      read_setting J fl ''target_rounds'' (jo_int J) (\<lambda>v c. c\<lparr>cfg_target_rounds := v\<rparr>),
      read_setting J fl ''learning_rate'' (jo_float J) (\<lambda>v c. c\<lparr>cfg_learning_rate := v\<rparr>),
      read_setting J fl ''batch_size'' (jo_int J) (\<lambda>v c. c\<lparr>cfg_batch_size := v\<rparr>),
      read_setting J fl ''aggregation_strategy'' (jo_string J) (\<lambda>v c. c\<lparr>cfg_aggregation_strategy := v\<rparr>),
      read_setting J fl ''server_momentum'' (jo_float J) (\<lambda>v c. c\<lparr>cfg_server_momentum := v\<rparr>),
      read_setting J fl ''default_assignment_ttl_seconds'' (jo_int J)
        (\<lambda>v c. c\<lparr>cfg_default_assignment_ttl_seconds := v\<rparr>)]"

definition privacy_settings :: "('j, 'x, 'f) config_json \<Rightarrow> 'j \<Rightarrow> 'f setting list" where
  "privacy_settings J priv =
     [read_setting J priv ''dp_epsilon'' (jo_float J) (\<lambda>v c. c\<lparr>cfg_dp_epsilon := v\<rparr>),
      read_setting J priv ''dp_delta'' (jo_float J) (\<lambda>v c. c\<lparr>cfg_dp_delta := v\<rparr>),
      read_setting J priv ''clip_norm'' (jo_float J) (\<lambda>v c. c\<lparr>cfg_clip_norm := v\<rparr>),
      read_setting J priv ''trimmed_mean_beta'' (jo_float J) (\<lambda>v c. c\<lparr>cfg_trimmed_mean_beta := v\<rparr>)]"

definition persistence_settings :: "('j, 'x, 'f) config_json \<Rightarrow> 'j \<Rightarrow> 'f setting list" where
  "persistence_settings J j =
     [read_setting J j ''checkpoint_dir'' (jo_string J) (\<lambda>v c. c\<lparr>cfg_checkpoint_dir := v\<rparr>),
      read_setting J j ''state_store_path'' (jo_string J) (\<lambda>v c. c\<lparr>cfg_state_store_path := v\<rparr>),
      read_setting J j ''audit_event_retention'' (jo_int J) (\<lambda>v c. c\<lparr>cfg_audit_event_retention := v\<rparr>),
      read_setting J j ''admin_peer_identities'' (jo_strings J) (\<lambda>v c. c\<lparr>cfg_admin_peer_identities := v\<rparr>),
      read_setting J j ''worker_peer_identities'' (jo_strings J) (\<lambda>v c. c\<lparr>cfg_worker_peer_identities := v\<rparr>)]"

text \<open>\<open>file\<close> is the content of the file, \<open>None\<close> when it cannot be opened.\<close>

definition LoadConfig :: "('j, 'x, 'f) config_json \<Rightarrow> 'f arith \<Rightarrow> 'x option \<Rightarrow> 'f config \<Rightarrow> string + 'f config" where
  "LoadConfig J A file c =
     (case file of
        None \<Rightarrow> Inr c
      | Some text \<Rightarrow>
          (case jo_parse J text of
             Inl e \<Rightarrow> Inl e
           | Inr j \<Rightarrow>
               (case read_settings
                       (network_settings J j @ [read_section J j ''fl'' (fl_settings J),
                          read_section J j ''privacy'' (privacy_settings J)] @ persistence_settings J j) c of
                  Inl e \<Rightarrow> Inl e
                | Inr c' \<Rightarrow> (case Validate A c' of Some e \<Rightarrow> Inl e | None \<Rightarrow> Inr c'))))"

end
