(* ===== verification/Worker_Service.thy ===== *)
theory Worker_Service
  imports Federated_Service
begin

text \<open>
  \<open>server/worker_service.cpp\<close>: the handlers of the \<open>WorkerCoordinator\<close> service. They run on the
  store, the registry and the crypto engine that the federated service owns, so a handler is a
  function on the same server. The \<open>k\<close>-th operation that reads the clock reads \<open>clks k\<close>.
\<close>

section \<open>The messages\<close>

record WorkerRegistration =
  wr_worker_id :: string
  wr_trainer_client_id :: string
  wr_tenant_id :: string
  wr_model_id :: string
  wr_hostname :: string
  wr_launcher :: string
  wr_max_parallel_tasks :: int
  wr_labels :: "string list"
  wr_advertised_dataset_size :: int

record WorkerRegistrationResponse =
  wo_accepted :: bool
  wo_worker_id :: string
  wo_trainer_client_id :: string
  wo_server_time :: string
  wo_message :: string

record WorkerTaskLeaseRequest =
  wl_worker_id :: string
  wl_trainer_client_id :: string
  wl_tenant_id :: string
  wl_model_id :: string

record 'f WorkerTaskLeaseResponse =
  wt_task_ready :: bool
  wt_message :: string
  wt_task_id :: string
  wt_worker_id :: string
  wt_trainer_client_id :: string
  wt_job_id :: string
  wt_assignment_id :: string
  wt_dataset_id :: string
  wt_dataset_storage_uri :: string
  wt_dataset_fingerprint :: string
  wt_dataset_format :: string
  wt_round_index :: int
  wt_base_model_version :: int
  wt_active_model_version :: int
  wt_checkpoint_path :: string
  wt_target_rounds :: int
  wt_learning_rate :: 'f
  wt_batch_size :: int
  wt_required_clients :: int
  wt_aggregation_strategy :: string
  wt_clip_norm :: 'f
  wt_server_momentum :: 'f
  wt_assignment_expires_at :: string
  wt_payload_kem_public_key :: "byte list"
  wt_payload_kem_algorithm :: string

record WorkerTaskStatusUpdate =
  wu_worker_id :: string
  wu_task_id :: string
  wu_status :: string
  wu_detail :: string
  wu_progress_percent :: int

record WorkerTaskStatusAck =
  wa_accepted :: bool
  wa_message :: string

record WorkerHeartbeat =
  wh_worker_id :: string
  wh_trainer_client_id :: string
  wh_tenant_id :: string
  wh_model_id :: string
  wh_active_task_id :: string
  wh_detail :: string

record WorkerHeartbeatAck =
  wb_accepted :: bool
  wb_server_time :: string

section \<open>Authorisation and statuses\<close>

definition IsAuthorizedWorker :: "'f config \<Rightarrow> server_context \<Rightarrow> bool" where
  "IsAuthorizedWorker cfg ctx = HasAllowedPeerIdentity ctx (cfg_worker_peer_identities cfg)"

definition IsAllowedTaskStatus :: "string \<Rightarrow> bool" where
  "IsAllowedTaskStatus status \<longleftrightarrow> status \<noteq> '''' \<and>
     status \<in> {''leased'', ''running'', ''completed'', ''failed'', ''submitted'', ''aggregated''}"

definition worker_denied :: grpc_status where
  "worker_denied = (PERMISSION_DENIED, ''Worker certificate required'')"

section \<open>RegisterWorker\<close>

definition worker_name :: "WorkerRegistration \<Rightarrow> string" where
  "worker_name q = (if wr_worker_id q = '''' then wr_trainer_client_id q @ ''-worker'' else wr_worker_id q)"

definition trainer_name :: "WorkerRegistration \<Rightarrow> string" where
  "trainer_name q = (if wr_trainer_client_id q = '''' then worker_name q @ ''-trainer'' else wr_trainer_client_id q)"

text \<open>The first identifier that is not valid.\<close>

definition CheckWorkerIds :: "WorkerRegistration \<Rightarrow> string" where
  "CheckWorkerIds q =
     (let e1 = ValidateIdentifier (wr_tenant_id q) ''tenant_id'' True default_max_length in
      if e1 \<noteq> '''' then e1
      else let e2 = ValidateIdentifier (wr_model_id q) ''model_id'' True default_max_length in
      if e2 \<noteq> '''' then e2
      else let e3 = ValidateIdentifier (worker_name q) ''worker_id'' False default_max_length in
      if e3 \<noteq> '''' then e3
      else ValidateIdentifier (trainer_name q) ''trainer_client_id'' False default_max_length)"

definition empty_registration_response :: WorkerRegistrationResponse where
  "empty_registration_response = \<lparr>wo_accepted = False, wo_worker_id = '''', wo_trainer_client_id = '''',
     wo_server_time = '''', wo_message = ''''\<rparr>"

definition worker_row :: "string \<Rightarrow> WorkerRegistration \<Rightarrow> PersistedWorkerRecord" where
  "worker_row now q = \<lparr>wk_worker_id = worker_name q, wk_trainer_client_id = trainer_name q,
     wk_tenant_id = NormalizeTenant (wr_tenant_id q), wk_model_id = NormalizeModel (wr_model_id q),
     wk_hostname = wr_hostname q, wk_launcher = wr_launcher q,
     wk_max_parallel_tasks = max 1 (wr_max_parallel_tasks q), wk_labels = wr_labels q,
     wk_status = ''idle'', wk_registered_at = '''', wk_last_heartbeat_at = now, wk_active_task_id = ''''\<rparr>"

definition trainer_row :: "string \<Rightarrow> string \<Rightarrow> WorkerRegistration \<Rightarrow> PersistedClientRecord" where
  "trainer_row peer now q = \<lparr>cl_tenant_id = NormalizeTenant (wr_tenant_id q),
     cl_model_id = NormalizeModel (wr_model_id q), cl_client_id = trainer_name q, cl_peer_identity = peer,
     cl_local_dataset_size = max 1 (wr_advertised_dataset_size q),
     cl_hardware_info = wr_hostname q @ '' via '' @ wr_launcher q, cl_dataset_fingerprint = ''worker-sidecar'',
     cl_last_active_round = - 1, cl_registered_at = now\<rparr>"

definition trainer_info :: "string \<Rightarrow> string \<Rightarrow> WorkerRegistration \<Rightarrow> ClientInfo" where
  "trainer_info peer now q = \<lparr>ci_tenant_id = NormalizeTenant (wr_tenant_id q),
     ci_model_id = NormalizeModel (wr_model_id q), ci_client_id = trainer_name q, ci_peer_identity = peer,
     ci_local_dataset_size = max 1 (wr_advertised_dataset_size q),
     ci_hardware_info = wr_hostname q @ '' via '' @ wr_launcher q, ci_dataset_fingerprint = ''worker-sidecar'',
     ci_registered_at = now, ci_last_active_round = - 1\<rparr>"

text \<open>The trainer client of the worker: registered when its name is new, else bound to the caller's
  identity when no identity is bound or the same one is.\<close>

definition EnsureTrainerClient ::
  "(nat \<Rightarrow> clock) \<Rightarrow> string \<Rightarrow> WorkerRegistration \<Rightarrow> registry \<times> state_store \<Rightarrow> registry \<times> state_store" where
  "EnsureTrainerClient clks peer q = (\<lambda>(r, s).
     let t = NormalizeTenant (wr_tenant_id q); m = NormalizeModel (wr_model_id q);
         now = CurrentTimestamp (clks 2 0) in
     if \<not> IsRegistered t m (trainer_name q) r then
       (snd (Register (trainer_info peer now q) r), RecordClientRegistration (clks 3) (trainer_row peer now q) s)
     else
       let (bound, r') = BindPeerIdentityIfMissing t m (trainer_name q) peer r in
       (r', if bound then RecordClientRegistration (clks 3) (trainer_row peer now q) s else s))"

definition RegisterWorker ::
  "'f config \<Rightarrow> (nat \<Rightarrow> clock) \<Rightarrow> server_context \<Rightarrow> WorkerRegistration \<Rightarrow> 'f server
     \<Rightarrow> (grpc_status \<times> WorkerRegistrationResponse) \<times> 'f server" where
  "RegisterWorker cfg clks ctx q sv =
     (if \<not> IsAuthorizedWorker cfg ctx then ((worker_denied, empty_registration_response), sv)
      else if CheckWorkerIds q \<noteq> '''' then
        (((INVALID_ARGUMENT, CheckWorkerIds q), empty_registration_response), sv)
      else
        let (worker, s1) = UpsertWorker (clks 1) (worker_row (CurrentTimestamp (clks 0 0)) q) (sv_store sv);
            peer_identity = NormalizePeerIdentity (GetPeerIdentity ctx);
            (r, s2) = EnsureTrainerClient clks peer_identity q (sv_registry sv, s1);
            response = \<lparr>wo_accepted = True, wo_worker_id = wk_worker_id worker,
              wo_trainer_client_id = wk_trainer_client_id worker,
              wo_server_time = CurrentTimestamp (clks 4 0),
              wo_message = ''Worker registered and trainer client is ready''\<rparr>
        in (((OK, ''''), response), sv\<lparr>sv_registry := r, sv_store := s2\<rparr>))"

section \<open>LeaseTrainingTask\<close>

definition no_task :: "'f arith \<Rightarrow> string \<Rightarrow> 'f WorkerTaskLeaseResponse" where
  "no_task A message = \<lparr>wt_task_ready = False, wt_message = message, wt_task_id = '''', wt_worker_id = '''',
     wt_trainer_client_id = '''', wt_job_id = '''', wt_assignment_id = '''', wt_dataset_id = '''',
     wt_dataset_storage_uri = '''', wt_dataset_fingerprint = '''', wt_dataset_format = '''',
     wt_round_index = 0, wt_base_model_version = 0, wt_active_model_version = 0, wt_checkpoint_path = '''',
     wt_target_rounds = 0, wt_learning_rate = ar_of_int A 0, wt_batch_size = 0, wt_required_clients = 0,
     wt_aggregation_strategy = '''', wt_clip_norm = ar_of_int A 0, wt_server_momentum = ar_of_int A 0,
     wt_assignment_expires_at = '''', wt_payload_kem_public_key = [], wt_payload_kem_algorithm = ''''\<rparr>"

definition task_response ::
  "'f config \<Rightarrow> crypto_engine \<Rightarrow> PersistedWorkerRecord \<Rightarrow> PersistedAssignmentLease \<Rightarrow> PersistedTrainingJobRecord
     \<Rightarrow> PersistedDatasetRecord \<Rightarrow> PersistedWorkerTaskRecord \<Rightarrow> PersistedModelRecord option \<Rightarrow> int
     \<Rightarrow> 'f WorkerTaskLeaseResponse" where
  "task_response cfg e worker assignment job dataset task active_model active_model_version =
     \<lparr>wt_task_ready = True, wt_message = ''Training task leased'', wt_task_id = tk_task_id task,
      wt_worker_id = wk_worker_id worker, wt_trainer_client_id = wk_trainer_client_id worker,
      wt_job_id = jb_job_id job, wt_assignment_id = as_assignment_id assignment,
      wt_dataset_id = ds_dataset_id dataset, wt_dataset_storage_uri = ds_storage_uri dataset,
      wt_dataset_fingerprint = ds_fingerprint dataset, wt_dataset_format = ds_format dataset,
      wt_round_index = as_round_index assignment, wt_base_model_version = as_base_model_version assignment,
      wt_active_model_version =
        (case active_model of Some model \<Rightarrow> md_version model | None \<Rightarrow> active_model_version),
      wt_checkpoint_path = (case active_model of Some model \<Rightarrow> md_checkpoint_path model | None \<Rightarrow> ''''),
      wt_target_rounds = jb_target_rounds job, wt_learning_rate = cfg_learning_rate cfg,
      wt_batch_size = cfg_batch_size cfg,
      wt_required_clients =
        (if jb_min_clients_per_round job > 0 then jb_min_clients_per_round job else cfg_required_clients cfg),
      wt_aggregation_strategy = cfg_aggregation_strategy cfg, wt_clip_norm = cfg_clip_norm cfg,
      wt_server_momentum = cfg_server_momentum cfg,
      wt_assignment_expires_at = as_expires_at assignment,
      wt_payload_kem_public_key = ce_kem_public_key e, wt_payload_kem_algorithm = ''ML-KEM-1024''\<rparr>"

definition LeaseTrainingTask ::
  "'f arith \<Rightarrow> 'f config \<Rightarrow> (nat \<Rightarrow> clock) \<Rightarrow> server_context \<Rightarrow> WorkerTaskLeaseRequest \<Rightarrow> 'f server
     \<Rightarrow> (grpc_status \<times> 'f WorkerTaskLeaseResponse) \<times> 'f server" where
  "LeaseTrainingTask A cfg clks ctx q sv =
     (if \<not> IsAuthorizedWorker cfg ctx then ((worker_denied, no_task A ''''), sv)
      else
        let validation_error = ValidateIdentifier (wl_worker_id q) ''worker_id'' False default_max_length in
        if validation_error \<noteq> '''' then (((OK, ''''), no_task A validation_error), sv)
        else
          case GetWorker (wl_worker_id q) (sv_store sv) of
            None \<Rightarrow> (((OK, ''''), no_task A ''Worker must register before leasing tasks''), sv)
          | Some worker \<Rightarrow>
              let tenant_id = NormalizeTenant
                    (if wl_tenant_id q = '''' then wk_tenant_id worker else wl_tenant_id q);
                  model_id = NormalizeModel
                    (if wl_model_id q = '''' then wk_model_id worker else wl_model_id q);
                  active_model_version = GetActiveModelVersion tenant_id model_id (sv_store sv)
              in
              case LeaseTrainingAssignment (clks 0) tenant_id model_id (wk_trainer_client_id worker)
                     active_model_version (cfg_required_clients cfg) (cfg_default_assignment_ttl_seconds cfg)
                     (sv_store sv) of
                (None, s) \<Rightarrow>
                  (((OK, ''''), no_task A ''No runnable training assignment is available right now''),
                   sv\<lparr>sv_store := s\<rparr>)
              | (Some (assignment, job, found), s) \<Rightarrow>
                  let dataset = (case found of None \<Rightarrow> default_dataset | Some d \<Rightarrow> d);
                      (task, s') = LeaseWorkerTask (clks 1) worker assignment job dataset s;
                      active_model = GetActiveModelRecord tenant_id model_id s'
                  in (((OK, ''''), task_response cfg (sv_crypto sv) worker assignment job dataset task
                         active_model active_model_version), sv\<lparr>sv_store := s'\<rparr>))"

section \<open>ReportTaskStatus and Heartbeat\<close>

definition ReportTaskStatus ::
  "'f config \<Rightarrow> clock \<Rightarrow> server_context \<Rightarrow> WorkerTaskStatusUpdate \<Rightarrow> 'f server
     \<Rightarrow> (grpc_status \<times> WorkerTaskStatusAck) \<times> 'f server" where
  "ReportTaskStatus cfg clk ctx q sv =
     (let refuse_report = (\<lambda>message. (((OK, ''''), \<lparr>wa_accepted = False, wa_message = message\<rparr>), sv));
          e1 = ValidateIdentifier (wu_worker_id q) ''worker_id'' False default_max_length;
          e2 = ValidateIdentifier (wu_task_id q) ''task_id'' False default_max_length
      in
      if \<not> IsAuthorizedWorker cfg ctx then
        ((worker_denied, \<lparr>wa_accepted = False, wa_message = ''''\<rparr>), sv)
      else if e1 \<noteq> '''' then refuse_report e1
      else if e2 \<noteq> '''' then refuse_report e2
      else if \<not> IsAllowedTaskStatus (wu_status q) then
        refuse_report ''status must be one of leased, running, completed, failed, submitted, aggregated''
      else
        case UpdateWorkerTaskStatus clk (wu_worker_id q) (wu_task_id q) (wu_status q) (wu_detail q)
               (wu_progress_percent q) (sv_store sv) of
          (Inl error_message, s) \<Rightarrow>
            (((OK, ''''), \<lparr>wa_accepted = False, wa_message = error_message\<rparr>), sv\<lparr>sv_store := s\<rparr>)
        | (Inr _, s) \<Rightarrow>
            (((OK, ''''), \<lparr>wa_accepted = True, wa_message = ''Worker task status recorded''\<rparr>),
             sv\<lparr>sv_store := s\<rparr>))"

definition Heartbeat ::
  "'f config \<Rightarrow> (nat \<Rightarrow> clock) \<Rightarrow> server_context \<Rightarrow> WorkerHeartbeat \<Rightarrow> 'f server
     \<Rightarrow> (grpc_status \<times> WorkerHeartbeatAck) \<times> 'f server" where
  "Heartbeat cfg clks ctx q sv =
     (if \<not> IsAuthorizedWorker cfg ctx then
        ((worker_denied, \<lparr>wb_accepted = False, wb_server_time = ''''\<rparr>), sv)
      else if ValidateIdentifier (wh_worker_id q) ''worker_id'' False default_max_length \<noteq> '''' then
        (((OK, ''''), \<lparr>wb_accepted = False, wb_server_time = CurrentTimestamp (clks 0 0)\<rparr>), sv)
      else
        let (accepted, s) = RecordWorkerHeartbeat (clks 1) (wh_worker_id q) (wh_active_task_id q)
              (wh_detail q) (sv_store sv)
        in (((OK, ''''), \<lparr>wb_accepted = accepted, wb_server_time = CurrentTimestamp (clks 0 0)\<rparr>),
            sv\<lparr>sv_store := s\<rparr>))"

end
