(* ===== verification/Admin_Service.thy ===== *)
theory Admin_Service
  imports Federated_Service
begin

text \<open>
  \<open>server/admin_service.cpp\<close>: the handlers of the \<open>Admin\<close> service. The read-only ones answer from the
  store, the others validate the request and compose operations of the store, the crypto engine
  and the weight buffer. \<open>files\<close> is the content of the checkpoints on disk, \<open>key_files\<close> those of the
  key store.
\<close>

section \<open>The messages\<close>

record ModelHead =
  mh_tenant_id :: string
  mh_model_id :: string
  mh_active_version :: int
  mh_latest_round :: int
  mh_checkpoint_path :: string
  mh_aggregation_strategy :: string
  mh_key_version :: int

definition PopulateModelHead :: "PersistedModelRecord \<Rightarrow> ModelHead" where
  "PopulateModelHead r = \<lparr>mh_tenant_id = md_tenant_id r, mh_model_id = md_model_id r, mh_active_version = md_version r,
     mh_latest_round = md_latest_round r, mh_checkpoint_path = md_checkpoint_path r,
     mh_aggregation_strategy = md_aggregation_strategy r, mh_key_version = md_key_version r\<rparr>"

record DatasetRecord =
  dr_tenant_id :: string
  dr_model_id :: string
  dr_dataset_id :: string
  dr_fingerprint :: string
  dr_storage_uri :: string
  dr_format :: string
  dr_sample_count :: int
  dr_shard_count :: int
  dr_active :: bool
  dr_created_at :: string

definition PopulateDatasetRecord :: "PersistedDatasetRecord \<Rightarrow> DatasetRecord" where
  "PopulateDatasetRecord r = \<lparr>dr_tenant_id = ds_tenant_id r, dr_model_id = ds_model_id r, dr_dataset_id = ds_dataset_id r,
     dr_fingerprint = ds_fingerprint r, dr_storage_uri = ds_storage_uri r, dr_format = ds_format r,
     dr_sample_count = ds_sample_count r, dr_shard_count = ds_shard_count r,
     dr_active = ds_active r, dr_created_at = ds_created_at r\<rparr>"

record TrainingJob =
  tj_job_id :: string
  tj_tenant_id :: string
  tj_model_id :: string
  tj_dataset_id :: string
  tj_target_rounds :: int
  tj_planned_clients :: int
  tj_min_clients_per_round :: int
  tj_assignment_ttl_seconds :: int
  tj_status :: string
  tj_current_round :: int
  tj_completed_rounds :: int
  tj_active_model_version :: int
  tj_created_at :: string
  tj_activated_at :: string
  tj_notes :: string

definition PopulateTrainingJob :: "PersistedTrainingJobRecord \<Rightarrow> TrainingJob" where
  "PopulateTrainingJob r = \<lparr>tj_job_id = jb_job_id r, tj_tenant_id = jb_tenant_id r, tj_model_id = jb_model_id r,
     tj_dataset_id = jb_dataset_id r, tj_target_rounds = jb_target_rounds r,
     tj_planned_clients = jb_planned_clients r,
     tj_min_clients_per_round = jb_min_clients_per_round r,
     tj_assignment_ttl_seconds = jb_assignment_ttl_seconds r, tj_status = jb_status r,
     tj_current_round = jb_current_round r, tj_completed_rounds = jb_completed_rounds r,
     tj_active_model_version = jb_active_model_version r, tj_created_at = jb_created_at r,
     tj_activated_at = jb_activated_at r, tj_notes = jb_notes r\<rparr>"

record RegisteredWorkerInfo =
  wi_worker_id :: string
  wi_trainer_client_id :: string
  wi_tenant_id :: string
  wi_model_id :: string
  wi_hostname :: string
  wi_launcher :: string
  wi_max_parallel_tasks :: int
  wi_labels :: "string list"
  wi_status :: string
  wi_registered_at :: string
  wi_last_heartbeat_at :: string
  wi_active_task_id :: string

definition PopulateWorkerInfo :: "PersistedWorkerRecord \<Rightarrow> RegisteredWorkerInfo" where
  "PopulateWorkerInfo r = \<lparr>wi_worker_id = wk_worker_id r, wi_trainer_client_id = wk_trainer_client_id r,
     wi_tenant_id = wk_tenant_id r, wi_model_id = wk_model_id r, wi_hostname = wk_hostname r,
     wi_launcher = wk_launcher r, wi_max_parallel_tasks = wk_max_parallel_tasks r,
     wi_labels = wk_labels r, wi_status = wk_status r, wi_registered_at = wk_registered_at r,
     wi_last_heartbeat_at = wk_last_heartbeat_at r, wi_active_task_id = wk_active_task_id r\<rparr>"

record WorkerTaskInfo =
  ti_task_id :: string
  ti_worker_id :: string
  ti_trainer_client_id :: string
  ti_job_id :: string
  ti_assignment_id :: string
  ti_tenant_id :: string
  ti_model_id :: string
  ti_dataset_id :: string
  ti_round_index :: int
  ti_base_model_version :: int
  ti_status :: string
  ti_detail :: string
  ti_progress_percent :: int
  ti_issued_at :: string
  ti_started_at :: string
  ti_completed_at :: string
  ti_updated_at :: string

definition PopulateWorkerTask :: "PersistedWorkerTaskRecord \<Rightarrow> WorkerTaskInfo" where
  "PopulateWorkerTask r = \<lparr>ti_task_id = tk_task_id r, ti_worker_id = tk_worker_id r,
     ti_trainer_client_id = tk_trainer_client_id r, ti_job_id = tk_job_id r,
     ti_assignment_id = tk_assignment_id r, ti_tenant_id = tk_tenant_id r,
     ti_model_id = tk_model_id r, ti_dataset_id = tk_dataset_id r,
     ti_round_index = tk_round_index r, ti_base_model_version = tk_base_model_version r,
     ti_status = tk_status r, ti_detail = tk_detail r, ti_progress_percent = tk_progress_percent r,
     ti_issued_at = tk_issued_at r, ti_started_at = tk_started_at r,
     ti_completed_at = tk_completed_at r, ti_updated_at = tk_updated_at r\<rparr>"

record RegisteredClientInfo =
  ri_tenant_id :: string
  ri_model_id :: string
  ri_client_id :: string
  ri_local_dataset_size :: int
  ri_hardware_info :: string
  ri_last_active_round :: int
  ri_registered_at :: string
  ri_dataset_fingerprint :: string

definition client_info :: "PersistedClientRecord \<Rightarrow> RegisteredClientInfo" where
  "client_info r = \<lparr>ri_tenant_id = cl_tenant_id r, ri_model_id = cl_model_id r, ri_client_id = cl_client_id r,
     ri_local_dataset_size = cl_local_dataset_size r, ri_hardware_info = cl_hardware_info r,
     ri_last_active_round = cl_last_active_round r, ri_registered_at = cl_registered_at r,
     ri_dataset_fingerprint = cl_dataset_fingerprint r\<rparr>"

record AuditEvent =
  ae_timestamp :: string
  ae_action :: string
  ae_tenant_id :: string
  ae_model_id :: string
  ae_client_id :: string
  ae_detail :: string

definition audit_info :: "PersistedAuditEvent \<Rightarrow> AuditEvent" where
  "audit_info r = \<lparr>ae_timestamp = ev_timestamp r, ae_action = ev_action r, ae_tenant_id = ev_tenant_id r,
     ae_model_id = ev_model_id r, ae_client_id = ev_client_id r, ae_detail = ev_detail r\<rparr>"

record SystemStatus =
  sy_registered_clients :: int
  sy_completed_rounds :: int
  sy_total_submissions :: int
  sy_active_key_version :: int
  sy_state_path :: string
  sy_active_models :: "ModelHead list"
  sy_registered_datasets :: int
  sy_active_training_jobs :: int
  sy_registered_workers :: int
  sy_active_worker_tasks :: int
  sy_stored_models :: int
  sy_pending_assignments :: int
  sy_leased_assignments :: int
  sy_submitted_assignments :: int
  sy_busy_workers :: int
  sy_failed_worker_tasks :: int

definition system_status_message :: "PersistedSystemStatus \<Rightarrow> SystemStatus" where
  "system_status_message r = \<lparr>sy_registered_clients = st_registered_clients r,
     sy_completed_rounds = st_completed_rounds r, sy_total_submissions = st_total_submissions r,
     sy_active_key_version = st_active_key_version r, sy_state_path = st_state_path r,
     sy_active_models = map PopulateModelHead (st_active_models r),
     sy_registered_datasets = st_registered_datasets r,
     sy_active_training_jobs = st_active_training_jobs r, sy_registered_workers = st_registered_workers r,
     sy_active_worker_tasks = st_active_worker_tasks r, sy_stored_models = st_stored_models r,
     sy_pending_assignments = st_pending_assignments r, sy_leased_assignments = st_leased_assignments r,
     sy_submitted_assignments = st_submitted_assignments r, sy_busy_workers = st_busy_workers r,
     sy_failed_worker_tasks = st_failed_worker_tasks r\<rparr>"

record UpsertDatasetRequest =
  ud_tenant_id :: string
  ud_model_id :: string
  ud_dataset_id :: string
  ud_fingerprint :: string
  ud_storage_uri :: string
  ud_format :: string
  ud_sample_count :: int
  ud_shard_count :: int
  ud_active :: bool

record CreateTrainingJobRequest =
  cj_tenant_id :: string
  cj_model_id :: string
  cj_dataset_id :: string
  cj_target_rounds :: int
  cj_planned_clients :: int
  cj_min_clients_per_round :: int
  cj_assignment_ttl_seconds :: int
  cj_notes :: string

record RollbackModelRequest =
  rb_tenant_id :: string
  rb_model_id :: string
  rb_target_version :: int

record RollbackModelResponse =
  rs_success :: bool
  rs_message :: string
  rs_active_model :: "ModelHead option"

section \<open>Authorisation and validation\<close>

definition IsAuthorizedAdmin :: "'f config \<Rightarrow> server_context \<Rightarrow> bool" where
  "IsAuthorizedAdmin cfg ctx = HasAllowedPeerIdentity ctx (cfg_admin_peer_identities cfg)"

definition admin_denied :: grpc_status where
  "admin_denied = (PERMISSION_DENIED, ''Admin certificate required'')"

definition ValidateAdminScope :: "string \<Rightarrow> string \<Rightarrow> string" where
  "ValidateAdminScope tenant_id model_id =
     (let e = ValidateIdentifier tenant_id ''tenant_id'' True default_max_length in
      if e \<noteq> '''' then e else ValidateIdentifier model_id ''model_id'' True default_max_length)"

section \<open>The read-only handlers\<close>

text \<open>What a handler returns without a response message is \<open>None\<close>.\<close>

definition AdminGetSystemStatus :: "'f config \<Rightarrow> server_context \<Rightarrow> 'f server \<Rightarrow> grpc_status \<times> SystemStatus option" where
  "AdminGetSystemStatus cfg ctx sv =
     (if \<not> IsAuthorizedAdmin cfg ctx then (admin_denied, None)
      else ((OK, ''''), Some (system_status_message (GetSystemStatus (sv_store sv)))))"

definition AdminListModels :: "'f config \<Rightarrow> server_context \<Rightarrow> string \<Rightarrow> string \<Rightarrow> 'f server \<Rightarrow> grpc_status \<times> ModelHead list" where
  "AdminListModels cfg ctx tenant_id model_id sv =
     (if \<not> IsAuthorizedAdmin cfg ctx then (admin_denied, [])
      else ((OK, ''''), map PopulateModelHead (ListModels tenant_id model_id (sv_store sv))))"

definition AdminListClients :: "'f config \<Rightarrow> server_context \<Rightarrow> string \<Rightarrow> string \<Rightarrow> 'f server \<Rightarrow> grpc_status \<times> RegisteredClientInfo list" where
  "AdminListClients cfg ctx tenant_id model_id sv =
     (if \<not> IsAuthorizedAdmin cfg ctx then (admin_denied, [])
      else ((OK, ''''), map client_info (ListClients tenant_id model_id (sv_store sv))))"

definition AdminListWorkers :: "'f config \<Rightarrow> server_context \<Rightarrow> string \<Rightarrow> string \<Rightarrow> 'f server \<Rightarrow> grpc_status \<times> RegisteredWorkerInfo list" where
  "AdminListWorkers cfg ctx tenant_id model_id sv =
     (if \<not> IsAuthorizedAdmin cfg ctx then (admin_denied, [])
      else ((OK, ''''), map PopulateWorkerInfo (ListWorkers tenant_id model_id (sv_store sv))))"

definition AdminListWorkerTasks :: "'f config \<Rightarrow> server_context \<Rightarrow> string \<Rightarrow> string \<Rightarrow> string \<Rightarrow> string \<Rightarrow> 'f server \<Rightarrow> grpc_status \<times> WorkerTaskInfo list" where
  "AdminListWorkerTasks cfg ctx tenant_id model_id worker_id status sv =
     (if \<not> IsAuthorizedAdmin cfg ctx then (admin_denied, [])
      else ((OK, ''''), map PopulateWorkerTask (ListWorkerTasks tenant_id model_id worker_id status (sv_store sv))))"

definition AdminListDatasets :: "'f config \<Rightarrow> server_context \<Rightarrow> string \<Rightarrow> string \<Rightarrow> 'f server \<Rightarrow> grpc_status \<times> DatasetRecord list" where
  "AdminListDatasets cfg ctx tenant_id model_id sv =
     (if \<not> IsAuthorizedAdmin cfg ctx then (admin_denied, [])
      else ((OK, ''''), map PopulateDatasetRecord (ListDatasets tenant_id model_id (sv_store sv))))"

definition AdminListTrainingJobs :: "'f config \<Rightarrow> server_context \<Rightarrow> string \<Rightarrow> string \<Rightarrow> string \<Rightarrow> 'f server \<Rightarrow> grpc_status \<times> TrainingJob list" where
  "AdminListTrainingJobs cfg ctx tenant_id model_id status sv =
     (if \<not> IsAuthorizedAdmin cfg ctx then (admin_denied, [])
      else ((OK, ''''), map PopulateTrainingJob (ListTrainingJobs tenant_id model_id status (sv_store sv))))"

definition AdminListAuditEvents :: "'f config \<Rightarrow> server_context \<Rightarrow> int \<Rightarrow> 'f server \<Rightarrow> grpc_status \<times> AuditEvent list" where
  "AdminListAuditEvents cfg ctx limit sv =
     (if \<not> IsAuthorizedAdmin cfg ctx then (admin_denied, [])
      else ((OK, ''''), map audit_info (ListAuditEvents (nat (if limit > 0 then limit else 20)) (sv_store sv))))"

section \<open>Data sets and jobs\<close>

definition AdminUpsertDataset ::
  "'f config \<Rightarrow> clock \<Rightarrow> server_context \<Rightarrow> UpsertDatasetRequest \<Rightarrow> 'f server
     \<Rightarrow> (grpc_status \<times> DatasetRecord option) \<times> 'f server" where
  "AdminUpsertDataset cfg clk ctx q sv =
     (let invalid = (\<lambda>message. (((INVALID_ARGUMENT, message), None), sv));
          e1 = ValidateAdminScope (ud_tenant_id q) (ud_model_id q);
          e2 = ValidateIdentifier (ud_dataset_id q) ''dataset_id'' False default_max_length
      in
      if \<not> IsAuthorizedAdmin cfg ctx then ((admin_denied, None), sv)
      else if e1 \<noteq> '''' then invalid e1
      else if e2 \<noteq> '''' then invalid e2
      else if ud_storage_uri q = '''' then invalid ''storage_uri is required''
      else if ud_format q = '''' then invalid ''format is required''
      else if ud_sample_count q < 0 \<or> ud_shard_count q < 0 then
        invalid ''sample_count and shard_count must be >= 0''
      else
        let (saved, s) = UpsertDataset clk
              \<lparr>ds_tenant_id = ud_tenant_id q, ds_model_id = ud_model_id q, ds_dataset_id = ud_dataset_id q,
               ds_fingerprint = ud_fingerprint q, ds_storage_uri = ud_storage_uri q, ds_format = ud_format q,
               ds_sample_count = ud_sample_count q, ds_shard_count = ud_shard_count q,
               ds_active = ud_active q, ds_created_at = ''''\<rparr> (sv_store sv)
        in (((OK, ''''), Some (PopulateDatasetRecord saved)), sv\<lparr>sv_store := s\<rparr>))"

definition job_request_record :: "CreateTrainingJobRequest \<Rightarrow> PersistedTrainingJobRecord" where
  "job_request_record q = \<lparr>jb_job_id = '''', jb_tenant_id = cj_tenant_id q, jb_model_id = cj_model_id q,
     jb_dataset_id = cj_dataset_id q, jb_target_rounds = max 1 (cj_target_rounds q),
     jb_planned_clients = max 1 (cj_planned_clients q),
     jb_min_clients_per_round = max 1 (cj_min_clients_per_round q),
     jb_assignment_ttl_seconds = max 30 (cj_assignment_ttl_seconds q), jb_status = ''planned'',
     jb_current_round = 1, jb_completed_rounds = 0, jb_active_model_version = 0, jb_created_at = '''',
     jb_activated_at = '''', jb_notes = cj_notes q\<rparr>"

definition AdminCreateTrainingJob ::
  "'f config \<Rightarrow> clock \<Rightarrow> server_context \<Rightarrow> CreateTrainingJobRequest \<Rightarrow> 'f server
     \<Rightarrow> (grpc_status \<times> TrainingJob option) \<times> 'f server" where
  "AdminCreateTrainingJob cfg clk ctx q sv =
     (let invalid = (\<lambda>message. (((INVALID_ARGUMENT, message), None), sv));
          e1 = ValidateAdminScope (cj_tenant_id q) (cj_model_id q);
          e2 = ValidateIdentifier (cj_dataset_id q) ''dataset_id'' False default_max_length
      in
      if \<not> IsAuthorizedAdmin cfg ctx then ((admin_denied, None), sv)
      else if e1 \<noteq> '''' then invalid e1
      else if e2 \<noteq> '''' then invalid e2
      else if cj_target_rounds q \<le> 0 then invalid ''target_rounds must be >= 1''
      else if cj_planned_clients q \<le> 0 \<or> cj_min_clients_per_round q \<le> 0 then
        invalid ''planned_clients and min_clients_per_round must be >= 1''
      else if cj_planned_clients q < cj_min_clients_per_round q then
        invalid ''planned_clients must be >= min_clients_per_round''
      else if cj_assignment_ttl_seconds q < 30 then invalid ''assignment_ttl_seconds must be >= 30''
      else
        case GetDataset (cj_tenant_id q) (cj_model_id q) (cj_dataset_id q) (sv_store sv) of
          None \<Rightarrow>
            (((NOT_FOUND, ''Dataset must be registered before creating a training job''), None), sv)
        | Some _ \<Rightarrow>
            let (job, s) = CreateTrainingJob clk (job_request_record q) (sv_store sv)
            in (((OK, ''''), Some (PopulateTrainingJob job)), sv\<lparr>sv_store := s\<rparr>))"

section \<open>Rollback\<close>

definition rollback_failed :: "string \<Rightarrow> RollbackModelResponse" where
  "rollback_failed message = \<lparr>rs_success = False, rs_message = message, rs_active_model = None\<rparr>"

text \<open>After the store has activated the version: load its checkpoint into the buffer.\<close>

definition LoadRollbackCheckpoint ::
  "crypto_prims \<Rightarrow> (byte list \<Rightarrow> 'f) \<Rightarrow> (string \<rightharpoonup> byte list) \<Rightarrow> PersistedModelRecord \<Rightarrow> 'f server
     \<Rightarrow> RollbackModelResponse \<times> 'f server" where
  "LoadRollbackCheckpoint C of_bytes files model sv =
     (case files (md_checkpoint_path model) of
        None \<Rightarrow> (rollback_failed ''Checkpoint file not found for requested rollback'', sv)
      | Some blob \<Rightarrow>
          (case DecryptBlob C (sv_crypto sv) blob of
             Inl e \<Rightarrow> (rollback_failed (''Failed to decrypt rollback checkpoint: '' @ e), sv)
           | Inr plaintext \<Rightarrow>
               if length plaintext mod 4 \<noteq> 0 then
                 (rollback_failed ''Rollback checkpoint had invalid tensor data'', sv)
               else
                 (\<lparr>rs_success = True,
                   rs_message = ''Rollback activated model version '' @ to_string (md_version model),
                   rs_active_model = Some (PopulateModelHead model)\<rparr>,
                  sv\<lparr>sv_buffer := RestoreLatestGlobalModel (md_tenant_id model) (md_model_id model)
                       (md_latest_round model) (md_version model) (floats_of of_bytes plaintext)
                       (sv_buffer sv)\<rparr>)))"

definition AdminRollbackModel ::
  "'f config \<Rightarrow> crypto_prims \<Rightarrow> (byte list \<Rightarrow> 'f) \<Rightarrow> (string \<rightharpoonup> byte list) \<Rightarrow> clock \<Rightarrow> server_context
     \<Rightarrow> RollbackModelRequest \<Rightarrow> 'f server \<Rightarrow> (grpc_status \<times> RollbackModelResponse option) \<times> 'f server" where
  "AdminRollbackModel cfg C of_bytes files clk ctx q sv =
     (let e1 = ValidateAdminScope (rb_tenant_id q) (rb_model_id q) in
      if \<not> IsAuthorizedAdmin cfg ctx then ((admin_denied, None), sv)
      else if e1 \<noteq> '''' then (((INVALID_ARGUMENT, e1), None), sv)
      else if rb_target_version q \<le> 0 then
        (((INVALID_ARGUMENT, ''target_version must be >= 1''), None), sv)
      else
        case RollbackModel clk (rb_tenant_id q) (rb_model_id q) (rb_target_version q) (sv_store sv) of
          (None, s) \<Rightarrow>
            (((OK, ''''), Some (rollback_failed ''Requested model version not found'')), sv\<lparr>sv_store := s\<rparr>)
        | (Some model, s) \<Rightarrow>
            let (response, sv') = LoadRollbackCheckpoint C of_bytes files model (sv\<lparr>sv_store := s\<rparr>)
            in (((OK, ''''), Some response), sv'))"

section \<open>Key rotation\<close>

text \<open>\<open>Inl\<close> is the exception of \<open>RotateMasterKey\<close>, which escapes the handler.\<close>

definition RotateAtRestKey ::
  "'f config \<Rightarrow> byte list option \<Rightarrow> clock \<Rightarrow> server_context \<Rightarrow> 'f server \<times> key_files
     \<Rightarrow> (string + grpc_status \<times> int option) \<times> ('f server \<times> key_files)" where
  "RotateAtRestKey cfg rand clk ctx = (\<lambda>(sv, fs).
     if \<not> IsAuthorizedAdmin cfg ctx then (Inr (admin_denied, None), (sv, fs))
     else
       case RotateMasterKey rand (sv_crypto sv) fs of
         (Inl e, e1, fs1) \<Rightarrow> (Inl e, (sv\<lparr>sv_crypto := e1\<rparr>, fs1))
       | (Inr key_version, e1, fs1) \<Rightarrow>
           (Inr ((OK, ''''), Some key_version),
            (sv\<lparr>sv_crypto := e1, sv_store := UpdateActiveKeyVersion clk key_version (sv_store sv)\<rparr>, fs1)))"

end
