(* ===== verification/Server_System.thy ===== *)
theory Server_System
  imports Service_Guarantees Worker_Service Admin_Service
begin

text \<open>
  The server as a whole: one step is one call of any of its three services. The services share the
  registry, the store, the buffer and the crypto engine; a handler acts on the registry and the
  store through the operations of \<open>shared_step\<close> only. Handlers of different services run on
  different threads, so operations of several handlers may interleave: every interleaving of
  handlers is a run of \<open>shared_step\<close> as well.
\<close>

section \<open>The calls\<close>

type_synonym 'f system = "'f server \<times> key_files"

inductive server_step ::
  "'f arith \<Rightarrow> crypto_prims \<Rightarrow> 'f config \<Rightarrow> 'f system \<Rightarrow> 'f system \<Rightarrow> bool"
  for A :: "'f arith" and C :: crypto_prims and cfg :: "'f config" where
  rpc_register_client: "server_step A C cfg (sv, fs) (snd (RegisterClient clks ctx rq sv), fs)"
| rpc_training_config: "server_step A C cfg (sv, fs) (snd (GetTrainingConfig A cfg clk ctx cq sv), fs)"
| rpc_submit_weights: "fst (SubmitWeights A C N cfg clks ctx wq sv) = Inr response \<Longrightarrow>
    server_step A C cfg (sv, fs) (snd (SubmitWeights A C N cfg clks ctx wq sv), fs)"
| rpc_register_worker: "server_step A C cfg (sv, fs) (snd (RegisterWorker cfg clks ctx kq sv), fs)"
| rpc_lease_task: "server_step A C cfg (sv, fs) (snd (LeaseTrainingTask A cfg clks ctx lq sv), fs)"
| rpc_report_status: "server_step A C cfg (sv, fs) (snd (ReportTaskStatus cfg clk ctx uq sv), fs)"
| rpc_heartbeat: "server_step A C cfg (sv, fs) (snd (Heartbeat cfg clks ctx hq sv), fs)"
| rpc_upsert_dataset: "server_step A C cfg (sv, fs) (snd (AdminUpsertDataset cfg clk ctx dq sv), fs)"
| rpc_create_job: "server_step A C cfg (sv, fs) (snd (AdminCreateTrainingJob cfg clk ctx jq sv), fs)"
| rpc_rollback: "server_step A C cfg (sv, fs)
    (snd (AdminRollbackModel cfg C of_bytes files clk ctx bq sv), fs)"
| rpc_rotate_key: "server_step A C cfg (sv, fs) (snd (RotateAtRestKey cfg rand clk ctx (sv, fs)))"

section \<open>What the calls do to the registry and the store\<close>

definition shared_of :: "'f system \<Rightarrow> registry \<times> state_store" where
  "shared_of sys = (sv_registry (fst sys), sv_store (fst sys))"

lemma shared_of_simps [simp]: "shared_of (sv, fs) = (sv_registry sv, sv_store sv)"
  by (simp add: shared_of_def)

text \<open>The identities under which a handler registers a client.\<close>

definition granted :: "'f config \<Rightarrow> string \<Rightarrow> bool" where
  "granted cfg p \<longleftrightarrow> p \<noteq> '''' \<or> (\<exists>ctx. IsAuthorizedWorker cfg ctx \<and> p = NormalizePeerIdentity (GetPeerIdentity ctx))"

text \<open>The rows of the clients as the registry sees them.\<close>

definition client_peers :: "state_store \<Rightarrow> (string \<times> string) list" where
  "client_peers s = map (\<lambda>r. (client_row_key r, cl_peer_identity r)) (clients s)"

definition row_of :: "ClientInfo \<Rightarrow> PersistedClientRecord" where
  "row_of info = \<lparr>cl_tenant_id = ci_tenant_id info, cl_model_id = ci_model_id info, cl_client_id = ci_client_id info,
     cl_peer_identity = ci_peer_identity info, cl_local_dataset_size = ci_local_dataset_size info,
     cl_hardware_info = ci_hardware_info info, cl_dataset_fingerprint = ci_dataset_fingerprint info,
     cl_last_active_round = ci_last_active_round info, cl_registered_at = ci_registered_at info\<rparr>"

inductive shared_step :: "'f config \<Rightarrow> registry \<times> state_store \<Rightarrow> registry \<times> state_store \<Rightarrow> bool"
  for cfg :: "'f config" where
  shared_register: "granted cfg (ci_peer_identity info) \<Longrightarrow>
    shared_step cfg (r, s) (snd (Register info r), RecordClientRegistration clk (row_of info) s)"
| shared_bind: "granted cfg (ci_peer_identity info) \<Longrightarrow>
    IsRegistered (ci_tenant_id info) (ci_model_id info) (ci_client_id info) r \<Longrightarrow>
    BindPeerIdentityIfMissing (ci_tenant_id info) (ci_model_id info) (ci_client_id info)
      (ci_peer_identity info) r = (bound, r') \<Longrightarrow>
    shared_step cfg (r, s) (r', if bound then RecordClientRegistration clk (row_of info) s else s)"
| shared_round: "shared_step cfg (r, s) (UpdateLastActiveRound t m c rd r, s)"
| shared_store: "store_step s s' \<Longrightarrow> client_peers s' = client_peers s \<Longrightarrow> shared_step cfg (r, s) (r, s')"

lemma store_register: "store_step\<^sup>*\<^sup>* s (RecordClientRegistration clk row s)"
  by (rule r_into_rtranclp, rule step_register)

lemma shared_step_store: "shared_step cfg (r, s) (r', s') \<Longrightarrow> store_step\<^sup>*\<^sup>* s s'"
  by (cases rule: shared_step.cases) (auto intro: store_register)

interpretation shared_store: simulation "shared_step cfg" store_step snd
proof
  fix x y
  show "shared_step cfg x y \<Longrightarrow> store_step\<^sup>*\<^sup>* (snd x) (snd y)"
    using shared_step_store [of cfg "fst x" "snd x" "fst y" "snd y"] by simp
qed

lemmas shared_run_store = shared_store.run_simulates

section \<open>The operations that leave the clients alone\<close>

lemma client_peers_same: "clients s' = clients s \<Longrightarrow> client_peers s' = client_peers s"
  by (simp add: client_peers_def)

lemma client_peers_last_round: "client_peers (UpdateClientLastRound t m c rd s) = client_peers s"
proof -
  have "map (\<lambda>r. (client_row_key r, cl_peer_identity r))
      (upd_first P (\<lambda>c. c\<lparr>cl_last_active_round := max (cl_last_active_round c) rd\<rparr>) rs) =
    map (\<lambda>r. (client_row_key r, cl_peer_identity r)) rs" for P rs
    by (induction rs) (simp_all add: client_row_key_def)
  then show ?thesis by (simp add: client_peers_def UpdateClientLastRound_def)
qed

lemma shared_ops:
  "shared_step cfg (r, s) (r, UpdateClientLastRound t m c rd s)"
  "shared_step cfg (r, s) (r, RecordWeightSubmission clk t m c rd s)"
  "shared_step cfg (r, s) (r, snd (RecordAggregatedModel clk t m rd p st kv cc wd s))"
  "shared_step cfg (r, s) (r, snd (RollbackModel clk t m v s))"
  "shared_step cfg (r, s) (r, UpdateActiveKeyVersion clk v s)"
  "shared_step cfg (r, s) (r, RecordAuditEvent clk e s)"
  "shared_step cfg (r, s) (r, snd (UpsertDataset clk d s))"
  "shared_step cfg (r, s) (r, snd (CreateTrainingJob clk j s))"
  "shared_step cfg (r, s) (r, snd (LeaseTrainingAssignment clk t m c v dm dt s))"
  "shared_step cfg (r, s) (r, snd (ValidateTrainingAssignmentSubmission clk t m c ji a rd b s))"
  "shared_step cfg (r, s) (r, snd (AcceptTrainingAssignmentSubmission clk t m c ji a rd b s))"
  "shared_step cfg (r, s) (r, AdvanceTrainingJobRound clk t m rd v s)"
  "shared_step cfg (r, s) (r, snd (UpsertWorker clk w s))"
  "shared_step cfg (r, s) (r, snd (LeaseWorkerTask clk w as job d' s))"
  "shared_step cfg (r, s) (r, snd (UpdateWorkerTaskStatus clk wi ki ts msg p' s))"
  "shared_step cfg (r, s) (r, snd (RecordWorkerHeartbeat clk wi ki msg s))"
  by (rule shared_store, rule store_step.intros, rule client_peers_last_round)
    (rule shared_store, rule store_step.intros, rule client_peers_same, simp add: frame_simps)+

lemma shared_runI: "shared_step cfg x y \<Longrightarrow> (shared_step cfg)\<^sup>*\<^sup>* x y"
  by (rule r_into_rtranclp)

lemmas shared_runs = shared_ops [THEN shared_runI]

section \<open>The calls as runs of shared operations\<close>

abbreviation shared_run :: "'f config \<Rightarrow> 'f server \<Rightarrow> 'f server \<Rightarrow> bool" where
  "shared_run cfg sv sv' \<equiv> (shared_step cfg)\<^sup>*\<^sup>* (sv_registry sv, sv_store sv) (sv_registry sv', sv_store sv')"

lemma shared_two: "shared_step cfg x y \<Longrightarrow> shared_step cfg y z \<Longrightarrow> (shared_step cfg)\<^sup>*\<^sup>* x z"
  by (meson converse_rtranclp_into_rtranclp r_into_rtranclp)

lemma run_register_client: "shared_run cfg sv (snd (RegisterClient clks ctx q sv))"
proof (cases "ValidateFederatedRequestIds (rg_tenant_id q) (rg_model_id q) (rg_client_id q) \<noteq> '''' \<or>
    \<not> IsPeerAuthenticated ctx \<or> NormalizePeerIdentity (GetPeerIdentity ctx) = ''''")
  case True
  then have "snd (RegisterClient clks ctx q sv) = sv" by (auto simp: RegisterClient_def Let_def)
  then show ?thesis by simp
next
  case False
  define info where "info = \<lparr>ci_tenant_id = NormalizeTenant (rg_tenant_id q), ci_model_id = NormalizeModel (rg_model_id q),
    ci_client_id = rg_client_id q, ci_peer_identity = NormalizePeerIdentity (GetPeerIdentity ctx),
    ci_local_dataset_size = max 1 (rg_local_dataset_size q), ci_hardware_info = rg_hardware_info q,
    ci_dataset_fingerprint = rg_dataset_fingerprint q, ci_registered_at = CurrentTimestamp (clks 0 0),
    ci_last_active_round = - 1\<rparr>"
  let ?r = "snd (Register info (sv_registry sv))" and ?s = "RecordClientRegistration (clks 1) (row_of info) (sv_store sv)"
  have one: "shared_step cfg (sv_registry sv, sv_store sv) (?r, ?s)"
    by (rule shared_register) (use False in \<open>simp add: granted_def info_def\<close>)
  have "\<exists>e. sv_registry (snd (RegisterClient clks ctx q sv)) = ?r \<and>
      sv_store (snd (RegisterClient clks ctx q sv)) = RecordAuditEvent (clks 3) e ?s"
    using False by (intro exI conjI) (simp_all add: RegisterClient_def Let_def case_prod_unfold info_def row_of_def)
  then obtain e where eq: "sv_registry (snd (RegisterClient clks ctx q sv)) = ?r"
    "sv_store (snd (RegisterClient clks ctx q sv)) = RecordAuditEvent (clks 3) e ?s" by blast
  show ?thesis unfolding eq by (rule shared_two [OF one shared_ops(6)])
qed

lemma run_training_config: "shared_run cfg sv (snd (GetTrainingConfig A cfg clk ctx q sv))"
proof -
  let ?t = "NormalizeTenant (cq_tenant_id q)" and ?m = "NormalizeModel (cq_model_id q)"
  let ?s = "snd (LeaseTrainingAssignment clk ?t ?m (cq_client_id q)
      (tc_active_model_version (adhoc_config A cfg ?t ?m sv)) (cfg_required_clients cfg)
      (cfg_default_assignment_ttl_seconds cfg) (sv_store sv))"
  have "snd (GetTrainingConfig A cfg clk ctx q sv) = sv \<or> snd (GetTrainingConfig A cfg clk ctx q sv) = sv\<lparr>sv_store := ?s\<rparr>"
    by (auto simp: GetTrainingConfig_def Let_def split: prod.split option.split)
  then show ?thesis
  proof
    assume "snd (GetTrainingConfig A cfg clk ctx q sv) = sv\<lparr>sv_store := ?s\<rparr>"
    then show ?thesis by simp (rule shared_runs)
  qed simp
qed

lemma run_validated: "shared_run cfg sv (snd (validated clks q sv))"
  by (auto simp: validated_def Let_def case_prod_unfold intro!: shared_runs split: option.split)

lemma run_add_weight:
  "(shared_step cfg)\<^sup>*\<^sup>* (r, s) (r, snd (snd (AddWeightAndCheckAggregate A E P clk q (b, s))))"
proof (cases rule: AddWeight_cases [of q b A E P clk s])
  case (aggregated v s')
  then have "s' = snd (RecordAggregatedModel clk (rq_tenant_id q) (rq_model_id q) (rq_round q)
      (checkpoint_path (ap_checkpoint_dir P) (rq_tenant_id q) (rq_model_id q) (rq_round q)) (ap_strategy P)
      (env_key_version E) (int (length (round_clients A E P q b)))
      (int (length (fst (round_result A E P q b)))) s)" by simp
  with aggregated(6) show ?thesis by (simp only: snd_conv) (rule shared_runs)
qed simp_all

text \<open>What a commit leaves in the store: the buffer's outcome, then possibly the lease and the round.\<close>

lemma Commit_store:
  "sv_registry (snd (CommitSubmission A C N cfg clks q job ws sv)) =
     UpdateLastActiveRound (NormalizeTenant (wp_tenant_id q)) (NormalizeModel (wp_model_id q)) (wp_client_id q)
       (wp_round_index q) (sv_registry sv) \<and>
   (let s3 = snd (snd (commit_outcome A C N cfg clks q job ws sv));
        s4 = snd (AcceptTrainingAssignmentSubmission (clks 3) (wp_tenant_id q) (wp_model_id q) (wp_client_id q)
               (wp_job_id q) (wp_assignment_id q) (wp_round_index q) (wp_base_model_version q) s3)
    in sv_store (snd (CommitSubmission A C N cfg clks q job ws sv)) \<in> {s3, s4} \<or>
       (\<exists>v. sv_store (snd (CommitSubmission A C N cfg clks q job ws sv)) =
          AdvanceTrainingJobRound (clks 4) (wp_tenant_id q) (wp_model_id q) (wp_round_index q) v s4))"
proof -
  obtain out b s3 where out: "commit_outcome A C N cfg clks q job ws sv = (out, (b, s3))" by (metis prod.collapse)
  obtain a s4 where a: "AcceptTrainingAssignmentSubmission (clks 3) (wp_tenant_id q) (wp_model_id q)
      (wp_client_id q) (wp_job_id q) (wp_assignment_id q) (wp_round_index q) (wp_base_model_version q) s3 = (a, s4)"
    by fastforce
  note o = out [unfolded commit_outcome_def Let_def]
  show ?thesis
    unfolding CommitSubmission_def Let_def Accept_normalize Advance_normalize o out
    by (cases out; cases job; cases a) (auto simp: a split: prod.splits if_splits)
qed

lemma run_commit: "shared_run cfg sv (snd (CommitSubmission A C N cfg clks q job ws sv))"
proof -
  let ?t = "NormalizeTenant (wp_tenant_id q)" and ?m = "NormalizeModel (wp_model_id q)"
  define r where "r = UpdateLastActiveRound ?t ?m (wp_client_id q) (wp_round_index q) (sv_registry sv)"
  define s3 where "s3 = snd (snd (commit_outcome A C N cfg clks q job ws sv))"
  define s4 where "s4 = snd (AcceptTrainingAssignmentSubmission (clks 3) (wp_tenant_id q) (wp_model_id q) (wp_client_id q)
    (wp_job_id q) (wp_assignment_id q) (wp_round_index q) (wp_base_model_version q) s3)"
  let ?sv' = "snd (CommitSubmission A C N cfg clks q job ws sv)"
  have to2: "(shared_step cfg)\<^sup>*\<^sup>* (sv_registry sv, sv_store sv)
      (r, RecordWeightSubmission (clks 1) ?t ?m (wp_client_id q) (wp_round_index q)
        (UpdateClientLastRound ?t ?m (wp_client_id q) (wp_round_index q) (sv_store sv)))"
    unfolding r_def by (rule rtranclp.rtrancl_into_rtrancl [OF shared_two [OF shared_round shared_ops(1)] shared_ops(2)])
  have to3: "(shared_step cfg)\<^sup>*\<^sup>* (sv_registry sv, sv_store sv) (r, s3)"
    unfolding s3_def commit_outcome_def Let_def by (rule rtranclp_trans [OF to2 run_add_weight])
  have to4: "shared_step cfg (r, s3) (r, s4)" unfolding s4_def by (rule shared_ops)
  have reg: "sv_registry ?sv' = r" using Commit_store unfolding r_def by blast
  from Commit_store [of A C N cfg clks q job ws sv, unfolded Let_def, folded s3_def, folded s4_def]
  consider "sv_store ?sv' = s3" | "sv_store ?sv' = s4"
    | v where "sv_store ?sv' = AdvanceTrainingJobRound (clks 4) (wp_tenant_id q) (wp_model_id q) (wp_round_index q) v s4"
    by auto
  then show ?thesis
  proof cases
    case 1
    with to3 reg show ?thesis by simp
  next
    case 2
    with to3 to4 reg show ?thesis by simp
  next
    case 3
    with rtranclp_trans [OF to3 shared_two [OF to4 shared_ops(12)]] reg show ?thesis by simp
  qed
qed

text \<open>A submission ends at a guard, after the check of the lease, or with the commit.\<close>

lemma SubmitWeights_result:
  obtains "snd (SubmitWeights A C N cfg clks ctx q sv) = sv"
  | "snd (SubmitWeights A C N cfg clks ctx q sv) = snd (validated clks q sv)"
  | job ws where "snd (SubmitWeights A C N cfg clks ctx q sv) =
       snd (CommitSubmission A C N cfg clks q job ws (snd (validated clks q sv)))"
proof -
  have "snd (SubmitWeights A C N cfg clks ctx q sv) \<in> {sv, snd (validated clks q sv)} \<or>
    (\<exists>job ws. snd (SubmitWeights A C N cfg clks ctx q sv) =
       snd (CommitSubmission A C N cfg clks q job ws (snd (validated clks q sv))))"
    unfolding SubmitWeights_unfold
    by (auto simp: Let_def split: option.split sum.split prod.split)
  with that show ?thesis by auto
qed

lemma run_submit_weights: "shared_run cfg sv (snd (SubmitWeights A C N cfg clks ctx q sv))"
  by (rule SubmitWeights_result [of A C N cfg clks ctx q sv])
    (simp_all only: run_validated rtranclp.rtrancl_refl rtranclp_trans [OF run_validated run_commit])

lemma run_ensure_trainer:
  assumes "granted cfg p"
  shows "(shared_step cfg)\<^sup>*\<^sup>* rs (EnsureTrainerClient clks p q rs)"
proof -
  obtain r s where rs: "rs = (r, s)" by fastforce
  define info where "info = trainer_info p (CurrentTimestamp (clks 2 0)) q"
  have row: "trainer_row p (CurrentTimestamp (clks 2 0)) q = row_of info"
    by (simp add: trainer_row_def info_def trainer_info_def row_of_def)
  have key: "ci_tenant_id info = NormalizeTenant (wr_tenant_id q)" "ci_model_id info = NormalizeModel (wr_model_id q)"
    "ci_client_id info = trainer_name q" "ci_peer_identity info = p" by (simp_all add: info_def trainer_info_def)
  show ?thesis
  proof (cases "IsRegistered (ci_tenant_id info) (ci_model_id info) (ci_client_id info) r")
    case False
    then have "EnsureTrainerClient clks p q rs =
        (snd (Register info r), RecordClientRegistration (clks 3) (row_of info) s)"
      by (simp add: EnsureTrainerClient_def Let_def rs key info_def [symmetric] row)
    then show ?thesis
      using shared_register [of cfg info r s "clks 3"] assms by (auto simp: rs key)
  next
    case True
    obtain bound r' where b: "BindPeerIdentityIfMissing (ci_tenant_id info) (ci_model_id info) (ci_client_id info)
      (ci_peer_identity info) r = (bound, r')" by fastforce
    with True have "EnsureTrainerClient clks p q rs =
        (r', if bound then RecordClientRegistration (clks 3) (row_of info) s else s)"
      by (simp add: EnsureTrainerClient_def Let_def rs key info_def [symmetric] row)
    then show ?thesis
      using shared_bind [OF _ True b, of cfg s "clks 3"] assms by (auto simp: rs key)
  qed
qed

lemma run_register_worker: "shared_run cfg sv (snd (RegisterWorker cfg clks ctx q sv))"
proof (cases "IsAuthorizedWorker cfg ctx \<and> CheckWorkerIds q = ''''")
  case False
  then have "snd (RegisterWorker cfg clks ctx q sv) = sv" by (auto simp: RegisterWorker_def)
  then show ?thesis by simp
next
  case True
  let ?p = "NormalizePeerIdentity (GetPeerIdentity ctx)"
  let ?s1 = "snd (UpsertWorker (clks 1) (worker_row (CurrentTimestamp (clks 0 0)) q) (sv_store sv))"
  have eq: "(sv_registry (snd (RegisterWorker cfg clks ctx q sv)), sv_store (snd (RegisterWorker cfg clks ctx q sv))) =
      EnsureTrainerClient clks ?p q (sv_registry sv, ?s1)"
    using True by (simp add: RegisterWorker_def Let_def case_prod_unfold)
  have "shared_step cfg (sv_registry sv, sv_store sv) (sv_registry sv, ?s1)" by (rule shared_ops)
  moreover have "granted cfg ?p" using True by (auto simp: granted_def)
  ultimately show ?thesis
    unfolding eq by (blast intro: converse_rtranclp_into_rtranclp run_ensure_trainer)
qed

text \<open>A request for a task ends at a guard, after the lease was sought, or with the task's record.\<close>

lemma LeaseTrainingTask_result:
  obtains "snd (LeaseTrainingTask A cfg clks ctx q sv) = sv"
  | t m c v where "snd (LeaseTrainingTask A cfg clks ctx q sv) = sv\<lparr>sv_store :=
      snd (LeaseTrainingAssignment (clks 0) t m c v (cfg_required_clients cfg) (cfg_default_assignment_ttl_seconds cfg)
        (sv_store sv))\<rparr>"
  | t m c v w a j d where "snd (LeaseTrainingTask A cfg clks ctx q sv) = sv\<lparr>sv_store :=
      snd (LeaseWorkerTask (clks 1) w a j d (snd (LeaseTrainingAssignment (clks 0) t m c v (cfg_required_clients cfg)
        (cfg_default_assignment_ttl_seconds cfg) (sv_store sv))))\<rparr>"
proof (cases "IsAuthorizedWorker cfg ctx \<and> ValidateIdentifier (wl_worker_id q) ''worker_id'' False default_max_length = '''' \<and>
    GetWorker (wl_worker_id q) (sv_store sv) \<noteq> None")
  case False
  then have "snd (LeaseTrainingTask A cfg clks ctx q sv) = sv" by (auto simp: LeaseTrainingTask_def Let_def)
  then show ?thesis by (rule that(1))
next
  case True
  then obtain worker where w: "GetWorker (wl_worker_id q) (sv_store sv) = Some worker" by blast
  let ?t = "NormalizeTenant (if wl_tenant_id q = '''' then wk_tenant_id worker else wl_tenant_id q)"
  let ?m = "NormalizeModel (if wl_model_id q = '''' then wk_model_id worker else wl_model_id q)"
  let ?L = "LeaseTrainingAssignment (clks 0) ?t ?m (wk_trainer_client_id worker)
      (GetActiveModelVersion ?t ?m (sv_store sv)) (cfg_required_clients cfg)
      (cfg_default_assignment_ttl_seconds cfg) (sv_store sv)"
  obtain leased s where l: "?L = (leased, s)" by fastforce
  then have s: "s = snd ?L" by simp
  show ?thesis
  proof (cases leased)
    case None
    with True w l have "snd (LeaseTrainingTask A cfg clks ctx q sv) = sv\<lparr>sv_store := s\<rparr>"
      by (simp add: LeaseTrainingTask_def Let_def)
    then show ?thesis unfolding s by (rule that(2))
  next
    case (Some triple)
    obtain assignment job found where t: "triple = (assignment, job, found)" by (cases triple) auto
    let ?d = "case found of None \<Rightarrow> default_dataset | Some d \<Rightarrow> d"
    have "snd (LeaseTrainingTask A cfg clks ctx q sv) =
        sv\<lparr>sv_store := snd (LeaseWorkerTask (clks 1) worker assignment job ?d s)\<rparr>"
      using True Some l w by (simp add: LeaseTrainingTask_def Let_def t case_prod_unfold)
    then show ?thesis unfolding s by (rule that(3))
  qed
qed

lemma run_lease_task: "shared_run cfg sv (snd (LeaseTrainingTask A cfg clks ctx q sv))"
  by (rule LeaseTrainingTask_result [of A cfg clks ctx q sv])
    (simp_all add: shared_runs shared_two [OF shared_ops(9) shared_ops(14)])

lemma run_report_status: "shared_run cfg sv (snd (ReportTaskStatus cfg clk ctx q sv))"
proof -
  let ?s = "snd (UpdateWorkerTaskStatus clk (wu_worker_id q) (wu_task_id q) (wu_status q) (wu_detail q)
    (wu_progress_percent q) (sv_store sv))"
  have "snd (ReportTaskStatus cfg clk ctx q sv) \<in> {sv, sv\<lparr>sv_store := ?s\<rparr>}"
    by (auto simp: ReportTaskStatus_def Let_def split: prod.split sum.split)
  then show ?thesis by (auto intro: shared_runs)
qed

lemma run_heartbeat: "shared_run cfg sv (snd (Heartbeat cfg clks ctx q sv))"
proof -
  let ?s = "snd (RecordWorkerHeartbeat (clks 1) (wh_worker_id q) (wh_active_task_id q) (wh_detail q) (sv_store sv))"
  have "snd (Heartbeat cfg clks ctx q sv) \<in> {sv, sv\<lparr>sv_store := ?s\<rparr>}"
    by (auto simp: Heartbeat_def Let_def split: prod.split)
  then show ?thesis by (auto intro: shared_runs)
qed

lemma run_upsert_dataset: "shared_run cfg sv (snd (AdminUpsertDataset cfg clk ctx q sv))"
proof -
  let ?s = "snd (UpsertDataset clk
     \<lparr>ds_tenant_id = ud_tenant_id q, ds_model_id = ud_model_id q, ds_dataset_id = ud_dataset_id q,
      ds_fingerprint = ud_fingerprint q, ds_storage_uri = ud_storage_uri q, ds_format = ud_format q,
      ds_sample_count = ud_sample_count q, ds_shard_count = ud_shard_count q,
      ds_active = ud_active q, ds_created_at = ''''\<rparr> (sv_store sv))"
  have "snd (AdminUpsertDataset cfg clk ctx q sv) \<in> {sv, sv\<lparr>sv_store := ?s\<rparr>}"
    by (auto simp: AdminUpsertDataset_def Let_def split: prod.split)
  then show ?thesis by (auto intro: shared_runs)
qed

lemma run_create_job: "shared_run cfg sv (snd (AdminCreateTrainingJob cfg clk ctx q sv))"
proof -
  let ?s = "snd (CreateTrainingJob clk (job_request_record q) (sv_store sv))"
  have "snd (AdminCreateTrainingJob cfg clk ctx q sv) \<in> {sv, sv\<lparr>sv_store := ?s\<rparr>}"
    by (auto simp: AdminCreateTrainingJob_def Let_def split: prod.split option.split)
  then show ?thesis by (auto intro: shared_runs)
qed

lemma LoadRollback_frame [simp]:
  "sv_store (snd (LoadRollbackCheckpoint C of_bytes files model sv)) = sv_store sv"
  "sv_registry (snd (LoadRollbackCheckpoint C of_bytes files model sv)) = sv_registry sv"
  "sv_crypto (snd (LoadRollbackCheckpoint C of_bytes files model sv)) = sv_crypto sv"
  by (auto simp: LoadRollbackCheckpoint_def Let_def split: option.split sum.split)

lemma run_rollback: "shared_run cfg sv (snd (AdminRollbackModel cfg C of_bytes files clk ctx q sv))"
proof -
  let ?sv' = "snd (AdminRollbackModel cfg C of_bytes files clk ctx q sv)"
  let ?s = "snd (RollbackModel clk (rb_tenant_id q) (rb_model_id q) (rb_target_version q) (sv_store sv))"
  obtain m s where roll: "RollbackModel clk (rb_tenant_id q) (rb_model_id q) (rb_target_version q) (sv_store sv) = (m, s)"
    by fastforce
  have "?sv' = sv \<or> sv_registry ?sv' = sv_registry sv \<and> sv_store ?sv' = ?s"
    unfolding AdminRollbackModel_def Let_def roll
    by (cases m) (auto simp: case_prod_unfold)
  then show ?thesis by (auto intro: shared_runs)
qed

lemma run_rotate_key: "shared_run cfg sv (fst (snd (RotateAtRestKey cfg rand clk ctx (sv, fs))))"
  by (auto simp: RotateAtRestKey_def intro: shared_runs split: prod.split sum.split)

theorem server_step_shared:
  "server_step A C cfg sys sys' \<Longrightarrow> (shared_step cfg)\<^sup>*\<^sup>* (shared_of sys) (shared_of sys')"
proof (induction rule: server_step.induct)
  case (rpc_rotate_key sv fs rand clk ctx)
  show ?case using run_rotate_key by (simp add: shared_of_def)
qed (simp_all only: shared_of_simps run_register_client run_training_config run_submit_weights run_register_worker
  run_lease_task run_report_status run_heartbeat run_upsert_dataset run_create_job run_rollback)

interpretation server: simulation "server_step A C cfg" "shared_step cfg" shared_of
  by unfold_locales (rule server_step_shared)

lemmas server_run_shared = server.run_simulates

end
