(* ===== verification/Server_Properties.thy ===== *)
theory Server_Properties
  imports Server_System
begin

text \<open>
  Supporting lemmas on the server as a whole: the registry mirrors the rows of the store, a lease
  is consumed once across calls, aggregated rounds stay closed, the key version of the store is
  that of the engine.
\<close>

section \<open>The registry mirrors the store\<close>

definition mirrors :: "registry \<times> state_store \<Rightarrow> bool" where
  "mirrors rs \<longleftrightarrow> (\<forall>k. registry_peer (fst rs) k = map_of (client_peers (snd rs)) k) \<and>
     (\<forall>r\<in>set (clients (snd rs)). cl_peer_identity r \<noteq> '''')"

text \<open>The identities of the workers' allowlist do not shrink when they are normalised twice.\<close>

definition plain_workers :: "'f config \<Rightarrow> bool" where
  "plain_workers cfg \<longleftrightarrow> (\<forall>a\<in>set (cfg_worker_peer_identities cfg).
     NormalizePeerIdentity (NormalizePeerIdentity a) = NormalizePeerIdentity a)"

lemma granted_nonempty: "plain_workers cfg \<Longrightarrow> granted cfg p \<Longrightarrow> p \<noteq> ''''"
  by (auto simp: granted_def plain_workers_def IsAuthorizedWorker_def HasAllowedPeerIdentity_def Let_def list_ex_iff
      split: if_splits)

lemma map_of_find: "map_of (map (\<lambda>x. (f x, g x)) xs) k = map_option g (find (\<lambda>x. f x = k) xs)"
  by (induction xs) auto

lemma mirrors_start:
  assumes "\<forall>r\<in>set (clients s). cl_peer_identity r \<noteq> ''''"
  shows "mirrors (registry_of_clients (ListClients '''' '''' s), s)"
proof -
  have "ListClients '''' '''' s = clients s" by (simp add: ListClients_def MatchesFilter_def)
  then show ?thesis using assms by (simp add: mirrors_def registry_of_clients_peer client_peers_def map_of_find)
qed

lemma mirrors_iff:
  assumes "mirrors (r, s)"
  shows "registry_peer r k = registry_peer (registry_of_clients (ListClients '''' '''' s)) k"
proof -
  have "mirrors (registry_of_clients (ListClients '''' '''' s), s)"
    using assms by (intro mirrors_start) (simp add: mirrors_def)
  with assms show ?thesis by (simp add: mirrors_def)
qed

lemma map_upd_first_on: "(\<And>x. x \<in> set xs \<Longrightarrow> P x \<Longrightarrow> g (f x) = g x) \<Longrightarrow> map g (upd_first P f xs) = map g xs"
  by (induction xs) auto

text \<open>Recording a registration adds at most one row, at the end, and only for a new key.\<close>

lemma record_peers:
  assumes "\<forall>r\<in>set (clients s). cl_peer_identity r \<noteq> ''''"
  shows "client_peers (RecordClientRegistration clk row s) =
      client_peers s @ [(client_row_key row, cl_peer_identity row)] \<or>
    client_peers (RecordClientRegistration clk row s) = client_peers s \<and>
      map_of (client_peers s) (client_row_key row) \<noteq> None"
proof -
  let ?same = "client_in (NormalizeTenant (cl_tenant_id row)) (NormalizeModel (cl_model_id row)) (cl_client_id row)"
  have key: "client_row_key r = client_row_key row" if "?same r" for r
    using that by (simp add: client_in_def client_row_key_def ClientKey_def)
  show ?thesis
  proof (cases "find ?same (clients s)")
    case None
    then have "client_peers (RecordClientRegistration clk row s) =
        client_peers s @ [(client_row_key row, cl_peer_identity row)]"
      by (simp add: client_peers_def RecordClientRegistration_def Let_def client_row_key_def ClientKey_def)
    then show ?thesis ..
  next
    case (Some it)
    have same: "client_peers (RecordClientRegistration clk row s) = client_peers s"
      unfolding client_peers_def using Some assms
      by (simp add: RecordClientRegistration_def Let_def)
        (rule map_upd_first_on, simp add: client_row_key_def)
    from Some have "it \<in> set (clients s)" "?same it" by (auto simp: find_Some_iff)
    then have "find (\<lambda>r. client_row_key r = client_row_key row) (clients s) \<noteq> None"
      using key by (auto simp: find_None_iff)
    then have "map_of (client_peers s) (client_row_key row) \<noteq> None"
      by (simp add: client_peers_def map_of_find)
    with same show ?thesis by blast
  qed
qed

lemma record_nonempty:
  assumes "\<forall>r\<in>set (clients s). cl_peer_identity r \<noteq> ''''" and "cl_peer_identity row \<noteq> ''''"
  shows "\<forall>r\<in>set (clients (RecordClientRegistration clk row s)). cl_peer_identity r \<noteq> ''''"
proof -
  have "snd ` set (client_peers (RecordClientRegistration clk row s)) \<subseteq> insert (cl_peer_identity row) (snd ` set (client_peers s))"
    using record_peers [OF assms(1), of clk row] by auto
  with assms show ?thesis by (force simp: client_peers_def image_image)
qed

lemma mirrors_record:
  assumes "mirrors (r, s)" and "ci_peer_identity info \<noteq> ''''"
  shows "mirrors (snd (Register info r), RecordClientRegistration clk (row_of info) s)"
proof -
  have ne: "\<forall>r\<in>set (clients s). cl_peer_identity r \<noteq> ''''" using assms(1) by (simp add: mirrors_def)
  have k: "client_row_key (row_of info) = ClientKey (ci_tenant_id info) (ci_model_id info) (ci_client_id info)"
    "cl_peer_identity (row_of info) = ci_peer_identity info"
    by (simp_all add: client_row_key_def row_of_def)
  have "registry_peer (snd (Register info r)) x = map_of (client_peers (RecordClientRegistration clk (row_of info) s)) x" for x
    using record_peers [OF ne, of clk "row_of info"] assms(1)
    by (auto simp: mirrors_def registry_peer_Register k map_add_def split: option.split)
  with record_nonempty [OF ne, of "row_of info" clk] assms(2) k(2) show ?thesis by (simp add: mirrors_def)
qed

lemma mirrors_known:
  assumes "mirrors (r, s)" and "ci_peer_identity info \<noteq> ''''"
    and "IsRegistered (ci_tenant_id info) (ci_model_id info) (ci_client_id info) r"
  shows "mirrors (r, RecordClientRegistration clk (row_of info) s)"
proof -
  have "snd (Register info r) = r" using assms(3) by (auto simp: Register_def IsRegistered_def Let_def)
  with mirrors_record [OF assms(1,2), of clk] show ?thesis by simp
qed

lemma shared_step_mirrors:
  assumes "shared_step cfg x y" and "plain_workers cfg" and "mirrors x"
  shows "mirrors y"
  using assms
proof (induction rule: shared_step.induct)
  case (shared_register info r s clk)
  then show ?case using granted_nonempty by (blast intro: mirrors_record)
next
  case (shared_bind info r bound r' s clk)
  then have ne: "ci_peer_identity info \<noteq> ''''" using granted_nonempty by blast
  let ?k = "ClientKey (ci_tenant_id info) (ci_model_id info) (ci_client_id info)"
  from shared_bind(2) obtain it where it: "Mapping.lookup r ?k = Some it" by (auto simp: IsRegistered_def)
  have "registry_peer r ?k = Some (ci_peer_identity it)" by (simp add: registry_peer_def it)
  then have "map_of (client_peers s) ?k = Some (ci_peer_identity it)"
    using shared_bind(5) by (simp add: mirrors_def del: map_of_eq_Some_iff)
  then have "ci_peer_identity it \<noteq> ''''"
    using shared_bind(5) by (fastforce simp: mirrors_def client_peers_def dest!: map_of_SomeD)
  then have "r' = r" using shared_bind(3) it by (auto simp: BindPeerIdentityIfMissing_def Let_def)
  then show ?case using mirrors_known [OF shared_bind(5) ne shared_bind(2)] shared_bind(5) by simp
next
  case (shared_round r s t m c rd)
  have "registry_peer (UpdateLastActiveRound t m c rd r) k = registry_peer r k" for k
    using registry_call_peer [of "CallUpdateRound t m c rd" r k] by simp
  with shared_round show ?case by (simp add: mirrors_def)
next
  case (shared_store s s' r)
  then have "map snd (client_peers s') = map snd (client_peers s)" by simp
  then have "map cl_peer_identity (clients s') = map cl_peer_identity (clients s)"
    by (simp add: client_peers_def comp_def)
  then have "cl_peer_identity ` set (clients s') = cl_peer_identity ` set (clients s)"
    by (metis list.set_map)
  with shared_store show ?case by (simp add: mirrors_def) (metis (no_types, lifting) image_iff)
qed

lemma server_run_mirrors:
  "(server_step A C cfg)\<^sup>*\<^sup>* x y \<Longrightarrow> plain_workers cfg \<Longrightarrow> mirrors (shared_of x) \<Longrightarrow> mirrors (shared_of y)"
  by (rule server.run_keeps [of cfg mirrors A C]) (auto intro: shared_step_mirrors)

section \<open>One submission per lease, across calls\<close>

lemma validated_store: "store_step\<^sup>*\<^sup>* (sv_store sv) (sv_store (snd (validated clks q sv)))"
  using shared_run_store [OF run_validated [where cfg = "undefined"]] by simp

lemma commit_outcome_store:
  "store_step\<^sup>*\<^sup>* (sv_store sv) (snd (snd (commit_outcome A C N cfg clks q job ws sv)))"
proof -
  let ?t = "NormalizeTenant (wp_tenant_id q)" and ?m = "NormalizeModel (wp_model_id q)"
  let ?s = "RecordWeightSubmission (clks 1) ?t ?m (wp_client_id q) (wp_round_index q)
    (UpdateClientLastRound ?t ?m (wp_client_id q) (wp_round_index q) (sv_store sv))"
  have "store_step\<^sup>*\<^sup>* (sv_store sv) ?s"
    using step_last_round [of "sv_store sv" ?t ?m "wp_client_id q" "wp_round_index q"]
      step_submission [of _ "clks 1" ?t ?m "wp_client_id q" "wp_round_index q"]
    by (meson converse_rtranclp_into_rtranclp r_into_rtranclp)
  moreover have "store_step\<^sup>*\<^sup>* ?s (snd (snd (commit_outcome A C N cfg clks q job ws sv)))"
    using shared_run_store [OF run_add_weight [where cfg = cfg]] unfolding commit_outcome_def Let_def snd_conv by blast
  ultimately show ?thesis by (rule rtranclp_trans)
qed

text \<open>The acceptance inside an accepted submission, and what surrounds it.\<close>

lemma SubmitWeights_accept_inside:
  assumes "SubmitWeights A C N cfg clks ctx q sv = (Inr r, sv')" and "ar_accepted r"
    and "GetActiveTrainingJob (wp_tenant_id q) (wp_model_id q) (sv_store sv) \<noteq> None"
  obtains s3 s4 where "store_step\<^sup>*\<^sup>* (sv_store sv) s3"
    "GetActiveTrainingJob (wp_tenant_id q) (wp_model_id q) s3 \<noteq> None"
    "AcceptTrainingAssignmentSubmission (clks 3) (wp_tenant_id q) (wp_model_id q) (wp_client_id q)
       (wp_job_id q) (wp_assignment_id q) (wp_round_index q) (wp_base_model_version q) s3 = (Inr (), s4)"
    "store_step\<^sup>*\<^sup>* s4 (sv_store sv')"
proof -
  obtain job where job: "GetActiveTrainingJob (wp_tenant_id q) (wp_model_id q) (sv_store sv) = Some job" using assms(3) by blast
  obtain plaintext sv1 where val: "validated clks q sv = (Inr (), sv1)"
    and commit: "CommitSubmission A C N cfg clks q (Some job) (floats_of (se_of_bytes N) plaintext) sv1 = (Inr r, sv')"
    using SubmitWeights_accepted [of A C N cfg clks ctx q sv r] assms(1,2) job by (metis fst_conv)
  from CommitSubmission_accepted [OF commit assms(2)] obtain rs w b s3 s4 where
    out: "commit_outcome A C N cfg clks q (Some job) (floats_of (se_of_bytes N) plaintext) sv1 = (Inr (rs, w), (b, s3))"
    and a: "AcceptTrainingAssignmentSubmission (clks 3) (wp_tenant_id q) (wp_model_id q) (wp_client_id q)
       (wp_job_id q) (wp_assignment_id q) (wp_round_index q) (wp_base_model_version q) s3 = (Inr (), s4)"
    and s': "sv_store sv' = (if ag_aggregated rs then AdvanceTrainingJobRound (clks 4) (wp_tenant_id q)
       (wp_model_id q) (wp_round_index q) (ag_model_version rs) s4 else s4)" by metis
  have "training_jobs s3 = training_jobs (sv_store sv)"
    using commit_outcome_jobs [of A C N cfg clks q "Some job" "floats_of (se_of_bytes N) plaintext" sv1]
      validated_frame(4) [of clks q sv] by (simp add: out val)
  then have act: "GetActiveTrainingJob (wp_tenant_id q) (wp_model_id q) s3 \<noteq> None"
    using job by (simp add: GetActiveTrainingJob_def)
  have "store_step\<^sup>*\<^sup>* (sv_store sv1) s3"
    using commit_outcome_store [of sv1 A C N cfg clks q "Some job" "floats_of (se_of_bytes N) plaintext"] by (simp add: out)
  with validated_store [of sv clks q] have "store_step\<^sup>*\<^sup>* (sv_store sv) s3" by (simp add: val)
  moreover have "store_step\<^sup>*\<^sup>* s4 (sv_store sv')"
    unfolding s' by (auto intro: r_into_rtranclp step_advance)
  ultimately show ?thesis using that act a by blast
qed

lemma server_run_store:
  "(server_step A C cfg)\<^sup>*\<^sup>* (sv, fs) (sv', fs') \<Longrightarrow> store_step\<^sup>*\<^sup>* (sv_store sv) (sv_store sv')"
  using shared_run_store [OF server_run_shared] by fastforce

lemma server_accept_once:
  assumes first: "SubmitWeights A C N cfg clks ctx q sv = (Inr r, sv1)" "ar_accepted r"
    and job: "GetActiveTrainingJob (wp_tenant_id q) (wp_model_id q) (sv_store sv) \<noteq> None"
    and run: "(server_step A C cfg)\<^sup>*\<^sup>* (sv1, fs) (sv2, fs2)"
    and second: "SubmitWeights A C N' cfg clks' ctx' q' sv2 = (Inr r', sv3)"
    and job': "GetActiveTrainingJob (wp_tenant_id q') (wp_model_id q') (sv_store sv2) \<noteq> None"
    and same: "wp_assignment_id q' = wp_assignment_id q"
  shows "\<not> ar_accepted r'"
proof
  assume acc: "ar_accepted r'"
  obtain s3 s4 where a: "GetActiveTrainingJob (wp_tenant_id q) (wp_model_id q) s3 \<noteq> None"
    "AcceptTrainingAssignmentSubmission (clks 3) (wp_tenant_id q) (wp_model_id q) (wp_client_id q)
       (wp_job_id q) (wp_assignment_id q) (wp_round_index q) (wp_base_model_version q) s3 = (Inr (), s4)"
    "store_step\<^sup>*\<^sup>* s4 (sv_store sv1)"
    by (rule SubmitWeights_accept_inside [OF first job])
  obtain s3' s4' where b: "store_step\<^sup>*\<^sup>* (sv_store sv2) s3'"
    "GetActiveTrainingJob (wp_tenant_id q') (wp_model_id q') s3' \<noteq> None"
    "AcceptTrainingAssignmentSubmission (clks' 3) (wp_tenant_id q') (wp_model_id q') (wp_client_id q')
       (wp_job_id q') (wp_assignment_id q') (wp_round_index q') (wp_base_model_version q') s3' = (Inr (), s4')"
    by (rule SubmitWeights_accept_inside [OF second acc job'])
  have "store_step\<^sup>*\<^sup>* s4 s3'"
    using a(3) server_run_store [OF run] b(1) by (blast intro: rtranclp_trans)
  from accept_once [OF a(2,1) this b(2)] b(3) show False by (metis fst_conv same sum.distinct(1))
qed

section \<open>Aggregated rounds stay closed\<close>

lemma commit_frame [simp]:
  "sv_buffer (snd (CommitSubmission A C N cfg clks q job ws sv)) = fst (snd (commit_outcome A C N cfg clks q job ws sv))"
  "sv_crypto (snd (CommitSubmission A C N cfg clks q job ws sv)) = sv_crypto sv"
proof -
  obtain out b s3 where out: "commit_outcome A C N cfg clks q job ws sv = (out, (b, s3))" by (metis prod.collapse)
  obtain a s4 where a: "AcceptTrainingAssignmentSubmission (clks 3) (wp_tenant_id q) (wp_model_id q)
      (wp_client_id q) (wp_job_id q) (wp_assignment_id q) (wp_round_index q) (wp_base_model_version q) s3 = (a, s4)"
    by fastforce
  note o = out [unfolded commit_outcome_def Let_def]
  show "sv_buffer (snd (CommitSubmission A C N cfg clks q job ws sv)) = fst (snd (commit_outcome A C N cfg clks q job ws sv))"
    "sv_crypto (snd (CommitSubmission A C N cfg clks q job ws sv)) = sv_crypto sv"
    unfolding CommitSubmission_def Let_def Accept_normalize Advance_normalize o out
    by (cases out; cases job; cases a; auto simp: a split: prod.splits if_splits)+
qed

lemma submit_rounds: "buffer_rounds (sv_buffer sv) \<subseteq> buffer_rounds (sv_buffer (snd (SubmitWeights A C N cfg clks ctx q sv)))"
proof -
  have add: "buffer_rounds b \<subseteq> buffer_rounds (fst (snd (AddWeightAndCheckAggregate A E P clk rq (b, s))))" for E P clk rq b s
    using buffer.settled_mono [of "(b, s)" A "AddCall E P clk rq"] by simp
  have commit: "buffer_rounds (sv_buffer sv') \<subseteq> buffer_rounds (sv_buffer (snd (CommitSubmission A C N cfg clks q job ws sv')))"
    for job ws and sv' :: "'a server"
    unfolding commit_frame(1) commit_outcome_def Let_def by (rule add)
  show ?thesis
  proof (rule SubmitWeights_result [of A C N cfg clks ctx q sv])
    fix job ws
    assume "snd (SubmitWeights A C N cfg clks ctx q sv) =
      snd (CommitSubmission A C N cfg clks q job ws (snd (validated clks q sv)))"
    then show ?thesis using commit [of "snd (validated clks q sv)" job ws] by simp
  qed simp_all
qed

lemma server_step_rounds:
  "server_step A C cfg sys sys' \<Longrightarrow> buffer_rounds (sv_buffer (fst sys)) \<subseteq> buffer_rounds (sv_buffer (fst sys'))"
proof (induction rule: server_step.induct)
  case (rpc_submit_weights N clks ctx wq sv response fs)
  then show ?case using submit_rounds [of sv A C N cfg clks ctx wq] by simp
next
  case (rpc_rollback sv fs of_bytes files clk ctx bq)
  then show ?case
    by (auto simp: AdminRollbackModel_def LoadRollbackCheckpoint_def RestoreLatestGlobalModel_def Let_def
        split: prod.split option.split sum.split)
qed (auto simp: RegisterClient_def GetTrainingConfig_def RegisterWorker_def LeaseTrainingTask_def ReportTaskStatus_def
    Heartbeat_def AdminUpsertDataset_def AdminCreateTrainingJob_def RotateAtRestKey_def Let_def
    split: prod.split option.split sum.split)

lemma server_run_rounds:
  "(server_step A C cfg)\<^sup>*\<^sup>* sys sys' \<Longrightarrow> buffer_rounds (sv_buffer (fst sys)) \<subseteq> buffer_rounds (sv_buffer (fst sys'))"
  by (induction rule: rtranclp_induct) (auto dest: server_step_rounds)

lemma submit_completed_round:
  assumes "IsRoundCompleted (wp_tenant_id q) (wp_model_id q) (wp_round_index q) (sv_buffer sv)"
  shows "\<exists>r. fst (SubmitWeights A C N cfg clks ctx q sv) = Inr r \<and> \<not> ar_accepted r"
  using assms unfolding SubmitWeights_unfold
  by (auto simp: Let_def split: option.split sum.split prod.split)

section \<open>The key version of the store\<close>

lemma key_version_ops [simp]:
  "active_key_version (RecordClientRegistration clk row s) = active_key_version s"
  "active_key_version (UpdateClientLastRound t m c rd s) = active_key_version s"
  "active_key_version (RecordWeightSubmission clk t m c rd s) = active_key_version s"
  "active_key_version (snd (RecordAggregatedModel clk t m rd p st kv cc wd s)) = active_key_version s"
  "active_key_version (snd (RollbackModel clk t m v s)) = active_key_version s"
  "active_key_version (RecordAuditEvent clk e s) = active_key_version s"
  "active_key_version (snd (UpsertDataset clk d s)) = active_key_version s"
  "active_key_version (snd (CreateTrainingJob clk j s)) = active_key_version s"
  "active_key_version (snd (LeaseTrainingAssignment clk t m c v dm dt s)) = active_key_version s"
  "active_key_version (snd (ValidateTrainingAssignmentSubmission clk t m c ji a rd b s)) = active_key_version s"
  "active_key_version (snd (AcceptTrainingAssignmentSubmission clk t m c ji a rd b s)) = active_key_version s"
  "active_key_version (AdvanceTrainingJobRound clk t m rd v s) = active_key_version s"
  "active_key_version (snd (UpsertWorker clk w s)) = active_key_version s"
  "active_key_version (snd (LeaseWorkerTask clk w as job d' s)) = active_key_version s"
  "active_key_version (snd (UpdateWorkerTaskStatus clk wi ki ts msg p' s)) = active_key_version s"
  "active_key_version (snd (RecordWorkerHeartbeat clk wi ki msg s)) = active_key_version s"
  by (simp_all add: RecordClientRegistration_def UpdateClientLastRound_def RecordWeightSubmission_def RecordAggregatedModel_def
    RollbackModel_def RecordAuditEvent_def UpsertDataset_def CreateTrainingJob_def 
    ValidateTrainingAssignmentSubmission_def AcceptTrainingAssignmentSubmission_def AdvanceTrainingJobRound_def
    UpsertWorker_def LeaseWorkerTask_def UpdateWorkerTaskStatus_def RecordWorkerHeartbeat_def LeaseTrainingAssignment_def Let_def
    split: option.split submission_check.split prod.split)

lemma key_version_update [simp]: "active_key_version (UpdateActiveKeyVersion clk v s) = v"
  by (simp add: UpdateActiveKeyVersion_def)

lemma key_version_validated [simp]:
  "active_key_version (sv_store (snd (validated clks q sv))) = active_key_version (sv_store sv)"
  by (simp add: validated_def Let_def case_prod_unfold split: option.split)

lemma key_version_add_weight:
  "active_key_version (snd (snd (AddWeightAndCheckAggregate A E P clk q (b, s)))) = active_key_version s"
proof (cases rule: AddWeight_cases [of q b A E P clk s])
  case (aggregated v s')
  then have "s' = snd (RecordAggregatedModel clk (rq_tenant_id q) (rq_model_id q) (rq_round q)
      (checkpoint_path (ap_checkpoint_dir P) (rq_tenant_id q) (rq_model_id q) (rq_round q)) (ap_strategy P)
      (env_key_version E) (int (length (round_clients A E P q b)))
      (int (length (fst (round_result A E P q b)))) s)" by simp
  with aggregated(6) show ?thesis by simp
qed simp_all

lemma key_version_commit:
  "active_key_version (sv_store (snd (CommitSubmission A C N cfg clks q job ws sv))) = active_key_version (sv_store sv)"
proof -
  have "active_key_version (snd (snd (commit_outcome A C N cfg clks q job ws sv))) = active_key_version (sv_store sv)"
    unfolding commit_outcome_def Let_def by (simp add: key_version_add_weight)
  with Commit_store [of A C N cfg clks q job ws sv] show ?thesis by (auto simp: Let_def)
qed

lemma key_version_submit:
  "active_key_version (sv_store (snd (SubmitWeights A C N cfg clks ctx q sv))) = active_key_version (sv_store sv)"
  by (rule SubmitWeights_result [of A C N cfg clks ctx q sv]) (simp_all add: key_version_commit)

lemma crypto_submit: "sv_crypto (snd (SubmitWeights A C N cfg clks ctx q sv)) = sv_crypto sv"
  by (rule SubmitWeights_result [of A C N cfg clks ctx q sv]) simp_all

lemma key_version_trainer:
  "active_key_version (snd (EnsureTrainerClient clks p q (r, s))) = active_key_version s"
  by (simp add: EnsureTrainerClient_def Let_def case_prod_unfold)

lemma key_version_register_worker:
  "active_key_version (sv_store (snd (RegisterWorker cfg clks ctx q sv))) = active_key_version (sv_store sv)"
  using key_version_trainer
  by (simp add: RegisterWorker_def Let_def case_prod_unfold)

lemma key_version_lease_task:
  "active_key_version (sv_store (snd (LeaseTrainingTask A cfg clks ctx q sv))) = active_key_version (sv_store sv)"
  "sv_crypto (snd (LeaseTrainingTask A cfg clks ctx q sv)) = sv_crypto sv"
  by (rule LeaseTrainingTask_result [of A cfg clks ctx q sv], simp_all)+

definition key_versions_agree :: "'f server \<Rightarrow> bool" where
  "key_versions_agree sv \<longleftrightarrow> active_key_version (sv_store sv) = GetActiveKeyVersion (sv_crypto sv) \<and>
     map_of (ce_key_versions (sv_crypto sv)) (ce_active_key_version (sv_crypto sv)) = Some (ce_key (sv_crypto sv))"

lemma rotate_agrees:
  "key_versions_agree sv \<Longrightarrow> key_versions_agree (fst (snd (RotateAtRestKey cfg rand clk ctx (sv, fs))))"
  by (auto simp: RotateAtRestKey_def RotateMasterKey_def key_versions_agree_def GetActiveKeyVersion_def Let_def
      update_conv' split: option.split)

lemma server_step_key_versions:
  "server_step A C cfg sys sys' \<Longrightarrow> key_versions_agree (fst sys) \<Longrightarrow> key_versions_agree (fst sys')"
proof (induction rule: server_step.induct)
  case (rpc_training_config sv fs clk ctx cq)
  have "active_key_version s' = active_key_version s"
    if "LeaseTrainingAssignment clk t m c v dm dt s = (x, s')" for clk t m c v dm dt s x s'
    using key_version_ops(9) [of clk t m c v dm dt s] that by simp
  with rpc_training_config show ?case
    by (auto simp: GetTrainingConfig_def key_versions_agree_def Let_def split: prod.split option.split)
next
  case (rpc_submit_weights N clks ctx wq sv response fs)
  then show ?case by (simp add: key_versions_agree_def key_version_submit crypto_submit)
next
  case (rpc_register_worker sv fs clks ctx kq)
  have "sv_crypto (snd (RegisterWorker cfg clks ctx kq sv)) = sv_crypto sv"
    by (simp add: RegisterWorker_def Let_def case_prod_unfold)
  with rpc_register_worker show ?case by (simp add: key_versions_agree_def key_version_register_worker)
next
  case (rpc_lease_task sv fs clks ctx lq)
  then show ?case by (simp add: key_versions_agree_def key_version_lease_task)
next
  case (rpc_report_status sv fs clk ctx uq)
  have "active_key_version s' = active_key_version s"
    if "UpdateWorkerTaskStatus clk wi ki ts msg p s = (x, s')" for wi ki ts msg p s x s'
    using key_version_ops(15) [of clk wi ki ts msg p s] that by simp
  with rpc_report_status show ?case
    by (auto simp: ReportTaskStatus_def key_versions_agree_def Let_def split: prod.split sum.split)
next
  case (rpc_rollback sv fs of_bytes files clk ctx bq)
  obtain m s' where roll: "RollbackModel clk (rb_tenant_id bq) (rb_model_id bq) (rb_target_version bq) (sv_store sv) = (m, s')"
    by fastforce
  have "active_key_version s' = active_key_version (sv_store sv)"
    using key_version_ops(5) [of clk "rb_tenant_id bq" "rb_model_id bq" "rb_target_version bq" "sv_store sv"]
    unfolding roll by simp
  with rpc_rollback show ?case
    unfolding AdminRollbackModel_def Let_def roll
    by (cases m) (simp_all add: key_versions_agree_def case_prod_unfold)
next
  case (rpc_rotate_key sv fs rand clk ctx)
  then show ?case using rotate_agrees by simp
qed (simp_all add: RegisterClient_def Heartbeat_def AdminUpsertDataset_def AdminCreateTrainingJob_def
    key_versions_agree_def Let_def case_prod_unfold split: option.split)

lemma server_run_key_versions:
  "(server_step A C cfg)\<^sup>*\<^sup>* sys sys' \<Longrightarrow> key_versions_agree (fst sys) \<Longrightarrow> key_versions_agree (fst sys')"
  by (induction rule: rtranclp_induct) (auto intro: server_step_key_versions)

end
