(* ===== verification/Server_Boot.thy ===== *)
theory Server_Boot
  imports Config_Load Server_Properties Store_Persist
begin

text \<open>
  \<open>server/main.cpp\<close>: how the parts are put together. The configuration is loaded over the defaults
  and validated, the crypto engine loads or makes its keys, the store loads its file and takes over
  the key version of the engine, the federated service fills the registry and restores the models.
  \<open>Inl\<close> is the exception that ends the process.
\<close>

text \<open>The conversion from \<open>int\<close> to \<open>size_t\<close> of the retention.\<close>

definition to_size :: "int \<Rightarrow> nat" where
  "to_size i = unat (word_of_int i :: 64 word)"

definition BootConfig :: "('j, 'x, 'f) config_json \<Rightarrow> 'f arith \<Rightarrow> 'x option \<Rightarrow> string + 'f config" where
  "BootConfig JC A file =
     (case LoadConfig JC A file (default_config A) of
        Inl e \<Rightarrow> Inl e
      | Inr cfg \<Rightarrow> (case Validate A cfg of Some e \<Rightarrow> Inl e | None \<Rightarrow> Inr cfg))"

text \<open>What the process finds when it starts.\<close>

record ('x, 'y) boot_env =
  be_config_file :: "'x option"
  be_state_file :: "'y option"
  be_checkpoints :: "string \<rightharpoonup> byte list"
  be_rand :: "byte list option"
  be_payload_rand :: "byte list option"
  be_kem :: kem_outcome
  be_clk :: clock
  be_clk2 :: clock

definition BootServer ::
  "('j, 'x, 'f) config_json \<Rightarrow> ('k, 'y) json_ops \<Rightarrow> 'f arith \<Rightarrow> crypto_prims \<Rightarrow> (byte list \<Rightarrow> 'f) \<Rightarrow> ('x, 'y) boot_env
     \<Rightarrow> key_files \<Rightarrow> (string + 'f config \<times> 'f server) \<times> key_files" where
  "BootServer JC J A C of_bytes B fs =
     (case BootConfig JC A (be_config_file B) of
        Inl e \<Rightarrow> (Inl e, fs)
      | Inr cfg \<Rightarrow>
          (case CryptoEngine (be_rand B) (be_payload_rand B) (be_kem B) (cfg_key_path cfg) (cfg_payload_key_path cfg) fs of
             (Inl e, fs1) \<Rightarrow> (Inl e, fs1)
           | (Inr e, fs1) \<Rightarrow>
               let s0 = StateStore (cfg_state_store_path cfg) (to_size (cfg_audit_event_retention cfg)) None;
                   s1 = Load J (be_clk B) (be_state_file B) s0;
                   s2 = UpdateActiveKeyVersion (be_clk2 B) (GetActiveKeyVersion e) s1
               in (Inr (cfg, FederatedServiceImpl C of_bytes (be_checkpoints B) e s2), fs1)))"

section \<open>What a boot establishes\<close>

lemma BootServer_Inr:
  assumes "BootServer JC J A C of_bytes B fs = (Inr (cfg, sv), fs')"
  obtains e s1 where "BootConfig JC A (be_config_file B) = Inr cfg"
    "CryptoEngine (be_rand B) (be_payload_rand B) (be_kem B) (cfg_key_path cfg) (cfg_payload_key_path cfg) fs = (Inr e, fs')"
    "s1 = Load J (be_clk B) (be_state_file B)
       (StateStore (cfg_state_store_path cfg) (to_size (cfg_audit_event_retention cfg)) None)"
    "sv = FederatedServiceImpl C of_bytes (be_checkpoints B) e (UpdateActiveKeyVersion (be_clk2 B) (GetActiveKeyVersion e) s1)"
  using assms by (auto simp: BootServer_def Let_def split: sum.splits prod.splits)

lemma boot_config_valid: "BootConfig JC A file = Inr cfg \<Longrightarrow> Validate A cfg = None"
  by (auto simp: BootConfig_def split: sum.splits option.splits)

lemma FederatedServiceImpl_fields [simp]:
  "sv_store (FederatedServiceImpl C of_bytes files e s) = s"
  "sv_crypto (FederatedServiceImpl C of_bytes files e s) = e"
  by (simp_all add: FederatedServiceImpl_def)

text \<open>The keys of a started engine: the active key is the one listed under the active version.\<close>

lemma finish_load_key:
  assumes "finish_load pr e fs = (Inr e', fs')"
  shows "map_of (ce_key_versions e') (ce_active_key_version e') = Some (ce_key e') \<and>
    ce_active_key_version e' = ce_active_key_version e \<and> ce_key_versions e' = ce_key_versions e"
  using assms
  by (auto simp: finish_load_def LoadOrGeneratePayloadSecret_def split: option.splits sum.splits if_splits)

lemma load_engine_key:
  assumes "LoadOrGenerateKey r pr e fs = (Inr e', fs')"
  shows "map_of (ce_key_versions e') (ce_active_key_version e') = Some (ce_key e')"
proof -
  have "\<exists>e1 fs1. finish_load pr e1 fs1 = (Inr e', fs')"
    using assms
    by (auto simp: LoadOrGenerateKey_def Let_def split: option.splits sum.splits key_registry.splits)
  then show ?thesis using finish_load_key by blast
qed

lemma CryptoEngine_key:
  assumes "CryptoEngine r pr kem kp pp fs = (Inr e, fs')"
  shows "map_of (ce_key_versions e) (ce_active_key_version e) = Some (ce_key e)"
proof -
  obtain e0 where "(case LoadOrGenerateKey r pr e0 fs of (Inl err, fs1) \<Rightarrow> (Inl err, fs1)
      | (Inr e1, fs1) \<Rightarrow> (InitializeKem kem e1, fs1)) = (Inr e, fs')"
    using assms unfolding CryptoEngine_def Let_def by blast
  then obtain e1 where l: "LoadOrGenerateKey r pr e0 fs = (Inr e1, fs')" and k: "InitializeKem kem e1 = Inr e"
    by (auto split: prod.splits sum.splits)
  with load_engine_key [OF l] show ?thesis by (auto simp: InitializeKem_def split: kem_outcome.splits)
qed

lemma boot_key_versions:
  "BootServer JC J A C of_bytes B fs = (Inr (cfg, sv), fs') \<Longrightarrow> key_versions_agree sv"
  by (erule BootServer_Inr) (simp add: key_versions_agree_def CryptoEngine_key del: map_of_eq_Some_iff)

end
