(* ===== verification/Server_Guarantees.thy ===== *)
theory Server_Guarantees
  imports Server_Boot Persist_Guarantees
begin

text \<open>
  The guarantees of the server as a whole, over any sequence of calls of its three services: the
  store only moves by its own operations, a restart changes nobody's registration, a lease is
  consumed once, the key versions agree, and strangers change nothing. Three defects show where the
  components disagree with each other.
\<close>

section \<open>Refinement\<close>

lemma reachable_run: "store_step\<^sup>*\<^sup>* s s' \<Longrightarrow> reachable_store s \<Longrightarrow> reachable_store s'"
  by (induction rule: rtranclp_induct) (auto intro: reach_step)

text \<open>C1: Whatever calls of the three services the server handles, its store moves by operations of
  the store only: every run of the server is a run of the store's step relation, so that a
  server that started from a reachable store always has a well-formed one.\<close>

theorem server_refines_store:
  assumes "(server_step A C cfg)\<^sup>*\<^sup>* (sv, fs) (sv', fs')"
  shows "store_step\<^sup>*\<^sup>* (sv_store sv) (sv_store sv') \<and>
    (reachable_store (sv_store sv) \<longrightarrow> store_wf (sv_store sv'))"
  using server_run_store [OF assms] reachable_run reachable_wf by blast

lemma alice_step:
  "\<exists>r sv'. SubmitWeights word_arith null_prims word_env word_config (\<lambda>_ _. 2000) alice alice_payload demo_server =
     (Inr r, sv') \<and> ar_accepted r \<and>
   server_step word_arith null_prims word_config (demo_server, demo_files) (sv', demo_files)"
proof -
  obtain r sv' where s: "SubmitWeights word_arith null_prims word_env word_config (\<lambda>_ _. 2000) alice alice_payload
      demo_server = (Inr r, sv')" "ar_accepted r" using alice_accepted by blast
  have "server_step word_arith null_prims word_config (demo_server, demo_files) (sv', demo_files)"
    using rpc_submit_weights [of word_arith null_prims word_env word_config "\<lambda>_ _. 2000" alice alice_payload
        demo_server r demo_files] by (simp add: s(1))
  with s show ?thesis by blast
qed

theorem server_refines_store_witness:
  "\<exists>sv'. server_step word_arith null_prims word_config (demo_server, demo_files) (sv', demo_files) \<and>
     store_step\<^sup>*\<^sup>* demo_leased (sv_store sv') \<and> store_wf (sv_store sv')"
proof -
  obtain sv' where st: "server_step word_arith null_prims word_config (demo_server, demo_files) (sv', demo_files)"
    using alice_step by blast
  from server_refines_store [OF r_into_rtranclp, OF st] st show ?thesis
    using demo_reachable(3) by (auto simp: demo_server_def)
qed

section \<open>Restart\<close>


lemma word_config_plain: "plain_workers word_config"
  by (simp add: plain_workers_def word_config_def default_config_def NormalizePeerIdentity_def NormalizeIdentity_def
      Trim_def isspace_def Let_def)

definition bob_registration :: ClientRegistration where
  "bob_registration = \<lparr>rg_tenant_id = ''acme'', rg_model_id = ''cnn'', rg_client_id = ''bob'', rg_local_dataset_size = 5,
     rg_hardware_info = ''gpu'', rg_dataset_fingerprint = ''f''\<rparr>"

definition fresh_server :: "(32 word) server" where
  "fresh_server = FederatedServiceImpl null_prims ReadUint32BigEndian Map.empty demo_engine demo_empty"


section \<open>One submission per lease\<close>

text \<open>C3: Once the server has accepted a submission under an assignment id while a job was active, it
  accepts no other submission under that id while the scope has an active job, by whichever client
  and whatever calls of any service come in between.\<close>

theorem server_accepts_lease_once:
  assumes "SubmitWeights A C N cfg clks ctx q sv = (Inr r, sv1)" and "ar_accepted r"
    and "GetActiveTrainingJob (wp_tenant_id q) (wp_model_id q) (sv_store sv) \<noteq> None"
    and "(server_step A C cfg)\<^sup>*\<^sup>* (sv1, fs) (sv2, fs2)"
    and "GetActiveTrainingJob (wp_tenant_id q') (wp_model_id q') (sv_store sv2) \<noteq> None"
    and "wp_assignment_id q' = wp_assignment_id q"
  shows "\<not> (\<exists>r'. fst (SubmitWeights A C N' cfg clks' ctx' q' sv2) = Inr r' \<and> ar_accepted r')"
  using server_accept_once [OF assms(1-4) _ assms(5,6)] by (metis prod.collapse)

lemma alice_leaves_job:
  assumes "SubmitWeights word_arith null_prims word_env word_config (\<lambda>_ _. 2000) alice alice_payload demo_server = (Inr r, sv')"
    and "ar_accepted r"
  shows "GetActiveTrainingJob ''acme'' ''cnn'' (sv_store sv') \<noteq> None"
proof -
  have pay: "wp_tenant_id alice_payload = ''acme''" "wp_model_id alice_payload = ''cnn''" by (simp_all add: alice_payload_def)
  have job: "GetActiveTrainingJob ''acme'' ''cnn'' (sv_store demo_server) = Some (start_job (CurrentTimestamp 1000) demo_saved_job)"
    by (simp add: demo_server_def demo_job_active)
  obtain plaintext sv1 where val: "validated (\<lambda>_ _. 2000) alice_payload demo_server = (Inr (), sv1)"
    and commit: "CommitSubmission word_arith null_prims word_env word_config (\<lambda>_ _. 2000) alice_payload
      (Some (start_job (CurrentTimestamp 1000) demo_saved_job)) (floats_of (se_of_bytes word_env) plaintext) sv1 = (Inr r, sv')"
    using SubmitWeights_accepted [of word_arith null_prims word_env word_config "\<lambda>_ _. 2000" alice alice_payload demo_server r]
      assms job pay by (metis fst_conv)
  from CommitSubmission_accepted [OF commit assms(2)] obtain rs w b s3 s4 where
    out: "commit_outcome word_arith null_prims word_env word_config (\<lambda>_ _. 2000) alice_payload
      (Some (start_job (CurrentTimestamp 1000) demo_saved_job)) (floats_of (se_of_bytes word_env) plaintext) sv1 = (Inr (rs, w), (b, s3))"
    and a: "AcceptTrainingAssignmentSubmission (\<lambda>_. 2000) (wp_tenant_id alice_payload) (wp_model_id alice_payload)
       (wp_client_id alice_payload) (wp_job_id alice_payload) (wp_assignment_id alice_payload)
       (wp_round_index alice_payload) (wp_base_model_version alice_payload) s3 = (Inr (), s4)"
    and s': "sv_store sv' = (if ag_aggregated rs then AdvanceTrainingJobRound (\<lambda>_. 2000) (wp_tenant_id alice_payload)
       (wp_model_id alice_payload) (wp_round_index alice_payload) (ag_model_version rs) s4 else s4)" by metis
  have "training_jobs (sv_store sv1) = training_jobs demo_leased"
    using arg_cong [OF val, of "\<lambda>x. training_jobs (sv_store (snd x))"] by (simp add: demo_server_def del: demo_lease_simps)
  then have "training_jobs s3 = training_jobs demo_leased"
    using commit_outcome_jobs [of word_arith null_prims word_env word_config "\<lambda>_ _. 2000" alice_payload
        "Some (start_job (CurrentTimestamp 1000) demo_saved_job)" "floats_of (se_of_bytes word_env) plaintext" sv1] by (simp add: out del: demo_lease_simps)
  moreover have "training_jobs s4 = training_jobs s3"
    using arg_cong [OF a, of "\<lambda>x. training_jobs (snd x)"] by (simp add: frame_simps)
  ultimately have jobs: "training_jobs s4 = [start_job (CurrentTimestamp 1000) demo_saved_job]"
    by (simp add: demo_lease_call)
  show ?thesis
    unfolding s' pay
    by (simp add: GetActiveTrainingJob_def AdvanceTrainingJobRound_def Let_def jobs rfind_def upd_last_def advance_job_def
        active_job_in_def start_job_def demo_saved_job_def demo_job_def IsActiveJobStatus_def)
qed

theorem server_accepts_lease_once_witness:
  "\<exists>r sv1. SubmitWeights word_arith null_prims word_env word_config (\<lambda>_ _. 2000) alice alice_payload demo_server = (Inr r, sv1) \<and>
     ar_accepted r \<and>
     \<not> (\<exists>r'. fst (SubmitWeights word_arith null_prims word_env word_config (\<lambda>_ _. 3000) alice alice_payload sv1) = Inr r' \<and>
        ar_accepted r')"
proof -
  obtain r sv1 where s: "SubmitWeights word_arith null_prims word_env word_config (\<lambda>_ _. 2000) alice alice_payload
      demo_server = (Inr r, sv1)" "ar_accepted r" using alice_accepted by blast
  have j: "GetActiveTrainingJob (wp_tenant_id alice_payload) (wp_model_id alice_payload) (sv_store demo_server) \<noteq> None"
    by (simp add: alice_payload_def demo_server_def demo_job_active)
  have "GetActiveTrainingJob (wp_tenant_id alice_payload) (wp_model_id alice_payload) (sv_store sv1) \<noteq> None"
    using alice_leaves_job [OF s] by (simp add: alice_payload_def)
  from server_accepts_lease_once [OF s j rtranclp.rtrancl_refl this refl] s show ?thesis by blast
qed

section \<open>Who may change what\<close>

text \<open>C22: A peer that is not authenticated changes nothing: each of the handlers of the three services
  that change state leaves the registry, the store, the buffer, the keys and the key files as
  they are. An authenticated peer whose identity is on neither allowlist can change nothing
  through the worker and the admin service.\<close>

theorem strangers_change_nothing:
  assumes "\<not> IsAuthorizedWorker cfg ctx" and "\<not> IsAuthorizedAdmin cfg ctx"
  shows "snd (RegisterWorker cfg clks ctx kq sv) = sv \<and> snd (LeaseTrainingTask A cfg clks ctx lq sv) = sv \<and>
    snd (ReportTaskStatus cfg clk ctx uq sv) = sv \<and> snd (Heartbeat cfg clks ctx hq sv) = sv \<and>
    snd (AdminUpsertDataset cfg clk ctx dq sv) = sv \<and> snd (AdminCreateTrainingJob cfg clk ctx jq sv) = sv \<and>
    snd (AdminRollbackModel cfg C of_bytes files clk ctx bq sv) = sv \<and>
    snd (RotateAtRestKey cfg rand clk ctx (sv, fs)) = (sv, fs) \<and>
    (\<not> IsPeerAuthenticated ctx \<longrightarrow> snd (RegisterClient clks ctx rq sv) = sv \<and>
       snd (GetTrainingConfig A cfg clk ctx cq sv) = sv \<and> snd (SubmitWeights A C N cfg clks ctx wq sv) = sv)"
proof -
  have submit: "snd (SubmitWeights A C N cfg clks ctx wq sv) = sv" if "\<not> IsPeerAuthenticated ctx"
    using submit_unauthorised that by blast
  show ?thesis
    using assms submit
    by (auto simp: RegisterWorker_def LeaseTrainingTask_def ReportTaskStatus_def Heartbeat_def AdminUpsertDataset_def
        AdminCreateTrainingJob_def AdminRollbackModel_def RotateAtRestKey_def RegisterClient_def GetTrainingConfig_def Let_def)
qed

theorem strangers_change_nothing_witness:
  "snd (RotateAtRestKey word_config (Some (replicate 32 9)) (\<lambda>_. 0) None (demo_server, demo_files)) = (demo_server, demo_files)"
  using strangers_change_nothing [of word_config None]
  by (simp add: IsAuthorizedWorker_def IsAuthorizedAdmin_def HasAllowedPeerIdentity_def IsPeerAuthenticated_def)

text \<open>A worker certificate speaks for every worker: leasing a task, reporting its status and
  sending a heartbeat do not depend on which of the allowed identities calls, so that one worker
  can take the leases of another worker's trainer and close another worker's tasks.\<close>

theorem worker_speaks_for_any_worker:
  assumes "IsAuthorizedWorker cfg ctx" and "IsAuthorizedWorker cfg ctx'"
  shows "LeaseTrainingTask A cfg clks ctx lq sv = LeaseTrainingTask A cfg clks ctx' lq sv \<and>
    ReportTaskStatus cfg clk ctx uq sv = ReportTaskStatus cfg clk ctx' uq sv \<and>
    Heartbeat cfg clks ctx hq sv = Heartbeat cfg clks ctx' hq sv"
  using assms by (simp add: LeaseTrainingTask_def ReportTaskStatus_def Heartbeat_def Let_def)

definition named_peer :: "string \<Rightarrow> server_context" where
  "named_peer identity = Some \<lparr>auth_authenticated = True, auth_identities = [identity]\<rparr>"

definition two_workers :: "(32 word) config" where
  "two_workers = word_config\<lparr>cfg_worker_peer_identities := [''w1'', ''w2'']\<rparr>"

lemma two_workers_authorized:
  "IsAuthorizedWorker two_workers (named_peer ''w1'')" "IsAuthorizedWorker two_workers (named_peer ''w2'')"
  by (simp_all add: IsAuthorizedWorker_def two_workers_def named_peer_def HasAllowedPeerIdentity_def IsPeerAuthenticated_def
      GetPeerIdentity_def NormalizePeerIdentity_def NormalizeIdentity_def Trim_def isspace_def Let_def)

theorem worker_speaks_for_any_worker_witness:
  "ReportTaskStatus two_workers (\<lambda>_. 0) (named_peer ''w1'')
      \<lparr>wu_worker_id = ''worker-2'', wu_task_id = ''t'', wu_status = ''failed'', wu_detail = '''', wu_progress_percent = 0\<rparr> demo_server =
   ReportTaskStatus two_workers (\<lambda>_. 0) (named_peer ''w2'')
      \<lparr>wu_worker_id = ''worker-2'', wu_task_id = ''t'', wu_status = ''failed'', wu_detail = '''', wu_progress_percent = 0\<rparr> demo_server"
  using worker_speaks_for_any_worker [OF two_workers_authorized] by blast

section \<open>Jobs and rollbacks\<close>

lemma created_job_fields:
  assumes "AdminCreateTrainingJob cfg clk ctx jq sv = ((st, Some job), sv1)"
  shows "tj_current_round job = 1 \<and> tj_tenant_id job = NormalizeTenant (cj_tenant_id jq) \<and>
    tj_model_id job = NormalizeModel (cj_model_id jq) \<and> sv_buffer sv1 = sv_buffer sv"
  using assms
  by (auto simp: AdminCreateTrainingJob_def CreateTrainingJob_def PopulateTrainingJob_def job_request_record_def Let_def
      split: if_splits option.splits)

text \<open>C34: A new job of a scope whose first round this server has already aggregated is stuck: the job
  starts at round 1, and whatever calls follow, every submission for that round is refused,
  so its first round is never aggregated again and the job never advances.\<close>

theorem new_job_stuck:
  assumes "IsRoundCompleted (cj_tenant_id jq) (cj_model_id jq) 1 (sv_buffer sv)"
    and "AdminCreateTrainingJob cfg clk ctx jq sv = ((st, Some job), sv1)"
    and "(server_step A C cfg)\<^sup>*\<^sup>* (sv1, fs) (sv2, fs2)"
    and "NormalizeTenant (wp_tenant_id q) = tj_tenant_id job" and "NormalizeModel (wp_model_id q) = tj_model_id job"
    and "wp_round_index q = tj_current_round job"
  shows "\<exists>r. fst (SubmitWeights A C N cfg clks ctx' q sv2) = Inr r \<and> \<not> ar_accepted r"
proof -
  have "buffer_rounds (sv_buffer sv) \<subseteq> buffer_rounds (sv_buffer sv2)"
    using server_run_rounds [OF assms(3)] created_job_fields [OF assms(2)] by simp
  then have "IsRoundCompleted (wp_tenant_id q) (wp_model_id q) (wp_round_index q) (sv_buffer sv2)"
    using assms(1,4-6) created_job_fields [OF assms(2)]
    by (auto simp: IsRoundCompleted_def RoundKey_def ScopeKey_def)
  then show ?thesis by (rule submit_completed_round)
qed

definition admin_peer :: server_context where "admin_peer = named_peer ''pqfl-admin''"

lemma admin_authorized: "IsAuthorizedAdmin word_config admin_peer"
  by (simp add: IsAuthorizedAdmin_def word_config_def default_config_def admin_peer_def named_peer_def HasAllowedPeerIdentity_def
      IsPeerAuthenticated_def GetPeerIdentity_def NormalizePeerIdentity_def NormalizeIdentity_def Trim_def isspace_def Let_def)

definition mnist_job :: CreateTrainingJobRequest where
  "mnist_job = \<lparr>cj_tenant_id = ''acme'', cj_model_id = ''cnn'', cj_dataset_id = ''mnist'', cj_target_rounds = 2,
     cj_planned_clients = 1, cj_min_clients_per_round = 1, cj_assignment_ttl_seconds = 60, cj_notes = ''''\<rparr>"

definition aggregated_once :: "(32 word) server" where
  "aggregated_once = demo_server\<lparr>
     sv_store := demo_empty\<lparr>datasets := [default_dataset\<lparr>ds_tenant_id := ''acme'', ds_model_id := ''cnn'', ds_dataset_id := ''mnist''\<rparr>]\<rparr>,
     sv_buffer := empty_buffer\<lparr>buffer_rounds := {RoundKey ''acme'' ''cnn'' 1}\<rparr>\<rparr>"

lemma mnist_job_valid:
  "ValidateAdminScope ''acme'' ''cnn'' = ''''" "ValidateIdentifier ''mnist'' ''dataset_id'' False default_max_length = ''''"
  by (simp_all add: ValidateAdminScope_def ValidateIdentifier_def default_max_length_def
      IsAllowedIdentifierChar_def isalnum_def Let_def)

theorem new_job_stuck_witness:
  "\<exists>job sv1. AdminCreateTrainingJob word_config (\<lambda>_. 5000) admin_peer mnist_job aggregated_once = (((OK, ''''), Some job), sv1) \<and>
     (\<exists>r. fst (SubmitWeights word_arith null_prims word_env word_config (\<lambda>_ _. 6000) alice alice_payload sv1) = Inr r \<and>
        \<not> ar_accepted r)"
proof -
  have ds: "GetDataset ''acme'' ''cnn'' ''mnist'' (sv_store aggregated_once) \<noteq> None"
    by (simp add: aggregated_once_def GetDataset_def dataset_in_def)
  have "\<exists>job sv1. AdminCreateTrainingJob word_config (\<lambda>_. 5000) admin_peer mnist_job aggregated_once = (((OK, ''''), Some job), sv1)"
    using ds by (auto simp: AdminCreateTrainingJob_def admin_authorized mnist_job_def mnist_job_valid Let_def
        split: prod.split)
  then obtain job sv1 where j: "AdminCreateTrainingJob word_config (\<lambda>_. 5000) admin_peer mnist_job aggregated_once =
      (((OK, ''''), Some job), sv1)" by blast
  have closed: "IsRoundCompleted (cj_tenant_id mnist_job) (cj_model_id mnist_job) 1 (sv_buffer aggregated_once)"
    by (simp add: mnist_job_def aggregated_once_def IsRoundCompleted_def)
  have "\<exists>r. fst (SubmitWeights word_arith null_prims word_env word_config (\<lambda>_ _. 6000) alice alice_payload sv1) = Inr r \<and>
      \<not> ar_accepted r"
    by (rule new_job_stuck [OF closed j rtranclp.rtrancl_refl])
      (use created_job_fields [OF j] in \<open>simp_all add: mnist_job_def alice_payload_def\<close>)
  with j show ?thesis by blast
qed

text \<open>C35: A rollback that fails after the version was found - the checkpoint file is missing, does not
  decrypt or has a broken length - has already made the version active in the store, while the
  buffer keeps streaming the old model.\<close>

theorem failed_rollback_activates:
  assumes "AdminRollbackModel cfg C of_bytes files clk ctx q sv = (((OK, ''''), Some response), sv')"
    and "\<not> rs_success response" and "rs_message response \<noteq> ''Requested model version not found''"
  shows "GetActiveModelVersion (rb_tenant_id q) (rb_model_id q) (sv_store sv') = rb_target_version q \<and>
    sv_buffer sv' = sv_buffer sv"
proof -
  obtain m s where roll: "RollbackModel clk (rb_tenant_id q) (rb_model_id q) (rb_target_version q) (sv_store sv) = (m, s)"
    by fastforce
  obtain model where m: "m = Some model"
    and load: "LoadRollbackCheckpoint C of_bytes files model (sv\<lparr>sv_store := s\<rparr>) = (response, sv')"
    using assms(1,3) unfolding AdminRollbackModel_def Let_def roll
    by (cases m) (auto simp: rollback_failed_def admin_denied_def split: if_splits prod.splits)
  have "sv' = sv\<lparr>sv_store := s\<rparr>"
    using load assms(2) by (auto simp: LoadRollbackCheckpoint_def split: option.splits sum.splits if_splits)
  then show ?thesis
    using rollback_then_active [OF roll [unfolded m]]
    by (simp add: GetActiveModelVersion_def GetActiveModelRecord_def)
qed

definition rollback_to_one :: RollbackModelRequest where
  "rollback_to_one = \<lparr>rb_tenant_id = ''acme'', rb_model_id = ''cnn'', rb_target_version = 1\<rparr>"

definition two_versions :: "(32 word) server" where
  "two_versions = demo_server\<lparr>sv_store := demo_empty\<lparr>models :=
     [demo_model\<lparr>md_version := 1, md_active := False\<rparr>, demo_model\<lparr>md_version := 2\<rparr>]\<rparr>\<rparr>"

theorem failed_rollback_activates_witness:
  "GetActiveModelVersion ''acme'' ''cnn'' (sv_store two_versions) = 2 \<and>
   GetActiveModelVersion ''acme'' ''cnn''
     (sv_store (snd (AdminRollbackModel word_config null_prims ReadUint32BigEndian Map.empty (\<lambda>_. 0) admin_peer rollback_to_one
        two_versions))) = 1"
proof -
  have "fst (AdminRollbackModel word_config null_prims ReadUint32BigEndian Map.empty (\<lambda>_. 0) admin_peer rollback_to_one
      two_versions) = ((OK, ''''), Some (rollback_failed ''Checkpoint file not found for requested rollback''))"
    by (simp add: AdminRollbackModel_def admin_authorized rollback_to_one_def mnist_job_valid two_versions_def RollbackModel_def
        model_in_def demo_model_def LoadRollbackCheckpoint_def Let_def NormalizeTenant_def NormalizeModel_def)
  then obtain sv' where r: "AdminRollbackModel word_config null_prims ReadUint32BigEndian Map.empty (\<lambda>_. 0) admin_peer
      rollback_to_one two_versions =
      (((OK, ''''), Some (rollback_failed ''Checkpoint file not found for requested rollback'')), sv')"
    by (metis prod.collapse)
  have "GetActiveModelVersion ''acme'' ''cnn'' (sv_store two_versions) = 2"
    by (simp add: two_versions_def GetActiveModelVersion_def model_in_def demo_model_def)
  moreover have "GetActiveModelVersion ''acme'' ''cnn'' (sv_store sv') = 1"
    using failed_rollback_activates [OF r] by (simp add: rollback_failed_def rollback_to_one_def)
  ultimately show ?thesis unfolding r snd_conv by simp
qed

section \<open>Start\<close>

text \<open>A server that boots runs on a validated configuration, and in every state it reaches the
  store reports the key version the engine encrypts under, and the key of that version is the
  listed one: what is written now can be read back by version later.\<close>

theorem booted_keys_agree:
  assumes "BootServer JC J A C of_bytes B fs = (Inr (cfg, sv0), fs0)"
    and "(server_step A C cfg)\<^sup>*\<^sup>* (sv0, fs0) (sv, fs')"
  shows "Validate A cfg = None \<and> st_active_key_version (GetSystemStatus (sv_store sv)) = GetActiveKeyVersion (sv_crypto sv) \<and>
    map_of (ce_key_versions (sv_crypto sv)) (GetActiveKeyVersion (sv_crypto sv)) = Some (ce_key (sv_crypto sv))"
proof -
  have "Validate A cfg = None" by (rule BootServer_Inr [OF assms(1)]) (rule boot_config_valid)
  moreover have "key_versions_agree sv"
    using server_run_key_versions [OF assms(2)] boot_key_versions [OF assms(1)] by simp
  ultimately show ?thesis
    by (simp add: key_versions_agree_def GetSystemStatus_def GetActiveKeyVersion_def Let_def del: map_of_eq_Some_iff)
qed

definition no_config :: "(unit, unit, real) config_json" where
  "no_config = \<lparr>jo_parse = (\<lambda>_. Inl ''''), jo_contains = (\<lambda>_ _. False), jo_member = (\<lambda>_ _. ()), jo_string = (\<lambda>_. Inl ''''),
     jo_int = (\<lambda>_. Inl ''''), jo_float = (\<lambda>_. Inl ''''), jo_strings = (\<lambda>_. Inl '''')\<rparr>"

definition first_boot :: "(unit, json_tree) boot_env" where
  "first_boot = \<lparr>be_config_file = None, be_state_file = None, be_checkpoints = Map.empty,
     be_rand = Some (replicate 32 1), be_payload_rand = Some (replicate 32 2),
     be_kem = Keypair (replicate 32 3) (replicate 32 3), be_clk = (\<lambda>_. 0), be_clk2 = (\<lambda>_. 0)\<rparr>"

definition empty_disk :: key_files where
  "empty_disk = \<lparr>kf_registry = None, kf_files = Map.empty\<rparr>"

lemma default_config_valid: "Validate real_arith (default_config real_arith) = None"
  by (simp add: Validate_def default_config_def real_arith_def ratio_def Let_def)

lemma default_paths:
  "cfg_key_path (default_config A) = ''data/master.key''" "cfg_payload_key_path (default_config A) = ''data/payload.key''"
  by (simp_all add: default_config_def)

lemma first_boot_runs:
  "\<exists>sv fs. BootServer no_config tree_json real_arith null_prims (\<lambda>_. 0) first_boot empty_disk =
     (Inr (default_config real_arith, sv), fs)"
  by (simp add: BootServer_def BootConfig_def LoadConfig_def first_boot_def default_config_valid CryptoEngine_def
      LoadOrGenerateKey_def empty_disk_def finish_load_def LoadOrGeneratePayloadSecret_def LoadSecretFile_def
      SaveKeyRegistry_def InitializeKem_def KEY_SIZE_def default_paths Let_def)

theorem booted_keys_agree_witness:
  "\<exists>cfg sv fs. BootServer no_config tree_json real_arith null_prims (\<lambda>_. 0) first_boot empty_disk = (Inr (cfg, sv), fs) \<and>
     st_active_key_version (GetSystemStatus (sv_store sv)) = GetActiveKeyVersion (sv_crypto sv)"
proof -
  obtain sv fs where b: "BootServer no_config tree_json real_arith null_prims (\<lambda>_. 0) first_boot empty_disk =
     (Inr (default_config real_arith, sv), fs)" using first_boot_runs by blast
  from booted_keys_agree [OF b rtranclp.rtrancl_refl] b show ?thesis by blast
qed



end
