(* ===== verification/Stream_Call.thy ===== *)
theory Stream_Call
  imports Federated_Service "HOL-Library.Multiset"
begin

text \<open>
  \<open>server/federated_service.cpp\<close>, \<open>StreamGlobalModelCall\<close>: one object per stream, driven by the events
  of the completion queue. \<open>Proceed\<close> is a function from the event and the state of the object to the
  new state and the actions it takes, in order; \<open>Inl\<close> is an exception that escapes (and ends the
  process). The step relation delivers the tags that are outstanding, one at a time, as
  \<open>HandleRpcs\<close> does under \<open>proceed_mutex_\<close>.
\<close>

section \<open>The messages\<close>

record ModelRequest =
  mr_client_id :: string
  mr_last_received_round :: int
  mr_tenant_id :: string
  mr_model_id :: string
  mr_client_kem_public_key :: "byte list"

record GlobalModelUpdate =
  gm_round_index :: int
  gm_encrypted_weights :: "byte list"
  gm_iv :: "byte list"
  gm_auth_tag :: "byte list"
  gm_server_signature :: "byte list"
  gm_aggregation_method :: string
  gm_tenant_id :: string
  gm_model_id :: string
  gm_model_version :: int
  gm_key_version :: int
  gm_server_nonce :: string
  gm_kem_ciphertext :: "byte list"
  gm_key_agreement :: string

section \<open>The object\<close>

datatype call_event = START | REQUEST | WRITE | ALARM | FINISHED | DONE

datatype call_status = CREATE | PROCESS | STREAM | FINISH

record stream_call =
  status :: call_status
  last_sent_round :: int
  done_notify_in_flight :: bool
  done_received :: bool
  write_in_flight :: bool
  alarm_in_flight :: bool
  finish_in_flight :: bool

definition new_call :: stream_call where
  "new_call = \<lparr>status = CREATE, last_sent_round = - 1, done_notify_in_flight = False, done_received = False,
     write_in_flight = False, alarm_in_flight = False, finish_in_flight = False\<rparr>"

text \<open>What a call to \<open>Proceed\<close> does to the outside.\<close>

datatype stream_action =
    RequestCall
  | NotifyWhenDone
  | CancelAlarm
  | SpawnListener
  | SetAlarm
  | WriteUpdate GlobalModelUpdate
  | FinishCall grpc_status
  | DeleteThis

type_synonym proceeded = "stream_call \<times> stream_action list"

definition MaybeDeleteAfterTerminalEvent :: "stream_call \<Rightarrow> proceeded" where
  "MaybeDeleteAfterTerminalEvent c =
     (if write_in_flight c \<or> alarm_in_flight c \<or> finish_in_flight c \<or> done_notify_in_flight c then (c, [])
      else if done_received c \<or> status c = FINISH then (c, [DeleteThis])
      else (c, []))"

definition FinishWithStatus :: "grpc_status \<Rightarrow> stream_call \<Rightarrow> proceeded" where
  "FinishWithStatus st c = (c\<lparr>status := FINISH, finish_in_flight := True\<rparr>, [FinishCall st])"

definition RequestDoneNotification :: "stream_call \<Rightarrow> proceeded" where
  "RequestDoneNotification c =
     (if \<not> done_notify_in_flight c then (c\<lparr>done_notify_in_flight := True\<rparr>, [NotifyWhenDone]) else (c, []))"

section \<open>The update\<close>

text \<open>What \<open>Proceed\<close> reads besides its object: the server, the settings, the outcome of the random
  generator, the clock, the signing key.\<close>

record 'f stream_env =
  en_server :: "'f server"
  en_strategy :: string
  en_iv :: "byte list option"
  en_time :: nat
  en_sign :: "string \<Rightarrow> byte list"
  en_to_bytes :: "'f \<Rightarrow> byte list"

definition stream_context :: "server_context \<Rightarrow> ModelRequest \<Rightarrow> string list" where
  "stream_context ctx q = [GetPeerIdentity ctx, NormalizeTenant (mr_tenant_id q),
     NormalizeModel (mr_model_id q), mr_client_id q, ''stream'']"

text \<open>The session key of the update with the ciphertext and name of its agreement; \<open>Inr (Inl _)\<close> ends
  the call with a status.\<close>

definition StreamSessionKey ::
  "crypto_prims \<Rightarrow> server_context \<Rightarrow> ModelRequest \<Rightarrow> crypto_engine
     \<Rightarrow> string + grpc_status + byte list \<times> byte list \<times> string" where
  "StreamSessionKey C ctx q e =
     (if mr_client_kem_public_key q \<noteq> [] then
        (case EncapsulateKem C (mr_client_kem_public_key q) of
           None \<Rightarrow> Inr (Inl (INVALID_ARGUMENT, ''Invalid ML-KEM-1024 client public key''))
         | Some (kem_ciphertext, shared_secret) \<Rightarrow>
             (case DeriveSessionKeyFromKemSecret C shared_secret (stream_context ctx q) of
                Inl err \<Rightarrow> Inl err
              | Inr key \<Rightarrow> Inr (Inr (key, kem_ciphertext, ''ml-kem-1024''))))
      else
        (case DeriveSessionKey C e (stream_context ctx q) of
           Inl err \<Rightarrow> Inl err
         | Inr key \<Rightarrow> Inr (Inr (key, [], ''shared-secret''))))"

definition chars_of :: "byte list \<Rightarrow> string" where
  "chars_of bs = map (\<lambda>b. char_of (unat b)) bs"

definition PrepareUpdate ::
  "crypto_prims \<Rightarrow> 'f stream_env \<Rightarrow> server_context \<Rightarrow> ModelRequest \<Rightarrow> 'f LatestModelSnapshot
     \<Rightarrow> string + grpc_status + GlobalModelUpdate" where
  "PrepareUpdate C E ctx q latest =
     (let e = sv_crypto (en_server E);
          tenant_id = NormalizeTenant (mr_tenant_id q);
          model_id = NormalizeModel (mr_model_id q);
          plaintext = bytes_of (en_to_bytes E) (ls_weights latest)
      in
      case StreamSessionKey C ctx q e of
        Inl err \<Rightarrow> Inl err
      | Inr (Inl st) \<Rightarrow> Inr (Inl st)
      | Inr (Inr (session_key, kem_ciphertext, key_agreement)) \<Rightarrow>
          (case EncryptWithKey C session_key (en_iv E) plaintext of
             Inl _ \<Rightarrow> Inr (Inl (INTERNAL, ''Failed to encrypt global model''))
           | Inr (ciphertext, iv_out, tag_out) \<Rightarrow>
               Inr (Inr \<lparr>gm_round_index = ls_round latest, gm_encrypted_weights = ciphertext, gm_iv = iv_out,
                 gm_auth_tag = tag_out,
                 gm_server_signature = en_sign E (signed_payload tenant_id model_id (ls_round latest)
                   (ls_model_version latest) (chars_of ciphertext)),
                 gm_aggregation_method = en_strategy E, gm_tenant_id = tenant_id, gm_model_id = model_id,
                 gm_model_version = ls_model_version latest, gm_key_version = GetActiveKeyVersion e,
                 gm_server_nonce = CurrentTimestamp (en_time E), gm_kem_ciphertext = kem_ciphertext,
                 gm_key_agreement = key_agreement\<rparr>)))"

section \<open>Proceed\<close>

text \<open>The checks of the request when it arrives.\<close>

definition CheckStreamRequest :: "'f server \<Rightarrow> server_context \<Rightarrow> ModelRequest \<Rightarrow> grpc_status option" where
  "CheckStreamRequest sv ctx q =
     (let validation_error = ValidateFederatedRequestIds (mr_tenant_id q) (mr_model_id q) (mr_client_id q) in
      if validation_error \<noteq> '''' then Some (INVALID_ARGUMENT, validation_error)
      else if \<not> IsPeerAuthenticated ctx then
        Some (UNAUTHENTICATED, ''Authenticated client certificate required'')
      else if \<not> IsRegisteredForPeer (NormalizeTenant (mr_tenant_id q)) (NormalizeModel (mr_model_id q))
                  (mr_client_id q) (NormalizePeerIdentity (GetPeerIdentity ctx)) (sv_registry sv) then
        Some (FAILED_PRECONDITION,
          ''Client must register with the same certificate identity before streaming models'')
      else None)"

text \<open>Whether there is nothing (new) to send.\<close>

definition nothing_new :: "stream_call \<Rightarrow> ModelRequest \<Rightarrow> 'f LatestModelSnapshot \<Rightarrow> bool" where
  "nothing_new c q latest \<longleftrightarrow> ls_round latest = - 1 \<or> ls_weights latest = [] \<or>
     ls_round latest = last_sent_round c \<or> ls_round latest \<le> mr_last_received_round q"

text \<open>The streaming part: look at the latest model, wait a second or write it.\<close>

definition StreamLatest ::
  "crypto_prims \<Rightarrow> 'f stream_env \<Rightarrow> server_context \<Rightarrow> ModelRequest \<Rightarrow> stream_call \<Rightarrow> string + proceeded" where
  "StreamLatest C E ctx q c =
     (let latest = GetLatestGlobalModel (NormalizeTenant (mr_tenant_id q)) (NormalizeModel (mr_model_id q))
            (sv_buffer (en_server E))
      in
      if nothing_new c q latest then
        (if done_received c then Inr (MaybeDeleteAfterTerminalEvent c)
         else Inr (c\<lparr>alarm_in_flight := True\<rparr>, [SetAlarm]))
      else
        let c1 = c\<lparr>last_sent_round := ls_round latest\<rparr> in
        case PrepareUpdate C E ctx q latest of
          Inl err \<Rightarrow> Inl err
        | Inr (Inl st) \<Rightarrow> Inr (FinishWithStatus st c1)
        | Inr (Inr update) \<Rightarrow> Inr (c1\<lparr>write_in_flight := True\<rparr>, [WriteUpdate update]))"

text \<open>What follows the handling of the terminal events.\<close>

definition Advance ::
  "crypto_prims \<Rightarrow> 'f stream_env \<Rightarrow> server_context \<Rightarrow> ModelRequest \<Rightarrow> bool \<Rightarrow> stream_call \<Rightarrow> string + proceeded" where
  "Advance C E ctx q ok c =
     (if \<not> ok then Inr (c, [DeleteThis])
      else case status c of
        CREATE \<Rightarrow>
          (let (c1, acts) = RequestDoneNotification (c\<lparr>status := PROCESS\<rparr>)
           in Inr (c1, acts @ [RequestCall]))
      | PROCESS \<Rightarrow>
          (case CheckStreamRequest (en_server E) ctx q of
             Some st \<Rightarrow> (let (c1, acts) = FinishWithStatus st c in Inr (c1, SpawnListener # acts))
           | None \<Rightarrow>
               (case StreamLatest C E ctx q (c\<lparr>status := STREAM\<rparr>) of
                  Inl err \<Rightarrow> Inl err
                | Inr (c1, acts) \<Rightarrow> Inr (c1, SpawnListener # acts)))
      | STREAM \<Rightarrow> StreamLatest C E ctx q c
      | FINISH \<Rightarrow> Inr (c, [DeleteThis]))"

definition Proceed ::
  "crypto_prims \<Rightarrow> 'f stream_env \<Rightarrow> server_context \<Rightarrow> ModelRequest \<Rightarrow> bool \<Rightarrow> call_event \<Rightarrow> stream_call
     \<Rightarrow> string + proceeded" where
  "Proceed C E ctx q ok event c =
     (case event of
        FINISHED \<Rightarrow> Inr (MaybeDeleteAfterTerminalEvent (c\<lparr>finish_in_flight := False\<rparr>))
      | DONE \<Rightarrow>
          (let c1 = c\<lparr>done_notify_in_flight := False, done_received := True\<rparr>;
               (c2, acts) = MaybeDeleteAfterTerminalEvent c1
           in Inr (c2, (if alarm_in_flight c1 then [CancelAlarm] else []) @ acts))
      | WRITE \<Rightarrow>
          (let c1 = c\<lparr>write_in_flight := False\<rparr> in
           if \<not> ok \<or> done_received c1 then Inr (MaybeDeleteAfterTerminalEvent c1)
           else Advance C E ctx q ok c1)
      | ALARM \<Rightarrow>
          (let c1 = c\<lparr>alarm_in_flight := False\<rparr> in
           if \<not> ok \<or> done_received c1 then Inr (MaybeDeleteAfterTerminalEvent c1)
           else Advance C E ctx q ok c1)
      | _ \<Rightarrow> Advance C E ctx q ok c)"

section \<open>The completion queue\<close>

text \<open>
  A configuration: the object (\<open>None\<close> once it is deleted), the tags that are outstanding, the
  updates written so far, the listeners spawned. \<open>V\<close> are the states of the server, the clock and the
  random generator that a call may meet. The rule states what gRPC promises: a tag is
  delivered once, only while it is outstanding; the notification that a call is done comes after
  the call has started, that is after the request tag, and never when the call did not start
  (\<open>ok\<close> is false for the request, at shutdown).
\<close>

record stream_conf =
  cf_call :: "stream_call option"
  cf_tags :: "call_event multiset"
  cf_updates :: "GlobalModelUpdate list"
  cf_spawned :: nat

fun tag_of :: "stream_action \<Rightarrow> call_event multiset" where
  "tag_of RequestCall = {#REQUEST#}"
| "tag_of NotifyWhenDone = {#DONE#}"
| "tag_of SetAlarm = {#ALARM#}"
| "tag_of (WriteUpdate u) = {#WRITE#}"
| "tag_of (FinishCall st) = {#FINISHED#}"
| "tag_of _ = {#}"

fun update_of :: "stream_action \<Rightarrow> GlobalModelUpdate list" where
  "update_of (WriteUpdate u) = [u]"
| "update_of _ = []"

definition act :: "stream_conf \<Rightarrow> proceeded \<Rightarrow> stream_conf" where
  "act cf = (\<lambda>(c, acts). cf\<lparr>cf_call := (if DeleteThis \<in> set acts then None else Some c),
     cf_tags := cf_tags cf + \<Sum>\<^sub># (mset (map tag_of acts)),
     cf_updates := cf_updates cf @ concat (map update_of acts),
     cf_spawned := cf_spawned cf + length (filter (\<lambda>a. a = SpawnListener) acts)\<rparr>)"

definition start_conf :: "crypto_prims \<Rightarrow> 'f stream_env \<Rightarrow> server_context \<Rightarrow> ModelRequest \<Rightarrow> stream_conf" where
  "start_conf C E ctx q =
     (case Proceed C E ctx q True START new_call of
        Inr p \<Rightarrow> act \<lparr>cf_call = None, cf_tags = {#}, cf_updates = [], cf_spawned = 0\<rparr> p
      | Inl err \<Rightarrow> \<lparr>cf_call = None, cf_tags = {#}, cf_updates = [], cf_spawned = 0\<rparr>)"

definition may_deliver :: "stream_conf \<Rightarrow> bool \<Rightarrow> call_event \<Rightarrow> bool" where
  "may_deliver cf ok event \<longleftrightarrow> event \<in># cf_tags cf \<and> (event = DONE \<longrightarrow> REQUEST \<notin># cf_tags cf)"

definition take_tag :: "bool \<Rightarrow> call_event \<Rightarrow> call_event multiset \<Rightarrow> call_event multiset" where
  "take_tag ok event tags =
     (if event = REQUEST \<and> \<not> ok then tags - {#REQUEST#} - {#DONE#} else tags - {#event#})"

inductive stream_step ::
  "'f stream_env set \<Rightarrow> crypto_prims \<Rightarrow> server_context \<Rightarrow> ModelRequest \<Rightarrow> stream_conf \<Rightarrow> stream_conf \<Rightarrow> bool"
  for V :: "'f stream_env set" and C :: crypto_prims and ctx :: server_context and q :: ModelRequest where
  deliver: "cf_call cf = Some c \<Longrightarrow> E \<in> V \<Longrightarrow> may_deliver cf ok event \<Longrightarrow>
    Proceed C E ctx q ok event c = Inr p \<Longrightarrow>
    stream_step V C ctx q cf (act (cf\<lparr>cf_tags := take_tag ok event (cf_tags cf)\<rparr>) p)"

end
