(* ===== verification/Demo_Clients.thy ===== *)
theory Demo_Clients
  imports Stream_Call Worker_Service
begin

text \<open>
  \<open>server/worker_demo_client.cpp\<close> and \<open>server/test_client.cpp\<close>: what the clients put into their
  requests and make of the answers. A function returns \<open>Inl\<close> for an exception, \<open>Inr None\<close> where the
  client gives up with a message. The transport (gRPC) is between the functions: a request is the
  value a client builds, an answer is an argument.
\<close>

definition kTestCertIdentity :: string where "kTestCertIdentity = ''pqfl-edge-client''"

definition kWorkerCertIdentity :: string where "kWorkerCertIdentity = ''pqfl-worker''"

definition kTenantId :: string where "kTenantId = ''demo-tenant''"

definition kModelId :: string where "kModelId = ''demo-model''"

text \<open>What a client has besides its requests: the payload secret, the randomness of one call, the
  representation of floats, and the check of a signature under the key of the server's certificate.\<close>

record 'f client_env =
  ke_payload_secret :: "byte list"
  ke_iv :: "byte list option"
  ke_kem :: kem_outcome
  ke_to_bytes :: "'f \<Rightarrow> byte list"
  ke_of_bytes :: "byte list \<Rightarrow> 'f"
  ke_verify :: "string \<Rightarrow> byte list \<Rightarrow> bool"

section \<open>Keys\<close>

text \<open>The key of a submission: encapsulated to the public key of the server, if it sent one.\<close>

definition ClientSubmitKey ::
  "crypto_prims \<Rightarrow> byte list \<Rightarrow> byte list \<Rightarrow> string list \<Rightarrow> string + (byte list \<times> byte list \<times> string) option" where
  "ClientSubmitKey C payload_secret public_key key_context =
     (if public_key \<noteq> [] then
        (case EncapsulateKem C public_key of
           None \<Rightarrow> Inr None
         | Some (kem_ciphertext, shared_secret) \<Rightarrow>
             (case DeriveSessionKeyFromKemSecret C shared_secret key_context of
                Inl err \<Rightarrow> Inl err
              | Inr session_key \<Rightarrow> Inr (Some (session_key, kem_ciphertext, ''ml-kem-1024''))))
      else
        (case DeriveSessionKeyWithSecret C payload_secret key_context of
           Inl err \<Rightarrow> Inl err
         | Inr session_key \<Rightarrow> Inr (Some (session_key, [], ''shared-secret''))))"

text \<open>The key of a streamed update: decapsulated when the server says so.\<close>

definition ClientStreamKey ::
  "crypto_prims \<Rightarrow> byte list \<Rightarrow> byte list \<Rightarrow> string list \<Rightarrow> GlobalModelUpdate \<Rightarrow> string + byte list option" where
  "ClientStreamKey C payload_secret stream_secret_key key_context update =
     (if gm_key_agreement update = ''ml-kem-1024'' then
        (case DecapsulateKem C stream_secret_key (gm_kem_ciphertext update) of
           None \<Rightarrow> Inr None
         | Some shared_secret \<Rightarrow>
             (case DeriveSessionKeyFromKemSecret C shared_secret key_context of
                Inl err \<Rightarrow> Inl err
              | Inr session_key \<Rightarrow> Inr (Some session_key)))
      else
        (case DeriveSessionKeyWithSecret C payload_secret key_context of
           Inl err \<Rightarrow> Inl err
         | Inr session_key \<Rightarrow> Inr (Some session_key)))"

definition stream_key_context :: "string \<Rightarrow> string \<Rightarrow> string list" where
  "stream_key_context cert_identity cid = [cert_identity, kTenantId, kModelId, cid, ''stream'']"

text \<open>The text the clients check the signature on: the fields as they came.\<close>

definition update_payload :: "GlobalModelUpdate \<Rightarrow> string" where
  "update_payload update = gm_tenant_id update @ ''|'' @ gm_model_id update @ ''|'' @
     to_string (gm_round_index update) @ ''|'' @ to_string (gm_model_version update) @ ''|'' @
     chars_of (gm_encrypted_weights update)"

section \<open>Submissions\<close>

text \<open>Sealing: the last part of building a submission, common to both clients.\<close>

definition SealPayload ::
  "crypto_prims \<Rightarrow> 'f client_env \<Rightarrow> byte list \<Rightarrow> string list \<Rightarrow> 'f list \<Rightarrow> WeightPayload
     \<Rightarrow> string + WeightPayload option" where
  "SealPayload C K public_key key_context weights req =
     (case ClientSubmitKey C (ke_payload_secret K) public_key key_context of
        Inl err \<Rightarrow> Inl err
      | Inr None \<Rightarrow> Inr None
      | Inr (Some (session_key, kem_ciphertext, key_agreement)) \<Rightarrow>
          (case EncryptWithKey C session_key (ke_iv K) (bytes_of (ke_to_bytes K) weights) of
             Inl err \<Rightarrow> Inl err
           | Inr (ciphertext, iv, tag) \<Rightarrow>
               Inr (Some (req\<lparr>wp_kem_ciphertext := kem_ciphertext, wp_key_agreement := key_agreement,
                 wp_encrypted_weights := ciphertext, wp_iv := iv, wp_auth_tag := tag\<rparr>))))"

definition blank_payload :: WeightPayload where
  "blank_payload = \<lparr>wp_client_id = '''', wp_round_index = 0, wp_local_dataset_size = 0, wp_encrypted_weights = [],
     wp_iv = [], wp_auth_tag = [], wp_tenant_id = '''', wp_model_id = '''', wp_base_model_version = 0,
     wp_client_nonce = '''', wp_job_id = '''', wp_assignment_id = '''', wp_kem_ciphertext = [], wp_key_agreement = ''''\<rparr>"

text \<open>The context of the key of a submission.\<close>

definition submit_key_context :: "string \<Rightarrow> WeightPayload \<Rightarrow> string list" where
  "submit_key_context cert_identity req = [cert_identity, kTenantId, kModelId, wp_client_id req,
     to_string (wp_round_index req), ''submit'', wp_client_nonce req]"

definition TestSubmitRequest :: "string \<Rightarrow> 'f TrainingConfig \<Rightarrow> WeightPayload" where
  "TestSubmitRequest cid config =
     (let rd = (if tc_assigned_round_index config > 0 then tc_assigned_round_index config else 1)
      in blank_payload\<lparr>wp_client_id := cid, wp_round_index := rd, wp_local_dataset_size := 100,
            wp_tenant_id := kTenantId, wp_model_id := kModelId,
            wp_base_model_version := tc_base_model_version config, wp_job_id := tc_job_id config,
            wp_assignment_id := tc_assignment_id config,
            wp_client_nonce := ''nonce-'' @ cid @ ''-round-'' @ to_string rd\<rparr>)"

definition SendWeights ::
  "crypto_prims \<Rightarrow> 'f client_env \<Rightarrow> string \<Rightarrow> 'f list \<Rightarrow> 'f TrainingConfig \<Rightarrow> string + WeightPayload option" where
  "SendWeights C K cid weights config =
     (let req = TestSubmitRequest cid config
      in SealPayload C K (tc_payload_kem_public_key config) (submit_key_context kTestCertIdentity req) weights req)"

lemmas test_client_defs = SendWeights_def TestSubmitRequest_def

text \<open>The worker's client: its own name and that of the trainer it registered.\<close>

definition WorkerSubmitWeights ::
  "crypto_prims \<Rightarrow> 'f client_env \<Rightarrow> string \<Rightarrow> string \<Rightarrow> 'f WorkerTaskLeaseResponse \<Rightarrow> 'f list
     \<Rightarrow> string + WeightPayload option" where
  "WorkerSubmitWeights C K worker_id trainer_client_id task weights =
     (let req = blank_payload\<lparr>wp_client_id := trainer_client_id, wp_round_index := wt_round_index task,
            wp_local_dataset_size := 100, wp_tenant_id := kTenantId, wp_model_id := kModelId,
            wp_base_model_version := wt_base_model_version task, wp_job_id := wt_job_id task,
            wp_assignment_id := wt_assignment_id task,
            wp_client_nonce := ''worker-demo-'' @ worker_id @ ''-round-'' @ to_string (wt_round_index task)\<rparr>
      in SealPayload C K (wt_payload_kem_public_key task) (submit_key_context kWorkerCertIdentity req) weights req)"

section \<open>The streamed model\<close>

definition StreamPlaintext ::
  "crypto_prims \<Rightarrow> 'f client_env \<Rightarrow> byte list \<Rightarrow> string list \<Rightarrow> GlobalModelUpdate \<Rightarrow> string + byte list option" where
  "StreamPlaintext C K stream_secret_key key_context update =
     (case ClientStreamKey C (ke_payload_secret K) stream_secret_key key_context update of
        Inl err \<Rightarrow> Inl err
      | Inr None \<Rightarrow> Inr None
      | Inr (Some session_key) \<Rightarrow>
          (case DecryptWithKey C session_key (gm_encrypted_weights update) (gm_iv update) (gm_auth_tag update) of
             Inl err \<Rightarrow> Inl err
           | Inr plaintext \<Rightarrow> Inr (Some plaintext)))"

text \<open>The test client: the request with a key when one could be generated, and the weights with the
  result of the check of the signature. Its buffer holds \<open>plaintext.size() / 4\<close> floats, and
  \<open>memcpy\<close> copies all bytes: a length that is no multiple of four (\<open>Inl\<close>) writes past the end.\<close>

definition TestStreamRequest :: "kem_outcome \<Rightarrow> string \<Rightarrow> ModelRequest" where
  "TestStreamRequest kem cid = \<lparr>mr_client_id = cid, mr_last_received_round = 0, mr_tenant_id = kTenantId,
     mr_model_id = kModelId,
     mr_client_kem_public_key = (case GenerateKemKeypair kem of Some (pk, sk) \<Rightarrow> pk | None \<Rightarrow> [])\<rparr>"

definition ReceiveOneGlobalModel ::
  "crypto_prims \<Rightarrow> 'f client_env \<Rightarrow> string \<Rightarrow> GlobalModelUpdate \<Rightarrow> string + ('f list \<times> bool) option" where
  "ReceiveOneGlobalModel C K cid update =
     (let stream_secret_key = (case GenerateKemKeypair (ke_kem K) of Some (pk, sk) \<Rightarrow> sk | None \<Rightarrow> []) in
      case StreamPlaintext C K stream_secret_key (stream_key_context kTestCertIdentity cid) update of
        Inl err \<Rightarrow> Inl err
      | Inr None \<Rightarrow> Inr None
      | Inr (Some plaintext) \<Rightarrow>
          if length plaintext mod 4 \<noteq> 0 then Inl ''buffer overrun''
          else Inr (Some (floats_of (ke_of_bytes K) plaintext,
                 ke_verify K (update_payload update) (gm_server_signature update))))"

text \<open>The worker: no base model is needed before the second round; then the request and what is made
  of the update. \<open>Inr None\<close> makes the worker report the task as failed.\<close>

definition needs_base_model :: "'f WorkerTaskLeaseResponse \<Rightarrow> bool" where
  "needs_base_model task \<longleftrightarrow> \<not> (wt_active_model_version task \<le> 0 \<or> wt_round_index task \<le> 1)"

definition BaseModelRequest :: "kem_outcome \<Rightarrow> string \<Rightarrow> 'f WorkerTaskLeaseResponse \<Rightarrow> ModelRequest option" where
  "BaseModelRequest kem trainer_client_id task =
     (case GenerateKemKeypair kem of
        None \<Rightarrow> None
      | Some (stream_public_key, _) \<Rightarrow>
          Some \<lparr>mr_client_id = trainer_client_id, mr_last_received_round = max 0 (wt_round_index task - 2),
            mr_tenant_id = kTenantId, mr_model_id = kModelId, mr_client_kem_public_key = stream_public_key\<rparr>)"

definition OpenBaseModel ::
  "crypto_prims \<Rightarrow> 'f client_env \<Rightarrow> byte list \<Rightarrow> string \<Rightarrow> GlobalModelUpdate \<Rightarrow> string + 'f list option" where
  "OpenBaseModel C K stream_secret_key trainer_client_id update =
     (case StreamPlaintext C K stream_secret_key (stream_key_context kWorkerCertIdentity trainer_client_id) update of
        Inl err \<Rightarrow> Inl err
      | Inr None \<Rightarrow> Inr None
      | Inr (Some plaintext) \<Rightarrow>
          if \<not> ke_verify K (update_payload update) (gm_server_signature update) then Inr None
          else if length plaintext mod 4 \<noteq> 0 then Inr None
          else Inr (Some (floats_of (ke_of_bytes K) plaintext)))"

text \<open>\<open>read\<close> is the first update of the stream, if there is one.\<close>

definition FetchBaseModelIfAvailable ::
  "crypto_prims \<Rightarrow> 'f client_env \<Rightarrow> string \<Rightarrow> 'f WorkerTaskLeaseResponse \<Rightarrow> (ModelRequest \<Rightarrow> GlobalModelUpdate option)
     \<Rightarrow> string + 'f list option" where
  "FetchBaseModelIfAvailable C K trainer_client_id task read =
     (if \<not> needs_base_model task then Inr (Some [])
      else
        case (GenerateKemKeypair (ke_kem K), BaseModelRequest (ke_kem K) trainer_client_id task) of
          (Some (_, stream_secret_key), Some req) \<Rightarrow>
            (case read req of
               None \<Rightarrow> Inr None
             | Some update \<Rightarrow> OpenBaseModel C K stream_secret_key trainer_client_id update)
        | _ \<Rightarrow> Inr None)"

section \<open>Training and the worker's requests\<close>

definition SyntheticTrain :: "'f arith \<Rightarrow> 'f list \<Rightarrow> string \<Rightarrow> 'f list" where
  "SyntheticTrain A base worker_id =
     (let weights = (if base = [] then [ratio A 1 10, ratio A 2 10, ratio A (- 1) 10, ratio A 4 10] else base);
          offset = ar_mul A (ar_of_int A (int (length worker_id mod 7 + 1))) (ratio A 1 100)
      in map (\<lambda>(i, w). ar_add A w (ar_add A offset (ar_mul A (ar_of_int A (int i)) (ratio A 5 1000))))
           (List.enumerate 0 weights))"

definition WorkerRegisterRequest :: "string \<Rightarrow> string \<Rightarrow> WorkerRegistration" where
  "WorkerRegisterRequest worker_id trainer_client_id = \<lparr>wr_worker_id = worker_id,
     wr_trainer_client_id = trainer_client_id, wr_tenant_id = kTenantId, wr_model_id = kModelId,
     wr_hostname = worker_id @ ''.local'', wr_launcher = ''reference-worker-demo'', wr_max_parallel_tasks = 1,
     wr_labels = [''reference'', ''cpu''], wr_advertised_dataset_size = 100\<rparr>"

definition LeaseTaskRequest :: "string \<Rightarrow> string \<Rightarrow> WorkerTaskLeaseRequest" where
  "LeaseTaskRequest worker_id trainer_client_id = \<lparr>wl_worker_id = worker_id,
     wl_trainer_client_id = trainer_client_id, wl_tenant_id = kTenantId, wl_model_id = kModelId\<rparr>"

definition StatusReport :: "string \<Rightarrow> string \<Rightarrow> string \<Rightarrow> string \<Rightarrow> int \<Rightarrow> WorkerTaskStatusUpdate" where
  "StatusReport worker_id task_id status_value detail progress_percent = \<lparr>wu_worker_id = worker_id,
     wu_task_id = task_id, wu_status = status_value, wu_detail = detail, wu_progress_percent = progress_percent\<rparr>"

definition HeartbeatRequest :: "string \<Rightarrow> string \<Rightarrow> string \<Rightarrow> string \<Rightarrow> WorkerHeartbeat" where
  "HeartbeatRequest worker_id trainer_client_id task_id detail = \<lparr>wh_worker_id = worker_id,
     wh_trainer_client_id = trainer_client_id, wh_tenant_id = kTenantId, wh_model_id = kModelId,
     wh_active_task_id = task_id, wh_detail = detail\<rparr>"

section \<open>The worker's run\<close>

text \<open>The calls of the two stubs, on whatever answers them. The two reports of a run are numbered;
  their answers are not read. \<open>st_stream\<close> is the first update of the stream, if one comes in time.\<close>

record ('f, 's) worker_stubs =
  st_register :: "WorkerRegistration \<Rightarrow> 's \<Rightarrow> (grpc_status \<times> WorkerRegistrationResponse) \<times> 's"
  st_lease :: "WorkerTaskLeaseRequest \<Rightarrow> 's \<Rightarrow> (grpc_status \<times> 'f WorkerTaskLeaseResponse) \<times> 's"
  st_report :: "nat \<Rightarrow> WorkerTaskStatusUpdate \<Rightarrow> 's \<Rightarrow> 's"
  st_heartbeat :: "WorkerHeartbeat \<Rightarrow> 's \<Rightarrow> 's"
  st_stream :: "ModelRequest \<Rightarrow> 's \<Rightarrow> GlobalModelUpdate option"
  st_submit :: "WeightPayload \<Rightarrow> 's \<Rightarrow> (grpc_status \<times> AggregationResponse) \<times> 's"

text \<open>\<open>SubmitWeights\<close> of the client: sealing, the call, and whether the server accepted.\<close>

definition WorkerDeliver ::
  "crypto_prims \<Rightarrow> 'f client_env \<Rightarrow> ('f, 's) worker_stubs \<Rightarrow> string \<Rightarrow> string \<Rightarrow> 'f WorkerTaskLeaseResponse \<Rightarrow> 'f list
     \<Rightarrow> 's \<Rightarrow> (string + bool) \<times> 's" where
  "WorkerDeliver C K T worker_id trainer_client_id task weights s =
     (case WorkerSubmitWeights C K worker_id trainer_client_id task weights of
        Inl err \<Rightarrow> (Inl err, s)
      | Inr None \<Rightarrow> (Inr False, s)
      | Inr (Some req) \<Rightarrow>
          (case st_submit T req s of
             ((rpc_status, res), s') \<Rightarrow> (Inr (fst rpc_status = OK \<and> ar_accepted res), s')))"

text \<open>What \<open>Run\<close> does with a task.\<close>

definition RunTask ::
  "'f arith \<Rightarrow> crypto_prims \<Rightarrow> 'f client_env \<Rightarrow> ('f, 's) worker_stubs \<Rightarrow> string \<Rightarrow> string \<Rightarrow> 'f WorkerTaskLeaseResponse
     \<Rightarrow> 's \<Rightarrow> (string + bool) \<times> 's" where
  "RunTask A C K T worker_id trainer_client_id task s =
     (let s1 = st_report T 0 (StatusReport worker_id (wt_task_id task) ''running'' ''worker bootstrapped trainer'' 20) s in
      case FetchBaseModelIfAvailable C K trainer_client_id task (\<lambda>q. st_stream T q s1) of
        Inl err \<Rightarrow> (Inl err, s1)
      | Inr None \<Rightarrow>
          (Inr False, st_report T 1
             (StatusReport worker_id (wt_task_id task) ''failed'' ''failed to verify streamed base model'' 100) s1)
      | Inr (Some base_weights) \<Rightarrow>
          let trained_weights = SyntheticTrain A base_weights worker_id;
              s2 = st_heartbeat T
                (HeartbeatRequest worker_id trainer_client_id (wt_task_id task) ''synthetic trainer still running'') s1;
              s3 = st_report T 1
                (StatusReport worker_id (wt_task_id task) ''completed'' ''synthetic trainer finished'' 100) s2
          in WorkerDeliver C K T worker_id trainer_client_id task trained_weights s3)"

text \<open>Registration and the lease: the result is whether the call succeeded; the registration takes over the
  trainer that the server answers, the lease the task.\<close>

definition WorkerRegister ::
  "('f, 's) worker_stubs \<Rightarrow> string \<Rightarrow> string \<Rightarrow> 's \<Rightarrow> (bool \<times> string) \<times> 's" where
  "WorkerRegister T worker_id trainer_client_id s =
     (case st_register T (WorkerRegisterRequest worker_id trainer_client_id) s of
        ((rpc_status, res), s') \<Rightarrow>
          if fst rpc_status \<noteq> OK then ((False, trainer_client_id), s') else ((True, wo_trainer_client_id res), s'))"

definition LeaseTask ::
  "('f, 's) worker_stubs \<Rightarrow> string \<Rightarrow> string \<Rightarrow> 's \<Rightarrow> (bool \<times> 'f WorkerTaskLeaseResponse) \<times> 's" where
  "LeaseTask T worker_id trainer_client_id s =
     (case st_lease T (LeaseTaskRequest worker_id trainer_client_id) s of
        ((rpc_status, task), s') \<Rightarrow> ((fst rpc_status = OK, task), s'))"

text \<open>\<open>WorkerDemoClient::Run\<close>: \<open>Inr True\<close> is success, which includes that there was no task.\<close>

definition Run ::
  "'f arith \<Rightarrow> crypto_prims \<Rightarrow> 'f client_env \<Rightarrow> ('f, 's) worker_stubs \<Rightarrow> string \<Rightarrow> string \<Rightarrow> 's
     \<Rightarrow> (string + bool) \<times> 's" where
  "Run A C K T worker_id trainer_client_id s =
     (case WorkerRegister T worker_id trainer_client_id s of
        ((registered, trainer), s1) \<Rightarrow>
          if \<not> registered then (Inr False, s1)
          else case LeaseTask T worker_id trainer s1 of
            ((leased, task), s2) \<Rightarrow>
              if \<not> leased then (Inr False, s2)
              else if \<not> wt_task_ready task then (Inr True, s2)
              else RunTask A C K T worker_id trainer task s2)"

lemmas worker_run_defs = Run_def WorkerRegister_def LeaseTask_def

end
