(* ===== verification/Stream_Properties.thy ===== *)
theory Stream_Properties
  imports Stream_Call Crypto_Properties
begin

text \<open>
  The life of a streaming call: which tags are outstanding in which state, when the object is
  deleted, which updates it writes.
\<close>

section \<open>The outcomes of Proceed\<close>

lemma MaybeDelete_cases:
  "MaybeDeleteAfterTerminalEvent c =
     (if \<not> write_in_flight c \<and> \<not> alarm_in_flight c \<and> \<not> finish_in_flight c \<and> \<not> done_notify_in_flight c \<and>
         (done_received c \<or> status c = FINISH) then (c, [DeleteThis]) else (c, []))"
  by (auto simp: MaybeDeleteAfterTerminalEvent_def)

lemma PrepareUpdate_round:
  "PrepareUpdate C E ctx q latest = Inr (Inr u) \<Longrightarrow> gm_round_index u = ls_round latest"
  by (auto simp: PrepareUpdate_def Let_def split: sum.splits prod.splits)

lemma StreamLatest_cases:
  assumes "StreamLatest C E ctx q c = Inr p" and "\<not> done_received c"
  obtains
    (idle) "p = (c\<lparr>alarm_in_flight := True\<rparr>, [SetAlarm])"
  | (failed) st r where "p = (c\<lparr>last_sent_round := r, status := FINISH, finish_in_flight := True\<rparr>, [FinishCall st])"
  | (sent) u where "p = (c\<lparr>last_sent_round := gm_round_index u, write_in_flight := True\<rparr>, [WriteUpdate u])"
      "mr_last_received_round q < gm_round_index u" "gm_round_index u \<noteq> last_sent_round c"
      "gm_round_index u \<noteq> - 1"
proof -
  let ?latest = "GetLatestGlobalModel (NormalizeTenant (mr_tenant_id q)) (NormalizeModel (mr_model_id q))
    (sv_buffer (en_server E))"
  show ?thesis
  proof (cases "nothing_new c q ?latest")
    case True
    with assms show ?thesis by (intro idle) (simp add: StreamLatest_def Let_def)
  next
    case new: False
    show ?thesis
    proof (cases "PrepareUpdate C E ctx q ?latest")
      case (Inl err)
      with assms new show ?thesis by (simp add: StreamLatest_def Let_def)
    next
      case (Inr r)
      show ?thesis
      proof (cases r)
        case (Inl st)
        with assms new Inr show ?thesis
          by (intro failed [of "ls_round ?latest" st]) (simp add: StreamLatest_def Let_def FinishWithStatus_def)
      next
        case (Inr u)
        with \<open>PrepareUpdate C E ctx q ?latest = Inr r\<close> have u: "PrepareUpdate C E ctx q ?latest = Inr (Inr u)" by simp
        from assms new u PrepareUpdate_round [OF u] show ?thesis
          by (intro sent [of u]) (auto simp: StreamLatest_def Let_def nothing_new_def)
      qed
    qed
  qed
qed

section \<open>The invariant\<close>

definition tags_if :: "bool \<Rightarrow> call_event \<Rightarrow> call_event multiset" where
  "tags_if b e = (if b then {#e#} else {#})"

definition call_tags :: "stream_call \<Rightarrow> call_event multiset" where
  "call_tags c = tags_if (status c = PROCESS) REQUEST + tags_if (done_notify_in_flight c) DONE +
     tags_if (write_in_flight c) WRITE + tags_if (alarm_in_flight c) ALARM + tags_if (finish_in_flight c) FINISHED"

definition call_ok :: "stream_call \<Rightarrow> bool" where
  "call_ok c \<longleftrightarrow> status c \<noteq> CREATE \<and> (done_notify_in_flight c \<longleftrightarrow> \<not> done_received c) \<and>
     (status c = PROCESS \<longrightarrow> \<not> write_in_flight c \<and> \<not> alarm_in_flight c \<and> \<not> finish_in_flight c \<and>
        \<not> done_received c \<and> last_sent_round c = - 1) \<and>
     (status c = STREAM \<longrightarrow> \<not> finish_in_flight c) \<and>
     (status c = FINISH \<longrightarrow> \<not> write_in_flight c \<and> \<not> alarm_in_flight c) \<and>
     \<not> (write_in_flight c \<and> alarm_in_flight c) \<and>
     (done_received c \<longrightarrow> write_in_flight c \<or> alarm_in_flight c \<or> finish_in_flight c)"

definition updates_ok :: "ModelRequest \<Rightarrow> GlobalModelUpdate list \<Rightarrow> bool" where
  "updates_ok q us \<longleftrightarrow> (\<forall>u\<in>set us. mr_last_received_round q < gm_round_index u \<and> gm_round_index u \<noteq> - 1) \<and>
     (\<forall>i. Suc i < length us \<longrightarrow> gm_round_index (us ! Suc i) \<noteq> gm_round_index (us ! i))"

definition stream_inv :: "ModelRequest \<Rightarrow> stream_conf \<Rightarrow> bool" where
  "stream_inv q cf \<longleftrightarrow> updates_ok q (cf_updates cf) \<and>
     (case cf_call cf of
        None \<Rightarrow> cf_tags cf = {#} \<and> cf_spawned cf \<le> 1
      | Some c \<Rightarrow> call_ok c \<and> cf_tags cf = call_tags c \<and>
          cf_spawned cf = (if status c = PROCESS then 0 else 1) \<and>
          (status c = PROCESS \<longrightarrow> cf_updates cf = []) \<and>
          (status c = STREAM \<longrightarrow> last_sent_round c =
             (if cf_updates cf = [] then - 1 else gm_round_index (last (cf_updates cf)))))"

lemma updates_ok_Nil [simp]: "updates_ok q []"
  by (simp add: updates_ok_def)

lemma updates_ok_snoc:
  "updates_ok q us \<Longrightarrow> mr_last_received_round q < gm_round_index u \<Longrightarrow> gm_round_index u \<noteq> - 1 \<Longrightarrow>
   (us \<noteq> [] \<Longrightarrow> gm_round_index u \<noteq> gm_round_index (last us)) \<Longrightarrow> updates_ok q (us @ [u])"
  by (auto simp: updates_ok_def nth_append last_conv_nth less_Suc_eq) (metis Suc_diff_1 Zero_not_Suc diff_Suc_Suc list.size(3) minus_nat.diff_0)

lemma tag_in_call_tags [simp]:
  "REQUEST \<in># call_tags c \<longleftrightarrow> status c = PROCESS" "DONE \<in># call_tags c \<longleftrightarrow> done_notify_in_flight c"
  "WRITE \<in># call_tags c \<longleftrightarrow> write_in_flight c" "ALARM \<in># call_tags c \<longleftrightarrow> alarm_in_flight c"
  "FINISHED \<in># call_tags c \<longleftrightarrow> finish_in_flight c" "START \<notin># call_tags c"
  by (auto simp: call_tags_def tags_if_def)

lemma call_tags_count: "count (call_tags c) e \<le> 1"
  by (cases e) (simp_all add: call_tags_def tags_if_def)

lemma start_inv: "stream_inv q (start_conf C E ctx q)"
  by (simp add: start_conf_def Proceed_def Advance_def new_call_def RequestDoneNotification_def act_def
      stream_inv_def call_ok_def call_tags_def tags_if_def updates_ok_def)

text \<open>The effect of the streaming part on the invariant: \<open>c\<close> has no tag but possibly the notification.\<close>

lemma act_stream:
  assumes p: "StreamLatest C E ctx q c = Inr (c', acts)" and c: "status c = STREAM" "\<not> done_received c"
    "done_notify_in_flight c" "\<not> write_in_flight c" "\<not> alarm_in_flight c" "\<not> finish_in_flight c"
    and last: "last_sent_round c = (if us = [] then - 1 else gm_round_index (last us))" and us: "updates_ok q us"
  shows "DeleteThis \<notin> set acts \<and> call_ok c' \<and> {#DONE#} + \<Sum>\<^sub># (mset (map tag_of acts)) = call_tags c' \<and>
    status c' \<noteq> PROCESS \<and> updates_ok q (us @ concat (map update_of acts)) \<and>
    filter (\<lambda>a. a = SpawnListener) acts = [] \<and>
    (status c' = STREAM \<longrightarrow> last_sent_round c' = (if us @ concat (map update_of acts) = [] then - 1
       else gm_round_index (last (us @ concat (map update_of acts)))))"
  using p c(2)
proof (cases rule: StreamLatest_cases)
  case (sent u)
  then show ?thesis
    using c last us updates_ok_snoc [OF us sent(2,4)]
    by (cases "us = []") (auto simp: call_ok_def call_tags_def tags_if_def)
qed (use c last us in \<open>auto simp: call_ok_def call_tags_def tags_if_def\<close>)

text \<open>A call between two events: nothing is in flight but possibly the notification or the end.\<close>

definition quiet :: "stream_call \<Rightarrow> bool" where
  "quiet c \<longleftrightarrow> status c = STREAM \<and> \<not> write_in_flight c \<and> \<not> alarm_in_flight c \<and> \<not> finish_in_flight c \<and>
     (done_notify_in_flight c \<longleftrightarrow> \<not> done_received c)"

definition history_ok :: "ModelRequest \<Rightarrow> stream_call \<Rightarrow> stream_conf \<Rightarrow> bool" where
  "history_ok q c cf \<longleftrightarrow> updates_ok q (cf_updates cf) \<and> cf_spawned cf = 1 \<and> cf_tags cf = call_tags c \<and>
     (status c = STREAM \<longrightarrow> last_sent_round c =
        (if cf_updates cf = [] then - 1 else gm_round_index (last (cf_updates cf))))"

lemma act_cancel [simp]: "act cf (c, CancelAlarm # acts) = act cf (c, acts)"
  by (simp add: act_def)

lemma settle_inv:
  assumes "history_ok q c cf" and "status c = STREAM \<or> status c = FINISH"
    and "done_notify_in_flight c \<longleftrightarrow> \<not> done_received c" and "\<not> (write_in_flight c \<and> alarm_in_flight c)"
    and "status c = STREAM \<Longrightarrow> \<not> finish_in_flight c"
    and "status c = FINISH \<Longrightarrow> \<not> write_in_flight c \<and> \<not> alarm_in_flight c"
  shows "stream_inv q (act cf (MaybeDeleteAfterTerminalEvent c))"
proof (cases "write_in_flight c \<or> alarm_in_flight c \<or> finish_in_flight c \<or> done_notify_in_flight c")
  case True
  then have "MaybeDeleteAfterTerminalEvent c = (c, [])" by (auto simp: MaybeDelete_cases)
  with True assms show ?thesis
    by (auto simp: act_def stream_inv_def history_ok_def call_ok_def)
next
  case False
  with assms have "MaybeDeleteAfterTerminalEvent c = (c, [DeleteThis])" by (auto simp: MaybeDelete_cases)
  with False assms(1,2) show ?thesis
    by (auto simp: act_def stream_inv_def history_ok_def call_tags_def tags_if_def)
qed

lemma stream_latest_inv:
  assumes "StreamLatest C E ctx q c = Inr (c', acts)" and "history_ok q c cf" and "quiet c" and "\<not> done_received c"
  shows "stream_inv q (act cf (c', acts))"
  using act_stream [OF assms(1), of "cf_updates cf"] assms(2-4)
  by (auto simp: act_def stream_inv_def history_ok_def quiet_def call_tags_def tags_if_def)

lemma wake_inv:
  assumes "(if \<not> ok \<or> done_received c then Inr (MaybeDeleteAfterTerminalEvent c) else Advance C E ctx q ok c) = Inr p"
    and "history_ok q c cf" and "quiet c"
  shows "stream_inv q (act cf p)"
proof (cases "\<not> ok \<or> done_received c")
  case True
  with assms show ?thesis by (auto simp: quiet_def intro!: settle_inv)
next
  case False
  with assms(1,3) have "StreamLatest C E ctx q c = Inr p" by (simp add: Advance_def quiet_def)
  with False assms(2,3) show ?thesis by (cases p) (auto intro: stream_latest_inv)
qed

lemma request_inv:
  assumes run: "Proceed C E ctx q ok REQUEST c = Inr p" and ok: "call_ok c" and c: "status c = PROCESS"
    and cf: "cf_tags cf = take_tag ok REQUEST (call_tags c)" "cf_spawned cf = 0" "cf_updates cf = []"
  shows "stream_inv q (act cf p)"
proof -
  have flags: "done_notify_in_flight c" "\<not> done_received c" "\<not> write_in_flight c"
    "\<not> alarm_in_flight c" "\<not> finish_in_flight c" "last_sent_round c = - 1"
    using ok c by (simp_all add: call_ok_def)
  show ?thesis
  proof (cases "ok \<and> CheckStreamRequest (en_server E) ctx q = None")
    case False
    with run c flags cf show ?thesis
      by (auto simp: Proceed_def Advance_def act_def stream_inv_def take_tag_def call_tags_def tags_if_def
          FinishWithStatus_def call_ok_def split: if_splits option.splits)
  next
    case True
    then obtain c' acts where st: "StreamLatest C E ctx q (c\<lparr>status := STREAM\<rparr>) = Inr (c', acts)"
      and p: "p = (c', SpawnListener # acts)"
      using run c by (auto simp: Proceed_def Advance_def split: sum.splits)
    have "act cf p = act (cf\<lparr>cf_spawned := 1\<rparr>) (c', acts)" using cf(2) by (simp add: p act_def)
    moreover have "stream_inv q \<dots>"
      using True c flags cf
      by (intro stream_latest_inv [OF st]) (auto simp: history_ok_def quiet_def take_tag_def call_tags_def tags_if_def)
    ultimately show ?thesis by simp
  qed
qed

lemma take_call_tag:
  "write_in_flight c \<Longrightarrow> take_tag ok WRITE (call_tags c) = call_tags (c\<lparr>write_in_flight := False\<rparr>)"
  "alarm_in_flight c \<Longrightarrow> take_tag ok ALARM (call_tags c) = call_tags (c\<lparr>alarm_in_flight := False\<rparr>)"
  "finish_in_flight c \<Longrightarrow> take_tag ok FINISHED (call_tags c) = call_tags (c\<lparr>finish_in_flight := False\<rparr>)"
  "done_notify_in_flight c \<Longrightarrow>
     take_tag ok DONE (call_tags c) = call_tags (c\<lparr>done_notify_in_flight := False, done_received := True\<rparr>)"
  by (simp_all add: take_tag_def call_tags_def tags_if_def)

lemma proceed_inv:
  assumes run: "Proceed C E ctx q ok event c = Inr p" and inv: "stream_inv q cf" and c: "cf_call cf = Some c"
    and may: "may_deliver cf ok event"
  shows "stream_inv q (act (cf\<lparr>cf_tags := take_tag ok event (cf_tags cf)\<rparr>) p)"
proof -
  have ok: "call_ok c" and tags: "cf_tags cf = call_tags c"
    and hist: "cf_spawned cf = (if status c = PROCESS then 0 else 1)" "updates_ok q (cf_updates cf)"
      "status c = PROCESS \<longrightarrow> cf_updates cf = []"
      "status c = STREAM \<longrightarrow> last_sent_round c =
        (if cf_updates cf = [] then - 1 else gm_round_index (last (cf_updates cf)))"
    using inv c by (simp_all add: stream_inv_def)
  have here: "event \<in># call_tags c" "event = DONE \<longrightarrow> status c \<noteq> PROCESS"
    using may by (simp_all add: may_deliver_def tags)
  show ?thesis
  proof (cases event)
    case START
    with here show ?thesis by simp
  next
    case REQUEST
    with here run ok hist tags show ?thesis by (auto intro!: request_inv)
  next
    case WRITE
    with here ok have "write_in_flight c" "status c = STREAM" by (cases "status c"; simp add: call_ok_def)+
    with WRITE run ok hist tags show ?thesis
      by (intro wake_inv [of ok "c\<lparr>write_in_flight := False\<rparr>"])
        (auto simp: Proceed_def Let_def history_ok_def quiet_def call_ok_def take_call_tag)
  next
    case ALARM
    with here ok have "alarm_in_flight c" "status c = STREAM" by (cases "status c"; simp add: call_ok_def)+
    with ALARM run ok hist tags show ?thesis
      by (intro wake_inv [of ok "c\<lparr>alarm_in_flight := False\<rparr>"])
        (auto simp: Proceed_def Let_def history_ok_def quiet_def call_ok_def take_call_tag)
  next
    case FINISHED
    with here ok have fin: "finish_in_flight c" "status c = FINISH" by (cases "status c"; simp add: call_ok_def)+
    have "p = MaybeDeleteAfterTerminalEvent (c\<lparr>finish_in_flight := False\<rparr>)" using run FINISHED by (simp add: Proceed_def)
    moreover have "stream_inv q (act (cf\<lparr>cf_tags := take_tag ok event (cf_tags cf)\<rparr>)
        (MaybeDeleteAfterTerminalEvent (c\<lparr>finish_in_flight := False\<rparr>)))"
      using fin FINISHED ok hist tags by (intro settle_inv) (simp_all add: history_ok_def call_ok_def take_call_tag)
    ultimately show ?thesis by simp
  next
    case DONE
    with here have d: "done_notify_in_flight c" "status c \<noteq> PROCESS" by simp_all
    let ?d = "c\<lparr>done_notify_in_flight := False, done_received := True\<rparr>"
    have "act cf' p = act cf' (MaybeDeleteAfterTerminalEvent ?d)" for cf'
      using run DONE by (auto simp: Proceed_def Let_def split: prod.splits)
    moreover have "stream_inv q (act (cf\<lparr>cf_tags := take_tag ok event (cf_tags cf)\<rparr>)
        (MaybeDeleteAfterTerminalEvent ?d))"
      using d DONE ok hist tags
      by (intro settle_inv) (cases "status c"; simp add: history_ok_def call_ok_def take_call_tag)+
    ultimately show ?thesis by simp
  qed
qed

lemma step_inv: "stream_step V C ctx q cf cf' \<Longrightarrow> stream_inv q cf \<Longrightarrow> stream_inv q cf'"
  by (induction rule: stream_step.induct) (rule proceed_inv)

lemma stream_run_inv:
  "(stream_step V C ctx q)\<^sup>*\<^sup>* (start_conf C E ctx q) cf \<Longrightarrow> stream_inv q cf"
  by (induction rule: rtranclp_induct) (auto intro: start_inv step_inv)

text \<open>Once the notification was delivered, at most one more event reaches the object.\<close>

lemma done_last_event:
  assumes "stream_inv q cf" and "cf_call cf = Some c" and "done_received c" and "stream_step V C ctx q cf cf'"
  shows "cf_call cf' = None"
  using assms(4)
proof (cases rule: stream_step.cases)
  case (deliver c0 E ok event p)
  obtain c' acts where p: "p = (c', acts)" by fastforce
  have c0: "c0 = c" using deliver assms(2) by simp
  have ok: "call_ok c" and tags: "cf_tags cf = call_tags c" using assms(1,2) by (simp_all add: stream_inv_def)
  have here: "event \<in># call_tags c" using deliver by (simp add: may_deliver_def tags)
  have "DeleteThis \<in> set acts"
    using deliver(5) here ok assms(3)
    by (cases event; cases "status c"; cases "write_in_flight c"; cases "alarm_in_flight c"; cases "finish_in_flight c")
      (auto simp: c0 p Proceed_def MaybeDelete_cases call_ok_def Let_def)
  then show ?thesis by (simp add: deliver(1) p act_def)
qed

lemma live_call_has_event:
  assumes "stream_inv q cf" and "cf_call cf = Some c"
  shows "cf_tags cf \<noteq> {#}"
proof
  assume "cf_tags cf = {#}"
  with assms have e: "call_tags c = {#}" and ok: "call_ok c" by (simp_all add: stream_inv_def)
  have "e \<notin># call_tags c" for e using e by simp
  then show False using ok tag_in_call_tags(2,3,4,5) [of c] by (simp add: call_ok_def)
qed

text \<open>The end of a call: the notification can always be delivered, and then a last event.\<close>

lemma deliverI:
  "cf_call cf = Some c \<Longrightarrow> E \<in> V \<Longrightarrow> may_deliver cf ok event \<Longrightarrow> Proceed C E ctx q ok event c = Inr p \<Longrightarrow>
   \<exists>cf'. stream_step V C ctx q cf cf'"
  by (blast intro: stream_step.deliver)

lemma done_event_enabled:
  assumes inv: "stream_inv q cf" and c: "cf_call cf = Some c" and d: "done_received c" and E: "E \<in> V"
  shows "\<exists>cf'. stream_step V C ctx q cf cf'"
proof -
  have ok: "call_ok c" and tags: "cf_tags cf = call_tags c" using inv c by (simp_all add: stream_inv_def)
  then consider "write_in_flight c" | "alarm_in_flight c" | "finish_in_flight c" using d by (auto simp: call_ok_def)
  then show ?thesis
  proof cases
    case 1
    then show ?thesis by (intro deliverI [OF c E, of True WRITE]) (simp_all add: may_deliver_def tags Proceed_def d Let_def)
  next
    case 2
    then show ?thesis by (intro deliverI [OF c E, of True ALARM]) (simp_all add: may_deliver_def tags Proceed_def d Let_def)
  next
    case 3
    then show ?thesis by (intro deliverI [OF c E, of True FINISHED]) (simp_all add: may_deliver_def tags Proceed_def)
  qed
qed

lemma done_may_end:
  assumes "stream_inv q cf" and "cf_call cf = Some c" and "done_received c" and "E \<in> V"
  shows "\<exists>cf'. (stream_step V C ctx q)\<^sup>*\<^sup>* cf cf' \<and> cf_call cf' = None"
  using done_event_enabled [OF assms] done_last_event [OF assms(1-3)] by blast

lemma stream_may_end:
  assumes inv: "stream_inv q cf" and c: "cf_call cf = Some c" and E: "E \<in> V"
  shows "\<exists>cf'. (stream_step V C ctx q)\<^sup>*\<^sup>* cf cf' \<and> cf_call cf' = None"
proof -
  have ok: "call_ok c" and tags: "cf_tags cf = call_tags c" using inv c by (simp_all add: stream_inv_def)
  show ?thesis
  proof (cases "done_received c")
    case True
    from done_may_end [OF inv c True E] show ?thesis .
  next
    case running: False
    show ?thesis
    proof (cases "status c = PROCESS")
      case True
      have "stream_step V C ctx q cf (act (cf\<lparr>cf_tags := take_tag False REQUEST (cf_tags cf)\<rparr>) (c, [DeleteThis]))"
        using True by (intro stream_step.deliver [OF c E]) (simp_all add: may_deliver_def tags Proceed_def Advance_def)
      moreover have "cf_call (act cf' (c, [DeleteThis])) = None" for cf' by (simp add: act_def)
      ultimately show ?thesis by blast
    next
      case False
      obtain p where p: "Proceed C E ctx q True DONE c = Inr p"
        by (cases "MaybeDeleteAfterTerminalEvent (c\<lparr>done_notify_in_flight := False, done_received := True\<rparr>)")
          (simp add: Proceed_def Let_def)
      have "may_deliver cf True DONE" using running False ok by (simp add: may_deliver_def tags call_ok_def)
      then have step: "stream_step V C ctx q cf (act (cf\<lparr>cf_tags := take_tag True DONE (cf_tags cf)\<rparr>) p)" (is "stream_step _ _ _ _ _ ?next")
        by (rule stream_step.deliver [OF c E _ p])
      show ?thesis
      proof (cases "cf_call ?next")
        case None
        with step show ?thesis by blast
      next
        case (Some c')
        then have "done_received c'" using p
          by (auto simp: Proceed_def Let_def act_def MaybeDelete_cases split: if_splits prod.splits)
        with done_may_end [OF step_inv [OF step inv] Some _ E] step show ?thesis
          by (meson converse_rtranclp_into_rtranclp)
      qed
    qed
  qed
qed

section \<open>What the client makes of an update\<close>

lemma EncryptWithKey_Inr:
  assumes "EncryptWithKey C k iv plaintext = Inr (ct, iv', t)" and "aead_correct C"
  shows "DecryptWithKey C k ct iv' t = Inr plaintext"
  using assms
  by (auto simp: EncryptWithKey_def DecryptWithKey_def aead_correct_def split: option.splits sum.splits evp_fault.splits)

lemma PrepareUpdate_content:
  assumes "PrepareUpdate C E ctx q latest = Inr (Inr u)" and "aead_correct C"
  shows "\<exists>key. StreamSessionKey C ctx q (sv_crypto (en_server E)) = Inr (Inr (key, gm_kem_ciphertext u, gm_key_agreement u)) \<and>
    DecryptWithKey C key (gm_encrypted_weights u) (gm_iv u) (gm_auth_tag u) = Inr (bytes_of (en_to_bytes E) (ls_weights latest)) \<and>
    gm_server_signature u = en_sign E (signed_payload (gm_tenant_id u) (gm_model_id u) (gm_round_index u)
      (gm_model_version u) (chars_of (gm_encrypted_weights u))) \<and>
    gm_round_index u = ls_round latest \<and> gm_model_version u = ls_model_version latest"
  using assms EncryptWithKey_Inr [OF _ assms(2)]
  by (auto simp: PrepareUpdate_def Let_def split: sum.splits prod.splits)

end
