(* ===== verification/Stream_Guarantees.thy ===== *)
theory Stream_Guarantees
  imports Stream_Properties Service_Scenario
begin

text \<open>
  The guarantees of the streaming call: the object lives exactly as long as a tag refers to it, it
  ends once the client is gone, and the updates it writes are new to the client.
\<close>

section \<open>A concrete stream\<close>

definition word_stream :: "(32 word) server \<Rightarrow> (32 word) stream_env" where
  "word_stream sv = \<lparr>en_server = sv, en_strategy = ''fedavg'', en_iv = Some (replicate 12 0), en_time = 2000,
     en_sign = (\<lambda>m. [of_nat (length m)]), en_to_bytes = WriteUint32BigEndian\<rparr>"

definition alice_stream :: ModelRequest where
  "alice_stream = \<lparr>mr_client_id = ''alice'', mr_last_received_round = 2, mr_tenant_id = ''acme'', mr_model_id = ''cnn'',
     mr_client_kem_public_key = []\<rparr>"

definition aggregated_server :: "(32 word) server" where
  "aggregated_server = demo_server\<lparr>sv_buffer := RestoreLatestGlobalModel ''acme'' ''cnn'' 3 5 [7, 8] empty_buffer\<rparr>"

definition alice_update :: GlobalModelUpdate where
  "alice_update = \<lparr>gm_round_index = 3, gm_encrypted_weights = [0, 0, 0, 7, 0, 0, 0, 8], gm_iv = replicate 12 0,
     gm_auth_tag = replicate 16 0,
     gm_server_signature = [of_nat (length (signed_payload ''acme'' ''cnn'' 3 5 (chars_of [0, 0, 0, 7, 0, 0, 0, 8])))],
     gm_aggregation_method = ''fedavg'', gm_tenant_id = ''acme'', gm_model_id = ''cnn'', gm_model_version = 5,
     gm_key_version = 1, gm_server_nonce = CurrentTimestamp 2000, gm_kem_ciphertext = [],
     gm_key_agreement = ''shared-secret''\<rparr>"

definition streaming :: "stream_call" where
  "streaming = \<lparr>status = STREAM, last_sent_round = 3, done_notify_in_flight = True, done_received = False,
     write_in_flight = True, alarm_in_flight = False, finish_in_flight = False\<rparr>"

definition written_conf :: stream_conf where
  "written_conf = \<lparr>cf_call = Some streaming, cf_tags = {#DONE, WRITE#}, cf_updates = [alice_update], cf_spawned = 1\<rparr>"

lemma alice_latest:
  "GetLatestGlobalModel ''acme'' ''cnn'' (sv_buffer aggregated_server) = \<lparr>ls_round = 3, ls_model_version = 5, ls_weights = [7, 8]\<rparr>"
  by (simp add: aggregated_server_def RestoreLatestGlobalModel_def GetLatestGlobalModel_def)

lemma alice_prepares:
  "PrepareUpdate null_prims (word_stream aggregated_server) alice alice_stream
     \<lparr>ls_round = 3, ls_model_version = 5, ls_weights = [7, 8]\<rparr> = Inr (Inr alice_update)"
  by (simp add: PrepareUpdate_def StreamSessionKey_def word_stream_def alice_stream_def alice_update_def
      aggregated_server_def demo_server_def DeriveSessionKey_def DeriveSessionKeyWithSecret_def demo_engine_def
      KEY_SIZE_def null_prims_def EncryptWithKey_def TAG_SIZE_def GetActiveKeyVersion_def bytes_of_def
      WriteUint32BigEndian_def Let_def)

lemma alice_stream_checked: "CheckStreamRequest aggregated_server alice alice_stream = None"
  using alice_registered
  by (simp add: CheckStreamRequest_def alice_stream_def alice_ids aggregated_server_def Let_def)

lemma alice_proceeds:
  "Proceed null_prims (word_stream aggregated_server) alice alice_stream True REQUEST
     (new_call\<lparr>status := PROCESS, done_notify_in_flight := True\<rparr>) =
   Inr (streaming, [SpawnListener, WriteUpdate alice_update])"
  using alice_stream_checked alice_latest alice_prepares
  by (simp add: Proceed_def Advance_def StreamLatest_def nothing_new_def word_stream_def alice_stream_def new_call_def
      streaming_def alice_update_def Let_def)

lemma alice_start:
  "start_conf null_prims (word_stream aggregated_server) alice alice_stream =
     \<lparr>cf_call = Some (new_call\<lparr>status := PROCESS, done_notify_in_flight := True\<rparr>), cf_tags = {#DONE, REQUEST#},
       cf_updates = [], cf_spawned = 0\<rparr>"
  by (simp add: start_conf_def Proceed_def Advance_def RequestDoneNotification_def new_call_def act_def)

lemma alice_written:
  "stream_step {word_stream aggregated_server} null_prims alice alice_stream
     (start_conf null_prims (word_stream aggregated_server) alice alice_stream) written_conf"
  using stream_step.deliver [where cf = "start_conf null_prims (word_stream aggregated_server) alice alice_stream"
      and V = "{word_stream aggregated_server}", OF _ _ _ alice_proceeds]
  by (simp add: alice_start may_deliver_def take_tag_def act_def written_conf_def)

text \<open>The client goes away while the write is outstanding.\<close>

definition gone :: stream_call where
  "gone = streaming\<lparr>done_notify_in_flight := False, done_received := True\<rparr>"

definition gone_conf :: stream_conf where
  "gone_conf = \<lparr>cf_call = Some gone, cf_tags = {#WRITE#}, cf_updates = [alice_update], cf_spawned = 1\<rparr>"

lemma alice_notified: "Proceed null_prims (word_stream aggregated_server) alice alice_stream True DONE streaming = Inr (gone, [])"
  by (simp add: Proceed_def MaybeDeleteAfterTerminalEvent_def streaming_def gone_def)

lemma alice_gone:
  "stream_step {word_stream aggregated_server} null_prims alice alice_stream written_conf gone_conf"
  using stream_step.deliver [where cf = written_conf and V = "{word_stream aggregated_server}", OF _ _ _ alice_notified]
  by (simp add: may_deliver_def take_tag_def act_def written_conf_def gone_conf_def)

lemma alice_gone_run:
  "(stream_step {word_stream aggregated_server} null_prims alice alice_stream)\<^sup>*\<^sup>*
     (start_conf null_prims (word_stream aggregated_server) alice alice_stream) gone_conf"
  using alice_written alice_gone by (rule converse_rtranclp_into_rtranclp [OF _ r_into_rtranclp])

section \<open>The life of the object\<close>

text \<open>A streaming object is deleted exactly when none of its tags is outstanding: no event ever
  reaches a deleted object and none leaks. Each operation is outstanding at most once, writes and
  alarms exclude each other, and a call spawns at most one successor.\<close>

theorem stream_deleted_when_idle:
  assumes "(stream_step V C ctx q)\<^sup>*\<^sup>* (start_conf C E ctx q) cf"
  shows "(cf_call cf = None \<longleftrightarrow> cf_tags cf = {#}) \<and> (\<forall>e. count (cf_tags cf) e \<le> 1) \<and>
    \<not> (WRITE \<in># cf_tags cf \<and> ALARM \<in># cf_tags cf) \<and> cf_spawned cf \<le> 1"
proof -
  note inv = stream_run_inv [OF assms]
  show ?thesis
  proof (cases "cf_call cf")
    case None
    with inv show ?thesis by (simp add: stream_inv_def)
  next
    case (Some c)
    then have "cf_tags cf = call_tags c" "\<not> (write_in_flight c \<and> alarm_in_flight c)" "cf_spawned cf \<le> 1"
      using inv by (simp_all add: stream_inv_def call_ok_def)
    with Some live_call_has_event [OF inv Some] show ?thesis
      by (simp add: call_tags_count del: One_nat_def)
  qed
qed

theorem stream_deleted_when_idle_witness:
  "(cf_call written_conf = None \<longleftrightarrow> cf_tags written_conf = {#}) \<and> (\<forall>e. count (cf_tags written_conf) e \<le> 1) \<and>
    \<not> (WRITE \<in># cf_tags written_conf \<and> ALARM \<in># cf_tags written_conf) \<and> cf_spawned written_conf \<le> 1"
  by (rule stream_deleted_when_idle [OF r_into_rtranclp, OF alice_written])

text \<open>C19: From every state of a streaming call some run ends it; and once the notification that the
  client is gone was handled, the call ends with the very next event, whichever it is.\<close>

theorem stream_call_ends:
  assumes "(stream_step V C ctx q)\<^sup>*\<^sup>* (start_conf C E ctx q) cf" and "E' \<in> V" and "cf_call cf = Some c"
  shows "(\<exists>cf'. (stream_step V C ctx q)\<^sup>*\<^sup>* cf cf' \<and> cf_call cf' = None) \<and>
    (done_received c \<longrightarrow> (\<exists>cf'. stream_step V C ctx q cf cf') \<and>
       (\<forall>cf'. stream_step V C ctx q cf cf' \<longrightarrow> cf_call cf' = None))"
  using stream_may_end [OF stream_run_inv [OF assms(1)] assms(3,2)]
    done_event_enabled [OF stream_run_inv [OF assms(1)] assms(3) _ assms(2)]
    done_last_event [OF stream_run_inv [OF assms(1)] assms(3)]
  by blast

theorem stream_call_ends_witness:
  "(\<exists>cf'. (stream_step {word_stream aggregated_server} null_prims alice alice_stream)\<^sup>*\<^sup>* gone_conf cf' \<and>
      cf_call cf' = None) \<and>
    (\<exists>cf'. stream_step {word_stream aggregated_server} null_prims alice alice_stream gone_conf cf' \<and>
      cf_call cf' = None)"
  using stream_call_ends [OF alice_gone_run, of "word_stream aggregated_server" gone]
  by (simp add: gone_conf_def gone_def) blast

text \<open>Every update a stream writes is of a later round than the client said it has, and no round
  is written twice in a row.\<close>

theorem streamed_updates_new:
  assumes "(stream_step V C ctx q)\<^sup>*\<^sup>* (start_conf C E ctx q) cf"
  shows "(\<forall>u\<in>set (cf_updates cf). mr_last_received_round q < gm_round_index u) \<and>
    (\<forall>i. Suc i < length (cf_updates cf) \<longrightarrow>
       gm_round_index (cf_updates cf ! Suc i) \<noteq> gm_round_index (cf_updates cf ! i))"
  using stream_run_inv [OF assms] by (simp add: stream_inv_def updates_ok_def)

theorem streamed_updates_new_witness: "mr_last_received_round alice_stream < gm_round_index alice_update"
  using streamed_updates_new [OF alice_gone_run] by (simp add: gone_conf_def)

end
