(* ===== verification/Client_Guarantees.thy ===== *)
theory Client_Guarantees
  imports Demo_Clients Stream_Guarantees Service_Guarantees
begin

text \<open>
  The two ends together: what the demo clients seal is what the server decrypts, and what the
  server streams is what the worker's client reads back.
\<close>

section \<open>Submissions\<close>

lemma submit_keys_agree:
  assumes "ClientSubmitKey C secret pk parts = Inr (Some (key, ct, name))"
    and "pk = [] \<and> secret = ce_payload_secret e \<or> pk \<noteq> [] \<and> pk = ce_kem_public_key e \<and>
      kem_correct C (ce_kem_public_key e) (ce_kem_secret_key e) \<and> 0 < kem_ciphertext_length C"
  shows "(if ct \<noteq> [] then DeriveKemSessionKey C e parts ct else DeriveSessionKey C e parts) = Inr key"
proof (cases "pk = []")
  case True
  with assms show ?thesis
    by (auto simp: ClientSubmitKey_def DeriveSessionKey_def split: sum.splits)
next
  case False
  then have pk: "pk = ce_kem_public_key e" and kem: "kem_correct C (ce_kem_public_key e) (ce_kem_secret_key e)"
    and len: "0 < kem_ciphertext_length C" using assms(2) by auto
  from assms(1) False obtain ss where enc: "EncapsulateKem C pk = Some (ct, ss)"
    and key: "DeriveSessionKeyFromKemSecret C ss parts = Inr key"
    by (auto simp: ClientSubmitKey_def split: option.splits sum.splits)
  have raw: "kem_encaps C (ce_kem_public_key e) = Some (ct, ss)"
    using enc pk by (simp add: EncapsulateKem_def split: if_splits)
  with kem len have "ct \<noteq> []" by (auto simp: kem_correct_def)
  with raw kem key show ?thesis by (simp add: DeriveKemSessionKey_def kem_correct_def)
qed

lemma SealPayload_opens:
  assumes "SealPayload C K pk (submit_key_context identity req) ws req = Inr (Some q)" and "aead_correct C"
    and "pk = [] \<and> ke_payload_secret K = ce_payload_secret e \<or> pk \<noteq> [] \<and> pk = ce_kem_public_key e \<and>
      kem_correct C (ce_kem_public_key e) (ce_kem_secret_key e) \<and> 0 < kem_ciphertext_length C"
    and "GetPeerIdentity ctx = identity" and "wp_tenant_id req = kTenantId" "wp_model_id req = kModelId"
    and "wp_client_nonce req \<noteq> ''''"
  shows "DecryptSubmission C ctx q e = Inr (bytes_of (ke_to_bytes K) ws)"
proof -
  obtain key ct name where key: "ClientSubmitKey C (ke_payload_secret K) pk (submit_key_context identity req) =
      Inr (Some (key, ct, name))"
    and enc: "EncryptWithKey C key (ke_iv K) (bytes_of (ke_to_bytes K) ws) =
      Inr (wp_encrypted_weights q, wp_iv q, wp_auth_tag q)"
    and q: "wp_kem_ciphertext q = ct" "submit_context ctx q = submit_key_context identity req"
    using assms(1,4-7)
    by (auto simp: SealPayload_def submit_context_def submit_key_context_def kTenantId_def kModelId_def
        NormalizeTenant_def NormalizeModel_def split: sum.splits option.splits)
  have "SubmitSessionKey C ctx q e = Inr key"
    using submit_keys_agree [OF key assms(3)] by (auto simp: SubmitSessionKey_def q split: if_splits)
  with EncryptWithKey_Inr [OF enc assms(2)] show ?thesis by (simp add: DecryptSubmission_def)
qed

lemma sealed_submission_opens:
  assumes "aead_correct C" and "float_bytes (ke_to_bytes K) of_bytes"
    and "pk = [] \<and> ke_payload_secret K = ce_payload_secret e \<or> pk \<noteq> [] \<and> pk = ce_kem_public_key e \<and>
      kem_correct C (ce_kem_public_key e) (ce_kem_secret_key e) \<and> 0 < kem_ciphertext_length C"
    and "SendWeights C K cid ws config = Inr (Some q) \<and> tc_payload_kem_public_key config = pk \<and>
        GetPeerIdentity ctx = kTestCertIdentity \<or>
      WorkerSubmitWeights C K wid cid task ws = Inr (Some q) \<and> wt_payload_kem_public_key task = pk \<and>
        GetPeerIdentity ctx = kWorkerCertIdentity"
  shows "\<exists>plaintext. DecryptSubmission C ctx q e = Inr plaintext \<and> length plaintext mod 4 = 0 \<and>
    floats_of of_bytes plaintext = ws"
proof -
  have "DecryptSubmission C ctx q e = Inr (bytes_of (ke_to_bytes K) ws)"
    using assms(4)
  proof (elim disjE conjE)
    assume "SendWeights C K cid ws config = Inr (Some q)" and pk: "tc_payload_kem_public_key config = pk"
      and id: "GetPeerIdentity ctx = kTestCertIdentity"
    from this(1) [unfolded test_client_defs Let_def pk] show ?thesis
      by (rule SealPayload_opens [OF _ assms(1,3) id]) simp_all
  next
    assume "WorkerSubmitWeights C K wid cid task ws = Inr (Some q)" and pk: "wt_payload_kem_public_key task = pk"
      and id: "GetPeerIdentity ctx = kWorkerCertIdentity"
    from this(1) [unfolded WorkerSubmitWeights_def Let_def pk] show ?thesis
      by (rule SealPayload_opens [OF _ assms(1,3) id]) simp_all
  qed
  with floats_of_bytes [OF assms(2), of ws] show ?thesis by auto
qed

text \<open>What a client of the repository seals, the server opens: the plaintext is the byte image of
  the client's weights and reads back as exactly these, whether the key was encapsulated to the
  server's key or derived from the shared secret, provided both sides see the same identity.\<close>

theorem client_submission_opens:
  assumes "aead_correct C" and "float_bytes (ke_to_bytes K) of_bytes"
    and "pk = [] \<and> ke_payload_secret K = ce_payload_secret e \<or> pk \<noteq> [] \<and> pk = ce_kem_public_key e \<and>
      kem_correct C (ce_kem_public_key e) (ce_kem_secret_key e) \<and> 0 < kem_ciphertext_length C"
    and "SendWeights C K cid ws config = Inr (Some q) \<and> tc_payload_kem_public_key config = pk \<and>
        GetPeerIdentity ctx = kTestCertIdentity \<or>
      WorkerSubmitWeights C K wid cid task ws = Inr (Some q) \<and> wt_payload_kem_public_key task = pk \<and>
        GetPeerIdentity ctx = kWorkerCertIdentity"
  shows "\<exists>plaintext. DecryptSubmission C ctx q e = Inr plaintext \<and> length plaintext mod 4 = 0 \<and>
    floats_of of_bytes plaintext = ws"
  by (rule sealed_submission_opens) (rule assms)+

definition word_client :: "(32 word) client_env" where
  "word_client = \<lparr>ke_payload_secret = replicate 32 2, ke_iv = Some (replicate 12 0),
     ke_kem = Keypair (replicate 32 4) (replicate 32 4), ke_to_bytes = WriteUint32BigEndian,
     ke_of_bytes = ReadUint32BigEndian, ke_verify = (\<lambda>m s. s = [of_nat (length m)])\<rparr>"

definition worker_peer :: server_context where
  "worker_peer = Some \<lparr>auth_authenticated = True, auth_identities = [kWorkerCertIdentity]\<rparr>"

definition demo_task :: "(32 word) WorkerTaskLeaseResponse" where
  "demo_task = (no_task word_arith '''')\<lparr>wt_round_index := 4, wt_active_model_version := 5,
     wt_payload_kem_public_key := replicate 32 3\<rparr>"

theorem client_submission_opens_witness:
  "\<exists>q plaintext. WorkerSubmitWeights null_prims word_client ''w'' ''w-trainer'' demo_task [7, 8] = Inr (Some q) \<and>
     DecryptSubmission null_prims worker_peer q demo_engine = Inr plaintext \<and>
     floats_of ReadUint32BigEndian plaintext = [7, 8]"
proof -
  have "\<exists>q. WorkerSubmitWeights null_prims word_client ''w'' ''w-trainer'' demo_task [7, 8] = Inr (Some q)"
    by (simp add: WorkerSubmitWeights_def SealPayload_def ClientSubmitKey_def demo_task_def word_client_def
        null_prims_def EncapsulateKem_def DeriveSessionKeyFromKemSecret_def DeriveSessionKeyWithSecret_def KEY_SIZE_def
        EncryptWithKey_def Let_def)
  then obtain q where q: "WorkerSubmitWeights null_prims word_client ''w'' ''w-trainer'' demo_task [7, 8] = Inr (Some q)" ..
  have bytes: "float_bytes (ke_to_bytes word_client) ReadUint32BigEndian"
    by (simp add: word_client_def word_bytes)
  have pk: "wt_payload_kem_public_key demo_task = replicate 32 3" by (simp add: demo_task_def)
  have id: "GetPeerIdentity worker_peer = kWorkerCertIdentity" by (simp add: worker_peer_def GetPeerIdentity_def)
  have kem: "kem_correct null_prims (ce_kem_public_key demo_engine) (ce_kem_secret_key demo_engine)"
    "ce_kem_public_key demo_engine = replicate 32 3" "0 < kem_ciphertext_length null_prims"
    by (simp_all add: demo_engine_def null_prims_correct) (simp add: null_prims_def)
  have "\<exists>plaintext. DecryptSubmission null_prims worker_peer q demo_engine = Inr plaintext \<and>
      length plaintext mod 4 = 0 \<and> floats_of ReadUint32BigEndian plaintext = [7, 8]"
    by (rule client_submission_opens [OF null_prims_correct(1) bytes _ disjI2, OF _ conjI [OF q conjI [OF pk id]]])
      (use kem in simp)
  with q show ?thesis by blast
qed

section \<open>The streamed model\<close>

lemma stream_keys_agree:
  assumes "StreamSessionKey C ctx q e = Inr (Inr (key, gm_kem_ciphertext u, gm_key_agreement u))"
    and "stream_context ctx q = parts"
    and "mr_client_kem_public_key q = [] \<and> secret = ce_payload_secret e \<or>
      mr_client_kem_public_key q \<noteq> [] \<and> kem_pair C (mr_client_kem_public_key q) sk"
  shows "ClientStreamKey C secret sk parts u = Inr (Some key)"
  using assms
  by (auto simp: StreamSessionKey_def ClientStreamKey_def EncapsulateKem_def DecapsulateKem_def kem_pair_def
      kem_correct_def DeriveSessionKey_def split: option.splits sum.splits if_splits)

lemma fetch_opens_latest:
  assumes "aead_correct C" and "float_bytes (en_to_bytes E) (ke_of_bytes K)"
    and "\<forall>m. ke_verify K m (en_sign E m)"
    and "ke_kem K = Keypair pk sk" and "kem_pair C pk sk" and "pk \<noteq> []"
    and "GetPeerIdentity ctx = kWorkerCertIdentity" and "needs_base_model task"
    and "BaseModelRequest (ke_kem K) cid task = Some q" and "PrepareUpdate C E ctx q latest = Inr (Inr u)"
    and "read q = Some u"
  shows "FetchBaseModelIfAvailable C K cid task read = Inr (Some (ls_weights latest))"
proof -
  have q: "mr_client_kem_public_key q = pk" "stream_context ctx q = stream_key_context kWorkerCertIdentity cid"
    "NormalizeTenant (mr_tenant_id q) = kTenantId" "NormalizeModel (mr_model_id q) = kModelId"
    using assms(4,7,9)
    by (auto simp: BaseModelRequest_def GenerateKemKeypair_def stream_context_def stream_key_context_def
        NormalizeTenant_def NormalizeModel_def kTenantId_def kModelId_def)
  obtain key where key: "StreamSessionKey C ctx q (sv_crypto (en_server E)) =
      Inr (Inr (key, gm_kem_ciphertext u, gm_key_agreement u))"
    and dec: "DecryptWithKey C key (gm_encrypted_weights u) (gm_iv u) (gm_auth_tag u) =
      Inr (bytes_of (en_to_bytes E) (ls_weights latest))"
    and sig: "gm_server_signature u = en_sign E (signed_payload (gm_tenant_id u) (gm_model_id u) (gm_round_index u)
      (gm_model_version u) (chars_of (gm_encrypted_weights u)))"
    using PrepareUpdate_content [OF assms(10,1)] by blast
  have scope: "gm_tenant_id u = kTenantId" "gm_model_id u = kModelId"
    using assms(10) by (auto simp: PrepareUpdate_def Let_def q split: sum.splits prod.splits)
  have "signed_payload (gm_tenant_id u) (gm_model_id u) (gm_round_index u) (gm_model_version u)
      (chars_of (gm_encrypted_weights u)) = update_payload u"
    by (simp add: signed_payload_def update_payload_def scope kTenantId_def kModelId_def NormalizeTenant_def
        NormalizeModel_def)
  with sig assms(3) have "ke_verify K (update_payload u) (gm_server_signature u)" by simp
  moreover have "ClientStreamKey C (ke_payload_secret K) sk (stream_key_context kWorkerCertIdentity cid) u = Inr (Some key)"
    by (rule stream_keys_agree [OF key q(2)]) (simp add: q assms(5,6))
  ultimately show ?thesis
    using assms(4,8,9,11) dec floats_of_bytes [OF assms(2), of "ls_weights latest"]
    by (simp add: FetchBaseModelIfAvailable_def OpenBaseModel_def StreamPlaintext_def GenerateKemKeypair_def)
qed

text \<open>C13: The update the server streams for the base model request of a worker opens at the worker to
  exactly the latest global weights, with its signature verified.\<close>

theorem worker_fetches_latest_model:
  assumes "aead_correct C" and "float_bytes (en_to_bytes E) (ke_of_bytes K)"
    and "\<forall>m. ke_verify K m (en_sign E m)"
    and "ke_kem K = Keypair pk sk" and "kem_pair C pk sk" and "pk \<noteq> []"
    and "GetPeerIdentity ctx = kWorkerCertIdentity" and "needs_base_model task"
    and "BaseModelRequest (ke_kem K) cid task = Some q" and "PrepareUpdate C E ctx q latest = Inr (Inr u)"
    and "read q = Some u"
  shows "FetchBaseModelIfAvailable C K cid task read = Inr (Some (ls_weights latest))"
  by (rule fetch_opens_latest) (rule assms)+

theorem worker_fetches_latest_model_witness:
  "\<exists>q u. BaseModelRequest (Keypair (replicate 32 4) (replicate 32 4)) ''w-trainer'' demo_task = Some q \<and>
     PrepareUpdate null_prims (word_stream demo_server) worker_peer q
       \<lparr>ls_round = 3, ls_model_version = 5, ls_weights = [7, 8]\<rparr> = Inr (Inr u) \<and>
     FetchBaseModelIfAvailable null_prims word_client ''w-trainer'' demo_task [q \<mapsto> u] = Inr (Some [7, 8])"
proof -
  have "\<exists>q. BaseModelRequest (Keypair (replicate 32 4) (replicate 32 4)) ''w-trainer'' demo_task = Some q \<and>
      mr_client_kem_public_key q = replicate 32 4"
    by (simp add: BaseModelRequest_def GenerateKemKeypair_def)
  then obtain q where q: "BaseModelRequest (Keypair (replicate 32 4) (replicate 32 4)) ''w-trainer'' demo_task = Some q"
    and pk: "mr_client_kem_public_key q = replicate 32 4" by blast
  have "\<exists>u. PrepareUpdate null_prims (word_stream demo_server) worker_peer q
       \<lparr>ls_round = 3, ls_model_version = 5, ls_weights = [7, 8]\<rparr> = Inr (Inr u)"
    by (simp add: PrepareUpdate_def StreamSessionKey_def pk word_stream_def null_prims_def EncapsulateKem_def
        DeriveSessionKeyFromKemSecret_def DeriveSessionKeyWithSecret_def KEY_SIZE_def EncryptWithKey_def Let_def)
  then obtain u where u: "PrepareUpdate null_prims (word_stream demo_server) worker_peer q
       \<lparr>ls_round = 3, ls_model_version = 5, ls_weights = [7, 8]\<rparr> = Inr (Inr u)" ..
  have pair: "kem_pair null_prims (replicate 32 4) (replicate 32 4)"
    by (simp add: kem_pair_def null_prims_correct) (simp add: null_prims_def)
  have needs: "needs_base_model demo_task" by (simp add: needs_base_model_def demo_task_def)
  have "FetchBaseModelIfAvailable null_prims word_client ''w-trainer'' demo_task [q \<mapsto> u] =
      Inr (Some (ls_weights \<lparr>ls_round = 3, ls_model_version = 5, ls_weights = [7, 8 :: 32 word]\<rparr>))"
    by (rule worker_fetches_latest_model [OF null_prims_correct(1) _ _ _ pair _ _ _ _ u])
      (simp_all add: word_stream_def word_client_def word_bytes worker_peer_def GetPeerIdentity_def needs q)
  with q u show ?thesis by auto
qed

end
