(* ===== verification/Store_Crash.thy ===== *)
theory Store_Crash
  imports Persist_Guarantees Paths
begin

text \<open>
  \<open>server/state_store.cpp\<close>, the end of \<open>SaveLocked\<close> with \<open>FsyncPathIfPossible\<close> and
  \<open>FsyncDirectoryIfPossible\<close>: what a loss of power leaves. The disk has two layers: what processes
  see (names and contents) and what is on the medium. The system writes back when it likes; \<open>fsync\<close>
  forces it, if the file can be opened once more - if not, the code goes on without.
\<close>

section \<open>The two layers\<close>

record 'c disk =
  seen_names :: "string \<rightharpoonup> nat"
  seen_data :: "nat \<rightharpoonup> 'c list"
  kept_names :: "string \<rightharpoonup> nat"
  kept_data :: "nat \<rightharpoonup> 'c list"

text \<open>A file as processes see it, and as it is found after a loss of power.\<close>

definition seen_file :: "'c disk \<Rightarrow> string \<Rightarrow> 'c list option" where
  "seen_file d p = (case seen_names d p of None \<Rightarrow> None | Some i \<Rightarrow> seen_data d i)"

definition kept_file :: "'c disk \<Rightarrow> string \<Rightarrow> 'c list option" where
  "kept_file d p = (case kept_names d p of None \<Rightarrow> None | Some i \<Rightarrow> kept_data d i)"

text \<open>\<open>opens\<close>: whether \<open>open\<close> returned a descriptor. The result of \<open>fsync\<close> is not looked at; a failing
  one is a file that does not open.\<close>

definition FsyncPathIfPossible :: "bool \<Rightarrow> string \<Rightarrow> 'c disk \<Rightarrow> 'c disk" where
  "FsyncPathIfPossible opens path d =
     (if \<not> opens then d
      else case seen_names d path of None \<Rightarrow> d | Some i \<Rightarrow> d\<lparr>kept_data := (kept_data d)(i := seen_data d i)\<rparr>)"

definition fsync_directory :: "string \<Rightarrow> string" where
  "fsync_directory path = (if parent_path path = '''' then ''.'' else parent_path path)"

text \<open>The entries of a directory are the names with it as parent.\<close>

definition FsyncDirectoryIfPossible :: "bool \<Rightarrow> string \<Rightarrow> 'c disk \<Rightarrow> 'c disk" where
  "FsyncDirectoryIfPossible opens path d =
     (if \<not> opens then d
      else d\<lparr>kept_names := (\<lambda>p. if fsync_directory p = fsync_directory path then seen_names d p else kept_names d p)\<rparr>)"

section \<open>SaveLocked on the disk\<close>

datatype save_phase = Opens | Writes nat | Syncs | Renames | SyncsNames | Saved | Throws

text \<open>The steps of the code, \<open>i\<close> being the file behind the temporary name, and of the system: writing
  back part of a file, unless it is complete already, or one name. \<open>ok\<close> says whether the files
  open for \<open>fsync\<close>.\<close>

inductive disk_step ::
  "bool \<Rightarrow> string \<Rightarrow> 'c list \<Rightarrow> nat \<Rightarrow> save_phase \<times> 'c disk \<Rightarrow> save_phase \<times> 'c disk \<Rightarrow> bool"
  for ok :: bool and path :: string and content :: "'c list" and i :: nat where
  opens: "disk_step ok path content i (Opens, d)
    (Writes 0, d\<lparr>seen_names := (seen_names d)(temp_path path \<mapsto> i), seen_data := (seen_data d)(i \<mapsto> [])\<rparr>)"
| opens_not: "disk_step ok path content i (Opens, d) (Throws, d)"
| writes: "n \<le> n' \<Longrightarrow> n' \<le> length content \<Longrightarrow> disk_step ok path content i (Writes n, d)
    (Writes n', d\<lparr>seen_data := (seen_data d)(i \<mapsto> take n' content)\<rparr>)"
| writes_not: "disk_step ok path content i (Writes n, d) (Throws, d)"
| flushes: "n = length content \<Longrightarrow> disk_step ok path content i (Writes n, d) (Syncs, d)"
| syncs: "disk_step ok path content i (Syncs, d) (Renames, FsyncPathIfPossible ok (temp_path path) d)"
| renames: "disk_step ok path content i (Renames, d)
    (SyncsNames, d\<lparr>seen_names := (seen_names d)(path := seen_names d (temp_path path), temp_path path := None)\<rparr>)"
| renames_not: "disk_step ok path content i (Renames, d)
    (Throws, d\<lparr>seen_names := (seen_names d)(temp_path path := None)\<rparr>)"
| syncs_names: "disk_step ok path content i (SyncsNames, d) (Saved, FsyncDirectoryIfPossible ok path d)"
| data_back: "seen_data d j = Some c \<Longrightarrow> kept_data d j \<noteq> Some c \<Longrightarrow> n \<le> length c \<Longrightarrow>
    disk_step ok path content i (ph, d) (ph, d\<lparr>kept_data := (kept_data d)(j \<mapsto> take n c)\<rparr>)"
| name_back: "disk_step ok path content i (ph, d) (ph, d\<lparr>kept_names := (kept_names d)(p := seen_names d p)\<rparr>)"

text \<open>A disk with nothing to write back for a file, and a number that is not in use for it.\<close>

definition settled :: "'c disk \<Rightarrow> string \<Rightarrow> bool" where
  "settled d path \<longleftrightarrow> kept_names d path = seen_names d path \<and>
     (\<forall>j. seen_names d path = Some j \<longrightarrow> kept_data d j = seen_data d j \<and> seen_data d j \<noteq> None)"

section \<open>What a loss of power leaves\<close>

fun phase_ok :: "string \<Rightarrow> 'c list \<Rightarrow> nat \<Rightarrow> nat option \<Rightarrow> save_phase \<Rightarrow> 'c disk \<Rightarrow> bool" where
  "phase_ok path content i old Opens d \<longleftrightarrow> seen_names d path = old \<and> kept_names d path = old"
| "phase_ok path content i old (Writes n) d \<longleftrightarrow> seen_names d path = old \<and> kept_names d path = old \<and>
     seen_names d (temp_path path) = Some i \<and> seen_data d i = Some (take n content)"
| "phase_ok path content i old Syncs d \<longleftrightarrow> seen_names d path = old \<and> kept_names d path = old \<and>
     seen_names d (temp_path path) = Some i \<and> seen_data d i = Some content"
| "phase_ok path content i old Renames d \<longleftrightarrow> seen_names d path = old \<and> kept_names d path = old \<and>
     seen_names d (temp_path path) = Some i \<and> seen_data d i = Some content \<and> kept_data d i = Some content"
| "phase_ok path content i old SyncsNames d \<longleftrightarrow> seen_names d path = Some i \<and>
     (kept_names d path = old \<or> kept_names d path = Some i) \<and> seen_data d i = Some content \<and> kept_data d i = Some content"
| "phase_ok path content i old Saved d \<longleftrightarrow> seen_names d path = Some i \<and> kept_names d path = Some i \<and>
     seen_data d i = Some content \<and> kept_data d i = Some content"
| "phase_ok path content i old Throws d \<longleftrightarrow> seen_names d path = old \<and> kept_names d path = old"

definition old_kept :: "nat option \<Rightarrow> 'c list option \<Rightarrow> 'c disk \<Rightarrow> bool" where
  "old_kept old text d \<longleftrightarrow> (case old of None \<Rightarrow> True | Some j \<Rightarrow> seen_data d j = text \<and> kept_data d j = text)"

lemma disk_step_inv:
  assumes "disk_step True path content i (ph, d) (ph', d')" and "phase_ok path content i old ph d"
    and "old_kept old text d" and "old \<noteq> Some i"
  shows "phase_ok path content i old ph' d' \<and> old_kept old text d'"
  using assms(1)
proof (cases rule: disk_step.cases)
  case data_back
  with assms(2-4) show ?thesis by (cases ph) (auto simp: old_kept_def split: option.splits)
next
  case name_back
  with assms(2-4) show ?thesis by (cases ph) (auto simp: old_kept_def split: option.splits)
qed (use assms(2-4) in \<open>auto simp: old_kept_def FsyncPathIfPossible_def FsyncDirectoryIfPossible_def
  split: option.splits\<close>)

lemma disk_run_inv:
  assumes "(disk_step True path content i)\<^sup>*\<^sup>* (Opens, d0) (ph, d)" and "settled d0 path"
    and "seen_names d0 path \<noteq> Some i"
  shows "phase_ok path content i (seen_names d0 path) ph d \<and> old_kept (seen_names d0 path) (seen_file d0 path) d"
  using assms(1)
proof (induction "(ph, d)" arbitrary: ph d rule: rtranclp_induct)
  case base
  show ?case using assms(2) by (auto simp: settled_def old_kept_def seen_file_def split: option.split)
next
  case (step c)
  then show ?case by (cases c) (use disk_step_inv assms(3) in blast)
qed

text \<open>C15: When the files open for \<open>fsync\<close>, saving survives a loss of power at any moment: the state file
  then holds its old content in full or the new one in full, and the new one as soon as the save has
  returned. If the save throws, it is the old one.\<close>

theorem save_survives_power_loss:
  assumes "(disk_step True path content i)\<^sup>*\<^sup>* (Opens, d0) (ph, d)" and "settled d0 path"
    and "seen_names d0 path \<noteq> Some i"
  shows "(kept_file d path = seen_file d0 path \<or> kept_file d path = Some content) \<and>
    (ph = Saved \<longrightarrow> kept_file d path = Some content) \<and> (ph = Throws \<longrightarrow> kept_file d path = seen_file d0 path)"
  using disk_run_inv [OF assms]
  by (cases ph) (auto simp: kept_file_def seen_file_def old_kept_def split: option.splits)

text \<open>A disk with one saved state, and a save of a new one that is interrupted after the rename.\<close>

definition old_disk :: "nat disk" where
  "old_disk = \<lparr>seen_names = [''s.json'' \<mapsto> 0], seen_data = [0 \<mapsto> [7]], kept_names = [''s.json'' \<mapsto> 0], kept_data = [0 \<mapsto> [7]]\<rparr>"

lemma old_disk_settled: "settled old_disk ''s.json''" "seen_names old_disk ''s.json'' \<noteq> Some 1"
  by (simp_all add: settled_def old_disk_def)

text \<open>A complete run in which the system writes back \<open>n\<close> pieces of the data and the name after the
  rename.\<close>

lemma saving_run:
  assumes "n \<le> length content" and "kept_data d0 i = None" and "content \<noteq> []"
  shows "\<exists>d. (disk_step False path content i)\<^sup>*\<^sup>* (Opens, d0) (Saved, d) \<and> seen_file d path = Some content \<and>
    kept_file d path = Some (take n content)"
proof -
  let ?step = "disk_step False path content i"
  define d1 where "d1 = d0\<lparr>seen_names := (seen_names d0)(temp_path path \<mapsto> i), seen_data := (seen_data d0)(i \<mapsto> [])\<rparr>"
  define d2 where "d2 = d1\<lparr>seen_data := (seen_data d1)(i \<mapsto> take (length content) content)\<rparr>"
  define d3 where "d3 = d2\<lparr>seen_names := (seen_names d2)(path := seen_names d2 (temp_path path), temp_path path := None)\<rparr>"
  define d4 where "d4 = d3\<lparr>kept_names := (kept_names d3)(path := seen_names d3 path)\<rparr>"
  define d5 where "d5 = d4\<lparr>kept_data := (kept_data d4)(i \<mapsto> take n content)\<rparr>"
  have s1: "?step (Opens, d0) (Writes 0, d1)" unfolding d1_def by (rule opens)
  have s2: "?step (Writes 0, d1) (Writes (length content), d2)" unfolding d2_def by (rule writes) simp_all
  have s3: "?step (Writes (length content), d2) (Syncs, d2)" by (rule flushes) simp
  have s4: "?step (Syncs, d2) (Renames, d2)"
    using syncs [of False path content i d2] by (simp add: FsyncPathIfPossible_def)
  have s5: "?step (Renames, d2) (SyncsNames, d3)" unfolding d3_def by (rule renames)
  have s6: "?step (SyncsNames, d3) (SyncsNames, d4)" unfolding d4_def by (rule name_back)
  have s7: "?step (SyncsNames, d4) (SyncsNames, d5)"
    unfolding d5_def by (rule data_back) (simp_all add: d4_def d3_def d2_def d1_def assms)
  have s8: "?step (SyncsNames, d5) (Saved, d5)"
    using syncs_names [of False path content i d5] by (simp add: FsyncDirectoryIfPossible_def)
  have "?step\<^sup>*\<^sup>* (Opens, d0) (Saved, d5)"
    by (rule converse_rtranclp_into_rtranclp, rule s1, rule converse_rtranclp_into_rtranclp, rule s2, rule converse_rtranclp_into_rtranclp, rule s3, rule converse_rtranclp_into_rtranclp, rule s4,
      rule converse_rtranclp_into_rtranclp, rule s5, rule converse_rtranclp_into_rtranclp, rule s6, rule converse_rtranclp_into_rtranclp, rule s7, rule r_into_rtranclp, rule s8)
  moreover have "seen_file d5 path = Some content" "kept_file d5 path = Some (take n content)"
    by (simp_all add: seen_file_def kept_file_def d5_def d4_def d3_def d2_def d1_def)
  ultimately show ?thesis by blast
qed

text \<open>C27: When the temporary file does not open for \<open>fsync\<close>, the code renames it all the same and the save
  succeeds; a loss of power can then leave any prefix of the new content under the name of the
  state file, the old content being gone. A prefix that is no document makes the next start
  begin with an empty store: registrations, models and jobs are lost.\<close>

theorem skipped_fsync_loses_store:
  assumes "kept_data d0 i = None" and "n \<le> length content" and "content \<noteq> []"
    and "parse J (decode (take n content)) = None"
  shows "\<exists>d. (disk_step False path content i)\<^sup>*\<^sup>* (Opens, d0) (Saved, d) \<and> seen_file d path = Some content \<and>
    image (Load J clk (map_option decode (kept_file d path)) s) = empty_image"
proof -
  obtain d where d: "(disk_step False path content i)\<^sup>*\<^sup>* (Opens, d0) (Saved, d)" "seen_file d path = Some content"
    "kept_file d path = Some (take n content)" using saving_run [OF assms(2,1,3)] by blast
  have "image (Load J clk (Some (decode (take n content))) s) = empty_image"
    using unreadable_file_is_replaced [of J "decode (take n content)" clk s] assms(4) by simp
  with d show ?thesis by auto
qed

section \<open>Concrete saves\<close>

theorem skipped_fsync_loses_store_witness:
  "\<exists>d. (disk_step False ''s.json'' [1, 2] 1)\<^sup>*\<^sup>* (Opens, old_disk) (Saved, d) \<and> seen_file d ''s.json'' = Some [1, 2] \<and>
    image (Load (tree_json\<lparr>parse := (\<lambda>j. if j = JStr '''' then None else Some j)\<rparr>) (\<lambda>_. 0) (map_option (\<lambda>c. if c = [] then JStr '''' else JObj []) (kept_file d ''s.json'')) demo_registered) = empty_image"
  by (rule skipped_fsync_loses_store [where n = 0]) (simp_all add: old_disk_def)

definition new_disk :: "nat disk" where
  "new_disk = \<lparr>seen_names = [''s.json'' \<mapsto> 0, ''s.json.tmp'' \<mapsto> 1], seen_data = [0 \<mapsto> [7], 1 \<mapsto> []],
     kept_names = [''s.json'' \<mapsto> 0], kept_data = [0 \<mapsto> [7]]\<rparr>"

theorem save_survives_power_loss_witness:
  "kept_file new_disk ''s.json'' = Some [7] \<or> kept_file new_disk ''s.json'' = Some [1, 2]"
proof -
  have "disk_step True ''s.json'' [1, 2] 1 (Opens, old_disk) (Writes 0, new_disk)"
    using opens [of True "''s.json''" "[1, 2]" 1 old_disk] by (simp add: old_disk_def new_disk_def temp_path_def)
  from save_survives_power_loss [OF r_into_rtranclp, OF this old_disk_settled] show ?thesis
    by (simp add: seen_file_def old_disk_def)
qed

end
