(* ===== verification/Composed_Ids.thy ===== *)
theory Composed_Ids
  imports Store_Properties
begin

text \<open>
  The identifiers the state store composes: a lease names its job, round, client and time of issue,
  a task names its lease and its worker. No operation changes them, so in every reachable store an
  identifier is at least as long as its parts.
\<close>

definition lease_id_composed :: "PersistedAssignmentLease \<Rightarrow> bool" where
  "lease_id_composed a \<longleftrightarrow> as_assignment_id a = as_job_id a @ ''::round:'' @ to_string (as_round_index a) @
     ''::client:'' @ as_client_id a @ ''::'' @ as_issued_at a \<and> (\<exists>now. as_issued_at a = CurrentTimestamp now)"

definition task_id_composed :: "PersistedWorkerTaskRecord \<Rightarrow> bool" where
  "task_id_composed k \<longleftrightarrow> tk_task_id k = tk_assignment_id k @ ''::worker:'' @ tk_worker_id k"

definition ids_composed :: "state_store \<Rightarrow> bool" where
  "ids_composed s \<longleftrightarrow> (\<forall>a\<in>set (assignments s). lease_id_composed a) \<and> (\<forall>k\<in>set (worker_tasks s). task_id_composed k)"

section \<open>Leases\<close>

lemma new_lease_composed: "lease_id_composed (new_lease clk t m c v dt job)"
  by (auto simp: lease_id_composed_def new_lease_def Let_def)

lemma evolved_composed:
  assumes "grows lease_evolves as bs" and "length bs = length as" and "\<forall>a\<in>set as. lease_id_composed a"
  shows "\<forall>b\<in>set bs. lease_id_composed b"
proof
  fix b assume "b \<in> set bs"
  then obtain i where i: "i < length as" "b = bs ! i" using assms(2) by (auto simp: in_set_conv_nth)
  then have "same_lease (as ! i) b" using assms(1) by (simp add: grows_def lease_evolves_def)
  moreover have "lease_id_composed (as ! i)" using assms(3) i(1) by simp
  ultimately show "lease_id_composed b" by (simp add: same_lease_def lease_id_composed_def)
qed

lemma leases_kept:
  "length (assignments (snd (ValidateTrainingAssignmentSubmission clk t m c ji ai rd b s))) = length (assignments s)"
  "length (assignments (snd (AcceptTrainingAssignmentSubmission clk t m c ji ai rd b s))) = length (assignments s)"
  "length (assignments (AdvanceTrainingJobRound clk t m rd v s)) = length (assignments s)"
  by (simp_all add: ValidateTrainingAssignmentSubmission_def AcceptTrainingAssignmentSubmission_def
      AdvanceTrainingJobRound_def Let_def split: submission_check.split option.split)

lemma expired_composed:
  "\<forall>a\<in>set as. lease_id_composed a \<Longrightarrow> \<forall>a\<in>set (upd_all (lease_lapsed now) (expire_lease now) as). lease_id_composed a"
  by (rule evolved_composed [OF grows_expire]) simp_all

lemma leased_composed:
  "\<forall>a\<in>set (assignments s). lease_id_composed a \<Longrightarrow>
   \<forall>a\<in>set (assignments (snd (LeaseTrainingAssignment clk t m c v dm dt s))). lease_id_composed a"
  by (cases rule: LeaseTrainingAssignment_cases [of t m s clk c v dm dt])
    (use expired_composed new_lease_composed in auto)

lemma step_leases_composed:
  "store_step s s' \<Longrightarrow> \<forall>a\<in>set (assignments s). lease_id_composed a \<Longrightarrow> \<forall>a\<in>set (assignments s'). lease_id_composed a"
proof (induction rule: store_step.induct)
  case (step_lease s clk t m c v dm dt)
  then show ?case by (rule leased_composed)
next
  case (step_validate s clk t m c ji a rd b)
  then show ?case by (rule evolved_composed [OF leases_grow_validate leases_kept(1)])
next
  case (step_accept s clk t m c ji a rd b)
  then show ?case by (rule evolved_composed [OF leases_grow_accept leases_kept(2)])
next
  case (step_advance s clk t m rd v)
  then show ?case by (rule evolved_composed [OF leases_grow_advance leases_kept(3)])
qed (simp_all add: frame_simps)

section \<open>Tasks\<close>

lemma tasks_composed_all:
  "\<forall>k\<in>set ks. task_id_composed k \<Longrightarrow> (\<And>k. task_id_composed k \<Longrightarrow> task_id_composed (f k)) \<Longrightarrow>
   \<forall>k\<in>set (upd_all P f ks). task_id_composed k"
  by (auto dest!: set_upd_allD)

lemma tasks_composed_first:
  "\<forall>k\<in>set ks. task_id_composed k \<Longrightarrow> (\<And>k. k \<in> set ks \<Longrightarrow> task_id_composed k \<Longrightarrow> task_id_composed (f k)) \<Longrightarrow>
   \<forall>k\<in>set (upd_first P f ks). task_id_composed k"
  by (auto dest!: set_upd_firstD)

lemma tasks_composed_ops:
  assumes "\<forall>k\<in>set (worker_tasks s). task_id_composed k"
  shows "\<forall>k\<in>set (worker_tasks (snd (AcceptTrainingAssignmentSubmission clk t m c j a r b s))). task_id_composed k"
    "\<forall>k\<in>set (worker_tasks (AdvanceTrainingJobRound clk t m r v s)). task_id_composed k"
    "\<forall>k\<in>set (worker_tasks (snd (LeaseWorkerTask clk w as job d s))). task_id_composed k"
    "\<forall>k\<in>set (worker_tasks (snd (UpdateWorkerTaskStatus clk wi ki st msg p s))). task_id_composed k"
proof -
  show "\<forall>k\<in>set (worker_tasks (snd (AcceptTrainingAssignmentSubmission clk t m c j a r b s))). task_id_composed k"
    using assms by (auto simp: AcceptTrainingAssignmentSubmission_def Let_def submit_task_def task_id_composed_def
        split: submission_check.split dest!: set_upd_allD)
  show "\<forall>k\<in>set (worker_tasks (AdvanceTrainingJobRound clk t m r v s)). task_id_composed k"
    using assms by (auto simp: AdvanceTrainingJobRound_def Let_def close_task_def task_id_composed_def
        split: option.split dest!: set_upd_allD)
  show "\<forall>k\<in>set (worker_tasks (snd (LeaseWorkerTask clk w as job d s))). task_id_composed k"
    using assms by (auto simp: LeaseWorkerTask_def Let_def task_id_composed_def
        split: option.split dest!: set_upd_firstD)
  show "\<forall>k\<in>set (worker_tasks (snd (UpdateWorkerTaskStatus clk wi ki st msg p s))). task_id_composed k"
    using assms by (auto simp: UpdateWorkerTaskStatus_def Let_def report_task_def task_id_composed_def
        split: option.split dest!: set_upd_firstD find_SomeD)
qed

lemma step_tasks_composed:
  "store_step s s' \<Longrightarrow> \<forall>k\<in>set (worker_tasks s). task_id_composed k \<Longrightarrow> \<forall>k\<in>set (worker_tasks s'). task_id_composed k"
proof (induction rule: store_step.induct)
  case (step_accept s clk t m c ji a rd b)
  then show ?case by (rule tasks_composed_ops)
next
  case (step_advance s clk t m rd v)
  then show ?case by (rule tasks_composed_ops)
next
  case (step_lease_task s clk w as job d)
  then show ?case by (rule tasks_composed_ops)
next
  case (step_report s clk wi ki ts msg p')
  then show ?case by (rule tasks_composed_ops)
qed (simp_all add: frame_simps)

lemma reachable_ids: "reachable_store s \<Longrightarrow> ids_composed s"
proof (induction rule: reachable_store.induct)
  case (reach_start path retention)
  then show ?case by (simp add: ids_composed_def StateStore_def empty_image_def store_image.defs)
next
  case (reach_step s s')
  then show ?case by (simp add: ids_composed_def step_leases_composed step_tasks_composed)
qed

section \<open>How long they get\<close>

lemma year_ge: "1970 \<le> c_year (gmtime t)"
proof -
  obtain y d where p: "periods year_length 1970 (t div 1000 div 86400) = (y, d)" by fastforce
  with periods_spec [of year_length 1970] year_length_pos have "1970 \<le> y" by blast
  with p show ?thesis by (simp add: gmtime_def Let_def split: prod.split)
qed

lemma length_dec: "1000 \<le> n \<Longrightarrow> 4 \<le> length (dec n)"
proof (induction n rule: less_induct)
  case (less n)
  show ?case
  proof (cases "n < 10000")
    case True
    with less.prems show ?thesis by (simp add: dec_year)
  next
    case False
    then have "4 \<le> length (dec (n div 10))" using less.IH [of "n div 10"] by simp
    with False show ?thesis by (simp add: dec.simps [of n])
  qed
qed

lemma length_setw0: "w \<le> length (setw0 w n)"
  by (simp add: setw0_def)

lemma length_timestamp: "24 \<le> length (CurrentTimestamp t)"
proof -
  have "4 \<le> length (dec (c_year (gmtime t)))" using year_ge [of t] by (intro length_dec) simp
  then show ?thesis
    using length_setw0 [of 2 "c_month (gmtime t)"] length_setw0 [of 2 "c_day (gmtime t)"]
      length_setw0 [of 2 "c_hour (gmtime t)"] length_setw0 [of 2 "c_min (gmtime t)"]
      length_setw0 [of 2 "c_sec (gmtime t)"] length_setw0 [of 3 "c_ms (gmtime t)"]
    by (simp add: CurrentTimestamp_def format_civil_def)
qed

lemma task_id_length:
  assumes "reachable_store s" and "k \<in> set (worker_tasks s)" and "a \<in> set (assignments s)"
    and "tk_assignment_id k = as_assignment_id a"
  shows "length (as_job_id a) + length (as_client_id a) + length (tk_worker_id k) + 53 \<le> length (tk_task_id k)"
proof -
  have "lease_id_composed a" "task_id_composed k"
    using reachable_ids [OF assms(1)] assms(2,3) by (simp_all add: ids_composed_def)
  then obtain t where "tk_task_id k = as_job_id a @ ''::round:'' @ to_string (as_round_index a) @ ''::client:'' @
      as_client_id a @ ''::'' @ CurrentTimestamp t @ ''::worker:'' @ tk_worker_id k"
    using assms(4) by (auto simp: lease_id_composed_def task_id_composed_def)
  moreover have "1 \<le> length (to_string (as_round_index a))"
    using to_string_not_Nil [of "as_round_index a"] by (cases "to_string (as_round_index a)") simp_all
  ultimately show ?thesis using length_timestamp [of t] by simp
qed

end
