(* ===== verification/Run_Guarantees.thy ===== *)
theory Run_Guarantees
  imports Server_Guarantees Client_Guarantees Composed_Ids
begin

text \<open>
  The demo worker and the server together: the stubs of the worker are the handlers of the server,
  and a whole run of the worker is followed from its registration to its submission.
\<close>

section \<open>The server as the worker sees it\<close>

text \<open>The first update of a stream that has something to send.\<close>

definition first_update ::
  "crypto_prims \<Rightarrow> 'f stream_env \<Rightarrow> server_context \<Rightarrow> ModelRequest \<Rightarrow> GlobalModelUpdate option" where
  "first_update C E ctx q =
     (let latest = GetLatestGlobalModel (NormalizeTenant (mr_tenant_id q)) (NormalizeModel (mr_model_id q))
            (sv_buffer (en_server E))
      in
      if CheckStreamRequest (en_server E) ctx q \<noteq> None \<or> nothing_new new_call q latest then None
      else case PrepareUpdate C E ctx q latest of Inr (Inr update) \<Rightarrow> Some update | _ \<Rightarrow> None)"

text \<open>\<open>clks i\<close> are the clocks of the \<open>i\<close>-th call of the run.\<close>

definition server_stubs ::
  "'f arith \<Rightarrow> crypto_prims \<Rightarrow> 'f submit_env \<Rightarrow> 'f stream_env \<Rightarrow> 'f config \<Rightarrow> (nat \<Rightarrow> nat \<Rightarrow> clock) \<Rightarrow> server_context
     \<Rightarrow> ('f, 'f server) worker_stubs" where
  "server_stubs A C N E cfg clks ctx = \<lparr>
     st_register = RegisterWorker cfg (clks 0) ctx,
     st_lease = LeaseTrainingTask A cfg (clks 1) ctx,
     st_report = (\<lambda>i q sv. snd (ReportTaskStatus cfg (clks 2 i) ctx q sv)),
     st_heartbeat = (\<lambda>q sv. snd (Heartbeat cfg (clks 3) ctx q sv)),
     st_stream = (\<lambda>q sv. first_update C (E\<lparr>en_server := sv\<rparr>) ctx q),
     st_submit = (\<lambda>q sv. case SubmitWeights A C N cfg (clks 4) ctx q sv of
         (Inl err, sv') \<Rightarrow> (((INTERNAL, err), refuse sv' ''''), sv')
       | (Inr r, sv') \<Rightarrow> (((OK, ''''), r), sv'))\<rparr>"

section \<open>A concrete server with a job\<close>

text \<open>The job an administrator created for the scope of the demo, its first lease, and the server.\<close>

definition run_request :: PersistedTrainingJobRecord where
  "run_request = demo_job\<lparr>jb_job_id := '''', jb_tenant_id := kTenantId, jb_model_id := kModelId,
     jb_min_clients_per_round := 2\<rparr>"

definition run_store :: state_store where
  "run_store = snd (CreateTrainingJob (\<lambda>_. 0) run_request demo_empty)"

definition run_job :: PersistedTrainingJobRecord where
  "run_job = demo_job\<lparr>jb_job_id := ''demo-tenant::demo-model::mnist::1970-01-01T00:00:00.000Z'',
     jb_tenant_id := kTenantId, jb_model_id := kModelId, jb_min_clients_per_round := 2,
     jb_status := ''planned'', jb_current_round := 1, jb_created_at := CurrentTimestamp 0\<rparr>"

definition run_server :: "(32 word) server" where
  "run_server = \<lparr>sv_crypto = demo_engine, sv_store = run_store, sv_registry = Mapping.empty, sv_buffer = empty_buffer\<rparr>"

definition run_worker :: string where "run_worker = ''demo-worker-1''"

definition run_trainer :: string where "run_trainer = ''demo-worker-1-trainer''"

lemma demo_scope [simp]:
  "NormalizeTenant kTenantId = kTenantId" "NormalizeModel kModelId = kModelId" "kTenantId \<noteq> ''''" "kModelId \<noteq> ''''"
  by (simp_all add: kTenantId_def kModelId_def NormalizeTenant_def NormalizeModel_def)

lemma run_job_simps [simp]:
  "jb_tenant_id run_job = kTenantId" "jb_model_id run_job = kModelId" "jb_dataset_id run_job = ''mnist''"
  "jb_target_rounds run_job = 2" "jb_planned_clients run_job = 2" "jb_min_clients_per_round run_job = 2"
  "jb_assignment_ttl_seconds run_job = 60" "jb_status run_job = ''planned''" "jb_current_round run_job = 1"
  "jb_completed_rounds run_job = 0" "active_job_in kTenantId kModelId run_job"
  "jb_job_id run_job = ''demo-tenant::demo-model::mnist::1970-01-01T00:00:00.000Z''"
  by (simp_all add: run_job_def demo_job_def active_job_in_def IsActiveJobStatus_def)

lemma run_store_tables [simp]:
  "training_jobs run_store = [run_job]" "assignments run_store = []" "models run_store = []" "datasets run_store = []"
  "clients run_store = []" "workers run_store = []" "worker_tasks run_store = []"
proof -
  have "training_jobs run_store = [run_job]"
    by (simp add: run_store_def CreateTrainingJob_def Let_def run_request_def run_job_def demo_job_def upd_all_def
        timestamps kTenantId_def kModelId_def NormalizeTenant_def NormalizeModel_def)
  then show "training_jobs run_store = [run_job]" "assignments run_store = []" "models run_store = []"
    "datasets run_store = []" "clients run_store = []" "workers run_store = []" "worker_tasks run_store = []"
    by (simp_all add: run_store_def frame_simps)
qed

lemma run_reachable: "reachable_store run_store"
  unfolding run_store_def by (rule reach_step [OF demo_reachable(1) step_create_job])

lemma worker_peer_simps [simp]:
  "IsPeerAuthenticated worker_peer" "GetPeerIdentity worker_peer = ''pqfl-worker''"
  "NormalizePeerIdentity ''pqfl-worker'' = ''pqfl-worker''" "IsAuthorizedWorker word_config worker_peer"
  by (simp_all add: worker_peer_def kWorkerCertIdentity_def IsPeerAuthenticated_def GetPeerIdentity_def
      NormalizePeerIdentity_def NormalizeIdentity_def Trim_def isspace_def IsAuthorizedWorker_def word_config_def
      default_config_def HasAllowedPeerIdentity_def Let_def)

lemma run_names_valid [simp]:
  "ValidateIdentifier run_worker f e default_max_length = ''''"
  "ValidateIdentifier run_trainer f e default_max_length = ''''"
  "ValidateIdentifier kTenantId f e default_max_length = ''''"
  "ValidateIdentifier kModelId f e default_max_length = ''''"
  "run_worker \<noteq> ''''" "run_trainer \<noteq> ''''"
  by (simp_all add: ValidateIdentifier_ok_iff run_worker_def run_trainer_def kTenantId_def kModelId_def
      default_max_length_def IsAllowedIdentifierChar_def isalnum_def)

text \<open>The worker registers.\<close>

definition run_clks :: "nat \<Rightarrow> nat \<Rightarrow> clock" where "run_clks = (\<lambda>_ _ _. 1000)"

definition run_registered :: "(32 word) server" where
  "run_registered = snd (RegisterWorker word_config (run_clks 0) worker_peer
     (WorkerRegisterRequest run_worker run_trainer) run_server)"

definition run_row :: PersistedWorkerRecord where
  "run_row = (worker_row (CurrentTimestamp 1000) (WorkerRegisterRequest run_worker run_trainer))
     \<lparr>wk_registered_at := CurrentTimestamp 1000\<rparr>"

lemma run_request_simps [simp]:
  "worker_name (WorkerRegisterRequest run_worker run_trainer) = run_worker"
  "trainer_name (WorkerRegisterRequest run_worker run_trainer) = run_trainer"
  "wr_tenant_id (WorkerRegisterRequest run_worker run_trainer) = kTenantId"
  "wr_model_id (WorkerRegisterRequest run_worker run_trainer) = kModelId"
  "CheckWorkerIds (WorkerRegisterRequest run_worker run_trainer) = ''''"
  by (simp_all add: worker_name_def trainer_name_def WorkerRegisterRequest_def CheckWorkerIds_def)

lemma run_row_simps [simp]:
  "wk_worker_id run_row = run_worker" "wk_trainer_client_id run_row = run_trainer"
  "wk_tenant_id run_row = kTenantId" "wk_model_id run_row = kModelId"
  by (simp_all add: run_row_def worker_row_def)

lemma run_upsert:
  "\<exists>s. UpsertWorker (\<lambda>_. 1000) (worker_row (CurrentTimestamp 1000) (WorkerRegisterRequest run_worker run_trainer))
     run_store = (run_row, s) \<and> workers s = [run_row]"
  by (simp add: UpsertWorker_def Let_def run_row_def worker_row_def WorkerRegisterRequest_def)

lemma run_registers:
  "\<exists>res. RegisterWorker word_config (run_clks 0) worker_peer (WorkerRegisterRequest run_worker run_trainer) run_server =
     (((OK, ''''), res), run_registered) \<and> wo_trainer_client_id res = run_trainer"
  using run_upsert
  by (auto simp: run_registered_def RegisterWorker_def run_server_def run_clks_def Let_def case_prod_unfold)

lemma run_registered_parts [simp]:
  "sv_crypto run_registered = demo_engine" "sv_buffer run_registered = empty_buffer"
  "training_jobs (sv_store run_registered) = [run_job]" "assignments (sv_store run_registered) = []"
  "models (sv_store run_registered) = []" "datasets (sv_store run_registered) = []"
  "worker_tasks (sv_store run_registered) = []" "workers (sv_store run_registered) = [run_row]"
  using run_upsert
  by (auto simp: run_registered_def RegisterWorker_def EnsureTrainerClient_def run_server_def run_clks_def Let_def
      case_prod_unfold frame_simps IsRegistered_def)

lemma run_registered_peer:
  "IsRegisteredForPeer kTenantId kModelId run_trainer ''pqfl-worker'' (sv_registry run_registered)"
  by (simp add: run_registered_def RegisterWorker_def EnsureTrainerClient_def run_server_def run_clks_def Let_def
      case_prod_unfold IsRegistered_def Register_def trainer_info_def IsRegisteredForPeer_def lookup_update)

lemma run_registered_reachable: "reachable_store (sv_store run_registered)"
proof -
  have "store_step\<^sup>*\<^sup>* (sv_store run_server) (sv_store run_registered)"
    using shared_run_store [OF run_register_worker [of word_config run_server "run_clks 0" worker_peer
        "WorkerRegisterRequest run_worker run_trainer"]] by (simp add: run_registered_def)
  with run_reachable show ?thesis by (auto simp: run_server_def intro: reachable_run)
qed

text \<open>It asks for a task.\<close>

definition run_leased :: "(32 word) server" where
  "run_leased = snd (LeaseTrainingTask word_arith word_config (run_clks 1) worker_peer
     (LeaseTaskRequest run_worker run_trainer) run_registered)"

definition run_lease :: PersistedAssignmentLease where
  "run_lease = new_lease (\<lambda>_. 1000) kTenantId kModelId run_trainer 0 120 run_job"

lemma run_lease_simps [simp]:
  "as_status run_lease = ''leased''" "as_client_id run_lease = run_trainer" "as_tenant_id run_lease = kTenantId"
  "as_model_id run_lease = kModelId" "as_job_id run_lease = jb_job_id run_job" "as_round_index run_lease = 1"
  "as_base_model_version run_lease = 0" "as_expires_at run_lease = ''1970-01-01T00:01:01.000Z''"
  by (simp_all add: run_lease_def new_lease_def Let_def TimestampAfterSeconds_eq timestamps)

lemma run_lease_id: "as_assignment_id run_lease \<noteq> ''''"
  by (simp add: run_lease_def new_lease_def Let_def)

lemma run_lease_call:
  assumes "training_jobs s = [run_job]" and "assignments s = []" and "datasets s = []"
  shows "\<exists>s'. LeaseTrainingAssignment (\<lambda>_. 1000) kTenantId kModelId run_trainer 0 dm 120 s =
      (Some (run_lease, start_job (CurrentTimestamp 1000) run_job, None), s') \<and>
    assignments s' = [run_lease] \<and> training_jobs s' = [start_job (CurrentTimestamp 1000) run_job]"
proof (cases rule: LeaseTrainingAssignment_cases [of kTenantId kModelId s "\<lambda>_. 1000" run_trainer 0 dm 120])
  case (issued job)
  then have "job = run_job" using assms by (simp add: rfind_def)
  with issued show ?thesis
    by (intro exI [of _ "snd (LeaseTrainingAssignment (\<lambda>_. 1000) kTenantId kModelId run_trainer 0 dm 120 s)"])
      (simp add: prod_eq_iff assms upd_all_def upd_last_def run_lease_def)
qed (simp_all add: assms rfind_def upd_all_def round_capacity_def)

lemma run_no_version: "models s = [] \<Longrightarrow> GetActiveModelVersion t m s = 0"
  by (simp add: GetActiveModelVersion_def)

lemma run_leases:
  "\<exists>task. LeaseTrainingTask word_arith word_config (run_clks 1) worker_peer (LeaseTaskRequest run_worker run_trainer)
      run_registered = (((OK, ''''), task), run_leased) \<and> wt_task_ready task \<and> wt_round_index task = 1 \<and>
    wt_assignment_id task = as_assignment_id run_lease \<and> wt_job_id task = jb_job_id run_job \<and>
    wt_base_model_version task = 0 \<and> wt_payload_kem_public_key task = replicate 32 3"
  "training_jobs (sv_store run_leased) = [start_job (CurrentTimestamp 1000) run_job]"
  "assignments (sv_store run_leased) = [run_lease]" "models (sv_store run_leased) = []"
  "sv_registry run_leased = sv_registry run_registered" "sv_buffer run_leased = empty_buffer"
  "sv_crypto run_leased = demo_engine"
  "\<exists>k. worker_tasks (sv_store run_leased) = [k] \<and> tk_assignment_id k = as_assignment_id run_lease \<and>
     tk_worker_id k = run_worker"
proof -
  let ?q = "LeaseTaskRequest run_worker run_trainer"
  have q: "wl_worker_id ?q = run_worker" "wl_tenant_id ?q = kTenantId" "wl_model_id ?q = kModelId"
    by (simp_all add: LeaseTaskRequest_def)
  have cfg: "cfg_default_assignment_ttl_seconds word_config = 120" by (simp add: word_config_def default_config_def)
  have w: "GetWorker run_worker (sv_store run_registered) = Some run_row" by (simp add: GetWorker_def)
  obtain s where l: "LeaseTrainingAssignment (\<lambda>_. 1000) kTenantId kModelId run_trainer 0 (cfg_required_clients word_config)
      120 (sv_store run_registered) = (Some (run_lease, start_job (CurrentTimestamp 1000) run_job, None), s)"
    and s: "assignments s = [run_lease]" "training_jobs s = [start_job (CurrentTimestamp 1000) run_job]"
    using run_lease_call [of "sv_store run_registered"] by auto
  have "models s = models (sv_store run_registered)"
    using LeaseTrainingAssignment_frame [of "\<lambda>_. 1000" kTenantId kModelId run_trainer 0 "cfg_required_clients word_config"
        120 "sv_store run_registered"] by (simp add: l)
  then have m: "models s = []" by simp
  have "worker_tasks s = worker_tasks (sv_store run_registered)"
    using LeaseTrainingAssignment_frame [of "\<lambda>_. 1000" kTenantId kModelId run_trainer 0 "cfg_required_clients word_config"
        120 "sv_store run_registered"] by (simp add: l)
  then have k: "worker_tasks s = []" by simp
  obtain task s' where t: "LeaseWorkerTask (\<lambda>_. 1000) run_row run_lease (start_job (CurrentTimestamp 1000) run_job)
      default_dataset s = (task, s')" by fastforce
  have s': "assignments s' = [run_lease]" "training_jobs s' = [start_job (CurrentTimestamp 1000) run_job]" "models s' = []"
    using LeaseWorkerTask_frame [of "\<lambda>_. 1000" run_row run_lease "start_job (CurrentTimestamp 1000) run_job"
      default_dataset s] by (simp_all add: t s m)
  have eq: "LeaseTrainingTask word_arith word_config (run_clks 1) worker_peer ?q run_registered =
    (((OK, ''''), task_response word_config demo_engine run_row run_lease (start_job (CurrentTimestamp 1000) run_job)
       default_dataset task (GetActiveModelRecord kTenantId kModelId s') 0), run_registered\<lparr>sv_store := s'\<rparr>)"
    by (simp add: LeaseTrainingTask_def q w cfg run_clks_def run_no_version l t Let_def)
  then have leased: "run_leased = run_registered\<lparr>sv_store := s'\<rparr>" by (simp add: run_leased_def)
  show "training_jobs (sv_store run_leased) = [start_job (CurrentTimestamp 1000) run_job]"
    "assignments (sv_store run_leased) = [run_lease]" "models (sv_store run_leased) = []"
    "sv_registry run_leased = sv_registry run_registered" "sv_buffer run_leased = empty_buffer"
    "sv_crypto run_leased = demo_engine"
    by (simp_all add: leased s')
  have "worker_tasks s' = [task] \<and> tk_assignment_id task = as_assignment_id run_lease \<and> tk_worker_id task = run_worker"
    using t by (auto simp: LeaseWorkerTask_def k Let_def)
  then show "\<exists>k. worker_tasks (sv_store run_leased) = [k] \<and> tk_assignment_id k = as_assignment_id run_lease \<and>
     tk_worker_id k = run_worker" by (simp add: leased)
  show "\<exists>task. LeaseTrainingTask word_arith word_config (run_clks 1) worker_peer ?q run_registered =
      (((OK, ''''), task), run_leased) \<and> wt_task_ready task \<and> wt_round_index task = 1 \<and>
    wt_assignment_id task = as_assignment_id run_lease \<and> wt_job_id task = jb_job_id run_job \<and>
    wt_base_model_version task = 0 \<and> wt_payload_kem_public_key task = replicate 32 3"
    unfolding eq leased [symmetric] by (simp add: task_response_def demo_engine_def start_job_def)
qed

text \<open>It submits. In general a submission is accepted when every guard lets it pass.\<close>

lemma SubmitWeights_accepts:
  assumes "CheckSubmitRequest q = None" and "IsPeerAuthenticated ctx"
    and "IsRegisteredForPeer (wp_tenant_id q) (wp_model_id q) (wp_client_id q)
       (NormalizePeerIdentity (GetPeerIdentity ctx)) (sv_registry sv)"
    and "wp_base_model_version q \<le> 0" and "validated clks q sv = (Inr (), sv1)"
    and "\<not> IsRoundCompleted (wp_tenant_id q) (wp_model_id q) (wp_round_index q) (sv_buffer sv)"
    and "\<not> HasClientSubmission (wp_tenant_id q) (wp_model_id q) (wp_round_index q) (wp_client_id q) (sv_buffer sv)"
    and "DecryptSubmission C ctx q (sv_crypto sv) = Inr plaintext" and "length plaintext mod 4 = 0"
    and "GetActiveTrainingJob (wp_tenant_id q) (wp_model_id q) (sv_store sv) = Some job"
    and "commit_outcome A C N cfg clks q (Some job) (floats_of (se_of_bytes N) plaintext) sv1 = (Inr (res, w), (b, s3))"
    and "ag_accepted res"
    and "fst (AcceptTrainingAssignmentSubmission (clks 3) (wp_tenant_id q) (wp_model_id q) (wp_client_id q)
       (wp_job_id q) (wp_assignment_id q) (wp_round_index q) (wp_base_model_version q) s3) = Inr ()"
  shows "\<exists>r sv'. SubmitWeights A C N cfg clks ctx q sv = (Inr r, sv') \<and> ar_accepted r"
proof -
  have "\<exists>r sv'. CommitSubmission A C N cfg clks q (Some job) (floats_of (se_of_bytes N) plaintext) sv1 = (Inr r, sv') \<and>
      ar_accepted r"
    using CommitSubmission_job [OF assms(11)] assms(12,13)
    by (cases "AcceptTrainingAssignmentSubmission (clks 3) (wp_tenant_id q) (wp_model_id q) (wp_client_id q)
       (wp_job_id q) (wp_assignment_id q) (wp_round_index q) (wp_base_model_version q) s3")
      (auto simp: submit_response_def)
  then show ?thesis using assms(1-10) by (simp add: SubmitWeights_unfold)
qed

text \<open>The payload of the run's worker.\<close>

lemma run_payload:
  assumes "wt_round_index task = 1" and "wt_assignment_id task = as_assignment_id run_lease"
    and "wt_job_id task = jb_job_id run_job" and "wt_base_model_version task = 0"
    and "wt_payload_kem_public_key task = replicate 32 3" and "ws \<noteq> []"
  obtains q where "WorkerSubmitWeights null_prims word_client run_worker run_trainer task ws = Inr (Some q)"
    "wp_client_id q = run_trainer" "wp_round_index q = 1" "wp_tenant_id q = kTenantId" "wp_model_id q = kModelId"
    "wp_base_model_version q = 0" "wp_job_id q = jb_job_id run_job"
    "wp_assignment_id q = as_assignment_id run_lease" "CheckSubmitRequest q = None"
    "DecryptSubmission null_prims worker_peer q demo_engine = Inr (bytes_of WriteUint32BigEndian ws)"
proof -
  have ne: "bytes_of WriteUint32BigEndian ws \<noteq> []"
    using assms(6) by (cases ws) (auto simp: bytes_of_def WriteUint32BigEndian_def)
  have ids: "ValidateFederatedRequestIds kTenantId kModelId run_trainer = ''''"
    by (simp add: ValidateFederatedRequestIds_ok_iff)
  have "\<exists>q. WorkerSubmitWeights null_prims word_client run_worker run_trainer task ws = Inr (Some q) \<and>
      wp_client_id q = run_trainer \<and> wp_round_index q = 1 \<and> wp_tenant_id q = kTenantId \<and> wp_model_id q = kModelId \<and>
      wp_base_model_version q = 0 \<and> wp_job_id q = jb_job_id run_job \<and>
      wp_assignment_id q = as_assignment_id run_lease \<and> CheckSubmitRequest q = None"
    using assms ne
    by (simp add: WorkerSubmitWeights_def SealPayload_def ClientSubmitKey_def word_client_def null_prims_def
        EncapsulateKem_def DeriveSessionKeyFromKemSecret_def DeriveSessionKeyWithSecret_def KEY_SIZE_def
        EncryptWithKey_def CheckSubmitRequest_def ids TAG_SIZE_def blank_payload_def Let_def)
  then obtain q where q: "WorkerSubmitWeights null_prims word_client run_worker run_trainer task ws = Inr (Some q)"
    and f: "wp_client_id q = run_trainer" "wp_round_index q = 1" "wp_tenant_id q = kTenantId" "wp_model_id q = kModelId"
      "wp_base_model_version q = 0" "wp_job_id q = jb_job_id run_job"
      "wp_assignment_id q = as_assignment_id run_lease" "CheckSubmitRequest q = None" by blast
  have kem: "kem_correct null_prims (ce_kem_public_key demo_engine) (ce_kem_secret_key demo_engine)"
    "ce_kem_public_key demo_engine = replicate 32 3" "0 < kem_ciphertext_length null_prims"
    by (simp_all add: demo_engine_def null_prims_correct) (simp add: null_prims_def)
  have "DecryptSubmission null_prims worker_peer q demo_engine = Inr (bytes_of (ke_to_bytes word_client) ws)"
    by (rule SealPayload_opens [OF q [unfolded WorkerSubmitWeights_def Let_def] null_prims_correct(1)])
      (use kem assms(5) in \<open>simp_all add: kWorkerCertIdentity_def\<close>)
  then show ?thesis using that [OF q] f by (simp add: word_client_def)
qed

text \<open>A server of the run after the lease, whatever was reported since.\<close>

definition run_ready :: "(32 word) server \<Rightarrow> bool" where
  "run_ready sv \<longleftrightarrow> training_jobs (sv_store sv) = [start_job (CurrentTimestamp 1000) run_job] \<and>
     assignments (sv_store sv) = [run_lease] \<and> models (sv_store sv) = [] \<and> sv_buffer sv = empty_buffer \<and>
     sv_registry sv = sv_registry run_registered \<and> sv_crypto sv = demo_engine"

lemma run_check:
  assumes "training_jobs s = [start_job (CurrentTimestamp 1000) run_job]" and "assignments s = [run_lease]"
  shows "CheckAssignmentSubmission (CurrentTimestamp 1000) kTenantId kModelId run_trainer (jb_job_id run_job)
      (as_assignment_id run_lease) 1 0 (ExpireAssignmentsLocked (CurrentTimestamp 1000) s) = LeaseGood run_lease"
  using assms run_lease_id
  by (simp add: CheckAssignmentSubmission_def rfind_def upd_all_def lease_lapsed_def timestamps)

lemma run_waits:
  assumes "run_ready sv" and "wp_round_index q = 1" and "wp_client_id q = run_trainer"
  shows "\<exists>r w b s3. commit_outcome word_arith null_prims word_env word_config (\<lambda>_ _. 1000) q
      (Some (start_job (CurrentTimestamp 1000) run_job)) ws sv = (Inr (r, w), (b, s3)) \<and> ag_accepted r \<and>
    training_jobs s3 = training_jobs (sv_store sv) \<and> assignments s3 = assignments (sv_store sv)"
proof -
  let ?out = "commit_outcome word_arith null_prims word_env word_config (\<lambda>_ _. 1000) q
      (Some (start_job (CurrentTimestamp 1000) run_job)) ws sv"
  let ?E = "buffer_env_of null_prims word_env demo_engine" and ?P = "agg_params_of word_config 2"
  let ?q = "\<lparr>rq_tenant_id = NormalizeTenant (wp_tenant_id q), rq_model_id = NormalizeModel (wp_model_id q),
    rq_client_id = run_trainer, rq_round = 1, rq_dataset_size = max 1 (wp_local_dataset_size q), rq_weights = ws\<rparr>
    :: (32 word) add_request"
  let ?s = "RecordWeightSubmission (\<lambda>_. 1000) (NormalizeTenant (wp_tenant_id q)) (NormalizeModel (wp_model_id q)) run_trainer 1
    (UpdateClientLastRound (NormalizeTenant (wp_tenant_id q)) (NormalizeModel (wp_model_id q)) run_trainer 1 (sv_store sv))"
  have eq: "?out = AddWeightAndCheckAggregate word_arith ?E ?P (\<lambda>_. 1000) ?q (empty_buffer, ?s)"
    using assms by (simp add: commit_outcome_def run_ready_def start_job_def)
  have one: "length (round_clients word_arith ?E ?P ?q empty_buffer) = 1"
    by (simp add: round_clients_def StoreSubmission_def empty_buffer_def Weight_Buffer.entries_def buffer_env_of_def
        word_env_def)
  have two: "ap_required_clients ?P = 2" and none: "buffer_rounds empty_buffer = {}"
    by (simp_all add: agg_params_of_def empty_buffer_def)
  have "\<exists>r w. fst ?out = Inr (r, w) \<and> ag_accepted r"
    unfolding eq
    by (cases rule: AddWeight_cases [of ?q empty_buffer word_arith ?E ?P "\<lambda>_. 1000" ?s])
      (simp_all add: one two none)
  moreover have "training_jobs (snd (snd ?out)) = training_jobs (sv_store sv)" by (rule commit_outcome_jobs)
  moreover have "assignments (snd (snd ?out)) = assignments (sv_store sv)"
    unfolding commit_outcome_def Let_def by (simp add: AddWeight_store_jobs frame_simps)
  ultimately show ?thesis by (cases ?out) auto
qed

lemma run_submits:
  assumes ready: "run_ready sv" and q: "wp_client_id q = run_trainer" "wp_round_index q = 1" "wp_tenant_id q = kTenantId"
    "wp_model_id q = kModelId" "wp_base_model_version q = 0" "wp_job_id q = jb_job_id run_job"
    "wp_assignment_id q = as_assignment_id run_lease" "CheckSubmitRequest q = None"
    "DecryptSubmission null_prims worker_peer q demo_engine = Inr (bytes_of WriteUint32BigEndian ws)"
  shows "\<exists>r sv'. SubmitWeights word_arith null_prims word_env word_config (run_clks 4) worker_peer q sv = (Inr r, sv') \<and>
    ar_accepted r"
proof -
  let ?job = "start_job (CurrentTimestamp 1000) run_job"
  note parts = ready [unfolded run_ready_def]
  have job: "GetActiveTrainingJob kTenantId kModelId (sv_store sv) = Some ?job"
    using parts by (simp add: GetActiveTrainingJob_def rfind_def)
  let ?v = "ValidateTrainingAssignmentSubmission (\<lambda>_. 1000) kTenantId kModelId run_trainer (jb_job_id run_job)
      (as_assignment_id run_lease) 1 0 (sv_store sv)"
  have v: "?v = (Inr (), ExpireAssignmentsLocked (CurrentTimestamp 1000) (sv_store sv))"
    using run_check [of "sv_store sv"] parts by (simp add: ValidateTrainingAssignmentSubmission_def Let_def)
  obtain sv1 where sv1: "validated (run_clks 4) q sv = (Inr (), sv1)" and ready1: "run_ready sv1"
    using v parts q job
    by (auto simp: validated_def run_clks_def run_ready_def upd_all_def lease_lapsed_def timestamps)
  have len: "length (bytes_of WriteUint32BigEndian ws) mod 4 = 0"
    using floats_of_bytes [OF word_bytes, of ws] by simp
  obtain r w b s3 where out: "commit_outcome word_arith null_prims word_env word_config (\<lambda>_ _. 1000) q (Some ?job)
      (floats_of (se_of_bytes word_env) (bytes_of WriteUint32BigEndian ws)) sv1 = (Inr (r, w), (b, s3))" "ag_accepted r"
    and s3: "training_jobs s3 = training_jobs (sv_store sv1)" "assignments s3 = assignments (sv_store sv1)"
    using run_waits [OF ready1 q(2,1)] by blast
  have acc: "fst (AcceptTrainingAssignmentSubmission (\<lambda>_. 1000) kTenantId kModelId run_trainer (jb_job_id run_job)
      (as_assignment_id run_lease) 1 0 s3) = Inr ()"
    using run_check [of s3] ready1 s3 by (simp add: AcceptTrainingAssignmentSubmission_def run_ready_def Let_def)
  show ?thesis
    by (rule SubmitWeights_accepts [OF q(8) _ _ _ sv1 _ _ _ len _ _ out(2), where b = b and ?s3.0 = s3])
      (use parts q run_registered_peer job out(1) acc in \<open>simp_all add: run_clks_def IsRoundCompleted_def
        HasClientSubmission_def empty_buffer_def\<close>)
qed

section \<open>Task reports\<close>

text \<open>C31: The identifier of a task is put together from the names of its job, client and worker with
  two time stamps. When these names have more than 75 characters together, the identifier exceeds the
  limit that the reporting handler checks: no report on the task is ever accepted and none changes
  anything, although the server itself issued it.\<close>

theorem long_task_ids_unreportable:
  assumes "reachable_store (sv_store sv)" and "k \<in> set (worker_tasks (sv_store sv))" and "a \<in> set (assignments (sv_store sv))"
    and "tk_assignment_id k = as_assignment_id a" and "wu_task_id q = tk_task_id k"
    and "75 < length (as_job_id a) + length (as_client_id a) + length (tk_worker_id k)"
  shows "\<not> wa_accepted (snd (fst (ReportTaskStatus cfg clk ctx q sv))) \<and> snd (ReportTaskStatus cfg clk ctx q sv) = sv"
proof -
  have "128 < length (wu_task_id q)" using task_id_length [OF assms(1-4)] assms(5,6) by simp
  then have "ValidateIdentifier (wu_task_id q) ''task_id'' False default_max_length \<noteq> ''''"
    by (simp add: ValidateIdentifier_ok_iff default_max_length_def)
  then show ?thesis by (simp add: ReportTaskStatus_def Let_def)
qed

section \<open>A run\<close>

lemma report_frame [simp]:
  "training_jobs (sv_store (snd (ReportTaskStatus cfg clk ctx q sv))) = training_jobs (sv_store sv)"
  "assignments (sv_store (snd (ReportTaskStatus cfg clk ctx q sv))) = assignments (sv_store sv)"
  "models (sv_store (snd (ReportTaskStatus cfg clk ctx q sv))) = models (sv_store sv)"
  "sv_registry (snd (ReportTaskStatus cfg clk ctx q sv)) = sv_registry sv"
  "sv_buffer (snd (ReportTaskStatus cfg clk ctx q sv)) = sv_buffer sv"
  "sv_crypto (snd (ReportTaskStatus cfg clk ctx q sv)) = sv_crypto sv"
proof -
  let ?s = "snd (UpdateWorkerTaskStatus clk (wu_worker_id q) (wu_task_id q) (wu_status q) (wu_detail q)
    (wu_progress_percent q) (sv_store sv))"
  have "snd (ReportTaskStatus cfg clk ctx q sv) \<in> {sv, sv\<lparr>sv_store := ?s\<rparr>}"
    by (auto simp: ReportTaskStatus_def Let_def split: prod.split sum.split)
  then show "training_jobs (sv_store (snd (ReportTaskStatus cfg clk ctx q sv))) = training_jobs (sv_store sv)"
    "assignments (sv_store (snd (ReportTaskStatus cfg clk ctx q sv))) = assignments (sv_store sv)"
    "models (sv_store (snd (ReportTaskStatus cfg clk ctx q sv))) = models (sv_store sv)"
    "sv_registry (snd (ReportTaskStatus cfg clk ctx q sv)) = sv_registry sv"
    "sv_buffer (snd (ReportTaskStatus cfg clk ctx q sv)) = sv_buffer sv"
    "sv_crypto (snd (ReportTaskStatus cfg clk ctx q sv)) = sv_crypto sv"
    by (auto simp: frame_simps)
qed

lemma heartbeat_frame [simp]:
  "training_jobs (sv_store (snd (Heartbeat cfg clks ctx q sv))) = training_jobs (sv_store sv)"
  "assignments (sv_store (snd (Heartbeat cfg clks ctx q sv))) = assignments (sv_store sv)"
  "models (sv_store (snd (Heartbeat cfg clks ctx q sv))) = models (sv_store sv)"
  "sv_registry (snd (Heartbeat cfg clks ctx q sv)) = sv_registry sv"
  "sv_buffer (snd (Heartbeat cfg clks ctx q sv)) = sv_buffer sv"
  "sv_crypto (snd (Heartbeat cfg clks ctx q sv)) = sv_crypto sv"
proof -
  let ?s = "snd (RecordWorkerHeartbeat (clks 1) (wh_worker_id q) (wh_active_task_id q) (wh_detail q) (sv_store sv))"
  have "snd (Heartbeat cfg clks ctx q sv) \<in> {sv, sv\<lparr>sv_store := ?s\<rparr>}"
    by (auto simp: Heartbeat_def Let_def split: prod.split)
  then show "training_jobs (sv_store (snd (Heartbeat cfg clks ctx q sv))) = training_jobs (sv_store sv)"
    "assignments (sv_store (snd (Heartbeat cfg clks ctx q sv))) = assignments (sv_store sv)"
    "models (sv_store (snd (Heartbeat cfg clks ctx q sv))) = models (sv_store sv)"
    "sv_registry (snd (Heartbeat cfg clks ctx q sv)) = sv_registry sv"
    "sv_buffer (snd (Heartbeat cfg clks ctx q sv)) = sv_buffer sv"
    "sv_crypto (snd (Heartbeat cfg clks ctx q sv)) = sv_crypto sv"
    by (auto simp: frame_simps)
qed

text \<open>A lease is handed out only while a job is active, which stays active.\<close>

lemma leased_job_active:
  assumes "LeaseTrainingAssignment clk t m c v dm dt s = (Some out, s')"
  shows "GetActiveTrainingJob t m s' \<noteq> None"
proof -
  have out: "fst (LeaseTrainingAssignment clk t m c v dm dt s) = Some out"
    and s': "s' = snd (LeaseTrainingAssignment clk t m c v dm dt s)" using assms by simp_all
  let ?P = "active_job_in (NormalizeTenant t) (NormalizeModel m)"
  let ?now = "CurrentTimestamp (clk 0)"
  obtain job where job: "rfind ?P (training_jobs s) = Some job"
    and jobs: "training_jobs s' = upd_last ?P (start_job ?now) (training_jobs s)"
    using out by (cases rule: LeaseTrainingAssignment_cases [of t m s clk c v dm dt]) (simp_all add: s')
  then have "rfind ?P (training_jobs s') \<noteq> None"
    by (simp add: jobs rfind_upd_last)
  then show ?thesis by (simp add: GetActiveTrainingJob_def)
qed

lemma ready_job_active:
  assumes "LeaseTrainingTask A cfg clks ctx q sv = ((st, task), sv')" and "wt_task_ready task"
    and "wl_tenant_id q \<noteq> ''''" and "wl_model_id q \<noteq> ''''"
  shows "GetActiveTrainingJob (wl_tenant_id q) (wl_model_id q) (sv_store sv') \<noteq> None"
proof -
  obtain worker where w: "GetWorker (wl_worker_id q) (sv_store sv) = Some worker"
    using assms(1,2) by (auto simp: LeaseTrainingTask_def no_task_def Let_def split: if_splits option.splits)
  let ?L = "LeaseTrainingAssignment (clks 0) (NormalizeTenant (wl_tenant_id q)) (NormalizeModel (wl_model_id q))
    (wk_trainer_client_id worker) (GetActiveModelVersion (NormalizeTenant (wl_tenant_id q)) (NormalizeModel (wl_model_id q))
    (sv_store sv)) (cfg_required_clients cfg) (cfg_default_assignment_ttl_seconds cfg) (sv_store sv)"
  obtain leased s where l: "?L = (leased, s)" by fastforce
  have "leased \<noteq> None"
    using assms w l by (cases leased) (auto simp: LeaseTrainingTask_def no_task_def Let_def split: if_splits)
  then obtain assignment job found where t: "leased = Some (assignment, job, found)" by auto
  have "training_jobs (sv_store sv') = training_jobs s"
    using assms w l t
    by (auto simp: LeaseTrainingTask_def no_task_def Let_def case_prod_unfold frame_simps split: if_splits)
  moreover have "GetActiveTrainingJob (wl_tenant_id q) (wl_model_id q) s \<noteq> None"
    using leased_job_active [OF l [unfolded t]] by simp
  ultimately show ?thesis by (simp add: GetActiveTrainingJob_def)
qed

lemma SealPayload_fields:
  assumes "SealPayload C K pk parts ws req = Inr (Some q)"
  shows "wp_tenant_id q = wp_tenant_id req \<and> wp_model_id q = wp_model_id req \<and> wp_client_id q = wp_client_id req \<and>
    wp_assignment_id q = wp_assignment_id req \<and> wp_round_index q = wp_round_index req"
  using assms by (auto simp: SealPayload_def split: sum.splits option.splits)

lemma WorkerDeliver_accepted:
  assumes "WorkerDeliver C K (server_stubs A C N E cfg clks ctx) wid tid task ws sv = (Inr True, sv')"
  obtains q r where "SubmitWeights A C N cfg (clks 4) ctx q sv = (Inr r, sv')" "ar_accepted r"
    "wp_tenant_id q = kTenantId" "wp_model_id q = kModelId" "wp_client_id q = tid"
    "wp_assignment_id q = wt_assignment_id task" "wp_round_index q = wt_round_index task"
proof -
  obtain q where q: "WorkerSubmitWeights C K wid tid task ws = Inr (Some q)"
    using assms by (auto simp: WorkerDeliver_def split: sum.splits option.splits)
  obtain r where "SubmitWeights A C N cfg (clks 4) ctx q sv = (Inr r, sv')" "ar_accepted r"
    using assms q
    by (cases "SubmitWeights A C N cfg (clks 4) ctx q sv")
      (auto simp: WorkerDeliver_def server_stubs_def split: sum.splits)
  with that SealPayload_fields [OF q [unfolded WorkerSubmitWeights_def Let_def]] show ?thesis by simp
qed

text \<open>C8: When a worker's run reports success and the server had given it a task, the server has
  accepted its weights under the lease of the task: the lease belongs to the worker's trainer and
  the round of the task, and is submitted, or aggregated with its round.\<close>

theorem worker_run_delivers:
  assumes "Run A C K (server_stubs A C N E cfg clks ctx) wid tid sv = (Inr True, sv')"
    and "RegisterWorker cfg (clks 0) ctx (WorkerRegisterRequest wid tid) sv = ((st, res), sv1)"
    and "LeaseTrainingTask A cfg (clks 1) ctx (LeaseTaskRequest wid (wo_trainer_client_id res)) sv1 = ((st', task), sv2)"
    and "wt_task_ready task"
  shows "\<exists>a. find (\<lambda>a. as_assignment_id a = wt_assignment_id task) (assignments (sv_store sv')) = Some a \<and>
    (as_status a = ''submitted'' \<or> as_status a = ''aggregated'') \<and>
    as_client_id a = wo_trainer_client_id res \<and> as_round_index a = wt_round_index task"
proof -
  let ?T = "server_stubs A C N E cfg clks ctx" and ?tid = "wo_trainer_client_id res"
  have stubs: "st_register ?T = RegisterWorker cfg (clks 0) ctx" "st_lease ?T = LeaseTrainingTask A cfg (clks 1) ctx"
    by (simp_all add: server_stubs_def)
  have run: "RunTask A C K ?T wid ?tid task sv2 = (Inr True, sv')"
    using assms by (simp add: worker_run_defs stubs Let_def split: if_splits)
  have active: "GetActiveTrainingJob kTenantId kModelId (sv_store sv2) \<noteq> None"
    using ready_job_active [OF assms(3,4)] by (simp add: LeaseTaskRequest_def kTenantId_def kModelId_def)
  obtain ws sv3 where del: "WorkerDeliver C K ?T wid ?tid task ws sv3 = (Inr True, sv')"
    and jobs: "training_jobs (sv_store sv3) = training_jobs (sv_store sv2)"
    using run
    by (auto simp: RunTask_def Let_def server_stubs_def [of A C N E cfg clks ctx] split: sum.splits option.splits)
  obtain q r where "SubmitWeights A C N cfg (clks 4) ctx q sv3 = (Inr r, sv')" "ar_accepted r"
    and q: "wp_tenant_id q = kTenantId" "wp_model_id q = kModelId" "wp_client_id q = ?tid"
      "wp_assignment_id q = wt_assignment_id task" "wp_round_index q = wt_round_index task"
    by (rule WorkerDeliver_accepted [OF del])
  moreover obtain job where "GetActiveTrainingJob kTenantId kModelId (sv_store sv3) = Some job"
    using active jobs by (auto simp: GetActiveTrainingJob_def)
  ultimately show ?thesis using submit_consumes_lease [of A C N cfg "clks 4" ctx q sv3 r sv'] by (simp add: q)
qed

lemma run_report_ready: "run_ready sv \<Longrightarrow> run_ready (snd (ReportTaskStatus cfg clk ctx q sv))"
  by (simp add: run_ready_def)

lemma run_heartbeat_ready: "run_ready sv \<Longrightarrow> run_ready (snd (Heartbeat cfg clks ctx q sv))"
  by (simp add: run_ready_def)

text \<open>The whole run on the concrete server succeeds.\<close>

definition run_stubs :: "(32 word, (32 word) server) worker_stubs" where
  "run_stubs = server_stubs word_arith null_prims word_env (word_stream run_server) word_config run_clks worker_peer"

lemma run_succeeds: "\<exists>sv'. Run word_arith null_prims word_client run_stubs run_worker run_trainer run_server = (Inr True, sv')"
proof -
  have stubs: "st_register run_stubs = RegisterWorker word_config (run_clks 0) worker_peer"
    "st_lease run_stubs = LeaseTrainingTask word_arith word_config (run_clks 1) worker_peer"
    by (simp_all add: run_stubs_def server_stubs_def)
  obtain res where res: "RegisterWorker word_config (run_clks 0) worker_peer
      (WorkerRegisterRequest run_worker run_trainer) run_server = (((OK, ''''), res), run_registered)"
    "wo_trainer_client_id res = run_trainer" using run_registers by blast
  obtain task where task: "LeaseTrainingTask word_arith word_config (run_clks 1) worker_peer
      (LeaseTaskRequest run_worker run_trainer) run_registered = (((OK, ''''), task), run_leased)" "wt_task_ready task"
    "wt_round_index task = 1" "wt_assignment_id task = as_assignment_id run_lease" "wt_job_id task = jb_job_id run_job"
    "wt_base_model_version task = 0" "wt_payload_kem_public_key task = replicate 32 3"
    using run_leases(1) by blast
  let ?report = "\<lambda>i q sv. snd (ReportTaskStatus word_config (run_clks 2 i) worker_peer q sv)"
  let ?r1 = "StatusReport run_worker (wt_task_id task) ''running'' ''worker bootstrapped trainer'' 20"
  let ?r2 = "StatusReport run_worker (wt_task_id task) ''completed'' ''synthetic trainer finished'' 100"
  let ?h = "HeartbeatRequest run_worker run_trainer (wt_task_id task) ''synthetic trainer still running''"
  let ?sv3 = "?report 1 ?r2 (snd (Heartbeat word_config (run_clks 3) worker_peer ?h (?report 0 ?r1 run_leased)))"
  let ?ws = "SyntheticTrain word_arith [] run_worker"
  have "run_ready run_leased" unfolding run_ready_def using run_leases(2-7) by blast
  then have ready: "run_ready ?sv3" by (intro run_report_ready run_heartbeat_ready)
  have ws: "?ws \<noteq> []" by (simp add: SyntheticTrain_def Let_def)
  obtain q where q: "WorkerSubmitWeights null_prims word_client run_worker run_trainer task ?ws = Inr (Some q)"
    "wp_client_id q = run_trainer" "wp_round_index q = 1" "wp_tenant_id q = kTenantId" "wp_model_id q = kModelId"
    "wp_base_model_version q = 0" "wp_job_id q = jb_job_id run_job"
    "wp_assignment_id q = as_assignment_id run_lease" "CheckSubmitRequest q = None"
    "DecryptSubmission null_prims worker_peer q demo_engine = Inr (bytes_of WriteUint32BigEndian ?ws)"
    by (rule run_payload [OF task(3-7) ws])
  obtain r sv' where sub: "SubmitWeights word_arith null_prims word_env word_config (run_clks 4) worker_peer q ?sv3 =
      (Inr r, sv')" "ar_accepted r" using run_submits [OF ready q(2-10)] by blast
  have base: "FetchBaseModelIfAvailable null_prims word_client run_trainer task f = Inr (Some [])" for f
    by (simp add: FetchBaseModelIfAvailable_def needs_base_model_def task(3))
  have "RunTask word_arith null_prims word_client run_stubs run_worker run_trainer task run_leased = (Inr True, sv')"
    using sub by (simp add: RunTask_def base WorkerDeliver_def q(1) run_stubs_def server_stubs_def Let_def)
  then show ?thesis by (simp add: worker_run_defs stubs res task(1) [unfolded One_nat_def] task(2))
qed

theorem worker_run_delivers_witness:
  "\<exists>sv' a. Run word_arith null_prims word_client run_stubs run_worker run_trainer run_server = (Inr True, sv') \<and>
     a \<in> set (assignments (sv_store sv')) \<and> as_client_id a = run_trainer \<and> as_status a \<noteq> ''leased''"
proof -
  obtain sv' where run: "Run word_arith null_prims word_client run_stubs run_worker run_trainer run_server = (Inr True, sv')"
    using run_succeeds by blast
  obtain res where res: "RegisterWorker word_config (run_clks 0) worker_peer
      (WorkerRegisterRequest run_worker run_trainer) run_server = (((OK, ''''), res), run_registered)"
    "wo_trainer_client_id res = run_trainer" using run_registers by blast
  obtain task where task: "LeaseTrainingTask word_arith word_config (run_clks 1) worker_peer
      (LeaseTaskRequest run_worker (wo_trainer_client_id res)) run_registered = (((OK, ''''), task), run_leased)"
      "wt_task_ready task"
    using run_leases(1) res(2) by auto
  obtain a where "find (\<lambda>a. as_assignment_id a = wt_assignment_id task) (assignments (sv_store sv')) = Some a"
    "as_status a = ''submitted'' \<or> as_status a = ''aggregated''" "as_client_id a = run_trainer"
    using worker_run_delivers [OF run [unfolded run_stubs_def] res(1) task] res(2) by auto
  then have "a \<in> set (assignments (sv_store sv'))" "as_status a \<noteq> ''leased''" "as_client_id a = run_trainer"
    by (auto dest: find_SomeD)
  with run show ?thesis by blast
qed

lemma run_leased_reachable: "reachable_store (sv_store run_leased)"
proof -
  have "store_step\<^sup>*\<^sup>* (sv_store run_registered) (sv_store run_leased)"
    using shared_run_store [OF run_lease_task [of word_config run_registered word_arith "run_clks 1" worker_peer
        "LeaseTaskRequest run_worker run_trainer"]] by (simp add: run_leased_def)
  with run_registered_reachable show ?thesis by (auto intro: reachable_run)
qed

text \<open>With the names of the demo the reports of the run are among those that are refused.\<close>

theorem long_task_ids_unreportable_witness:
  "\<exists>k\<in>set (worker_tasks (sv_store run_leased)). \<not> wa_accepted (snd (fst (ReportTaskStatus word_config (\<lambda>_. 2000)
     worker_peer (StatusReport run_worker (tk_task_id k) ''running'' ''worker bootstrapped trainer'' 20) run_leased)))"
proof -
  obtain k where k: "worker_tasks (sv_store run_leased) = [k]" "tk_assignment_id k = as_assignment_id run_lease"
    "tk_worker_id k = run_worker" using run_leases(8) by blast
  have len: "75 < length (as_job_id run_lease) + length (as_client_id run_lease) + length (tk_worker_id k)"
    by (simp add: k(3)) (simp add: run_worker_def run_trainer_def)
  have "\<not> wa_accepted (snd (fst (ReportTaskStatus word_config (\<lambda>_. 2000) worker_peer
      (StatusReport run_worker (tk_task_id k) ''running'' ''worker bootstrapped trainer'' 20) run_leased)))"
    using long_task_ids_unreportable [OF run_leased_reachable _ _ k(2) _ len, where cfg = word_config and
        clk = "\<lambda>_. 2000" and ctx = worker_peer and
        q = "StatusReport run_worker (tk_task_id k) ''running'' ''worker bootstrapped trainer'' 20"]
    by (simp add: k(1) run_leases(3) StatusReport_def)
  with k(1) show ?thesis by simp
qed

end
