(* ===== verification/Completion_Queue.thy ===== *)
theory Completion_Queue
  imports Stream_Call Server_System
begin

text \<open>
  \<open>server/federated_service.cpp\<close>: the call objects of the three unary methods, and the completion
  queue with all objects of the service, streams included. An object asks for a call when it is
  made, runs its handler once when the call arrives, makes its successor, and deletes itself when
  its answer was sent. \<open>HandleRpcs\<close> takes one outstanding tag after the other.
\<close>

section \<open>The unary objects\<close>

datatype unary_method = RegisterClientMethod | GetTrainingConfigMethod | SubmitWeightsMethod

datatype unary_request =
    Registration ClientRegistration
  | ConfigQuery ConfigRequest
  | Submission WeightPayload

datatype 'f unary_reply =
    RegistrationReply grpc_status RegistrationResponse
  | ConfigReply grpc_status "'f TrainingConfig"
  | SubmissionReply grpc_status AggregationResponse

datatype 'f unary_action =
    AskForCall
  | SpawnSuccessor
  | SendReply "'f unary_reply"
  | DeleteSelf

text \<open>The frame of the three \<open>Proceed\<close> functions around what they do with a request; the exception of
  a handler (\<open>Inl\<close>) leaves \<open>Proceed\<close>.\<close>

definition UnaryProceed ::
  "('s \<Rightarrow> (string + 'f unary_reply) \<times> 's) \<Rightarrow> bool \<Rightarrow> call_event \<Rightarrow> call_status \<Rightarrow> 's
     \<Rightarrow> (string + call_status \<times> 'f unary_action list) \<times> 's" where
  "UnaryProceed handle ok event st s =
     (if event = FINISHED \<or> \<not> ok then (Inr (st, [DeleteSelf]), s)
      else if st = CREATE then (Inr (PROCESS, [AskForCall]), s)
      else if st = PROCESS then
        (case handle s of
           (Inl err, s') \<Rightarrow> (Inl err, s')
         | (Inr reply, s') \<Rightarrow> (Inr (FINISH, [SpawnSuccessor, SendReply reply]), s'))
      else (Inr (st, [DeleteSelf]), s))"

text \<open>What a call reads besides its request: settings, clocks, randomness, the peer.\<close>

record 'f call_env =
  rx_arith :: "'f arith"
  rx_prims :: crypto_prims
  rx_submit :: "'f submit_env"
  rx_config :: "'f config"
  rx_clocks :: "nat \<Rightarrow> clock"
  rx_context :: server_context

definition RegisterClientCallProceed ::
  "'f call_env \<Rightarrow> ClientRegistration \<Rightarrow> bool \<Rightarrow> call_event \<Rightarrow> call_status \<Rightarrow> 'f server
     \<Rightarrow> (string + call_status \<times> 'f unary_action list) \<times> 'f server" where
  "RegisterClientCallProceed X q = UnaryProceed (\<lambda>sv.
     case RegisterClient (rx_clocks X) (rx_context X) q sv of
       ((st, response), sv') \<Rightarrow> (Inr (RegistrationReply st response), sv'))"

definition GetTrainingConfigCallProceed ::
  "'f call_env \<Rightarrow> ConfigRequest \<Rightarrow> bool \<Rightarrow> call_event \<Rightarrow> call_status \<Rightarrow> 'f server
     \<Rightarrow> (string + call_status \<times> 'f unary_action list) \<times> 'f server" where
  "GetTrainingConfigCallProceed X q = UnaryProceed (\<lambda>sv.
     case GetTrainingConfig (rx_arith X) (rx_config X) (rx_clocks X 0) (rx_context X) q sv of
       ((st, response), sv') \<Rightarrow> (Inr (ConfigReply st response), sv'))"

definition SubmitWeightsCallProceed ::
  "'f call_env \<Rightarrow> WeightPayload \<Rightarrow> bool \<Rightarrow> call_event \<Rightarrow> call_status \<Rightarrow> 'f server
     \<Rightarrow> (string + call_status \<times> 'f unary_action list) \<times> 'f server" where
  "SubmitWeightsCallProceed X q = UnaryProceed (\<lambda>sv.
     case SubmitWeights (rx_arith X) (rx_prims X) (rx_submit X) (rx_config X) (rx_clocks X) (rx_context X) q sv of
       (Inl err, sv') \<Rightarrow> (Inl err, sv')
     | (Inr response, sv') \<Rightarrow> (Inr (SubmissionReply (OK, '''') response), sv'))"

text \<open>The virtual call: the object's class decides, its request is of that class.\<close>

definition method_of :: "unary_request \<Rightarrow> unary_method" where
  "method_of q = (case q of Registration _ \<Rightarrow> RegisterClientMethod | ConfigQuery _ \<Rightarrow> GetTrainingConfigMethod
     | Submission _ \<Rightarrow> SubmitWeightsMethod)"

definition UnaryCallProceed ::
  "'f call_env \<Rightarrow> unary_request \<Rightarrow> bool \<Rightarrow> call_event \<Rightarrow> call_status \<Rightarrow> 'f server
     \<Rightarrow> (string + call_status \<times> 'f unary_action list) \<times> 'f server" where
  "UnaryCallProceed X q = (case q of
     Registration r \<Rightarrow> RegisterClientCallProceed X r
   | ConfigQuery r \<Rightarrow> GetTrainingConfigCallProceed X r
   | Submission r \<Rightarrow> SubmitWeightsCallProceed X r)"

section \<open>The objects of the service and their tags\<close>

text \<open>A stream carries the peer and the request it will be given; it does not read them before.\<close>

datatype call_object =
    UnaryCall unary_method call_status
  | StreamCall server_context ModelRequest stream_call

text \<open>The state of the queue: the server with its key files, objects by address, outstanding tags, the first address not yet used,
  whether the queue was shut down.\<close>

record 'f call_queue =
  cq_server :: "'f server"
  cq_files :: key_files
  cq_calls :: "nat \<rightharpoonup> call_object"
  cq_tags :: "(nat \<times> call_event) multiset"
  cq_fresh :: nat
  cq_shut :: bool

text \<open>The constructors: \<open>Proceed(true, Event::START)\<close> on a fresh object.\<close>

fun unary_tag :: "'f unary_action \<Rightarrow> call_event multiset" where
  "unary_tag AskForCall = {#REQUEST#}"
| "unary_tag (SendReply r) = {#FINISHED#}"
| "unary_tag _ = {#}"

definition tags_for :: "nat \<Rightarrow> call_event multiset \<Rightarrow> (nat \<times> call_event) multiset" where
  "tags_for k evs = image_mset (Pair k) evs"

definition NewUnaryCall :: "unary_method \<Rightarrow> 'f call_queue \<Rightarrow> 'f call_queue" where
  "NewUnaryCall m Q =
     (case UnaryProceed (\<lambda>_. (Inl '''', ())) True START CREATE () of
        (Inr (st, acts :: 'f unary_action list), _) \<Rightarrow>
          Q\<lparr>cq_calls := (cq_calls Q)(cq_fresh Q \<mapsto> UnaryCall m st),
            cq_tags := cq_tags Q + tags_for (cq_fresh Q) (\<Sum>\<^sub># (mset (map unary_tag acts))),
            cq_fresh := Suc (cq_fresh Q)\<rparr>
      | _ \<Rightarrow> Q)"

definition NewRegisterClientCall :: "'f call_queue \<Rightarrow> 'f call_queue" where
  "NewRegisterClientCall Q = NewUnaryCall RegisterClientMethod Q"

definition NewGetTrainingConfigCall :: "'f call_queue \<Rightarrow> 'f call_queue" where
  "NewGetTrainingConfigCall Q = NewUnaryCall GetTrainingConfigMethod Q"

definition NewSubmitWeightsCall :: "'f call_queue \<Rightarrow> 'f call_queue" where
  "NewSubmitWeightsCall Q = NewUnaryCall SubmitWeightsMethod Q"

lemmas NewCall_defs = NewRegisterClientCall_def NewGetTrainingConfigCall_def NewSubmitWeightsCall_def

definition NewStreamCall :: "server_context \<Rightarrow> ModelRequest \<Rightarrow> 'f call_queue \<Rightarrow> 'f call_queue" where
  "NewStreamCall ctx q Q =
     (let (c, acts) = RequestDoneNotification (new_call\<lparr>status := PROCESS\<rparr>) in
      Q\<lparr>cq_calls := (cq_calls Q)(cq_fresh Q \<mapsto> StreamCall ctx q c),
        cq_tags := cq_tags Q + tags_for (cq_fresh Q) (\<Sum>\<^sub># (mset (map tag_of (acts @ [RequestCall])))),
        cq_fresh := Suc (cq_fresh Q)\<rparr>)"

definition StartRpcs :: "server_context \<Rightarrow> ModelRequest \<Rightarrow> 'f system \<Rightarrow> 'f call_queue" where
  "StartRpcs ctx q sys =
     NewStreamCall ctx q (NewSubmitWeightsCall (NewGetTrainingConfigCall (NewRegisterClientCall
         \<lparr>cq_server = fst sys, cq_files = snd sys, cq_calls = Map.empty, cq_tags = {#}, cq_fresh = 0, cq_shut = False\<rparr>)))"

section \<open>HandleRpcs\<close>

text \<open>What the actions of a unary object at address \<open>k\<close> do; \<open>delete this\<close> removes the object.\<close>

definition perform_unary :: "nat \<Rightarrow> unary_method \<Rightarrow> call_status \<Rightarrow> 'f unary_action list \<Rightarrow> 'f call_queue \<Rightarrow> 'f call_queue" where
  "perform_unary k m st acts Q =
     (let Q1 = Q\<lparr>cq_calls := (if DeleteSelf \<in> set acts then (cq_calls Q)(k := None)
                 else (cq_calls Q)(k \<mapsto> UnaryCall m st)),
               cq_tags := cq_tags Q + tags_for k (\<Sum>\<^sub># (mset (map unary_tag acts)))\<rparr>
      in if SpawnSuccessor \<in> set acts then NewUnaryCall m Q1 else Q1)"

definition perform_stream ::
  "nat \<Rightarrow> server_context \<Rightarrow> ModelRequest \<Rightarrow> proceeded \<Rightarrow> server_context \<Rightarrow> ModelRequest \<Rightarrow> 'f call_queue \<Rightarrow> 'f call_queue" where
  "perform_stream k ctx q p ctx' q' Q =
     (let (c, acts) = p;
          Q1 = Q\<lparr>cq_calls := (if DeleteThis \<in> set acts then (cq_calls Q)(k := None)
                 else (cq_calls Q)(k \<mapsto> StreamCall ctx q c)),
               cq_tags := cq_tags Q + tags_for k (\<Sum>\<^sub># (mset (map tag_of acts)))\<rparr>
      in if SpawnListener \<in> set acts then NewStreamCall ctx' q' Q1 else Q1)"

text \<open>
  The steps. gRPC gives a tag back once; it fails a request (\<open>ok\<close> is false) exactly when the queue is
  shut down, and then the notification of that call is never given; the notification of a call that
  did start comes after its request. A handler that throws has no step: the process ends.
\<close>

definition tags_at :: "nat \<Rightarrow> (nat \<times> call_event) multiset \<Rightarrow> call_event multiset" where
  "tags_at k tags = image_mset snd (filter_mset (\<lambda>t. fst t = k) tags)"

definition may_next :: "'f call_queue \<Rightarrow> nat \<Rightarrow> bool \<Rightarrow> call_event \<Rightarrow> bool" where
  "may_next Q k ok event \<longleftrightarrow> (k, event) \<in># cq_tags Q \<and> (event = REQUEST \<longrightarrow> ok = (\<not> cq_shut Q)) \<and>
     (event = DONE \<longrightarrow> (k, REQUEST) \<notin># cq_tags Q)"

definition take_next :: "nat \<Rightarrow> bool \<Rightarrow> call_event \<Rightarrow> 'f call_queue \<Rightarrow> 'f call_queue" where
  "take_next k ok event Q = Q\<lparr>cq_tags :=
     (if event = REQUEST \<and> \<not> ok then cq_tags Q - {#(k, REQUEST)#} - {#(k, DONE)#} else cq_tags Q - {#(k, event)#})\<rparr>"

inductive queue_step ::
  "'f arith \<Rightarrow> crypto_prims \<Rightarrow> 'f config \<Rightarrow> 'f call_queue \<Rightarrow> 'f call_queue \<Rightarrow> bool"
  for A :: "'f arith" and C :: crypto_prims and cfg :: "'f config" where
  next_unary: "may_next Q k ok event \<Longrightarrow> cq_calls Q k = Some (UnaryCall m st) \<Longrightarrow> method_of q = m \<Longrightarrow>
    rx_arith X = A \<Longrightarrow> rx_prims X = C \<Longrightarrow> rx_config X = cfg \<Longrightarrow>
    UnaryCallProceed X q ok event st (cq_server Q) = (Inr (st', acts), sv') \<Longrightarrow>
    queue_step A C cfg Q (perform_unary k m st' acts ((take_next k ok event Q)\<lparr>cq_server := sv'\<rparr>))"
| next_stream: "may_next Q k ok event \<Longrightarrow> cq_calls Q k = Some (StreamCall ctx q c) \<Longrightarrow> en_server E = cq_server Q \<Longrightarrow>
    Proceed C E ctx q ok event c = Inr p \<Longrightarrow>
    queue_step A C cfg Q (perform_stream k ctx q p ctx' q' (take_next k ok event Q))"
| other_call: "server_step A C cfg (cq_server Q, cq_files Q) (sv', fs') \<Longrightarrow>
    queue_step A C cfg Q (Q\<lparr>cq_server := sv', cq_files := fs'\<rparr>)"
| shut_down: "queue_step A C cfg Q (Q\<lparr>cq_shut := True\<rparr>)"

end
