(* ===== verification/Queue_Guarantees.thy ===== *)
theory Queue_Guarantees
  imports Completion_Queue Stream_Guarantees Server_Guarantees
begin

text \<open>
  The objects of the federated service over any run of its completion queue: each lives exactly as
  long as a tag refers to it, one of each method waits for the next call until the queue is shut
  down, and what they do to the server are calls of its handlers.
\<close>

section \<open>Tags by address\<close>

lemma count_tags_at [simp]: "count (tags_at k M) e = count M (k, e)"
  by (induction M) (auto simp: tags_at_def split: prod.splits)

lemma tags_at_in [simp]: "e \<in># tags_at k M \<longleftrightarrow> (k, e) \<in># M"
  by (metis count_tags_at not_in_iff)

lemma tags_at_empty [simp]: "tags_at k {#} = {#}"
  by (simp add: tags_at_def)

lemma tags_at_plus [simp]: "tags_at k (M + N) = tags_at k M + tags_at k N"
  by (simp add: tags_at_def)

lemma tags_at_for [simp]: "tags_at k (tags_for j evs) = (if j = k then evs else {#})"
  by (induction evs) (auto simp: tags_for_def tags_at_def)

lemma tags_at_remove [simp]:
  "tags_at k (M - {#(j, e)#}) = (if j = k then tags_at k M - {#e#} else tags_at k M)"
  by (rule multiset_eqI) auto

section \<open>The invariant\<close>

definition stream_history :: "stream_call \<Rightarrow> GlobalModelUpdate list \<Rightarrow> stream_conf" where
  "stream_history c us = \<lparr>cf_call = Some c, cf_tags = call_tags c, cf_updates = us,
     cf_spawned = (if status c = PROCESS then 0 else 1)\<rparr>"

fun object_ok :: "call_object \<Rightarrow> bool" where
  "object_ok (UnaryCall m st) \<longleftrightarrow> st = PROCESS \<or> st = FINISH"
| "object_ok (StreamCall ctx q c) \<longleftrightarrow> (\<exists>us. stream_inv q (stream_history c us))"

fun object_tags :: "call_object \<Rightarrow> call_event multiset" where
  "object_tags (UnaryCall m st) = (if st = PROCESS then {#REQUEST#} else {#FINISHED#})"
| "object_tags (StreamCall ctx q c) = call_tags c"

definition place_ok :: "call_object option \<Rightarrow> call_event multiset \<Rightarrow> bool" where
  "place_ok ob evs \<longleftrightarrow> (case ob of None \<Rightarrow> evs = {#} | Some ob' \<Rightarrow> object_ok ob' \<and> evs = object_tags ob')"

definition queue_inv :: "'f call_queue \<Rightarrow> bool" where
  "queue_inv Q \<longleftrightarrow> (\<forall>k. place_ok (cq_calls Q k) (tags_at k (cq_tags Q))) \<and> (\<forall>k\<ge>cq_fresh Q. cq_calls Q k = None)"

text \<open>The objects that wait for a call of a method; a stream has no unary method.\<close>

fun listens :: "unary_method option \<Rightarrow> call_object \<Rightarrow> bool" where
  "listens M (UnaryCall m st) \<longleftrightarrow> M = Some m \<and> st = PROCESS"
| "listens M (StreamCall ctx q c) \<longleftrightarrow> M = None \<and> status c = PROCESS"

definition listeners :: "unary_method option \<Rightarrow> 'f call_queue \<Rightarrow> nat set" where
  "listeners M Q = {k. \<exists>ob. cq_calls Q k = Some ob \<and> listens M ob}"

definition listening :: "'f call_queue \<Rightarrow> bool" where
  "listening Q \<longleftrightarrow> (\<forall>M. (\<exists>k. listeners M Q = {k}) \<or> (cq_shut Q \<and> listeners M Q = {}))"

lemma place_ok_simps [simp]:
  "place_ok None evs \<longleftrightarrow> evs = {#}" "place_ok (Some ob) evs \<longleftrightarrow> object_ok ob \<and> evs = object_tags ob"
  by (simp_all add: place_ok_def)

section \<open>Objects come and go\<close>

text \<open>One place of the table and its tags replaced.\<close>

definition settle :: "nat \<Rightarrow> call_object option \<Rightarrow> (nat \<times> call_event) multiset \<Rightarrow> 'f call_queue \<Rightarrow> 'f call_queue" where
  "settle k ob tags Q = Q\<lparr>cq_calls := (cq_calls Q)(k := ob), cq_tags := tags\<rparr>"

lemma settled_place_inv:
  assumes "queue_inv Q" and "k < cq_fresh Q" and "\<And>j. j \<noteq> k \<Longrightarrow> tags_at j tags = tags_at j (cq_tags Q)"
    and "place_ok ob (tags_at k tags)"
  shows "queue_inv (settle k ob tags Q)"
  using assms by (auto simp: queue_inv_def settle_def)

lemma fresh_inv:
  assumes "queue_inv Q" and "object_ok ob" and "evs = object_tags ob"
  shows "queue_inv (Q\<lparr>cq_calls := (cq_calls Q)(cq_fresh Q \<mapsto> ob), cq_tags := cq_tags Q + tags_for (cq_fresh Q) evs,
    cq_fresh := Suc (cq_fresh Q)\<rparr>)"
proof -
  have "place_ok (cq_calls Q (cq_fresh Q)) (tags_at (cq_fresh Q) (cq_tags Q))" "cq_calls Q (cq_fresh Q) = None"
    using assms(1) unfolding queue_inv_def by blast+
  then have "tags_at (cq_fresh Q) (cq_tags Q) = {#}" by simp
  with assms show ?thesis by (auto simp: queue_inv_def)
qed

lemma NewUnaryCall_eq:
  "NewUnaryCall m (Q :: 'f call_queue) = Q\<lparr>cq_calls := (cq_calls Q)(cq_fresh Q \<mapsto> UnaryCall m PROCESS),
     cq_tags := cq_tags Q + tags_for (cq_fresh Q) {#REQUEST#}, cq_fresh := Suc (cq_fresh Q)\<rparr>"
  by (simp add: NewUnaryCall_def UnaryProceed_def)

definition waiting_stream :: stream_call where
  "waiting_stream = new_call\<lparr>status := PROCESS, done_notify_in_flight := True\<rparr>"

lemma NewStreamCall_eq:
  "NewStreamCall ctx q Q = Q\<lparr>cq_calls := (cq_calls Q)(cq_fresh Q \<mapsto> StreamCall ctx q waiting_stream),
     cq_tags := cq_tags Q + tags_for (cq_fresh Q) {#REQUEST, DONE#}, cq_fresh := Suc (cq_fresh Q)\<rparr>"
  by (simp add: NewStreamCall_def RequestDoneNotification_def waiting_stream_def new_call_def)

text \<open>The constructors are \<open>Proceed(true, START)\<close>, whatever the server.\<close>

lemma constructors_proceed:
  "UnaryCallProceed X rq True START CREATE sv = (Inr (PROCESS, [AskForCall]), sv)"
  "Proceed C E ctx q True START new_call = Inr (waiting_stream, [NotifyWhenDone, RequestCall])"
  by (simp_all add: UnaryCallProceed_def RegisterClientCallProceed_def GetTrainingConfigCallProceed_def
      SubmitWeightsCallProceed_def UnaryProceed_def Proceed_def Advance_def RequestDoneNotification_def
      new_call_def waiting_stream_def split: unary_request.split)

lemma waiting_stream_ok: "object_ok (StreamCall ctx q waiting_stream)"
proof -
  have "stream_inv q (stream_history waiting_stream [])"
    by (simp add: stream_inv_def stream_history_def waiting_stream_def new_call_def call_ok_def)
  then show ?thesis by auto
qed

lemma waiting_stream_tags: "call_tags waiting_stream = {#REQUEST, DONE#}"
  by (simp add: waiting_stream_def new_call_def call_tags_def tags_if_def)

lemma new_inv: "queue_inv Q \<Longrightarrow> queue_inv (NewUnaryCall m Q)" "queue_inv Q \<Longrightarrow> queue_inv (NewStreamCall ctx q Q)"
  unfolding NewUnaryCall_eq NewStreamCall_eq
  by (rule fresh_inv; simp) (rule fresh_inv [OF _ waiting_stream_ok]; simp add: waiting_stream_tags)

lemma start_queue_inv: "queue_inv (StartRpcs ctx q sys)"
  unfolding StartRpcs_def NewCall_defs by (intro new_inv) (simp add: queue_inv_def)

text \<open>Who listens after a new object, and after one place has changed.\<close>

lemma listeners_fresh:
  assumes "queue_inv Q"
  shows "listeners M (NewUnaryCall m Q) = (if M = Some m then insert (cq_fresh Q) (listeners M Q) else listeners M Q)"
    and "listeners M (NewStreamCall ctx q Q) = (if M = None then insert (cq_fresh Q) (listeners M Q) else listeners M Q)"
proof -
  have "cq_calls Q (cq_fresh Q) = None" using assms by (simp add: queue_inv_def)
  then show "listeners M (NewUnaryCall m Q) = (if M = Some m then insert (cq_fresh Q) (listeners M Q) else listeners M Q)"
    and "listeners M (NewStreamCall ctx q Q) = (if M = None then insert (cq_fresh Q) (listeners M Q) else listeners M Q)"
    by (auto simp: listeners_def NewUnaryCall_eq NewStreamCall_eq waiting_stream_def split: if_splits)
qed

lemma listeners_settle:
  "listeners M (settle k ob tags Q) =
     (case ob of Some ob' \<Rightarrow> if listens M ob' then insert k (listeners M Q - {k}) else listeners M Q - {k}
      | None \<Rightarrow> listeners M Q - {k})"
  by (auto simp: listeners_def settle_def split: option.splits if_splits)

lemma start_listening: "listening (StartRpcs ctx q sys)"
proof -
  have "listeners M (StartRpcs ctx q sys) = {case M of Some RegisterClientMethod \<Rightarrow> 0
      | Some GetTrainingConfigMethod \<Rightarrow> 1 | Some SubmitWeightsMethod \<Rightarrow> 2 | None \<Rightarrow> 3}" for M
    by (cases M rule: option.exhaust; (cases "the M")?)
      (auto simp: StartRpcs_def NewCall_defs listeners_def NewUnaryCall_eq NewStreamCall_eq waiting_stream_def split: if_splits)
  then show ?thesis by (simp add: listening_def)
qed

section \<open>The steps of the queue\<close>

lemma server_irrelevant [simp]:
  "queue_inv (Q\<lparr>cq_server := sv\<rparr>) \<longleftrightarrow> queue_inv Q" "queue_inv (Q\<lparr>cq_files := fs\<rparr>) \<longleftrightarrow> queue_inv Q"
  "queue_inv (Q\<lparr>cq_shut := True\<rparr>) \<longleftrightarrow> queue_inv Q"
  "listeners M (Q\<lparr>cq_server := sv\<rparr>) = listeners M Q" "listeners M (Q\<lparr>cq_files := fs\<rparr>) = listeners M Q"
  "listeners M (Q\<lparr>cq_shut := True\<rparr>) = listeners M Q"
  by (simp_all add: queue_inv_def listeners_def)

lemma served_steps:
  "RegisterClient clks ctx r sv = (x, sv') \<Longrightarrow> server_step A C cfg (sv, fs) (sv', fs)"
  "GetTrainingConfig A cfg clk ctx cq sv = (y, sv') \<Longrightarrow> server_step A C cfg (sv, fs) (sv', fs)"
  "SubmitWeights A C N cfg clks ctx wq sv = (Inr response, sv') \<Longrightarrow> server_step A C cfg (sv, fs) (sv', fs)"
  by (metis rpc_register_client rpc_training_config rpc_submit_weights fst_conv snd_conv)+

lemma unary_outcomes:
  assumes "UnaryCallProceed X rq ok event st sv = (Inr (st', acts), sv')"
  obtains
    (deleted) "event = FINISHED \<or> \<not> ok \<or> st = STREAM \<or> st = FINISH" "acts = [DeleteSelf]" "sv' = sv"
  | (asked) "st = CREATE"
  | (served) r where "ok" "st = PROCESS" "st' = FINISH" "acts = [SpawnSuccessor, SendReply r]"
      "\<And>fs. server_step (rx_arith X) (rx_prims X) (rx_config X) (sv, fs) (sv', fs)"
proof -
  have "(event = FINISHED \<or> \<not> ok \<or> st = STREAM \<or> st = FINISH) \<and> acts = [DeleteSelf] \<and> sv' = sv \<or> st = CREATE \<or>
    (\<exists>r. ok \<and> st = PROCESS \<and> st' = FINISH \<and> acts = [SpawnSuccessor, SendReply r] \<and>
      (\<forall>fs. server_step (rx_arith X) (rx_prims X) (rx_config X) (sv, fs) (sv', fs)))"
    using assms by (cases rq; cases st) (auto simp: UnaryCallProceed_def RegisterClientCallProceed_def
        GetTrainingConfigCallProceed_def SubmitWeightsCallProceed_def UnaryProceed_def
        split: if_splits prod.splits sum.splits intro: served_steps)
  then show thesis using deleted asked served by blast
qed

lemma take_next_update:
  "(take_next k ok event Q)\<lparr>cq_server := sv, cq_calls := f, cq_tags := t\<rparr> = (Q\<lparr>cq_calls := f, cq_tags := t\<rparr>)\<lparr>cq_server := sv\<rparr>"
  "(take_next k ok event Q)\<lparr>cq_calls := f, cq_tags := t\<rparr> = Q\<lparr>cq_calls := f, cq_tags := t\<rparr>"
  "cq_calls (take_next k ok event Q) = cq_calls Q"
  by (cases Q; simp add: take_next_def)+

lemma perform_unary_eq:
  "perform_unary k m st acts ((take_next k ok event Q)\<lparr>cq_server := sv\<rparr>) =
     (let Q1 = (settle k (if DeleteSelf \<in> set acts then None else Some (UnaryCall m st))
            (cq_tags (take_next k ok event Q) + tags_for k (\<Sum>\<^sub># (mset (map unary_tag acts)))) Q)\<lparr>cq_server := sv\<rparr>
      in if SpawnSuccessor \<in> set acts then NewUnaryCall m Q1 else Q1)"
  by (simp add: perform_unary_def settle_def take_next_update Let_def)

lemma perform_stream_eq:
  "perform_stream k ctx q (c, acts) ctx' q' (take_next k ok event Q) =
     (let Q1 = settle k (if DeleteThis \<in> set acts then None else Some (StreamCall ctx q c))
            (cq_tags (take_next k ok event Q) + tags_for k (\<Sum>\<^sub># (mset (map tag_of acts)))) Q
      in if SpawnListener \<in> set acts then NewStreamCall ctx' q' Q1 else Q1)"
  by (simp add: perform_stream_def settle_def take_next_update Let_def)

lemma take_next_tags:
  "tags_at j (cq_tags (take_next k ok event Q)) =
     (if j = k then take_tag ok event (tags_at k (cq_tags Q)) else tags_at j (cq_tags Q))"
  by (rule multiset_eqI) (auto simp: take_next_def take_tag_def)

lemma queue_place:
  assumes "queue_inv Q" and "cq_calls Q k = Some ob"
  shows "object_ok ob \<and> tags_at k (cq_tags Q) = object_tags ob \<and> k < cq_fresh Q"
proof -
  have "place_ok (cq_calls Q k) (tags_at k (cq_tags Q))" and "\<And>j. cq_fresh Q \<le> j \<Longrightarrow> cq_calls Q j = None"
    using assms(1) unfolding queue_inv_def by blast+
  with assms(2) show ?thesis by (metis not_le option.distinct(1) place_ok_simps(2))
qed

text \<open>A place after a step, and the listeners: who listened has been called and replaced, or the queue
  is shut down.\<close>

lemma settle_listening:
  assumes "listening Q" and "cq_calls Q k = Some ob" and "\<And>M ob'. ob2 = Some ob' \<Longrightarrow> \<not> listens M ob'"
    and "\<And>M. listens M ob \<Longrightarrow> cq_shut Q"
  shows "listening (settle k ob2 tags Q)"
  unfolding listening_def
proof
  fix M
  have gone: "listeners M (settle k ob2 tags Q) = listeners M Q - {k}"
    using assms(3) by (auto simp: listeners_settle split: option.split)
  have "k \<in> listeners M Q \<Longrightarrow> cq_shut Q" using assms(2,4) by (auto simp: listeners_def)
  moreover have "(\<exists>j. listeners M Q = {j}) \<or> (cq_shut Q \<and> listeners M Q = {})" using assms(1) by (simp add: listening_def)
  ultimately show "(\<exists>j. listeners M (settle k ob2 tags Q) = {j}) \<or>
      (cq_shut (settle k ob2 tags Q) \<and> listeners M (settle k ob2 tags Q) = {})"
    unfolding gone by (cases "k \<in> listeners M Q") (auto simp: settle_def)
qed

lemma unary_step_inv:
  assumes inv: "queue_inv Q" and lis: "listening Q" and may: "may_next Q k ok event"
    and k: "cq_calls Q k = Some (UnaryCall m st)"
    and run: "UnaryCallProceed X rq ok event st (cq_server Q) = (Inr (st', acts), sv')"
  shows "queue_inv (perform_unary k m st' acts ((take_next k ok event Q)\<lparr>cq_server := sv'\<rparr>)) \<and>
    listening (perform_unary k m st' acts ((take_next k ok event Q)\<lparr>cq_server := sv'\<rparr>))"
proof -
  note place = queue_place [OF inv k]
  then have "(st = PROCESS \<and> event = REQUEST) \<or> (st = FINISH \<and> event = FINISHED)"
    using may by (auto simp: may_next_def simp flip: tags_at_in split: if_splits)
  then show ?thesis
  proof
    assume old: "st = FINISH \<and> event = FINISHED"
    have acts: "acts = [DeleteSelf]" using run by (cases rule: unary_outcomes) (use old in auto)
    have "queue_inv (settle k None (cq_tags (take_next k ok event Q)) Q)"
      by (rule settled_place_inv [OF inv]) (use place old in \<open>simp_all add: take_next_tags take_tag_def\<close>)
    moreover have "listening (settle k None (cq_tags (take_next k ok event Q)) Q)"
      by (rule settle_listening [OF lis k]) (use old in auto)
    ultimately show ?thesis by (simp add: perform_unary_eq acts tags_for_def listening_def settle_def)
  next
    assume new: "st = PROCESS \<and> event = REQUEST"
    show ?thesis
    proof (cases ok)
      case False
      have acts: "acts = [DeleteSelf]" using run by (cases rule: unary_outcomes) (use new False in auto)
      have "queue_inv (settle k None (cq_tags (take_next k ok event Q)) Q)"
        by (rule settled_place_inv [OF inv]) (use place new False in \<open>simp_all add: take_next_tags take_tag_def\<close>)
      moreover have "listening (settle k None (cq_tags (take_next k ok event Q)) Q)"
        by (rule settle_listening [OF lis k]) (use may False new in \<open>auto simp: may_next_def\<close>)
      ultimately show ?thesis by (simp add: perform_unary_eq acts tags_for_def listening_def settle_def)
    next
      case True
      obtain r where acts: "st' = FINISH" "acts = [SpawnSuccessor, SendReply r]"
        using run by (cases rule: unary_outcomes) (use new True in auto)
      let ?Q1 = "(settle k (Some (UnaryCall m FINISH)) (cq_tags (take_next k ok event Q) + tags_for k {#FINISHED#}) Q)\<lparr>cq_server := sv'\<rparr>"
      have eq: "perform_unary k m st' acts ((take_next k ok event Q)\<lparr>cq_server := sv'\<rparr>) = NewUnaryCall m ?Q1"
        by (simp add: perform_unary_eq acts)
      have q1: "queue_inv ?Q1"
        unfolding server_irrelevant
        by (rule settled_place_inv [OF inv]) (use place new True in \<open>simp_all add: take_next_tags take_tag_def\<close>)
      have "k \<in> listeners (Some m) Q" using k new by (simp add: listeners_def)
      then have only: "listeners (Some m) Q = {k}" using lis unfolding listening_def by (metis empty_iff singletonD)
      have "k \<notin> listeners M Q" if "M \<noteq> Some m" for M using k that by (simp add: listeners_def)
      with only have "listeners M (NewUnaryCall m ?Q1) = (if M = Some m then {cq_fresh Q} else listeners M Q)" for M
        unfolding listeners_fresh [OF q1] by (simp add: listeners_settle) (simp add: settle_def)
      with lis have "listening (NewUnaryCall m ?Q1)"
        by (simp add: listening_def) (simp add: NewUnaryCall_eq settle_def)
      with new_inv(1) [OF q1] show ?thesis by (simp add: eq)
    qed
  qed
qed

text \<open>A stream takes its steps as if it were alone.\<close>

lemma stream_place:
  assumes "stream_inv q (stream_history c us)" and "may_deliver (stream_history c us) ok event"
    and run: "Proceed C E ctx q ok event c = Inr (c', acts)"
  shows "place_ok (if DeleteThis \<in> set acts then None else Some (StreamCall ctx q c'))
      (take_tag ok event (call_tags c) + \<Sum>\<^sub># (mset (map tag_of acts))) \<and>
    (status c \<noteq> PROCESS \<longrightarrow> SpawnListener \<notin> set acts) \<and>
    (DeleteThis \<notin> set acts \<longrightarrow> status c \<noteq> PROCESS \<longrightarrow> status c' \<noteq> PROCESS)"
proof -
  let ?cf = "act ((stream_history c us)\<lparr>cf_tags := take_tag ok event (call_tags c)\<rparr>) (c', acts)"
  have inv: "stream_inv q ?cf"
    using proceed_inv [OF run assms(1) _ assms(2)] by (simp add: stream_history_def)
  have spawned: "length (filter (\<lambda>a. a = SpawnListener) acts) = 0 \<longleftrightarrow> SpawnListener \<notin> set acts"
    by (auto simp: filter_empty_conv)
  show ?thesis
  proof (cases "DeleteThis \<in> set acts")
    case True
    with inv spawned show ?thesis by (auto simp: stream_inv_def act_def stream_history_def)
  next
    case False
    then have ok: "call_ok c'" "updates_ok q (cf_updates ?cf)" "cf_tags ?cf = call_tags c'"
      "cf_spawned ?cf = (if status c' = PROCESS then 0 else 1)"
      and eq: "?cf = stream_history c' (cf_updates ?cf)"
      using inv by (simp_all add: stream_inv_def act_def stream_history_def)
    have "stream_inv q (stream_history c' (cf_updates ?cf))" using inv by (simp only: eq [symmetric])
    then have "object_ok (StreamCall ctx q c')" by auto
    with False ok spawned show ?thesis by (auto simp: act_def stream_history_def split: if_splits)
  qed
qed

lemma stream_called:
  assumes "stream_inv q (stream_history c us)" and "status c = PROCESS"
    and "Proceed C E ctx q ok REQUEST c = Inr (c', acts)"
  shows "if ok then SpawnListener \<in> set acts \<and> DeleteThis \<notin> set acts \<and> status c' \<noteq> PROCESS
    else acts = [DeleteThis]"
proof (cases ok)
  case False
  with assms show ?thesis by (simp add: Proceed_def Advance_def)
next
  case True
  have "\<not> done_received (c\<lparr>status := STREAM\<rparr>)"
    using assms(1,2) by (simp add: stream_inv_def stream_history_def call_ok_def)
  with True assms(2,3) show ?thesis
    by (auto simp: Proceed_def Advance_def FinishWithStatus_def split: option.splits sum.splits elim!: StreamLatest_cases)
qed

lemma stream_step_inv:
  assumes inv: "queue_inv Q" and lis: "listening Q" and may: "may_next Q k ok event"
    and k: "cq_calls Q k = Some (StreamCall ctx q c)" and run: "Proceed C E ctx q ok event c = Inr (c', acts)"
  shows "queue_inv (perform_stream k ctx q (c', acts) ctx' q' (take_next k ok event Q)) \<and>
    listening (perform_stream k ctx q (c', acts) ctx' q' (take_next k ok event Q))"
proof -
  note place = queue_place [OF inv k]
  then obtain us where us: "stream_inv q (stream_history c us)" by auto
  have here: "event \<in># call_tags c" "event = DONE \<longrightarrow> REQUEST \<notin># call_tags c" "event = REQUEST \<longrightarrow> ok = (\<not> cq_shut Q)"
    using may place by (auto simp: may_next_def simp flip: tags_at_in)
  have may': "may_deliver (stream_history c us) ok event" using here by (simp add: may_deliver_def stream_history_def)
  note after = stream_place [OF us may' run]
  let ?ob = "if DeleteThis \<in> set acts then None else Some (StreamCall ctx q c')"
  let ?Q1 = "settle k ?ob (cq_tags (take_next k ok event Q) + tags_for k (\<Sum>\<^sub># (mset (map tag_of acts)))) Q"
  have q1: "queue_inv ?Q1"
    by (rule settled_place_inv [OF inv]) (use place after in \<open>simp_all add: take_next_tags\<close>)
  show ?thesis
  proof (cases "status c = PROCESS \<and> ok")
    case True
    then have "event = REQUEST" using here us by (cases event) (auto simp: stream_inv_def stream_history_def call_ok_def)
    with True run stream_called [OF us, of C E ctx ok c' acts]
    have acts: "SpawnListener \<in> set acts" "DeleteThis \<notin> set acts" "status c' \<noteq> PROCESS" by auto
    have "k \<in> listeners None Q" using k True by (simp add: listeners_def)
    then have only: "listeners None Q = {k}" using lis unfolding listening_def by (metis empty_iff singletonD)
    have "k \<notin> listeners M Q" if "M \<noteq> None" for M using k that by (simp add: listeners_def)
    with only acts have "listeners M (NewStreamCall ctx' q' ?Q1) = (if M = None then {cq_fresh Q} else listeners M Q)" for M
      unfolding listeners_fresh [OF q1] by (simp add: listeners_settle) (simp add: settle_def)
    with lis have "listening (NewStreamCall ctx' q' ?Q1)"
      by (simp add: listening_def) (simp add: NewStreamCall_eq settle_def)
    with new_inv(2) [OF q1] acts show ?thesis by (simp add: perform_stream_eq)
  next
    case False
    have "SpawnListener \<notin> set acts \<and> (\<forall>ob'. ?ob = Some ob' \<longrightarrow> (\<forall>M. \<not> listens M ob')) \<and> (status c = PROCESS \<longrightarrow> cq_shut Q)"
    proof (cases "status c = PROCESS")
      case True
      then have "event = REQUEST" using here us by (cases event) (auto simp: stream_inv_def stream_history_def call_ok_def)
      with True False run stream_called [OF us, of C E ctx ok c' acts] here show ?thesis by auto
    qed (use after in auto)
    then have acts: "SpawnListener \<notin> set acts" "\<And>M ob'. ?ob = Some ob' \<Longrightarrow> \<not> listens M ob'" "status c = PROCESS \<longrightarrow> cq_shut Q"
      by blast+
    have "listening ?Q1" by (rule settle_listening [OF lis k acts(2)]) (use acts(3) in auto)
    with q1 acts(1) show ?thesis by (simp add: perform_stream_eq)
  qed
qed

lemma queue_step_inv:
  assumes "queue_step A C cfg Q Q'" and "queue_inv Q \<and> listening Q"
  shows "queue_inv Q' \<and> listening Q'"
  using assms
proof (induction rule: queue_step.induct)
  case (next_unary Q k ok event m st q X st' acts sv')
  then show ?case using unary_step_inv by blast
next
  case (next_stream Q k ok event ctx q c E p ctx' q')
  then show ?case by (cases p) (use stream_step_inv in blast)
next
  case (other_call Q sv' fs')
  have "listening (Q\<lparr>cq_server := sv', cq_files := fs'\<rparr>) = listening Q" by (simp add: listening_def listeners_def)
  with other_call show ?case by (simp add: queue_inv_def)
next
  case (shut_down Q)
  then show ?case by (auto simp: listening_def)
qed

lemma queue_run_inv:
  "(queue_step A C cfg)\<^sup>*\<^sup>* (StartRpcs ctx q sys) Q \<Longrightarrow> queue_inv Q \<and> listening Q"
  by (induction rule: rtranclp_induct) (auto simp: start_queue_inv start_listening dest: queue_step_inv)

section \<open>The guarantees\<close>

text \<open>C10: Over any run of the completion queue, calls of other services in between, an outstanding tag
  refers to a live object and a live object has an outstanding tag, each kind at most once: no
  event reaches a deleted object, no object is deleted twice, and none is forgotten.\<close>

theorem rpc_objects_match_tags:
  assumes "(queue_step A C cfg)\<^sup>*\<^sup>* (StartRpcs ctx q sys) Q"
  shows "(cq_calls Q k = None \<longleftrightarrow> tags_at k (cq_tags Q) = {#}) \<and> count (cq_tags Q) (k, e) \<le> 1"
proof (cases "cq_calls Q k")
  case None
  have "place_ok (cq_calls Q k) (tags_at k (cq_tags Q))"
    using queue_run_inv [OF assms] unfolding queue_inv_def by blast
  with None have "tags_at k (cq_tags Q) = {#}" by simp
  with None show ?thesis by (metis count_empty count_tags_at zero_le)
next
  case (Some ob)
  then have place: "object_ok ob" "tags_at k (cq_tags Q) = object_tags ob"
    using queue_place queue_run_inv [OF assms] by blast+
  have "object_tags ob \<noteq> {#} \<and> count (object_tags ob) e \<le> 1"
    using place(1) live_call_has_event
    by (cases ob) (fastforce simp: stream_history_def call_tags_count simp del: One_nat_def)+
  with Some place(2) show ?thesis by (metis count_tags_at option.distinct(1))
qed

text \<open>C11: The service never stops listening: until the queue is shut down there is, for each of its
  four methods, exactly one object that waits for the next call, and its request is outstanding.\<close>

theorem rpc_always_listening:
  assumes "(queue_step A C cfg)\<^sup>*\<^sup>* (StartRpcs ctx q sys) Q" and "\<not> cq_shut Q"
  shows "\<exists>!k. \<exists>ob. cq_calls Q k = Some ob \<and> listens M ob \<and> (k, REQUEST) \<in># cq_tags Q"
proof -
  obtain k where k: "listeners M Q = {k}"
    using queue_run_inv [OF assms(1)] assms(2) by (auto simp: listening_def)
  have "(j, REQUEST) \<in># cq_tags Q" if "cq_calls Q j = Some ob" "listens M ob" for j ob
  proof -
    have "tags_at j (cq_tags Q) = object_tags ob"
      using queue_place [OF _ that(1)] queue_run_inv [OF assms(1)] by blast
    moreover have "REQUEST \<in># object_tags ob" using that(2) by (cases ob) auto
    ultimately show ?thesis by (simp flip: tags_at_in)
  qed
  then have "(\<exists>ob. cq_calls Q j = Some ob \<and> listens M ob \<and> (j, REQUEST) \<in># cq_tags Q) \<longleftrightarrow> j \<in> listeners M Q" for j
    by (auto simp: listeners_def)
  with k show ?thesis by simp
qed

text \<open>The queue only calls handlers: the abstraction is the server with its key files.\<close>

definition system_of :: "'f call_queue \<Rightarrow> 'f system" where
  "system_of Q = (cq_server Q, cq_files Q)"

lemma system_of_new [simp]:
  "system_of (NewUnaryCall m Q) = system_of Q" "system_of (NewStreamCall ctx q Q) = system_of Q"
  "system_of (settle k ob tags Q) = system_of Q" "system_of (StartRpcs ctx q sys) = sys"
  by (simp_all add: system_of_def NewUnaryCall_eq NewStreamCall_eq settle_def StartRpcs_def NewCall_defs)

lemma queue_step_system:
  assumes "queue_step A C cfg Q Q'"
  shows "(server_step A C cfg)\<^sup>*\<^sup>* (system_of Q) (system_of Q')"
  using assms
proof (cases rule: queue_step.cases)
  case (next_unary k ok event m st q X st' acts sv')
  have "system_of Q' = (sv', cq_files Q)"
    by (simp add: next_unary(1) perform_unary_eq Let_def) (simp add: system_of_def settle_def)
  moreover have "sv' = cq_server Q \<or> server_step A C cfg (cq_server Q, cq_files Q) (sv', cq_files Q)"
    using next_unary(8)
  proof (cases rule: unary_outcomes)
    case asked
    with next_unary(8) show ?thesis by (cases q) (auto simp: UnaryCallProceed_def RegisterClientCallProceed_def
        GetTrainingConfigCallProceed_def SubmitWeightsCallProceed_def UnaryProceed_def split: if_splits)
  qed (use next_unary(5-7) in auto)
  ultimately show ?thesis by (auto simp: system_of_def)
next
  case (next_stream k ok event ctx q c E p ctx' q')
  then show ?thesis by (cases p) (simp add: perform_stream_eq Let_def)
qed (auto simp: system_of_def)

interpretation queue_system: simulation "queue_step A C cfg" "server_step A C cfg" system_of
  by unfold_locales (rule queue_step_system)


section \<open>A concrete run\<close>

text \<open>Alice's submission arrives first.\<close>

definition alice_env :: "(32 word) call_env" where
  "alice_env = \<lparr>rx_arith = word_arith, rx_prims = null_prims, rx_submit = word_env, rx_config = word_config,
     rx_clocks = \<lambda>_ _. 2000, rx_context = alice\<rparr>"

abbreviation demo_queue :: "(32 word) call_queue" where
  "demo_queue \<equiv> StartRpcs alice alice_stream (demo_server, demo_files)"

lemma demo_queue_parts:
  "cq_server demo_queue = demo_server" "cq_calls demo_queue 2 = Some (UnaryCall SubmitWeightsMethod PROCESS)"
  "cq_fresh demo_queue = 4" "\<not> cq_shut demo_queue" "(2, REQUEST) \<in># cq_tags demo_queue"
  by (simp_all add: StartRpcs_def NewCall_defs NewUnaryCall_eq NewStreamCall_eq tags_for_def)

lemma alice_served:
  "\<exists>Q. queue_step word_arith null_prims word_config demo_queue Q \<and>
     cq_calls Q 2 = Some (UnaryCall SubmitWeightsMethod FINISH) \<and> tags_at 2 (cq_tags Q) = {#FINISHED#} \<and>
     cq_calls Q 4 = Some (UnaryCall SubmitWeightsMethod PROCESS) \<and> \<not> cq_shut Q"
proof -
  obtain r sv' where s: "SubmitWeights word_arith null_prims word_env word_config (\<lambda>_ _. 2000) alice alice_payload
      demo_server = (Inr r, sv')" using alice_step by blast
  have "UnaryCallProceed alice_env (Submission alice_payload) True REQUEST PROCESS (cq_server demo_queue) =
      (Inr (FINISH, [SpawnSuccessor, SendReply (SubmissionReply (OK, '''') r)]), sv')"
    by (simp add: UnaryCallProceed_def SubmitWeightsCallProceed_def UnaryProceed_def alice_env_def s demo_queue_parts)
  then have step: "queue_step word_arith null_prims word_config demo_queue (perform_unary 2 SubmitWeightsMethod FINISH
      [SpawnSuccessor, SendReply (SubmissionReply (OK, '''') r)] ((take_next 2 True REQUEST demo_queue)\<lparr>cq_server := sv'\<rparr>))"
    by (intro queue_step.next_unary [where X = alice_env and q = "Submission alice_payload" and st = PROCESS])
      (simp_all add: may_next_def demo_queue_parts method_of_def alice_env_def)
  have "tags_at 2 (cq_tags demo_queue) = {#REQUEST#}" "tags_at 2 (tags_for (4::nat) evs) = {#}" for evs
    by (simp_all add: StartRpcs_def NewCall_defs NewUnaryCall_eq NewStreamCall_eq)
  with step show ?thesis
    by (intro exI [of _ "perform_unary 2 SubmitWeightsMethod FINISH
      [SpawnSuccessor, SendReply (SubmissionReply (OK, '''') r)] ((take_next 2 True REQUEST demo_queue)\<lparr>cq_server := sv'\<rparr>)"])
     (simp add: perform_unary_def Let_def NewUnaryCall_eq demo_queue_parts take_next_tags take_tag_def
        take_next_def [of 2 True REQUEST demo_queue])
qed

theorem rpc_objects_match_tags_witness:
  "\<exists>Q. queue_step word_arith null_prims word_config demo_queue Q \<and> cq_calls Q 2 \<noteq> None \<and>
     tags_at 2 (cq_tags Q) \<noteq> {#} \<and> count (cq_tags Q) (2, FINISHED) \<le> 1"
proof -
  obtain Q where q: "queue_step word_arith null_prims word_config demo_queue Q"
    "cq_calls Q 2 = Some (UnaryCall SubmitWeightsMethod FINISH)" using alice_served by blast
  from rpc_objects_match_tags [OF r_into_rtranclp, OF q(1), of 2 FINISHED] q show ?thesis by auto
qed

theorem rpc_always_listening_witness:
  "\<exists>Q. queue_step word_arith null_prims word_config demo_queue Q \<and> (\<exists>!k. \<exists>ob. cq_calls Q k = Some ob \<and>
     listens (Some SubmitWeightsMethod) ob \<and> (k, REQUEST) \<in># cq_tags Q)"
proof -
  obtain Q where q: "queue_step word_arith null_prims word_config demo_queue Q" "\<not> cq_shut Q" using alice_served by blast
  from rpc_always_listening [OF r_into_rtranclp, OF q, of "Some SubmitWeightsMethod"] q(1) show ?thesis by blast
qed


end
