(* ===== verification/Admin_Cli.thy ===== *)
theory Admin_Cli
  imports Admin_Service Demo_Clients
begin

text \<open>
  \<open>server/admin_cli.cpp\<close> and \<open>server/admin_demo_client.cpp\<close>: the two administration programs. A run
  of a program is what it writes to its two output streams and its exit code; the stub of the admin
  service is a record of the calls, whatever answers them.
\<close>

record run_output =
  out_text :: string
  err_text :: string
  exit_code :: int

text \<open>The read-only calls with the request of the tool: all filters empty.\<close>

record admin_stub =
  ad_status :: "grpc_status \<times> SystemStatus option"
  ad_models :: "grpc_status \<times> ModelHead list"
  ad_datasets :: "grpc_status \<times> DatasetRecord list"
  ad_jobs :: "grpc_status \<times> TrainingJob list"
  ad_workers :: "grpc_status \<times> RegisteredWorkerInfo list"
  ad_tasks :: "grpc_status \<times> WorkerTaskInfo list"
  ad_audit :: "int \<Rightarrow> grpc_status \<times> AuditEvent list"

definition kDefaultAddress :: string where "kDefaultAddress = ''localhost:50051''"

definition kDefaultCertDir :: string where "kDefaultCertDir = ''/app/certs''"

definition newline :: string where "newline = [char_of (10::nat)]"

definition quote :: string where "quote = [char_of (34::nat)]"

text \<open>\<open>ReadFile\<close>: a file that cannot be opened reads as empty.\<close>

definition ReadFile :: "(string \<rightharpoonup> string) \<Rightarrow> string \<Rightarrow> string" where
  "ReadFile files filepath = (case files filepath of None \<Rightarrow> '''' | Some s \<Rightarrow> s)"

definition PrintHelp :: string where
  "PrintHelp = ''pqfl_admin_cli commands:'' @ newline @
     ''  status'' @ newline @
     ''  models'' @ newline @
     ''  datasets'' @ newline @
     ''  jobs'' @ newline @
     ''  workers'' @ newline @
     ''  tasks'' @ newline @
     ''  audit [limit]'' @ newline"

section \<open>The lines printed\<close>

definition status_text :: "SystemStatus \<Rightarrow> string" where
  "status_text res =
     ''registered_clients='' @ to_string (sy_registered_clients res) @ newline @
     ''completed_rounds='' @ to_string (sy_completed_rounds res) @ newline @
     ''total_submissions='' @ to_string (sy_total_submissions res) @ newline @
     ''active_key_version='' @ to_string (sy_active_key_version res) @ newline @
     ''state_path='' @ sy_state_path res @ newline @
     ''registered_datasets='' @ to_string (sy_registered_datasets res) @ newline @
     ''stored_models='' @ to_string (sy_stored_models res) @ newline @
     ''active_training_jobs='' @ to_string (sy_active_training_jobs res) @ newline @
     ''pending_assignments='' @ to_string (sy_pending_assignments res) @ newline @
     ''leased_assignments='' @ to_string (sy_leased_assignments res) @ newline @
     ''submitted_assignments='' @ to_string (sy_submitted_assignments res) @ newline @
     ''registered_workers='' @ to_string (sy_registered_workers res) @ newline @
     ''busy_workers='' @ to_string (sy_busy_workers res) @ newline @
     ''active_worker_tasks='' @ to_string (sy_active_worker_tasks res) @ newline @
     ''failed_worker_tasks='' @ to_string (sy_failed_worker_tasks res) @ newline"

definition model_line :: "ModelHead \<Rightarrow> string" where
  "model_line model = mh_tenant_id model @ ''/'' @ mh_model_id model @
     '' version='' @ to_string (mh_active_version model) @
     '' round='' @ to_string (mh_latest_round model) @
     '' key_version='' @ to_string (mh_key_version model) @
     '' checkpoint='' @ mh_checkpoint_path model @ newline"

definition dataset_line :: "DatasetRecord \<Rightarrow> string" where
  "dataset_line dataset = dr_tenant_id dataset @ ''/'' @ dr_model_id dataset @
     '' dataset='' @ dr_dataset_id dataset @
     '' format='' @ dr_format dataset @
     '' uri='' @ dr_storage_uri dataset @
     '' samples='' @ to_string (dr_sample_count dataset) @ newline"

definition job_line :: "TrainingJob \<Rightarrow> string" where
  "job_line job = tj_job_id job @
     '' status='' @ tj_status job @
     '' dataset='' @ tj_dataset_id job @
     '' round='' @ to_string (tj_current_round job) @
     ''/'' @ to_string (tj_target_rounds job) @
     '' min_clients='' @ to_string (tj_min_clients_per_round job) @ newline"

definition worker_line :: "RegisteredWorkerInfo \<Rightarrow> string" where
  "worker_line worker = wi_worker_id worker @
     '' trainer='' @ wi_trainer_client_id worker @
     '' status='' @ wi_status worker @
     '' active_task='' @ wi_active_task_id worker @ newline"

definition task_line :: "WorkerTaskInfo \<Rightarrow> string" where
  "task_line task = ti_task_id task @
     '' worker='' @ ti_worker_id task @
     '' status='' @ ti_status task @
     '' progress='' @ to_string (ti_progress_percent task) @ newline"

text \<open>An event up to its detail, and the whole line.\<close>

definition event_head :: "AuditEvent \<Rightarrow> string" where
  "event_head event = ae_timestamp event @ '' '' @ ae_action event @
     '' tenant='' @ ae_tenant_id event @
     '' model='' @ ae_model_id event @
     '' client='' @ ae_client_id event @
     '' detail='' @ quote"

definition event_line :: "AuditEvent \<Rightarrow> string" where
  "event_line event = event_head event @ ae_detail event @ quote @ newline"

section \<open>The commands\<close>

text \<open>The response of a call that did not fill it in.\<close>

definition blank_status :: SystemStatus where
  "blank_status = \<lparr>sy_registered_clients = 0, sy_completed_rounds = 0, sy_total_submissions = 0,
     sy_active_key_version = 0, sy_state_path = '''', sy_active_models = [], sy_registered_datasets = 0,
     sy_active_training_jobs = 0, sy_registered_workers = 0, sy_active_worker_tasks = 0, sy_stored_models = 0,
     sy_pending_assignments = 0, sy_leased_assignments = 0, sy_submitted_assignments = 0, sy_busy_workers = 0,
     sy_failed_worker_tasks = 0\<rparr>"

definition call_failed :: "string \<Rightarrow> grpc_status \<Rightarrow> run_output" where
  "call_failed name rpc_status =
     \<lparr>out_text = '''', err_text = name @ '' failed: '' @ snd rpc_status @ newline, exit_code = 1\<rparr>"

definition printed :: "string \<Rightarrow> run_output" where
  "printed text = \<lparr>out_text = text, err_text = '''', exit_code = 0\<rparr>"

definition PrintStatus :: "admin_stub \<Rightarrow> run_output" where
  "PrintStatus stub =
     (case ad_status stub of
        (rpc_status, res) \<Rightarrow>
          if fst rpc_status \<noteq> OK then call_failed ''GetSystemStatus'' rpc_status
          else printed (status_text (case res of Some r \<Rightarrow> r | None \<Rightarrow> blank_status)))"

definition PrintModels :: "admin_stub \<Rightarrow> run_output" where
  "PrintModels stub =
     (case ad_models stub of
        (rpc_status, res) \<Rightarrow>
          if fst rpc_status \<noteq> OK then call_failed ''ListModels'' rpc_status
          else printed (concat (map model_line res)))"

definition PrintDatasets :: "admin_stub \<Rightarrow> run_output" where
  "PrintDatasets stub =
     (case ad_datasets stub of
        (rpc_status, res) \<Rightarrow>
          if fst rpc_status \<noteq> OK then call_failed ''ListDatasets'' rpc_status
          else printed (concat (map dataset_line res)))"

definition PrintJobs :: "admin_stub \<Rightarrow> run_output" where
  "PrintJobs stub =
     (case ad_jobs stub of
        (rpc_status, res) \<Rightarrow>
          if fst rpc_status \<noteq> OK then call_failed ''ListTrainingJobs'' rpc_status
          else printed (concat (map job_line res)))"

definition PrintWorkers :: "admin_stub \<Rightarrow> run_output" where
  "PrintWorkers stub =
     (case ad_workers stub of
        (rpc_status, res) \<Rightarrow>
          if fst rpc_status \<noteq> OK then call_failed ''ListWorkers'' rpc_status
          else printed (concat (map worker_line res)))"

definition PrintTasks :: "admin_stub \<Rightarrow> run_output" where
  "PrintTasks stub =
     (case ad_tasks stub of
        (rpc_status, res) \<Rightarrow>
          if fst rpc_status \<noteq> OK then call_failed ''ListWorkerTasks'' rpc_status
          else printed (concat (map task_line res)))"

definition PrintAudit :: "admin_stub \<Rightarrow> int \<Rightarrow> run_output" where
  "PrintAudit stub limit =
     (case ad_audit stub limit of
        (rpc_status, res) \<Rightarrow>
          if fst rpc_status \<noteq> OK then call_failed ''ListAuditEvents'' rpc_status
          else printed (concat (map event_line res)))"

definition AdminCliRun :: "admin_stub \<Rightarrow> string \<Rightarrow> int \<Rightarrow> run_output" where
  "AdminCliRun stub command audit_limit =
     (if command = ''status'' then PrintStatus stub
      else if command = ''models'' then PrintModels stub
      else if command = ''datasets'' then PrintDatasets stub
      else if command = ''jobs'' then PrintJobs stub
      else if command = ''workers'' then PrintWorkers stub
      else if command = ''tasks'' then PrintTasks stub
      else if command = ''audit'' then PrintAudit stub audit_limit
      else \<lparr>out_text = PrintHelp, err_text = '''', exit_code = 1\<rparr>)"

section \<open>The command line\<close>

text \<open>\<open>std::atoi\<close>: white space, a sign, digits up to the first other character. A value outside the
  range of \<open>int\<close> is undefined behaviour, \<open>None\<close>.\<close>

definition atoi_digits :: "string \<Rightarrow> int" where
  "atoi_digits s = int (undec (takeWhile is_digit s))"

definition atoi_value :: "string \<Rightarrow> int" where
  "atoi_value s =
     (case dropWhile isspace s of
        [] \<Rightarrow> 0
      | c # cs \<Rightarrow>
          if c = CHR ''-'' then - atoi_digits cs
          else if c = CHR ''+'' then atoi_digits cs
          else atoi_digits (c # cs))"

definition atoi :: "string \<Rightarrow> int option" where
  "atoi s = (if - (2 ^ 31) \<le> atoi_value s \<and> atoi_value s < 2 ^ 31 then Some (atoi_value s) else None)"

text \<open>\<open>args\<close> are the arguments after the name of the program.\<close>

definition cli_command :: "string list \<Rightarrow> string" where
  "cli_command args = (case args of [] \<Rightarrow> ''status'' | c # _ \<Rightarrow> c)"

definition audit_limit_arg :: "string list \<Rightarrow> int option" where
  "audit_limit_arg args = (case args of _ # n # _ \<Rightarrow> map_option (max 1) (atoi n) | _ \<Rightarrow> Some 20)"

definition or_default :: "string option \<Rightarrow> string \<Rightarrow> string" where
  "or_default env d = (case env of Some v \<Rightarrow> v | None \<Rightarrow> d)"

text \<open>What the credentials of a channel are made of: root certificates, certificate chain, key.\<close>

definition admin_credentials :: "(string \<rightharpoonup> string) \<Rightarrow> string \<Rightarrow> string \<times> string \<times> string" where
  "admin_credentials files cert_dir =
     (ReadFile files (cert_dir @ ''/ca.crt''), ReadFile files (cert_dir @ ''/admin.crt''),
      ReadFile files (cert_dir @ ''/admin.key''))"

text \<open>\<open>connect\<close> is gRPC: the stub on a channel to an address with these credentials.\<close>

definition admin_cli_main ::
  "(string \<Rightarrow> string \<times> string \<times> string \<Rightarrow> admin_stub) \<Rightarrow> (string \<rightharpoonup> string) \<Rightarrow> (string \<rightharpoonup> string) \<Rightarrow> string list
     \<Rightarrow> run_output option" where
  "admin_cli_main connect env files args =
     (let address = or_default (env ''PQFL_ADDRESS'') kDefaultAddress;
          cert_dir = or_default (env ''PQFL_CERT_DIR'') kDefaultCertDir
      in map_option (AdminCliRun (connect address (admin_credentials files cert_dir)) (cli_command args))
           (audit_limit_arg args))"

section \<open>The server behind the stub\<close>

definition connected_admin :: "'f config \<Rightarrow> server_context \<Rightarrow> 'f server \<Rightarrow> admin_stub" where
  "connected_admin cfg ctx sv = \<lparr>
     ad_status = AdminGetSystemStatus cfg ctx sv,
     ad_models = AdminListModels cfg ctx '''' '''' sv,
     ad_datasets = AdminListDatasets cfg ctx '''' '''' sv,
     ad_jobs = AdminListTrainingJobs cfg ctx '''' '''' '''' sv,
     ad_workers = AdminListWorkers cfg ctx '''' '''' sv,
     ad_tasks = AdminListWorkerTasks cfg ctx '''' '''' '''' '''' sv,
     ad_audit = (\<lambda>limit. AdminListAuditEvents cfg ctx limit sv)\<rparr>"

section \<open>The bootstrap of the demo\<close>

definition kDatasetId :: string where "kDatasetId = ''demo-dataset''"

definition bootstrap_dataset :: UpsertDatasetRequest where
  "bootstrap_dataset = \<lparr>ud_tenant_id = kTenantId, ud_model_id = kModelId, ud_dataset_id = kDatasetId,
     ud_fingerprint = ''demo-dataset-v1'', ud_storage_uri = ''file:///datasets/demo-dataset'',
     ud_format = ''synthetic'', ud_sample_count = 200, ud_shard_count = 2, ud_active = True\<rparr>"

definition bootstrap_job :: CreateTrainingJobRequest where
  "bootstrap_job = \<lparr>cj_tenant_id = kTenantId, cj_model_id = kModelId, cj_dataset_id = kDatasetId,
     cj_target_rounds = 2, cj_planned_clients = 2, cj_min_clients_per_round = 2,
     cj_assignment_ttl_seconds = 180, cj_notes = ''Bootstrap demo job with signature-verified round replay''\<rparr>"

record 's bootstrap_stub =
  bs_upsert :: "UpsertDatasetRequest \<Rightarrow> 's \<Rightarrow> (grpc_status \<times> DatasetRecord option) \<times> 's"
  bs_create :: "CreateTrainingJobRequest \<Rightarrow> 's \<Rightarrow> (grpc_status \<times> TrainingJob option) \<times> 's"

text \<open>\<open>AdminDemoClient::Bootstrap\<close>: what it prints and whether it succeeded. A message that is not
  there has empty fields.\<close>

definition Bootstrap :: "'s bootstrap_stub \<Rightarrow> 's \<Rightarrow> (string \<times> bool) \<times> 's" where
  "Bootstrap stub s =
     (case bs_upsert stub bootstrap_dataset s of
        ((dataset_status, dataset_res), s1) \<Rightarrow>
          if fst dataset_status \<noteq> OK then
            ((''UpsertDataset failed: '' @ snd dataset_status @ newline, False), s1)
          else
            case bs_create stub bootstrap_job s1 of
              ((job_status, job_res), s2) \<Rightarrow>
                if fst job_status \<noteq> OK then
                  ((''CreateTrainingJob failed: '' @ snd job_status @ newline, False), s2)
                else
                  ((''Bootstrapped dataset '' @ (case dataset_res of Some r \<Rightarrow> dr_dataset_id r | None \<Rightarrow> '''') @
                    '' and training job '' @ (case job_res of Some r \<Rightarrow> tj_job_id r | None \<Rightarrow> '''') @ newline, True), s2))"

definition admin_demo_main ::
  "(string \<Rightarrow> string \<times> string \<times> string \<Rightarrow> 's bootstrap_stub) \<Rightarrow> (string \<rightharpoonup> string) \<Rightarrow> (string \<rightharpoonup> string)
     \<Rightarrow> 's \<Rightarrow> run_output \<times> 's" where
  "admin_demo_main connect env files s =
     (let address = or_default (env ''PQFL_ADDRESS'') kDefaultAddress in
      case Bootstrap (connect address (admin_credentials files ''/app/certs'')) s of
        ((text, ok), s') \<Rightarrow> (\<lparr>out_text = text, err_text = '''', exit_code = (if ok then 0 else 1)\<rparr>, s'))"

definition connected_bootstrap :: "'f config \<Rightarrow> (nat \<Rightarrow> clock) \<Rightarrow> server_context \<Rightarrow> 'f server bootstrap_stub" where
  "connected_bootstrap cfg clks ctx = \<lparr>
     bs_upsert = AdminUpsertDataset cfg (clks 0) ctx,
     bs_create = AdminCreateTrainingJob cfg (clks 1) ctx\<rparr>"

end
