(* ===== verification/Cli_Guarantees.thy ===== *)
theory Cli_Guarantees
  imports Admin_Cli Run_Guarantees
begin

text \<open>
  The administration tools on a server: who sees anything, what the printed audit trail is worth, and
  that the bootstrap of the demo leaves work for a worker.
\<close>

section \<open>Exit codes\<close>

abbreviation cli_commands :: "string list" where
  "cli_commands \<equiv> [''status'', ''models'', ''datasets'', ''jobs'', ''workers'', ''tasks'', ''audit'']"

lemmas admin_queries = AdminGetSystemStatus_def AdminListModels_def AdminListDatasets_def
  AdminListTrainingJobs_def AdminListWorkers_def AdminListWorkerTasks_def AdminListAuditEvents_def

lemmas cli_defs = PrintStatus_def PrintModels_def PrintDatasets_def PrintJobs_def PrintWorkers_def
  PrintTasks_def PrintAudit_def

lemma admin_denied_code [simp]: "fst admin_denied \<noteq> OK"
  by (simp add: admin_denied_def)

text \<open>The tool succeeds exactly for a known command and an authorised peer; to any other peer it shows
  nothing of the server: the output is the same for every server.\<close>

lemma cli_exit_code:
  "exit_code (AdminCliRun (connected_admin cfg ctx sv) command limit) =
     (if IsAuthorizedAdmin cfg ctx \<and> command \<in> set cli_commands then 0 else 1)"
  by (simp add: AdminCliRun_def cli_defs connected_admin_def admin_queries call_failed_def printed_def)

lemma cli_shows_strangers_nothing:
  assumes "\<not> IsAuthorizedAdmin cfg ctx"
  shows "AdminCliRun (connected_admin cfg ctx sv) command limit =
    AdminCliRun (connected_admin cfg ctx sv') command limit"
  using assms by (simp add: AdminCliRun_def cli_defs connected_admin_def admin_queries)

section \<open>The audit trail as printed\<close>

definition heartbeat_event :: "string \<Rightarrow> PersistedWorkerRecord \<Rightarrow> string \<Rightarrow> AuditEvent" where
  "heartbeat_event now w detail = audit_info (audit_event now ''worker_heartbeat'' (wk_tenant_id w) (wk_model_id w)
     (wk_trainer_client_id w) (''Worker '' @ wk_worker_id w @ '': '' @ detail))"

lemma heartbeat_listed:
  assumes "1 \<le> audit_retention (sv_store sv)" and "IsAuthorizedWorker cfg ctx"
    and "ValidateIdentifier (wh_worker_id q) ''worker_id'' False default_max_length = ''''"
    and "GetWorker (wh_worker_id q) (sv_store sv) = Some w" and "wh_detail q \<noteq> ''''"
    and "IsAuthorizedAdmin cfg actx"
  shows "AdminListAuditEvents cfg actx 1 (snd (Heartbeat cfg clks ctx q sv)) =
    ((OK, ''''), [heartbeat_event (CurrentTimestamp (clks 1 0)) w (wh_detail q)])"
proof -
  have "wk_worker_id w = wh_worker_id q"
    using assms(4) by (auto simp: GetWorker_def dest: find_SomeD)
  with assms show ?thesis
    by (simp add: AdminListAuditEvents_def Heartbeat_def RecordWorkerHeartbeat_def GetWorker_def Let_def
        push_audit_list heartbeat_event_def)
qed

text \<open>C33: The printed audit trail can be forged by a worker: with a heartbeat whose detail closes the
  quotes and the line, the tool asked for the last event prints two complete lines, the second one
  being that of any event the worker likes, with a time, an action and a client of its choice.\<close>

theorem audit_lines_forgeable:
  assumes "store_wf (sv_store sv)" and "IsAuthorizedWorker cfg ctx"
    and "ValidateIdentifier (wh_worker_id q) ''worker_id'' False default_max_length = ''''"
    and "GetWorker (wh_worker_id q) (sv_store sv) = Some w"
    and "wh_detail q = detail @ quote @ newline @ event_head e @ ae_detail e"
    and "IsAuthorizedAdmin cfg actx"
  shows "AdminCliRun (connected_admin cfg actx (snd (Heartbeat cfg clks ctx q sv))) ''audit'' 1 =
    printed (event_line (heartbeat_event (CurrentTimestamp (clks 1 0)) w detail) @ event_line e)"
proof -
  have "wh_detail q \<noteq> ''''" and "1 \<le> audit_retention (sv_store sv)"
    using assms(1,5) by (simp_all add: quote_def store_wf_def)
  from heartbeat_listed [OF this(2) assms(2-4) this(1) assms(6)] show ?thesis
    by (simp add: AdminCliRun_def PrintAudit_def connected_admin_def event_line_def event_head_def heartbeat_event_def
        audit_info_def audit_event_def assms(5))
qed

definition forged_event :: AuditEvent where
  "forged_event = \<lparr>ae_timestamp = ''2026-01-01T00:00:00.000Z'', ae_action = ''key_rotation'',
     ae_tenant_id = ''default-tenant'', ae_model_id = ''default-model'', ae_client_id = '''',
     ae_detail = ''Active at-rest key version changed to 7''\<rparr>"

theorem audit_lines_forgeable_witness:
  "AdminCliRun (connected_admin word_config admin_peer (snd (Heartbeat word_config (\<lambda>_ _. 2000) worker_peer
       (HeartbeatRequest run_worker run_trainer ''''
          (''alive'' @ quote @ newline @ event_head forged_event @ ae_detail forged_event)) run_registered)))
     ''audit'' 1 =
   printed (event_line (heartbeat_event (CurrentTimestamp 2000) run_row ''alive'') @ event_line forged_event)"
proof -
  have w: "GetWorker run_worker (sv_store run_registered) = Some run_row"
    by (simp add: GetWorker_def run_row_def worker_row_def)
  show ?thesis
    by (rule audit_lines_forgeable [where sv = run_registered and ctx = worker_peer and cfg = word_config
            and clks = "\<lambda>_ _. 2000" and w = run_row and detail = "''alive''" and e = forged_event])
      (simp_all add: HeartbeatRequest_def admin_authorized w reachable_wf run_registered_reachable)
qed

section \<open>The bootstrap of the demo\<close>

lemma bootstrap_valid [simp]:
  "ValidateAdminScope kTenantId kModelId = ''''"
  "ValidateIdentifier kDatasetId f e default_max_length = ''''"
  by (simp add: ValidateAdminScope_def)
    (simp add: ValidateIdentifier_ok_iff kDatasetId_def default_max_length_def IsAllowedIdentifierChar_def isalnum_def)

text \<open>The data set an upsert leaves under its key, and the active job after a creation.\<close>

lemma upsert_dataset_found:
  "\<exists>c. GetDataset (ds_tenant_id r) (ds_model_id r) (ds_dataset_id r) (snd (UpsertDataset clk r s)) =
    Some ((dataset_row clk r)\<lparr>ds_created_at := c\<rparr>)"
proof (cases "find (\<lambda>x. dataset_key x = dataset_key (dataset_row clk r)) (datasets s)")
  case None
  then show ?thesis
    by (intro exI [of _ "ds_created_at (dataset_row clk r)"])
      (simp add: GetDataset_def dataset_in_key UpsertDataset_datasets find_append dataset_key_row)
next
  case (Some it)
  then show ?thesis
    by (intro exI [of _ "ds_created_at it"])
      (simp add: GetDataset_def dataset_in_key UpsertDataset_datasets find_upd_first dataset_key_row)
qed

lemma created_job_active:
  assumes "jb_status r = ''planned''"
  shows "GetActiveTrainingJob (jb_tenant_id r) (jb_model_id r) (snd (CreateTrainingJob clk r s)) =
    Some (fst (CreateTrainingJob clk r s))"
  using assms
  by (simp add: GetActiveTrainingJob_def CreateTrainingJob_def Let_def rfind_def active_job_in_def IsActiveJobStatus_def)

definition bootstrap_record :: PersistedDatasetRecord where
  "bootstrap_record = \<lparr>ds_tenant_id = kTenantId, ds_model_id = kModelId, ds_dataset_id = kDatasetId,
     ds_fingerprint = ''demo-dataset-v1'', ds_storage_uri = ''file:///datasets/demo-dataset'',
     ds_format = ''synthetic'', ds_sample_count = 200, ds_shard_count = 2, ds_active = True, ds_created_at = ''''\<rparr>"

definition bootstrap_store :: "(nat \<Rightarrow> clock) \<Rightarrow> state_store \<Rightarrow> state_store" where
  "bootstrap_store clks s =
     snd (CreateTrainingJob (clks 1) (job_request_record bootstrap_job) (snd (UpsertDataset (clks 0) bootstrap_record s)))"

lemma bootstrap_dataset_found:
  "\<exists>c. GetDataset kTenantId kModelId kDatasetId (snd (UpsertDataset clk bootstrap_record s)) =
    Some ((dataset_row clk bootstrap_record)\<lparr>ds_created_at := c\<rparr>)"
  using upsert_dataset_found [of bootstrap_record clk s] by (simp add: bootstrap_record_def)

lemma bootstrap_runs:
  assumes "IsAuthorizedAdmin cfg ctx"
  shows "\<exists>text. Bootstrap (connected_bootstrap cfg clks ctx) sv =
    ((text, True), sv\<lparr>sv_store := bootstrap_store clks (sv_store sv)\<rparr>)"
proof -
  obtain c where "GetDataset kTenantId kModelId kDatasetId (snd (UpsertDataset (clks 0) bootstrap_record (sv_store sv))) =
      Some ((dataset_row (clks 0) bootstrap_record)\<lparr>ds_created_at := c\<rparr>)"
    using bootstrap_dataset_found by blast
  with assms show ?thesis
    by (simp add: Bootstrap_def connected_bootstrap_def AdminUpsertDataset_def AdminCreateTrainingJob_def
        bootstrap_dataset_def bootstrap_job_def Let_def case_prod_unfold bootstrap_store_def
        bootstrap_record_def [symmetric])
qed

lemma lease_of_fresh_job:
  assumes "GetActiveTrainingJob t m s = Some job" and "jb_completed_rounds job < jb_target_rounds job"
    and "\<And>a. a \<in> set (assignments s) \<Longrightarrow> as_job_id a \<noteq> jb_job_id job" and "0 < jb_planned_clients job"
  shows "fst (LeaseTrainingAssignment clk t m c v dm dt s) =
    Some (new_lease clk (NormalizeTenant t) (NormalizeModel m) c v dt (start_job (CurrentTimestamp (clk 0)) job),
      start_job (CurrentTimestamp (clk 0)) job, GetDataset t m (jb_dataset_id job) s)"
proof -
  let ?now = "CurrentTimestamp (clk 0)" and ?job = "start_job (CurrentTimestamp (clk 0)) job"
  have job: "jb_job_id ?job = jb_job_id job" "jb_dataset_id ?job = jb_dataset_id job"
    "round_capacity ?job dm = round_capacity job dm" "0 < round_capacity job dm"
    using assms(4) by (simp_all add: start_job_def round_capacity_def)
  have none: "\<not> live_lease ?now (jb_job_id job) r a" if "a \<in> set (upd_all (lease_lapsed ?now) (expire_lease ?now) (assignments s))" for a r
    using that assms(3) by (auto simp: live_lease_def dest!: set_upd_allD)
  then have found: "find (\<lambda>a. live_lease ?now (jb_job_id job) r a \<and> as_client_id a = c)
      (upd_all (lease_lapsed ?now) (expire_lease ?now) (assignments s)) = None"
    and count: "count_where (live_lease ?now (jb_job_id job) r)
      (upd_all (lease_lapsed ?now) (expire_lease ?now) (assignments s)) = 0" for r
    by (auto simp: find_None_iff filter_empty_conv)
  show ?thesis
    using assms(1,2) job
    by (simp add: LeaseTrainingAssignment_def Let_def GetActiveTrainingJob_def found count GetDataset_def)
qed

text \<open>C18: The bootstrap gives a registered worker something to do: on any server it succeeds for an
  authorised administrator, and the worker that asks next gets a task of the first of the two rounds
  of the new job, on the data set of the bootstrap - unless a job of that very millisecond, and so
  of the same id, has left leases behind.\<close>

theorem bootstrap_offers_work:
  assumes "IsAuthorizedAdmin cfg actx" and "IsAuthorizedWorker cfg wctx"
    and "ValidateIdentifier wid ''worker_id'' False default_max_length = ''''"
    and "GetWorker wid (sv_store sv) = Some w"
    and "\<And>a. a \<in> set (assignments (sv_store sv)) \<Longrightarrow> as_job_id a \<noteq>
      kTenantId @ ''::'' @ kModelId @ ''::'' @ kDatasetId @ ''::'' @ CurrentTimestamp (bclks 1 0)"
  shows "\<exists>text sv1 task sv2. Bootstrap (connected_bootstrap cfg bclks actx) sv = ((text, True), sv1) \<and>
    LeaseTrainingTask A cfg clks wctx (LeaseTaskRequest wid trainer) sv1 = (((OK, ''''), task), sv2) \<and>
    wt_task_ready task \<and> wt_round_index task = 1 \<and> wt_target_rounds task = 2 \<and>
    wt_dataset_storage_uri task = ''file:///datasets/demo-dataset''"
proof -
  let ?s1 = "snd (UpsertDataset (bclks 0) bootstrap_record (sv_store sv))" and ?s = "bootstrap_store bclks (sv_store sv)"
  let ?job = "fst (CreateTrainingJob (bclks 1) (job_request_record bootstrap_job) ?s1)"
  have active: "GetActiveTrainingJob kTenantId kModelId ?s = Some ?job"
    using created_job_active [of "job_request_record bootstrap_job" "bclks 1" ?s1]
    by (simp add: bootstrap_store_def job_request_record_def bootstrap_job_def)
  have job: "jb_completed_rounds ?job = 0" "jb_target_rounds ?job = 2" "jb_planned_clients ?job = 2"
    "jb_dataset_id ?job = kDatasetId" "jb_current_round ?job = 1"
    "jb_job_id ?job = kTenantId @ ''::'' @ kModelId @ ''::'' @ kDatasetId @ ''::'' @ CurrentTimestamp (bclks 1 0)"
    by (simp_all add: CreateTrainingJob_def Let_def job_request_record_def bootstrap_job_def)
  obtain c where data: "GetDataset kTenantId kModelId kDatasetId ?s =
      Some ((dataset_row (bclks 0) bootstrap_record)\<lparr>ds_created_at := c\<rparr>)"
    using bootstrap_dataset_found [of "bclks 0" "sv_store sv"] by (auto simp: GetDataset_def bootstrap_store_def frame_simps)
  have lease: "\<exists>a job' s'. LeaseTrainingAssignment clk kTenantId kModelId cid v dm dt ?s =
      (Some (a, job', GetDataset kTenantId kModelId kDatasetId ?s), s') \<and> as_round_index a = 1 \<and> jb_target_rounds job' = 2"
    for clk cid v dm dt
    using lease_of_fresh_job [OF active, of clk cid v dm dt] assms(5) job
    by (cases "LeaseTrainingAssignment clk kTenantId kModelId cid v dm dt ?s")
      (auto simp: bootstrap_store_def frame_simps new_lease_def start_job_def Let_def)
  have worker: "GetWorker wid ?s = Some w"
    using assms(4) by (simp add: GetWorker_def bootstrap_store_def frame_simps)
  obtain out where boot: "Bootstrap (connected_bootstrap cfg bclks actx) sv = ((out, True), sv\<lparr>sv_store := ?s\<rparr>)"
    using bootstrap_runs [OF assms(1)] by blast
  obtain a job' s' where l: "LeaseTrainingAssignment (clks 0) kTenantId kModelId (wk_trainer_client_id w)
      (GetActiveModelVersion kTenantId kModelId ?s) (cfg_required_clients cfg) (cfg_default_assignment_ttl_seconds cfg) ?s =
      (Some (a, job', GetDataset kTenantId kModelId kDatasetId ?s), s')" "as_round_index a = 1" "jb_target_rounds job' = 2"
    using lease by blast
  show ?thesis
    using assms(2,3) worker l boot
    by (simp add: LeaseTrainingTask_def LeaseTaskRequest_def Let_def data case_prod_unfold task_response_def
        dataset_row_def bootstrap_record_def)
qed

theorem bootstrap_offers_work_witness:
  "\<exists>out sv1 task sv2. Bootstrap (connected_bootstrap word_config (\<lambda>_ _. 3000) admin_peer) run_registered = ((out, True), sv1) \<and>
    LeaseTrainingTask word_arith word_config (\<lambda>_ _. 4000) worker_peer (LeaseTaskRequest run_worker run_trainer) sv1 =
      (((OK, ''''), task), sv2) \<and>
    wt_task_ready task \<and> wt_round_index task = 1 \<and> wt_target_rounds task = 2 \<and>
    wt_dataset_storage_uri task = ''file:///datasets/demo-dataset''"
  by (rule bootstrap_offers_work [where w = run_row])
    (simp_all add: admin_authorized GetWorker_def run_row_def worker_row_def)

end
