(* ===== verification/Server_Main.thy ===== *)
theory Server_Main
  imports Server_Boot Completion_Queue Paths
begin

text \<open>
  \<open>server/main.cpp\<close>: the process. It looks for its certificates above its executable, boots
  (\<open>Server_Boot\<close>), reads the certificates, starts gRPC and the objects of the federated service, and
  serves; any failure on the way ends it. Also the health service and the signing key of the
  federated service.
\<close>

section \<open>The certificates\<close>

text \<open>The walk from the directory of the executable upwards. It stops before the root directory.\<close>

lemma dropWhile_same_length: "length (dropWhile P xs) = length xs \<Longrightarrow> dropWhile P xs = xs"
  using length_dropWhile_le [of P "tl xs"] by (cases xs) auto

lemma parent_path_shorter:
  assumes "parent_path d \<noteq> d"
  shows "length (parent_path d) < length d"
proof -
  let ?d = "dropWhile (\<lambda>c. c \<noteq> CHR ''/'') (rev d)"
  let ?s = "dropWhile (\<lambda>c. c = CHR ''/'') ?d"
  have le: "length ?s \<le> length ?d" "length ?d \<le> length d"
    using length_dropWhile_le [of _ "rev d"] by (simp_all add: length_dropWhile_le)
  show ?thesis
  proof (cases "?s = '''' \<and> ?d \<noteq> ''''")
    case True
    then have nil: "?s = ''''" and some: "?d \<noteq> ''''" by blast+
    have p: "parent_path d = ''/''" by (simp only: parent_path_def Let_def nil some rev.simps if_True simp_thms)
    have "CHR ''/'' \<in> set d" using some by (auto simp: dropWhile_eq_Nil_conv)
    with assms p show ?thesis by (cases d; cases "tl d") auto
  next
    case False
    then have p: "parent_path d = rev ?s" by (simp only: parent_path_def Let_def rev_is_Nil_conv if_False)
    have "length ?s \<noteq> length d"
    proof
      assume len: "length ?s = length d"
      with le have "length ?d = length (rev d)" "length ?s = length ?d" by simp_all
      then have "?d = rev d" "?s = ?d" by (blast intro: dropWhile_same_length)+
      with p assms show False by simp
    qed
    with p le show ?thesis by simp
  qed
qed

function cert_dir_from :: "(string \<Rightarrow> bool) \<Rightarrow> string \<Rightarrow> string" where
  "cert_dir_from exists current_dir =
     (if parent_path current_dir \<noteq> '''' \<and> current_dir \<noteq> parent_path current_dir then
        (if exists (path_join (path_join current_dir ''certs'') ''ca.crt'') then path_join current_dir ''certs''
         else cert_dir_from exists (parent_path current_dir))
      else '''')"
  by pat_completeness auto
termination
  by (relation "measure (\<lambda>(_, d). length d)") (auto intro: parent_path_shorter)

declare cert_dir_from.simps [simp del]

text \<open>\<open>exe_path\<close> is what \<open>readlink\<close> returns.\<close>

definition find_cert_dir :: "(string \<Rightarrow> bool) \<Rightarrow> string option \<Rightarrow> string" where
  "find_cert_dir exists exe_path =
     (case exe_path of None \<Rightarrow> '''' | Some p \<Rightarrow> cert_dir_from exists (parent_path p))"

section \<open>The health service\<close>

datatype serving_status = SERVING

definition HealthCheck :: "grpc_status \<times> serving_status" where
  "HealthCheck = ((OK, ''''), SERVING)"

text \<open>\<open>Watch\<close> writes one response and then sleeps for ever: what it writes, and what it returns.\<close>

partial_function (option) sleep_for_ever :: "nat \<Rightarrow> grpc_status option" where
  "sleep_for_ever seconds = sleep_for_ever seconds"

definition HealthWatch :: "serving_status list \<times> grpc_status option" where
  "HealthWatch = ([SERVING], sleep_for_ever 10)"

section \<open>The signing key\<close>

text \<open>\<open>sign\<close> is OpenSSL; without a key, and when signing fails, the signature is empty.\<close>

definition SignData :: "('k \<Rightarrow> string \<Rightarrow> byte list option) \<Rightarrow> 'k option \<Rightarrow> string \<Rightarrow> byte list" where
  "SignData sign private_key data =
     (case private_key of None \<Rightarrow> [] | Some k \<Rightarrow> (case sign k data of None \<Rightarrow> [] | Some sig \<Rightarrow> sig))"

text \<open>Reading the key: a file that cannot be opened or does not parse leaves no key.\<close>

definition load_private_key :: "(string \<Rightarrow> 'k option) \<Rightarrow> (string \<rightharpoonup> string) \<Rightarrow> string \<Rightarrow> 'k option" where
  "load_private_key parse_key files private_key_path =
     (case files private_key_path of None \<Rightarrow> None | Some pem \<Rightarrow> parse_key pem)"

section \<open>The process\<close>

text \<open>\<open>read_file\<close> ends the process when the file cannot be opened.\<close>

definition read_file :: "(string \<rightharpoonup> string) \<Rightarrow> string \<Rightarrow> string option" where
  "read_file files filepath = files filepath"

text \<open>What a process that serves consists of.\<close>

record ('f, 'k) process =
  pr_config :: "'f config"
  pr_address :: string
  pr_credentials :: "string \<times> string \<times> string"
  pr_signing_key :: "'k option"
  pr_threads :: nat
  pr_queue :: "'f call_queue"

datatype ('f, 'k) main_result =
    ExitFailure
  | Uncaught string
  | Serving "('f, 'k) process"

text \<open>What the process finds: its own path, the files as texts, whether gRPC can start, how many threads
  the hardware has, the first stream request that will come.\<close>

record 'k main_env =
  me_exe :: "string option"
  me_files :: "string \<rightharpoonup> string"
  me_parse_key :: "string \<Rightarrow> 'k option"
  me_starts :: bool
  me_concurrency :: nat
  me_peer :: server_context
  me_stream :: ModelRequest

definition RunServer :: "'k main_env \<Rightarrow> string \<Rightarrow> 'f config \<Rightarrow> 'f system \<Rightarrow> ('f, 'k) main_result" where
  "RunServer M cert_dir cfg sys =
     (let private_key = load_private_key (me_parse_key M) (me_files M) (cert_dir @ ''/server.key'') in
      case (read_file (me_files M) (cert_dir @ ''/ca.crt''), read_file (me_files M) (cert_dir @ ''/server.key''),
            read_file (me_files M) (cert_dir @ ''/server.crt'')) of
        (Some ca, Some key, Some crt) \<Rightarrow>
          if \<not> me_starts M then ExitFailure
          else Serving \<lparr>pr_config = cfg, pr_address = cfg_address cfg, pr_credentials = (ca, key, crt),
            pr_signing_key = private_key, pr_threads = max 2 (me_concurrency M),
            pr_queue = StartRpcs (me_peer M) (me_stream M) sys\<rparr>
      | _ \<Rightarrow> ExitFailure)"

text \<open>\<open>configs\<close> are the files as the JSON library reads them. An exception of the configuration is
  caught, one of the crypto engine is not.\<close>

definition ServerMain ::
  "('j, 'x, 'f) config_json \<Rightarrow> ('l, 'y) json_ops \<Rightarrow> 'f arith \<Rightarrow> crypto_prims \<Rightarrow> (byte list \<Rightarrow> 'f)
     \<Rightarrow> (string \<rightharpoonup> 'x) \<Rightarrow> ('x, 'y) boot_env \<Rightarrow> 'k main_env \<Rightarrow> key_files \<Rightarrow> ('f, 'k) main_result" where
  "ServerMain JC J A C of_bytes configs B M fs =
     (let cert_dir = find_cert_dir (\<lambda>p. me_files M p \<noteq> None) (me_exe M) in
      if cert_dir = '''' then ExitFailure
      else
        let B' = B\<lparr>be_config_file := configs (parent_path cert_dir @ ''/config.json'')\<rparr> in
        case BootConfig JC A (be_config_file B') of
          Inl e \<Rightarrow> ExitFailure
        | Inr cfg \<Rightarrow>
            (case BootServer JC J A C of_bytes B' fs of
               (Inl e, fs') \<Rightarrow> Uncaught e
             | (Inr (cfg', sv), fs') \<Rightarrow> RunServer M cert_dir cfg' (sv, fs')))"

end
