(* ===== verification/Demo_Main.thy ===== *)
theory Demo_Main
  imports Admin_Cli
begin

text \<open>
  \<open>server/worker_demo_client.cpp\<close>: the program around \<open>WorkerDemoClient::Run\<close> - its command line, its
  environment, its key files - and the check of signatures under the server's certificate.
\<close>

section \<open>Signatures\<close>

text \<open>\<open>parse_cert\<close> and \<open>verify\<close> are OpenSSL: the public key of a certificate in PEM form, and whether a
  signature of a text is good. Without a key nothing verifies.\<close>

definition LoadPublicKeyFromCertificate :: "(string \<Rightarrow> 'k option) \<Rightarrow> (string \<rightharpoonup> string) \<Rightarrow> string \<Rightarrow> 'k option" where
  "LoadPublicKeyFromCertificate parse_cert files cert_path =
     (case files cert_path of None \<Rightarrow> None | Some pem \<Rightarrow> parse_cert pem)"

definition VerifySignature :: "('k \<Rightarrow> string \<Rightarrow> byte list \<Rightarrow> bool) \<Rightarrow> 'k option \<Rightarrow> string \<Rightarrow> byte list \<Rightarrow> bool" where
  "VerifySignature verify public_key data signature =
     (case public_key of None \<Rightarrow> False | Some k \<Rightarrow> verify k data signature)"

section \<open>The program\<close>

definition kDefaultPayloadSecretPath :: string where "kDefaultPayloadSecretPath = ''/app/data/payload.key''"

definition kDefaultServerCertPath :: string where "kDefaultServerCertPath = ''/app/certs/server.crt''"

definition worker_credentials :: "(string \<rightharpoonup> string) \<Rightarrow> string \<times> string \<times> string" where
  "worker_credentials files = (ReadFile files ''/app/certs/ca.crt'', ReadFile files ''/app/certs/worker.crt'',
     ReadFile files ''/app/certs/worker.key'')"

definition worker_id_arg :: "string list \<Rightarrow> string" where
  "worker_id_arg args = (case args of [] \<Rightarrow> ''demo-worker-1'' | w # _ \<Rightarrow> w)"

definition trainer_arg :: "string list \<Rightarrow> string" where
  "trainer_arg args = (case args of _ # t # _ \<Rightarrow> t | _ \<Rightarrow> worker_id_arg args @ ''-trainer'')"

text \<open>\<open>K\<close> holds the randomness of the run, \<open>fs\<close> the files with secrets; \<open>Inl\<close> is an exception, which
  ends the program, \<open>Inr\<close> its exit code.\<close>

definition worker_demo_main ::
  "'f arith \<Rightarrow> crypto_prims \<Rightarrow> ('k \<Rightarrow> string \<Rightarrow> byte list \<Rightarrow> bool) \<Rightarrow> (string \<Rightarrow> 'k option)
     \<Rightarrow> (string \<Rightarrow> string \<times> string \<times> string \<Rightarrow> ('f, 's) worker_stubs) \<Rightarrow> (string \<rightharpoonup> string) \<Rightarrow> (string \<rightharpoonup> string)
     \<Rightarrow> key_files \<Rightarrow> string list \<Rightarrow> 'f client_env \<Rightarrow> 's \<Rightarrow> (string + int) \<times> 's" where
  "worker_demo_main A C verify parse_cert connect env files fs args K s =
     (let address = or_default (env ''PQFL_ADDRESS'') kDefaultAddress;
          payload_path = or_default (env ''PQFL_PAYLOAD_KEY_PATH'') kDefaultPayloadSecretPath;
          server_cert_path = or_default (env ''PQFL_SERVER_CERT_PATH'') kDefaultServerCertPath
      in
      case LoadSecretFile fs payload_path of
        Inl e \<Rightarrow> (Inl e, s)
      | Inr payload_secret \<Rightarrow>
          (case Run A C (K\<lparr>ke_payload_secret := payload_secret,
                  ke_verify := VerifySignature verify (LoadPublicKeyFromCertificate parse_cert files server_cert_path)\<rparr>)
                (connect address (worker_credentials files)) (worker_id_arg args) (trainer_arg args) s of
             (Inl e, s') \<Rightarrow> (Inl e, s')
           | (Inr ok, s') \<Rightarrow> (Inr (if ok then 0 else 1), s')))"

end
