(* ===== verification/Main_Guarantees.thy ===== *)
theory Main_Guarantees
  imports Server_Main Demo_Main Queue_Guarantees Run_Guarantees
begin

text \<open>
  The processes as wholes: where the server finds its certificates, what holds while it serves, what
  becomes of workers when it has no signing key.
\<close>

section \<open>The search for the certificates\<close>

abbreviation has_certs :: "(string \<Rightarrow> bool) \<Rightarrow> string \<Rightarrow> bool" where
  "has_certs exists d \<equiv> exists (path_join (path_join d ''certs'') ''ca.crt'')"

text \<open>The directory found is that of the closest ancestor that has certificates.\<close>

lemma cert_dir_nearest:
  assumes "cert_dir_from exists d \<noteq> ''''"
  shows "\<exists>n. cert_dir_from exists d = path_join ((parent_path ^^ n) d) ''certs'' \<and>
    has_certs exists ((parent_path ^^ n) d) \<and> (\<forall>i<n. \<not> has_certs exists ((parent_path ^^ i) d))"
  using assms
proof (induction exists d rule: cert_dir_from.induct)
  case (1 exists d)
  have up: "parent_path d \<noteq> '''' \<and> d \<noteq> parent_path d" using 1(2) by (subst (asm) cert_dir_from.simps) (metis)
  show ?case
  proof (cases "has_certs exists d")
    case True
    with up show ?thesis by (intro exI [of _ 0]) (simp add: cert_dir_from.simps [of exists d])
  next
    case False
    then have next': "cert_dir_from exists d = cert_dir_from exists (parent_path d)"
      using up by (simp add: cert_dir_from.simps [of exists d])
    with 1 up False obtain n where n: "cert_dir_from exists d = path_join ((parent_path ^^ n) (parent_path d)) ''certs''"
      "has_certs exists ((parent_path ^^ n) (parent_path d))"
      "\<forall>i<n. \<not> has_certs exists ((parent_path ^^ i) (parent_path d))" by metis
    have "(parent_path ^^ i) (parent_path d) = (parent_path ^^ Suc i) d" for i by (simp add: funpow_swap1)
    with n False show ?thesis by (intro exI [of _ "Suc n"]) (auto simp: less_Suc_eq_0_disj)
  qed
qed

section \<open>The health service\<close>

lemma sleeps_for_ever: "sleep_for_ever n = None"
proof (cases "sleep_for_ever n")
  case (Some r)
  have False using sleep_for_ever.raw_induct [of "\<lambda>_ _. False", OF _ Some] by blast
  then show ?thesis ..
qed simp

text \<open>A health watch never returns, although it has sent its one response.\<close>

lemma watch_never_returns: "fst HealthWatch = [SERVING]" "snd HealthWatch = None"
  by (simp_all add: HealthWatch_def sleeps_for_ever)

section \<open>While it serves\<close>

lemma main_serves:
  assumes "ServerMain JC J A C of_bytes configs B M fs = Serving P"
  obtains B' sv fs' where "BootServer JC J A C of_bytes B' fs = (Inr (pr_config P, sv), fs')"
    "pr_queue P = StartRpcs (me_peer M) (me_stream M) (sv, fs')" "2 \<le> pr_threads P"
proof -
  let ?dir = "find_cert_dir (\<lambda>p. me_files M p \<noteq> None) (me_exe M)"
  let ?B = "B\<lparr>be_config_file := configs (parent_path ?dir @ ''/config.json'')\<rparr>"
  obtain cfg sv fs' where "BootServer JC J A C of_bytes ?B fs = (Inr (cfg, sv), fs')"
    and "RunServer M ?dir cfg (sv, fs') = Serving P"
    using assms by (auto simp: ServerMain_def Let_def split: if_splits sum.splits prod.splits)
  then show thesis
    by (intro that [of ?B sv fs']) (auto simp: RunServer_def Let_def split: option.splits if_splits)
qed


text \<open>A first boot in \<open>/app\<close>, with a key that OpenSSL does not read.\<close>

definition app_files :: "string \<rightharpoonup> string" where
  "app_files p = (if p \<in> {''/app/certs/ca.crt'', ''/app/certs/server.key'', ''/app/certs/server.crt''} then Some ''pem'' else None)"

definition app_env :: "unit main_env" where
  "app_env = \<lparr>me_exe = Some ''/app/bin/pqfl_server'', me_files = app_files, me_parse_key = (\<lambda>_. None), me_starts = True,
     me_concurrency = 4, me_peer = None, me_stream = alice_stream\<rparr>"

lemma app_cert_dir: "find_cert_dir (\<lambda>p. me_files app_env p \<noteq> None) (me_exe app_env) = ''/app/certs''"
proof -
  have p: "parent_path ''/app/bin/pqfl_server'' = ''/app/bin''" "parent_path ''/app/bin'' = ''/app''" "parent_path ''/app'' = ''/''"
    "path_join ''/app/bin'' ''certs'' = ''/app/bin/certs''" "path_join ''/app/bin/certs'' ''ca.crt'' = ''/app/bin/certs/ca.crt''"
    "path_join ''/app'' ''certs'' = ''/app/certs''" "path_join ''/app/certs'' ''ca.crt'' = ''/app/certs/ca.crt''"
    by (simp_all add: parent_path_def path_join_def Let_def)
  show ?thesis
    by (simp add: find_cert_dir_def app_env_def app_files_def p cert_dir_from.simps [of _ "''/app/bin''"]
        cert_dir_from.simps [of _ "''/app''"])
qed

lemma app_serves:
  "\<exists>P. ServerMain no_config tree_json real_arith null_prims (\<lambda>_. 0) Map.empty first_boot app_env empty_disk = Serving P"
proof -
  have b: "first_boot\<lparr>be_config_file := None\<rparr> = first_boot" "be_config_file first_boot = None" by (simp_all add: first_boot_def)
  have c: "BootConfig no_config real_arith None = Inr (default_config real_arith)"
    by (simp add: BootConfig_def LoadConfig_def default_config_valid)
  obtain sv fs where boot: "BootServer no_config tree_json real_arith null_prims (\<lambda>_. 0) first_boot empty_disk =
     (Inr (default_config real_arith, sv), fs)" using first_boot_runs by blast
  have r: "\<exists>P. RunServer app_env ''/app/certs'' (default_config real_arith) (sv, fs) = Serving P"
    by (simp add: RunServer_def app_env_def app_files_def read_file_def)
  show ?thesis
    using r unfolding ServerMain_def app_cert_dir Let_def by (simp add: b c boot)
qed


section \<open>A server without a signing key\<close>

lemma unsigned_update:
  assumes "PrepareUpdate C E ctx q latest = Inr (Inr u)" and "en_sign E = SignData sign None"
  shows "gm_server_signature u = []"
  using assms by (auto simp: PrepareUpdate_def SignData_def Let_def split: sum.splits prod.splits)


text \<open>A worker of the second round at such a server.\<close>

definition second_round :: "(32 word) WorkerTaskLeaseResponse" where
  "second_round = (no_task word_arith '''')\<lparr>wt_task_ready := True, wt_active_model_version := 1, wt_round_index := 2\<rparr>"

definition unsigned_stream :: "(32 word) server \<Rightarrow> (32 word) stream_env" where
  "unsigned_stream sv = (word_stream sv)\<lparr>en_sign := SignData (\<lambda>(_::unit) m. Some [1]) None\<rparr>"

definition checking_client :: "(32 word) client_env" where
  "checking_client = word_client\<lparr>ke_verify := VerifySignature (\<lambda>(_::unit) _ sig. sig \<noteq> []) (Some ())\<rparr>"


end
