(* ===== verification/Round_Guarantees.thy ===== *)
theory Round_Guarantees
  imports Client_Guarantees Server_System
begin

text \<open>
  A whole round, from the clients that train to the worker that fetches the result: what the server
  holds for a round is exactly what its clients sealed in the submissions it accepted, in that order,
  whatever other calls come between; so the model it streams after the round is the aggregate of what
  the clients trained.
\<close>

section \<open>One submission\<close>

text \<open>A client of the repository has sealed \<open>ws\<close> in \<open>q\<close>, for this server and under its own certificate.\<close>

definition sealed_by_client ::
  "crypto_prims \<Rightarrow> (byte list \<Rightarrow> 'f) \<Rightarrow> server_context \<Rightarrow> crypto_engine \<Rightarrow> WeightPayload \<Rightarrow> 'f list \<Rightarrow> bool" where
  "sealed_by_client C of_bytes ctx e q ws \<longleftrightarrow>
     (\<exists>K pk cid config wid task. float_bytes (ke_to_bytes K) of_bytes \<and>
        (pk = [] \<and> ke_payload_secret K = ce_payload_secret e \<or> pk \<noteq> [] \<and> pk = ce_kem_public_key e \<and>
          kem_correct C (ce_kem_public_key e) (ce_kem_secret_key e) \<and> 0 < kem_ciphertext_length C) \<and>
        (SendWeights C K cid ws config = Inr (Some q) \<and> tc_payload_kem_public_key config = pk \<and>
           GetPeerIdentity ctx = kTestCertIdentity \<or>
         WorkerSubmitWeights C K wid cid task ws = Inr (Some q) \<and> wt_payload_kem_public_key task = pk \<and>
           GetPeerIdentity ctx = kWorkerCertIdentity))"

lemma sealed_by_client_opens:
  assumes "sealed_by_client C of_bytes ctx e q ws" and "aead_correct C" and "DecryptSubmission C ctx q e = Inr p"
  shows "floats_of of_bytes p = ws"
proof -
  obtain p' where "DecryptSubmission C ctx q e = Inr p'" "floats_of of_bytes p' = ws"
    using assms(1) sealed_submission_opens [OF assms(2)] unfolding sealed_by_client_def by blast
  with assms(3) show ?thesis by simp
qed

lemma commit_buffer:
  assumes "CommitSubmission A C N cfg clks q job ws sv = (Inr r, sv')" and "ar_accepted r"
  obtains rs w s3 where "commit_outcome A C N cfg clks q job ws sv = (Inr (rs, w), (sv_buffer sv', s3))"
    "ag_accepted rs" "ar_aggregation_triggered r = ag_aggregated rs"
proof (cases job)
  case (Some j)
  show ?thesis by (rule CommitSubmission_accepted [OF assms(1) [unfolded Some] assms(2)]) (use that Some in auto)
next
  case None
  obtain out b s3 where out: "commit_outcome A C N cfg clks q None ws sv = (out, (b, s3))" by (metis prod.collapse)
  show ?thesis
    using assms that out unfolding None CommitSubmission_def commit_outcome_def Let_def option.case
    by (auto simp: submit_response_def split: sum.splits if_splits)
qed

definition commit_request :: "WeightPayload \<Rightarrow> 'f list \<Rightarrow> 'f add_request" where
  "commit_request q ws = \<lparr>rq_tenant_id = NormalizeTenant (wp_tenant_id q), rq_model_id = NormalizeModel (wp_model_id q),
     rq_client_id = wp_client_id q, rq_round = wp_round_index q, rq_dataset_size = max 1 (wp_local_dataset_size q),
     rq_weights = ws\<rparr>"

definition payload_key :: "WeightPayload \<Rightarrow> string" where
  "payload_key q = RoundKey (wp_tenant_id q) (wp_model_id q) (wp_round_index q)"

lemma commit_request_simps [simp]:
  "RoundKey (rq_tenant_id (commit_request q ws)) (rq_model_id (commit_request q ws)) (wp_round_index q) = payload_key q"
  "rq_scope (commit_request q ws) = ScopeKey (wp_tenant_id q) (wp_model_id q)"
  "rq_round (commit_request q ws) = wp_round_index q" "rq_client_id (commit_request q ws) = wp_client_id q"
  "rq_weights (commit_request q ws) = ws" "max 1 (rq_dataset_size (commit_request q ws)) = max 1 (wp_local_dataset_size q)"
  by (simp_all add: commit_request_def payload_key_def)

lemma round_result_stores [simp]:
  "round_weights (snd (round_result A E P q b)) = round_weights (StoreSubmission A P q b)"
  "round_dataset_sizes (snd (round_result A E P q b)) = round_dataset_sizes (StoreSubmission A P q b)"
  by (simp_all add: round_result_def Let_def case_prod_beta)

text \<open>What an accepted submission leaves in the buffer.\<close>

lemma accepted_buffer:
  assumes "SubmitWeights A C N cfg clks ctx q sv = (Inr r, sv')" and "ar_accepted r"
  obtains p required v where "DecryptSubmission C ctx q (sv_crypto sv) = Inr p"
    "\<not> HasClientSubmission (wp_tenant_id q) (wp_model_id q) (wp_round_index q) (wp_client_id q) (sv_buffer sv)"
    "round_weights (sv_buffer sv') = round_weights (StoreSubmission A (agg_params_of cfg required)
       (commit_request q (floats_of (se_of_bytes N) p)) (sv_buffer sv))"
    "round_dataset_sizes (sv_buffer sv') = round_dataset_sizes (StoreSubmission A (agg_params_of cfg required)
       (commit_request q (floats_of (se_of_bytes N) p)) (sv_buffer sv))"
    "ar_aggregation_triggered r \<longrightarrow> latest_models (sv_buffer sv') (ScopeKey (wp_tenant_id q) (wp_model_id q)) = Some
       \<lparr>ls_round = wp_round_index q, ls_model_version = v, ls_weights = fst (round_result A
          (buffer_env_of C N (sv_crypto sv)) (agg_params_of cfg required) (commit_request q (floats_of (se_of_bytes N) p))
          (sv_buffer sv))\<rparr>"
proof -
  obtain p sv1 where open_it: "DecryptSubmission C ctx q (sv_crypto sv) = Inr p"
    and new: "\<not> HasClientSubmission (wp_tenant_id q) (wp_model_id q) (wp_round_index q) (wp_client_id q) (sv_buffer sv)"
    and val: "validated clks q sv = (Inr (), sv1)"
    and com: "CommitSubmission A C N cfg clks q (GetActiveTrainingJob (wp_tenant_id q) (wp_model_id q) (sv_store sv))
      (floats_of (se_of_bytes N) p) sv1 = (Inr r, sv')"
    using SubmitWeights_accepted [of A C N cfg clks ctx q sv r] assms by (metis fst_conv)
  have same: "sv_buffer sv1 = sv_buffer sv" "sv_crypto sv1 = sv_crypto sv"
    using validated_frame [of clks q sv] by (simp_all add: val)
  obtain rs w s3 where out: "commit_outcome A C N cfg clks q (GetActiveTrainingJob (wp_tenant_id q) (wp_model_id q)
      (sv_store sv)) (floats_of (se_of_bytes N) p) sv1 = (Inr (rs, w), (sv_buffer sv', s3))"
    and acc: "ag_accepted rs" "ar_aggregation_triggered r = ag_aggregated rs"
    by (rule commit_buffer [OF com assms(2)])
  let ?rq = "commit_request q (floats_of (se_of_bytes N) p)"
  from out obtain required s2 where add: "AddWeightAndCheckAggregate A (buffer_env_of C N (sv_crypto sv))
      (agg_params_of cfg required) (clks 2) ?rq (sv_buffer sv, s2) = (Inr (rs, w), (sv_buffer sv', s3))"
    unfolding commit_outcome_def Let_def commit_request_def same by blast
  let ?P = "agg_params_of cfg required" and ?E = "buffer_env_of C N (sv_crypto sv)"
  have "\<exists>v. round_weights (sv_buffer sv') = round_weights (StoreSubmission A ?P ?rq (sv_buffer sv)) \<and>
     round_dataset_sizes (sv_buffer sv') = round_dataset_sizes (StoreSubmission A ?P ?rq (sv_buffer sv)) \<and>
     (ag_aggregated rs \<longrightarrow> latest_models (sv_buffer sv') (rq_scope ?rq) = Some
        \<lparr>ls_round = wp_round_index q, ls_model_version = v, ls_weights = fst (round_result A ?E ?P ?rq (sv_buffer sv))\<rparr>)"
    by (cases rule: AddWeight_cases [of ?rq "sv_buffer sv" A ?E ?P "clks 2" s2])
      (use add acc in \<open>auto simp: refused_def\<close>)
  with that [OF open_it new, of required] acc(2) show ?thesis by (simp only: commit_request_simps) blast
qed

section \<open>The submissions of a round\<close>

text \<open>
  \<open>collects\<close> follows a server through one round: the clients whose submissions it accepted, with the size of
  their data and the weights they sealed. Between them any calls of the three services may come that
  leave the entries of this round alone, which all do except submissions to it.
\<close>

inductive collects ::
  "'f arith \<Rightarrow> crypto_prims \<Rightarrow> 'f config \<Rightarrow> string \<Rightarrow> 'f system \<Rightarrow> (string \<times> int \<times> 'f list) list \<Rightarrow> bool"
  for A :: "'f arith" and C :: crypto_prims and cfg :: "'f config" and key :: string where
  round_opens: "entries (round_weights (sv_buffer sv)) key = [] \<Longrightarrow> entries (round_dataset_sizes (sv_buffer sv)) key = [] \<Longrightarrow>
    collects A C cfg key (sv, fs) []"
| round_submission: "collects A C cfg key (sv, fs) hist \<Longrightarrow> sealed_by_client C (se_of_bytes N) ctx (sv_crypto sv) q ws \<Longrightarrow>
    payload_key q = key \<Longrightarrow> SubmitWeights A C N cfg clks ctx q sv = (Inr r, sv') \<Longrightarrow> ar_accepted r \<Longrightarrow>
    collects A C cfg key (sv', fs) (hist @ [(wp_client_id q, wp_local_dataset_size q, ws)])"
| round_other: "collects A C cfg key (sv, fs) hist \<Longrightarrow> server_step A C cfg (sv, fs) (sv', fs') \<Longrightarrow>
    entries (round_weights (sv_buffer sv')) key = entries (round_weights (sv_buffer sv)) key \<Longrightarrow>
    entries (round_dataset_sizes (sv_buffer sv')) key = entries (round_dataset_sizes (sv_buffer sv)) key \<Longrightarrow>
    collects A C cfg key (sv', fs') hist"

definition clipped :: "'f arith \<Rightarrow> 'f config \<Rightarrow> (string \<times> int \<times> 'f list) list \<Rightarrow> (string \<times> 'f list) list" where
  "clipped A cfg hist = map (\<lambda>(c, n, w). (c, ClipWeights A (cfg_clip_norm cfg) w)) hist"

definition sample_counts :: "(string \<times> int \<times> 'f list) list \<Rightarrow> (string \<times> int) list" where
  "sample_counts hist = map (\<lambda>(c, n, w). (c, max 1 n)) hist"

lemma fst_contributions [simp]: "fst ` set (clipped A cfg hist) = fst ` set hist" "fst ` set (sample_counts hist) = fst ` set hist"
  by (force simp: clipped_def sample_counts_def)+

lemma not_submitted:
  "\<not> HasClientSubmission t m rd c b \<longleftrightarrow> c \<notin> fst ` set (entries (round_weights b) (RoundKey t m rd))"
  by (cases "round_weights b (RoundKey t m rd)")
    (auto simp: HasClientSubmission_def Weight_Buffer.entries_def simp flip: map_of_eq_None_iff)

lemma stored_contribution:
  fixes q :: WeightPayload
  defines "rq \<equiv> \<lambda>ws. commit_request q ws"
  assumes "wp_client_id q \<notin> fst ` set hist" "entries (round_weights b) (payload_key q) = clipped A cfg hist"
    and "entries (round_dataset_sizes b) (payload_key q) = sample_counts hist"
  shows "entries (round_weights (StoreSubmission A (agg_params_of cfg required) (rq ws) b)) (payload_key q) =
      clipped A cfg (hist @ [(wp_client_id q, wp_local_dataset_size q, ws)])"
    "entries (round_dataset_sizes (StoreSubmission A (agg_params_of cfg required) (rq ws) b)) (payload_key q) =
      sample_counts (hist @ [(wp_client_id q, wp_local_dataset_size q, ws)])"
proof -
  have "AList.update (wp_client_id q) v (clipped A cfg hist) = clipped A cfg hist @ [(wp_client_id q, v)]"
    "AList.update (wp_client_id q) n (sample_counts hist) = sample_counts hist @ [(wp_client_id q, n)]" for v n
    using assms(2) by (intro alist_update_new; simp)+
  then show "entries (round_weights (StoreSubmission A (agg_params_of cfg required) (rq ws) b)) (payload_key q) =
      clipped A cfg (hist @ [(wp_client_id q, wp_local_dataset_size q, ws)])"
    "entries (round_dataset_sizes (StoreSubmission A (agg_params_of cfg required) (rq ws) b)) (payload_key q) =
      sample_counts (hist @ [(wp_client_id q, wp_local_dataset_size q, ws)])"
    using assms(3,4) by (simp_all add: rq_def StoreSubmission_def)
      (simp_all add: clipped_def sample_counts_def agg_params_of_def)
qed

lemma collected_entries:
  assumes "collects A C cfg key sys hist" and "aead_correct C"
  shows "entries (round_weights (sv_buffer (fst sys))) key = clipped A cfg hist \<and>
    entries (round_dataset_sizes (sv_buffer (fst sys))) key = sample_counts hist \<and> distinct (map fst hist)"
  using assms(1)
proof induction
  case (round_submission sv fs hist N ctx q ws clks r sv')
  obtain p required v where p: "DecryptSubmission C ctx q (sv_crypto sv) = Inr p"
    and new: "\<not> HasClientSubmission (wp_tenant_id q) (wp_model_id q) (wp_round_index q) (wp_client_id q) (sv_buffer sv)"
    and b: "round_weights (sv_buffer sv') = round_weights (StoreSubmission A (agg_params_of cfg required)
        (commit_request q (floats_of (se_of_bytes N) p)) (sv_buffer sv))"
      "round_dataset_sizes (sv_buffer sv') = round_dataset_sizes (StoreSubmission A (agg_params_of cfg required)
        (commit_request q (floats_of (se_of_bytes N) p)) (sv_buffer sv))"
    by (rule accepted_buffer [OF round_submission.hyps(4,5)])
  have ws: "floats_of (se_of_bytes N) p = ws"
    by (rule sealed_by_client_opens [OF round_submission.hyps(2) assms(2) p])
  have key: "payload_key q = key" by (rule round_submission.hyps(3))
  have fresh: "wp_client_id q \<notin> fst ` set hist"
    using new round_submission.IH key unfolding not_submitted payload_key_def [symmetric] by simp
  show ?case
    using stored_contribution [of q hist "sv_buffer sv" A cfg required ws] fresh round_submission.IH b
    by (simp add: ws key)
qed (simp_all add: clipped_def sample_counts_def)

section \<open>The round\<close>

lemma SealPayload_scope:
  "SealPayload C K pk parts ws req = Inr (Some q) \<Longrightarrow> wp_tenant_id q = wp_tenant_id req \<and> wp_model_id q = wp_model_id req"
  by (auto simp: SealPayload_def split: sum.splits option.splits)

lemma sealed_by_client_scope:
  assumes "sealed_by_client C of_bytes ctx e q ws"
  shows "wp_tenant_id q = kTenantId \<and> wp_model_id q = kModelId"
  using assms
  by (auto simp: sealed_by_client_def test_client_defs WorkerSubmitWeights_def Let_def dest!: SealPayload_scope)

lemma AggregateClients_required:
  "AggregateClients A (agg_params_of cfg n) ws sizes = AggregateClients A (agg_params_of cfg m) ws sizes"
  by (simp add: AggregateClients_def agg_params_of_def)

lemma round_latest_model:
  assumes aead: "aead_correct C" and before: "collects A C cfg (payload_key q) (sv, fs) hist"
    and sealed: "sealed_by_client C (se_of_bytes N) ctx (sv_crypto sv) q ws"
    and sub: "SubmitWeights A C N cfg clks ctx q sv = (Inr r, sv')" "ar_accepted r" "ar_aggregation_triggered r"
    and plain: "\<not> ar_lt A (ar_zero A) (cfg_server_momentum cfg)" "\<not> ar_lt A (ar_zero A) (cfg_dp_epsilon cfg)"
  shows "ls_weights (GetLatestGlobalModel kTenantId kModelId (sv_buffer sv')) =
      AggregateClients A (agg_params_of cfg 0)
        (se_order N (clipped A cfg (hist @ [(wp_client_id q, wp_local_dataset_size q, ws)])))
        (sample_counts (hist @ [(wp_client_id q, wp_local_dataset_size q, ws)]))"
    and "distinct (map fst (hist @ [(wp_client_id q, wp_local_dataset_size q, ws)]))"
proof -
  let ?all = "hist @ [(wp_client_id q, wp_local_dataset_size q, ws)]"
  obtain p required v where p: "DecryptSubmission C ctx q (sv_crypto sv) = Inr p"
    and new: "\<not> HasClientSubmission (wp_tenant_id q) (wp_model_id q) (wp_round_index q) (wp_client_id q) (sv_buffer sv)"
    and latest: "latest_models (sv_buffer sv') (ScopeKey (wp_tenant_id q) (wp_model_id q)) = Some
       \<lparr>ls_round = wp_round_index q, ls_model_version = v, ls_weights = fst (round_result A
          (buffer_env_of C N (sv_crypto sv)) (agg_params_of cfg required) (commit_request q (floats_of (se_of_bytes N) p))
          (sv_buffer sv))\<rparr>"
    by (rule accepted_buffer [OF sub(1,2)]) (use sub(3) in blast)
  have ws: "floats_of (se_of_bytes N) p = ws" by (rule sealed_by_client_opens [OF sealed aead p])
  note held = collected_entries [OF before aead, unfolded fst_conv]
  have fresh: "wp_client_id q \<notin> fst ` set hist"
    using new held unfolding not_submitted payload_key_def [symmetric] by simp
  with held show "distinct (map fst ?all)" by simp
  note stored = stored_contribution [OF fresh, of "sv_buffer sv" A cfg required ws]
  have "fst (round_result A (buffer_env_of C N (sv_crypto sv)) (agg_params_of cfg required) (commit_request q ws) (sv_buffer sv)) =
      AggregateClients A (agg_params_of cfg required) (se_order N (clipped A cfg ?all)) (sample_counts ?all)"
    using plain stored held by (subst round_result_plain) (simp_all add: round_clients_def buffer_env_of_def agg_params_of_def)
  then show "ls_weights (GetLatestGlobalModel kTenantId kModelId (sv_buffer sv')) =
      AggregateClients A (agg_params_of cfg 0) (se_order N (clipped A cfg ?all)) (sample_counts ?all)"
    using latest sealed_by_client_scope [OF sealed]
    by (simp add: GetLatestGlobalModel_def ws AggregateClients_required [of A cfg required _ _ 0])
qed


section \<open>A concrete round\<close>

text \<open>Without a job a submission needs no lease.\<close>

lemma submit_no_job:
  assumes "CheckSubmitRequest q = None" "IsPeerAuthenticated ctx"
    "IsRegisteredForPeer (wp_tenant_id q) (wp_model_id q) (wp_client_id q) (NormalizePeerIdentity (GetPeerIdentity ctx)) (sv_registry sv)"
    "wp_base_model_version q = 0" "GetActiveTrainingJob (wp_tenant_id q) (wp_model_id q) (sv_store sv) = None"
    "\<not> IsRoundCompleted (wp_tenant_id q) (wp_model_id q) (wp_round_index q) (sv_buffer sv)"
    "\<not> HasClientSubmission (wp_tenant_id q) (wp_model_id q) (wp_round_index q) (wp_client_id q) (sv_buffer sv)"
    "DecryptSubmission C ctx q (sv_crypto sv) = Inr p" "length p mod 4 = 0"
    "commit_outcome A C N cfg clks q None (floats_of (se_of_bytes N) p) sv = (Inr (rs, w), (b, s3))" "ag_accepted rs"
  obtains r reg where "SubmitWeights A C N cfg clks ctx q sv =
      (Inr r, sv\<lparr>sv_registry := reg, sv_buffer := b, sv_store := s3\<rparr>)"
    "ar_accepted r" "ar_aggregation_triggered r = ag_aggregated rs"
    "\<And>t m c p. IsRegisteredForPeer t m c p reg = IsRegisteredForPeer t m c p (sv_registry sv)"
proof -
  let ?reg = "UpdateLastActiveRound (NormalizeTenant (wp_tenant_id q)) (NormalizeModel (wp_model_id q)) (wp_client_id q)
      (wp_round_index q) (sv_registry sv)"
  have "SubmitWeights A C N cfg clks ctx q sv = CommitSubmission A C N cfg clks q None (floats_of (se_of_bytes N) p) sv"
    using assms(1-9) unfolding SubmitWeights_unfold by (simp add: validated_def Let_def)
  then obtain r where "SubmitWeights A C N cfg clks ctx q sv = (Inr r, sv\<lparr>sv_registry := ?reg, sv_buffer := b, sv_store := s3\<rparr>)"
    "ar_accepted r" "ar_aggregation_triggered r = ag_aggregated rs"
    using assms(10,11) unfolding CommitSubmission_def commit_outcome_def Let_def option.case
    by (auto simp: submit_response_def)
  moreover have "IsRegisteredForPeer t m c p ?reg = IsRegisteredForPeer t m c p (sv_registry sv)" for t m c p
    using registry_call_peer [of "CallUpdateRound (NormalizeTenant (wp_tenant_id q)) (NormalizeModel (wp_model_id q))
        (wp_client_id q) (wp_round_index q)" "sv_registry sv"]
    by (simp add: IsRegisteredForPeer_peer)
  ultimately show ?thesis by (rule that)
qed

definition test_peer :: server_context where
  "test_peer = Some \<lparr>auth_authenticated = True, auth_identities = [kTestCertIdentity]\<rparr>"

definition open_config :: "(32 word) TrainingConfig" where
  "open_config = \<lparr>tc_target_rounds = 0, tc_learning_rate = 0, tc_batch_size = 0, tc_required_clients = 2, tc_clip_norm = 0,
     tc_aggregation_strategy = ''trimmed_mean'', tc_tenant_id = '''', tc_model_id = '''', tc_active_model_version = 0,
     tc_active_key_version = 1, tc_server_momentum = 0, tc_job_id = '''', tc_dataset_id = '''', tc_dataset_fingerprint = '''',
     tc_assigned_round_index = 0, tc_assignment_id = '''', tc_assignment_expires_at = '''', tc_base_model_version = 0,
     tc_job_status = '''', tc_assignment_ready = False, tc_assignment_message = '''', tc_payload_kem_public_key = [],
     tc_payload_kem_algorithm = ''''\<rparr>"

definition round_config :: "(32 word) config" where
  "round_config = word_config\<lparr>cfg_aggregation_strategy := ''trimmed_mean''\<rparr>"

definition edge_info :: "string \<Rightarrow> ClientInfo" where
  "edge_info cid = alice_info\<lparr>ci_tenant_id := kTenantId, ci_model_id := kModelId, ci_client_id := cid,
     ci_peer_identity := kTestCertIdentity\<rparr>"

definition round_server :: "(32 word) server" where
  "round_server = \<lparr>sv_crypto = demo_engine, sv_store = demo_empty,
     sv_registry = snd (Register (edge_info ''edge-2'') (snd (Register (edge_info ''edge-1'') Mapping.empty))),
     sv_buffer = empty_buffer\<rparr>"

lemma edge_payload:
  assumes "cid = ''edge-1'' \<or> cid = ''edge-2''" and "ws \<noteq> []"
  obtains q where "SendWeights null_prims word_client cid ws open_config = Inr (Some q)" "wp_client_id q = cid"
    "wp_round_index q = 1" "wp_tenant_id q = kTenantId" "wp_model_id q = kModelId" "wp_base_model_version q = 0"
    "wp_local_dataset_size q = 100" "CheckSubmitRequest q = None" "sealed_by_client null_prims ReadUint32BigEndian test_peer demo_engine q ws"
    "DecryptSubmission null_prims test_peer q demo_engine = Inr (bytes_of WriteUint32BigEndian ws)"
proof -
  have ne: "bytes_of WriteUint32BigEndian ws \<noteq> []"
    using assms(2) by (cases ws) (auto simp: bytes_of_def WriteUint32BigEndian_def)
  have ids: "ValidateFederatedRequestIds kTenantId kModelId cid = ''''"
    using assms(1) by (elim disjE) (simp_all add: ValidateFederatedRequestIds_def ValidateIdentifier_def default_max_length_def
      IsAllowedIdentifierChar_def isalnum_def Let_def kTenantId_def kModelId_def)
  have "\<exists>q. SendWeights null_prims word_client cid ws open_config = Inr (Some q) \<and> wp_client_id q = cid \<and>
      wp_round_index q = 1 \<and> wp_tenant_id q = kTenantId \<and> wp_model_id q = kModelId \<and> wp_base_model_version q = 0 \<and>
      wp_local_dataset_size q = 100 \<and> CheckSubmitRequest q = None"
    using ne
    by (simp add: test_client_defs SealPayload_def ClientSubmitKey_def word_client_def null_prims_def open_config_def
        DeriveSessionKeyWithSecret_def KEY_SIZE_def EncryptWithKey_def CheckSubmitRequest_def ids TAG_SIZE_def
        blank_payload_def Let_def)
  then obtain q where q: "SendWeights null_prims word_client cid ws open_config = Inr (Some q)"
    and f: "wp_client_id q = cid" "wp_round_index q = 1" "wp_tenant_id q = kTenantId" "wp_model_id q = kModelId"
      "wp_base_model_version q = 0" "wp_local_dataset_size q = 100" "CheckSubmitRequest q = None" by blast
  have peer: "GetPeerIdentity test_peer = kTestCertIdentity" by (simp add: test_peer_def GetPeerIdentity_def)
  have keys: "tc_payload_kem_public_key open_config = []" "ke_payload_secret word_client = ce_payload_secret demo_engine"
    "ke_to_bytes word_client = WriteUint32BigEndian"
    by (simp_all add: open_config_def word_client_def demo_engine_def)
  have "DecryptSubmission null_prims test_peer q demo_engine = Inr (bytes_of (ke_to_bytes word_client) ws)"
    by (rule SealPayload_opens [OF q [unfolded test_client_defs Let_def] null_prims_correct(1)])
      (use keys peer in simp_all)
  moreover have "sealed_by_client null_prims ReadUint32BigEndian test_peer demo_engine q ws"
    unfolding sealed_by_client_def using q keys peer word_bytes by (metis (no_types))
  ultimately show ?thesis using that [OF q] f keys by simp
qed

definition one_in :: "(32 word) weight_buffer" where
  "one_in = StoreSubmission word_arith (agg_params_of round_config 2) \<lparr>rq_tenant_id = kTenantId, rq_model_id = kModelId,
     rq_client_id = ''edge-1'', rq_round = 1, rq_dataset_size = 100, rq_weights = [2, 4]\<rparr> empty_buffer"

lemma first_waits:
  assumes "wp_client_id q = ''edge-1''" "wp_round_index q = 1" "wp_tenant_id q = kTenantId" "wp_model_id q = kModelId"
    "wp_local_dataset_size q = 100" "sv_buffer sv = empty_buffer" "sv_crypto sv = demo_engine"
  shows "\<exists>rs w s3. commit_outcome word_arith null_prims word_env round_config (\<lambda>_ _. 1000) q None [2, 4] sv =
      (Inr (rs, w), (one_in, s3)) \<and> ag_accepted rs \<and> \<not> ag_aggregated rs \<and> training_jobs s3 = training_jobs (sv_store sv)"
  using assms
  by (simp add: commit_outcome_def AddWeightAndCheckAggregate_def Let_def one_in_def buffer_env_of_def word_env_def
      NormalizeTenant_def NormalizeModel_def kTenantId_def kModelId_def agg_params_of_def round_config_def word_config_def
      default_config_def StoreSubmission_def empty_buffer_def Weight_Buffer.entries_def frame_simps)

lemma second_aggregates:
  assumes "wp_client_id q = ''edge-2''" "wp_round_index q = 1" "wp_tenant_id q = kTenantId" "wp_model_id q = kModelId"
    "wp_local_dataset_size q = 100" "sv_buffer sv = one_in" "sv_crypto sv = demo_engine"
  shows "\<exists>rs w b s3. commit_outcome word_arith null_prims word_env round_config (\<lambda>_ _. 1000) q None [4, 8] sv =
      (Inr (rs, w), (b, s3)) \<and> ag_accepted rs \<and> ag_aggregated rs"
proof -
  let ?E = "buffer_env_of null_prims word_env demo_engine" and ?P = "agg_params_of round_config 2"
  let ?rq = "\<lparr>rq_tenant_id = kTenantId, rq_model_id = kModelId, rq_client_id = ''edge-2'', rq_round = 1,
      rq_dataset_size = 100, rq_weights = [4, 8 :: 32 word]\<rparr>"
  let ?s = "RecordWeightSubmission (\<lambda>_. 1000) kTenantId kModelId ''edge-2'' 1
      (UpdateClientLastRound kTenantId kModelId ''edge-2'' 1 (sv_store sv))"
  have eq: "commit_outcome word_arith null_prims word_env round_config (\<lambda>_ _. 1000) q None [4, 8] sv =
      AddWeightAndCheckAggregate word_arith ?E ?P (\<lambda>_. 1000) ?rq (one_in, ?s)"
    using assms by (simp add: commit_outcome_def round_config_def word_config_def default_config_def
        NormalizeTenant_def NormalizeModel_def kTenantId_def kModelId_def)
  have ws: "round_clients word_arith ?E ?P ?rq one_in = [(''edge-1'', [2, 4]), (''edge-2'', [4, 8])]"
    by (simp add: round_clients_def one_in_def StoreSubmission_def Weight_Buffer.entries_def empty_buffer_def buffer_env_of_def
        word_env_def agg_params_of_def round_config_def word_config_def ClipWeights_def word_arith_def)
  have free: "rq_key ?rq \<notin> buffer_rounds one_in" by (simp add: one_in_def empty_buffer_def)
  have enough: "ap_required_clients ?P = 2" by (simp add: agg_params_of_def)
  have valid: "ValidateWeights word_arith [(''edge-1'', [2, 4]), (''edge-2'', [4, 8])] = None"
    by (simp add: ValidateWeights_def word_arith_def)
  have dir: "env_mkdir ?E d = None" for d by (simp add: buffer_env_of_def word_env_def)
  have saved: "PersistCheckpoint ?E path w = None" for path w
    by (simp add: PersistCheckpoint_def buffer_env_of_def word_env_def EncryptBlob_def EncryptWithKey_def null_prims_def)
  show ?thesis
    unfolding eq
    by (cases rule: AddWeight_cases [of ?rq one_in word_arith ?E ?P "\<lambda>_. 1000" ?s])
      (use free in \<open>simp_all add: ws enough valid dir saved\<close>)
qed

lemma kTestCertIdentity_ne: "kTestCertIdentity \<noteq> []"
  by (simp add: kTestCertIdentity_def)

lemma round_server_facts:
  "sv_buffer round_server = empty_buffer" "sv_crypto round_server = demo_engine" "training_jobs (sv_store round_server) = []"
  "cid = ''edge-1'' \<or> cid = ''edge-2'' \<Longrightarrow>
    IsRegisteredForPeer kTenantId kModelId cid (NormalizePeerIdentity (GetPeerIdentity test_peer)) (sv_registry round_server)"
proof -
  show "sv_buffer round_server = empty_buffer" "sv_crypto round_server = demo_engine" "training_jobs (sv_store round_server) = []"
    by (simp_all add: round_server_def)
  have "NormalizePeerIdentity (GetPeerIdentity test_peer) = kTestCertIdentity"
    by (simp add: test_peer_def GetPeerIdentity_def NormalizePeerIdentity_def NormalizeIdentity_def Trim_def isspace_def
        kTestCertIdentity_def Let_def)
  then show "IsRegisteredForPeer kTenantId kModelId cid (NormalizePeerIdentity (GetPeerIdentity test_peer)) (sv_registry round_server)"
    if "cid = ''edge-1'' \<or> cid = ''edge-2''"
    using that kTestCertIdentity_ne by (auto simp: round_server_def IsRegisteredForPeer_def Register_def edge_info_def
        alice_info_def Let_def lookup_update' kTenantId_def kModelId_def)
qed

lemma test_peer_authenticated: "IsPeerAuthenticated test_peer"
  by (simp add: test_peer_def IsPeerAuthenticated_def)

lemma word_floats: "floats_of (se_of_bytes word_env) (bytes_of WriteUint32BigEndian ws) = ws"
  using floats_of_bytes [OF word_bytes, of ws] by (simp add: word_env_def)

lemma word_bytes_whole: "length (bytes_of WriteUint32BigEndian ws) mod 4 = 0"
  by (induction ws) (simp_all add: bytes_of_def WriteUint32BigEndian_def)

lemma trimmed_example:
  "AggregateClients word_arith (agg_params_of round_config 0)
     (se_order word_env (clipped word_arith round_config [(''edge-1'', 100, [2, 4]), (''edge-2'', 100, [4, 8])]))
     (sample_counts [(''edge-1'', 100, [2 :: 32 word, 4]), (''edge-2'', 100, [4, 8])]) = [3, 6]"
  by (simp add: AggregateClients_def agg_params_of_def round_config_def word_config_def default_config_def word_env_def
      clipped_def ClipWeights_def word_arith_def AggTrimmedMean_def
      trimmed_axis_def trim_count_of_def ratio_def trim_bounds_def sort_by_def Let_def)

text \<open>The two submissions, one after the other.\<close>

lemma both_submit:
  obtains q1 q2 r1 r2 sv1 sv2 where
    "wp_client_id q1 = ''edge-1''" "wp_local_dataset_size q1 = 100" "payload_key q1 = payload_key q2"
    "sealed_by_client null_prims ReadUint32BigEndian test_peer demo_engine q1 [2, 4]"
    "SubmitWeights word_arith null_prims word_env round_config (\<lambda>_ _. 1000) test_peer q1 round_server = (Inr r1, sv1)"
    "ar_accepted r1"
    "wp_client_id q2 = ''edge-2''" "wp_local_dataset_size q2 = 100" "sv_crypto sv1 = demo_engine"
    "sealed_by_client null_prims ReadUint32BigEndian test_peer demo_engine q2 [4, 8]"
    "SubmitWeights word_arith null_prims word_env round_config (\<lambda>_ _. 1000) test_peer q2 sv1 = (Inr r2, sv2)"
    "ar_accepted r2" "ar_aggregation_triggered r2"
proof -
  obtain q1 where q1: "wp_client_id q1 = ''edge-1''" "wp_round_index q1 = 1" "wp_tenant_id q1 = kTenantId"
      "wp_model_id q1 = kModelId" "wp_base_model_version q1 = 0" "wp_local_dataset_size q1 = 100" "CheckSubmitRequest q1 = None"
    and s1: "sealed_by_client null_prims ReadUint32BigEndian test_peer demo_engine q1 [2, 4]"
    and d1: "DecryptSubmission null_prims test_peer q1 demo_engine = Inr (bytes_of WriteUint32BigEndian [2, 4])"
    by (rule edge_payload [of "''edge-1''" "[2, 4]"]) auto
  obtain q2 where q2: "wp_client_id q2 = ''edge-2''" "wp_round_index q2 = 1" "wp_tenant_id q2 = kTenantId"
      "wp_model_id q2 = kModelId" "wp_base_model_version q2 = 0" "wp_local_dataset_size q2 = 100" "CheckSubmitRequest q2 = None"
    and s2: "sealed_by_client null_prims ReadUint32BigEndian test_peer demo_engine q2 [4, 8]"
    and d2: "DecryptSubmission null_prims test_peer q2 demo_engine = Inr (bytes_of WriteUint32BigEndian [4, 8])"
    by (rule edge_payload [of "''edge-2''" "[4, 8]"]) auto
  obtain rs w s3 where c1: "commit_outcome word_arith null_prims word_env round_config (\<lambda>_ _. 1000) q1 None [2, 4] round_server =
      (Inr (rs, w), (one_in, s3))" "ag_accepted rs" "\<not> ag_aggregated rs" "training_jobs s3 = []"
    using first_waits [of q1 round_server] q1 round_server_facts by auto
  obtain r1 reg where r1: "SubmitWeights word_arith null_prims word_env round_config (\<lambda>_ _. 1000) test_peer q1 round_server =
      (Inr r1, round_server\<lparr>sv_registry := reg, sv_buffer := one_in, sv_store := s3\<rparr>)" "ar_accepted r1"
    and reg: "\<And>t m c p. IsRegisteredForPeer t m c p reg = IsRegisteredForPeer t m c p (sv_registry round_server)"
    by (rule submit_no_job [of q1 test_peer round_server null_prims "bytes_of WriteUint32BigEndian [2, 4]" word_arith word_env
        round_config "\<lambda>_ _. 1000" rs w one_in s3])
      (use q1 d1 c1 in \<open>simp_all add: round_server_facts test_peer_authenticated word_floats word_bytes_whole
        GetActiveTrainingJob_def rfind_def IsRoundCompleted_def HasClientSubmission_def empty_buffer_def\<close>)
  let ?sv1 = "round_server\<lparr>sv_registry := reg, sv_buffer := one_in, sv_store := s3\<rparr>"
  obtain rs2 w2 b2 s4 where c2: "commit_outcome word_arith null_prims word_env round_config (\<lambda>_ _. 1000) q2 None [4, 8] ?sv1 =
      (Inr (rs2, w2), (b2, s4))" "ag_accepted rs2" "ag_aggregated rs2"
    using second_aggregates [of q2 ?sv1] q2 round_server_facts by auto
  obtain r2 reg2 where r2: "SubmitWeights word_arith null_prims word_env round_config (\<lambda>_ _. 1000) test_peer q2 ?sv1 =
      (Inr r2, ?sv1\<lparr>sv_registry := reg2, sv_buffer := b2, sv_store := s4\<rparr>)" "ar_accepted r2" "ar_aggregation_triggered r2"
    by (rule submit_no_job [of q2 test_peer ?sv1 null_prims "bytes_of WriteUint32BigEndian [4, 8]" word_arith word_env
        round_config "\<lambda>_ _. 1000" rs2 w2 b2 s4])
      (use q2 d2 c2 c1(4) in \<open>simp_all add: round_server_facts reg test_peer_authenticated word_floats word_bytes_whole
        GetActiveTrainingJob_def rfind_def IsRoundCompleted_def HasClientSubmission_def one_in_def StoreSubmission_def
        Weight_Buffer.entries_def empty_buffer_def\<close>)
  show ?thesis
    by (rule that [OF q1(1,6) _ s1 r1 q2(1,6) _ s2 r2]) (use q1 q2 in \<open>simp_all add: payload_key_def round_server_facts\<close>)
qed

lemma update_prepared:
  assumes "mr_client_kem_public_key q = replicate 32 4"
  shows "\<exists>u. PrepareUpdate null_prims (word_stream demo_server) worker_peer q latest = Inr (Inr u)"
  by (simp add: PrepareUpdate_def StreamSessionKey_def assms word_stream_def null_prims_def EncapsulateKem_def
      DeriveSessionKeyFromKemSecret_def DeriveSessionKeyWithSecret_def KEY_SIZE_def EncryptWithKey_def Let_def)


end
