(* ===== verification/Logger_Model.thy ===== *)
theory Logger_Model
  imports Timestamps
begin

text \<open>
  \<open>server/logger.hpp\<close>: structured log lines on standard output. \<open>Log\<close> takes the mutex of the class,
  builds a JSON object, prints its text and a line break, and gives the mutex back when it returns or
  throws. First the method as a function on the output, as a single thread sees it; then its steps, as
  the threads of the server interleave them. The JSON library is a parameter: \<open>dump\<close> is \<open>None\<close> where
  \<open>json::dump\<close> throws (on text that is not UTF-8).
\<close>

section \<open>The entry\<close>

datatype LogLevel = INFO | WARN | ERROR | FATAL

fun LevelToString :: "LogLevel \<Rightarrow> string" where
  "LevelToString INFO = ''INFO''"
| "LevelToString WARN = ''WARN''"
| "LevelToString ERROR = ''ERROR''"
| "LevelToString FATAL = ''FATAL''"

definition GetTimestamp :: "nat \<Rightarrow> string" where
  "GetTimestamp now = format_civil (gmtime now)"

text \<open>A JSON object is a map ordered by its keys; assigning to a member inserts or replaces it.\<close>

type_synonym json_object = "(string \<times> string) list"

fun set_member :: "string \<Rightarrow> string \<Rightarrow> json_object \<Rightarrow> json_object" where
  "set_member k v [] = [(k, v)]"
| "set_member k v ((k', v') # ob) =
     (if k = k' then (k, v) # ob else if k < k' then (k, v) # (k', v') # ob else (k', v') # set_member k v ob)"

record log_call =
  lc_level :: LogLevel
  lc_message :: string
  lc_component :: string

definition log_entry :: "nat \<Rightarrow> log_call \<Rightarrow> json_object" where
  "log_entry now c =
     set_member ''message'' (lc_message c)
       (set_member ''component'' (lc_component c)
         (set_member ''level'' (LevelToString (lc_level c))
           (set_member ''timestamp'' (GetTimestamp now) [])))"

section \<open>The method\<close>

type_synonym json_dump = "json_object \<Rightarrow> string option"

definition endl :: string where "endl = [CHR 0x0A]"

text \<open>The result is \<open>None\<close> when the call throws; nothing is printed then.\<close>

definition Log :: "json_dump \<Rightarrow> nat \<Rightarrow> log_call \<Rightarrow> string \<Rightarrow> unit option \<times> string" where
  "Log dump now c out =
     (case dump (log_entry now c) of None \<Rightarrow> (None, out) | Some text \<Rightarrow> (Some (), out @ text @ endl))"

definition server_component :: string where "server_component = ''Server''"

definition Info :: "string \<Rightarrow> string \<Rightarrow> log_call" where
  "Info message component = \<lparr>lc_level = INFO, lc_message = message, lc_component = component\<rparr>"

definition Warn :: "string \<Rightarrow> string \<Rightarrow> log_call" where
  "Warn message component = \<lparr>lc_level = WARN, lc_message = message, lc_component = component\<rparr>"

definition Error :: "string \<Rightarrow> string \<Rightarrow> log_call" where
  "Error message component = \<lparr>lc_level = ERROR, lc_message = message, lc_component = component\<rparr>"

definition Fatal :: "string \<Rightarrow> string \<Rightarrow> log_call" where
  "Fatal message component = \<lparr>lc_level = FATAL, lc_message = message, lc_component = component\<rparr>"

section \<open>The threads\<close>

text \<open>
  Where a thread is: outside the method, inside with the mutex, with the timestamp taken, with the
  text dumped, with the text printed, with the line ended. \<open>lg_owner\<close> is the mutex, \<open>lg_now\<close> the
  clock.
\<close>

datatype log_pc =
    Outside
  | Locked log_call
  | Stamped log_call nat
  | Dumped log_call nat string
  | Printed log_call nat
  | Ended

record log_state =
  lg_owner :: "nat option"
  lg_pc :: "nat \<Rightarrow> log_pc"
  lg_now :: nat
  lg_out :: string

definition log_start :: "nat \<Rightarrow> log_state" where
  "log_start now = \<lparr>lg_owner = None, lg_pc = (\<lambda>_. Outside), lg_now = now, lg_out = ''''\<rparr>"

abbreviation at_pc :: "nat \<Rightarrow> log_pc \<Rightarrow> log_state \<Rightarrow> log_state" where
  "at_pc t pc s \<equiv> s\<lparr>lg_pc := (lg_pc s)(t := pc)\<rparr>"

text \<open>The first step takes the mutex, which blocks while another thread has it.\<close>

definition enter_log :: "nat \<Rightarrow> log_call \<Rightarrow> log_state \<Rightarrow> log_state option" where
  "enter_log t c s =
     (if lg_pc s t = Outside \<and> lg_owner s = None then Some ((at_pc t (Locked c) s)\<lparr>lg_owner := Some t\<rparr>) else None)"

text \<open>The other steps of a thread inside: its next state and the calls whose line it ends. An exception
  of \<open>dump\<close> leaves the method and unlocks.\<close>

definition advance_log :: "json_dump \<Rightarrow> nat \<Rightarrow> log_state \<Rightarrow> ((nat \<times> log_call) list \<times> log_state) option" where
  "advance_log dump t s =
     (case lg_pc s t of
        Outside \<Rightarrow> None
      | Locked c \<Rightarrow> Some ([], at_pc t (Stamped c (lg_now s)) s)
      | Stamped c n \<Rightarrow>
          (case dump (log_entry n c) of
             None \<Rightarrow> Some ([], (at_pc t Outside s)\<lparr>lg_owner := None\<rparr>)
           | Some text \<Rightarrow> Some ([], at_pc t (Dumped c n text) s))
      | Dumped c n text \<Rightarrow> Some ([], (at_pc t (Printed c n) s)\<lparr>lg_out := lg_out s @ text\<rparr>)
      | Printed c n \<Rightarrow> Some ([(n, c)], (at_pc t Ended s)\<lparr>lg_out := lg_out s @ endl\<rparr>)
      | Ended \<Rightarrow> Some ([], (at_pc t Outside s)\<lparr>lg_owner := None\<rparr>))"

inductive log_step :: "json_dump \<Rightarrow> log_state \<Rightarrow> (nat \<times> log_call) list \<Rightarrow> log_state \<Rightarrow> bool" for dump :: json_dump where
  enter: "enter_log t c s = Some s' \<Longrightarrow> log_step dump s [] s'"
| advance: "advance_log dump t s = Some (es, s') \<Longrightarrow> log_step dump s es s'"
| clock: "lg_now s \<le> now \<Longrightarrow> log_step dump s [] (s\<lparr>lg_now := now\<rparr>)"

text \<open>A run with the calls whose line is complete, in the order of the lines.\<close>

inductive log_run :: "json_dump \<Rightarrow> log_state \<Rightarrow> (nat \<times> log_call) list \<Rightarrow> log_state \<Rightarrow> bool" for dump :: json_dump where
  log_nil: "log_run dump s [] s"
| log_snoc: "log_run dump s es s' \<Longrightarrow> log_step dump s' es' s'' \<Longrightarrow> log_run dump s (es @ es') s''"

section \<open>Reading the output\<close>

text \<open>The complete lines of a text.\<close>

fun text_lines :: "string \<Rightarrow> string \<Rightarrow> string list" where
  "text_lines acc [] = []"
| "text_lines acc (c # cs) = (if [c] = endl then acc # text_lines '''' cs else text_lines (acc @ [c]) cs)"

definition output_lines :: "string \<Rightarrow> string list" where
  "output_lines out = text_lines '''' out"

end
