(* ===== verification/Logger_Guarantees.thy ===== *)
theory Logger_Guarantees
  imports Logger_Model Store_Scenario
begin

text \<open>
  What the log promises: the threads take turns, so the output is the lines of the entries one after
  the other, in the order of the timestamps, and whoever reads it line by line gets back the entries,
  whatever the messages contain. The invariant says what of a line a thread inside the method has
  printed. At the end a JSON text for ASCII, to run the model on.
\<close>

section \<open>The entry\<close>

lemma GetTimestamp_CurrentTimestamp: "GetTimestamp now = CurrentTimestamp now"
  by (simp add: GetTimestamp_def CurrentTimestamp_def)

lemma log_entry_members:
  "log_entry now c =
     [(''component'', lc_component c), (''level'', LevelToString (lc_level c)), (''message'', lc_message c),
      (''timestamp'', GetTimestamp now)]"
  unfolding log_entry_def by (simp add: less_char_def)

lemma LevelToString_inj: "LevelToString l = LevelToString l' \<longleftrightarrow> l = l'"
  by (cases l; cases l') auto

section \<open>The invariant of the threads\<close>

definition log_line :: "json_dump \<Rightarrow> nat \<times> log_call \<Rightarrow> string" where
  "log_line dump e = the (dump (log_entry (fst e) (snd e))) @ endl"

fun partial_line :: "json_dump \<Rightarrow> log_pc \<Rightarrow> string" where
  "partial_line dump (Printed c n) = the (dump (log_entry n c))"
| "partial_line dump _ = ''''"

fun pc_ok :: "json_dump \<Rightarrow> (nat \<times> log_call) list \<Rightarrow> nat \<Rightarrow> log_pc \<Rightarrow> bool" where
  "pc_ok dump es now (Stamped c n) \<longleftrightarrow> n \<le> now \<and> (\<forall>e\<in>set es. fst e \<le> n)"
| "pc_ok dump es now (Dumped c n text) \<longleftrightarrow> n \<le> now \<and> (\<forall>e\<in>set es. fst e \<le> n) \<and> dump (log_entry n c) = Some text"
| "pc_ok dump es now (Printed c n) \<longleftrightarrow> n \<le> now \<and> (\<forall>e\<in>set es. fst e \<le> n) \<and> dump (log_entry n c) \<noteq> None"
| "pc_ok dump es now _ \<longleftrightarrow> True"

definition owned_pc :: "log_state \<Rightarrow> log_pc" where
  "owned_pc s = (case lg_owner s of None \<Rightarrow> Outside | Some t \<Rightarrow> lg_pc s t)"

definition log_inv :: "json_dump \<Rightarrow> (nat \<times> log_call) list \<Rightarrow> log_state \<Rightarrow> bool" where
  "log_inv dump es s \<longleftrightarrow>
     (\<forall>t. lg_pc s t \<noteq> Outside \<longleftrightarrow> lg_owner s = Some t) \<and>
     lg_out s = concat (map (log_line dump) es) @ partial_line dump (owned_pc s) \<and>
     pc_ok dump es (lg_now s) (owned_pc s) \<and>
     (\<forall>e\<in>set es. fst e \<le> lg_now s \<and> dump (log_entry (fst e) (snd e)) \<noteq> None) \<and>
     sorted (map fst es)"

lemma pc_ok_later: "pc_ok dump es now pc \<Longrightarrow> now \<le> now' \<Longrightarrow> pc_ok dump es now' pc"
  by (cases pc) auto

lemma log_inv_enter:
  assumes "log_inv dump es s" and "enter_log t c s = Some s'"
  shows "log_inv dump es s'"
  using assms by (auto simp: log_inv_def enter_log_def owned_pc_def split: if_splits)

lemma owned_pc_clock [simp]: "owned_pc (s\<lparr>lg_now := now\<rparr>) = owned_pc s"
  by (simp add: owned_pc_def split: option.splits)

lemma log_inv_clock: "log_inv dump es s \<Longrightarrow> lg_now s \<le> now \<Longrightarrow> log_inv dump es (s\<lparr>lg_now := now\<rparr>)"
  by (auto simp: log_inv_def intro: pc_ok_later order_trans)

lemma year_mono: "a \<le> b \<Longrightarrow> c_year (gmtime a) \<le> c_year (gmtime b)"
  using gmtime_le_iff [of a b] by (auto simp: less_eq_civil_time_def civil_fields_def)

lemma log_inv_advance:
  assumes inv: "log_inv dump es s" and step: "advance_log dump t s = Some (es', s')"
  shows "log_inv dump (es @ es') s'"
proof -
  have own: "lg_owner s = Some t" and "lg_pc s t \<noteq> Outside"
    using inv step by (auto simp: log_inv_def advance_log_def split: log_pc.splits)
  then have pc: "owned_pc s = lg_pc s t" by (simp add: owned_pc_def)
  show ?thesis
    using inv step own
    by (cases "lg_pc s t")
      (auto simp: log_inv_def advance_log_def pc owned_pc_def log_line_def sorted_append split: option.splits if_splits)
qed

lemma log_inv_step: "log_step dump s es' s' \<Longrightarrow> log_inv dump es s \<Longrightarrow> log_inv dump (es @ es') s'"
  by (induction rule: log_step.induct) (simp_all add: log_inv_enter log_inv_advance log_inv_clock)

lemma log_inv_start: "log_inv dump [] (log_start now)"
  by (simp add: log_inv_def log_start_def owned_pc_def)

lemma log_inv_run: "log_run dump s es s' \<Longrightarrow> log_inv dump [] s \<Longrightarrow> log_inv dump es s'"
  by (induction rule: log_run.induct) (simp_all add: log_inv_step)

section \<open>Reading the output\<close>

lemma text_lines_line: "CHR 0x0A \<notin> set xs \<Longrightarrow> text_lines acc (xs @ endl @ rest) = (acc @ xs) # text_lines '''' rest"
  by (induction xs arbitrary: acc) (auto simp: endl_def)

lemma output_lines_read:
  assumes laws: "\<And>ob text. dump ob = Some text \<Longrightarrow> parse text = Some ob \<and> CHR 0x0A \<notin> set text"
    and dumps: "\<forall>e\<in>set es. dump (log_entry (fst e) (snd e)) \<noteq> None"
  shows "map parse (text_lines '''' (concat (map (log_line dump) es))) = map (\<lambda>e. Some (log_entry (fst e) (snd e))) es"
  using dumps
proof (induction es)
  case (Cons e es)
  then obtain tx where "dump (log_entry (fst e) (snd e)) = Some tx" by auto
  with laws [OF this] Cons show ?case by (simp add: log_line_def text_lines_line)
qed simp

section \<open>Whole calls\<close>

lemma log_run_trans: "log_run dump s' es' s'' \<Longrightarrow> log_run dump s es s' \<Longrightarrow> log_run dump s (es @ es') s''"
  by (induction rule: log_run.induct) (auto simp flip: append_assoc intro: log_run.log_snoc)

text \<open>A thread that runs undisturbed does what the method \<open>Log\<close> does.\<close>

lemma log_call_prints:
  assumes "lg_owner s = None" "lg_pc s t = Outside" and dumps: "dump (log_entry (lg_now s) c) = Some text"
  shows "log_run dump s [(lg_now s, c)] (s\<lparr>lg_out := snd (Log dump (lg_now s) c (lg_out s))\<rparr>)"
proof -
  let ?n = "lg_now s"
  let ?s1 = "(at_pc t (Locked c) s)\<lparr>lg_owner := Some t\<rparr>"
  let ?s2 = "at_pc t (Stamped c ?n) ?s1"
  let ?s3 = "at_pc t (Dumped c ?n text) ?s2"
  let ?s4 = "(at_pc t (Printed c ?n) ?s3)\<lparr>lg_out := lg_out s @ text\<rparr>"
  let ?s5 = "(at_pc t Ended ?s4)\<lparr>lg_out := (lg_out s @ text) @ endl\<rparr>"
  let ?s6 = "(at_pc t Outside ?s5)\<lparr>lg_owner := None\<rparr>"
  have first: "log_step dump s [] ?s1" using assms by (intro log_step.enter [of t c]) (simp add: enter_log_def)
  have "log_step dump ?s1 [] ?s2" "log_step dump ?s2 [] ?s3" "log_step dump ?s3 [] ?s4"
    "log_step dump ?s4 [(?n, c)] ?s5" "log_step dump ?s5 [] ?s6"
    by (rule log_step.advance [of _ t], simp add: advance_log_def dumps)+
  note steps = first this
  have "log_run dump s (((((([] @ []) @ []) @ []) @ []) @ [(?n, c)]) @ []) ?s6"
    by (rule log_run.intros steps)+
  moreover have "?s6 = s\<lparr>lg_out := snd (Log dump ?n c (lg_out s))\<rparr>"
    using assms by (cases s) (simp add: Log_def fun_upd_idem)
  ultimately show ?thesis by simp
qed

text \<open>Nobody waits for the mutex for ever: whoever has it gives it back.\<close>

fun steps_left :: "log_pc \<Rightarrow> nat" where
  "steps_left (Locked c) = 5"
| "steps_left (Stamped c n) = 4"
| "steps_left (Dumped c n text) = 3"
| "steps_left (Printed c n) = 2"
| "steps_left Ended = 1"
| "steps_left Outside = 0"

lemma advance_log_decreases:
  assumes "lg_pc s t \<noteq> Outside" and "lg_owner s = Some t"
  obtains es s' where "advance_log dump t s = Some (es, s')" "steps_left (lg_pc s' t) < steps_left (lg_pc s t)"
    "lg_owner s' = Some t \<and> lg_pc s' t \<noteq> Outside \<or> lg_owner s' = None"
  using assms
  by (cases "lg_pc s t"; cases "dump (log_entry (case lg_pc s t of Stamped c n \<Rightarrow> n) (case lg_pc s t of Stamped c n \<Rightarrow> c))")
    (auto simp: advance_log_def)

lemma log_mutex_released:
  assumes "lg_owner s = Some t" and "lg_pc s t \<noteq> Outside"
  shows "\<exists>es s'. log_run dump s es s' \<and> lg_owner s' = None"
  using assms
proof (induction "steps_left (lg_pc s t)" arbitrary: s rule: less_induct)
  case less
  obtain es s' where s': "advance_log dump t s = Some (es, s')" "steps_left (lg_pc s' t) < steps_left (lg_pc s t)"
    "lg_owner s' = Some t \<and> lg_pc s' t \<noteq> Outside \<or> lg_owner s' = None"
    using advance_log_decreases less.prems by blast
  then have run: "log_run dump s ([] @ es) s'" by (blast intro: log_run.intros log_step.advance)
  show ?case using s'(3) less.hyps [OF s'(2)] log_run_trans [OF _ run] run by blast
qed

section \<open>A JSON text\<close>

text \<open>The texts of the library for objects of ASCII strings, up to the short forms of some escapes; other
  strings are refused.\<close>

definition hex_digit :: "nat \<Rightarrow> char" where
  "hex_digit n = char_of (if n < 10 then n + 48 else n + 87)"

definition hex_value :: "char \<Rightarrow> nat" where
  "hex_value c = (let n = of_char c in if n < 58 then n - 48 else n - 87)"

definition escape_char :: "char \<Rightarrow> string" where
  "escape_char c =
     (if c = CHR 0x22 \<or> c = CHR 0x5C \<or> of_char c < (32::nat)
      then CHR 0x5C # ''u00'' @ [hex_digit (of_char c div 16), hex_digit (of_char c mod 16)] else [c])"

definition quoted :: "string \<Rightarrow> string" where
  "quoted s = CHR 0x22 # concat (map escape_char s) @ [CHR 0x22]"

fun json_members :: "json_object \<Rightarrow> string" where
  "json_members [] = ''}''"
| "json_members [(k, v)] = quoted k @ '':'' @ quoted v @ ''}''"
| "json_members ((k, v) # ob) = quoted k @ '':'' @ quoted v @ '','' @ json_members ob"

definition ascii_dump :: json_dump where
  "ascii_dump ob =
     (if \<forall>(k, v) \<in> set ob. \<forall>c \<in> set (k @ v). of_char c < (128::nat) then Some (''{'' @ json_members ob) else None)"

fun read_chars :: "string \<Rightarrow> (string \<times> string) option" where
  "read_chars [] = None"
| "read_chars (c # cs) =
     (if c = CHR 0x22 then Some ('''', cs)
      else if c \<noteq> CHR 0x5C then map_option (apfst (Cons c)) (read_chars cs)
      else (case cs of
          u # z # z' # h # l # ds \<Rightarrow>
            map_option (apfst (Cons (char_of (16 * hex_value h + hex_value l)))) (read_chars ds)
        | _ \<Rightarrow> None))"

fun read_quoted :: "string \<Rightarrow> (string \<times> string) option" where
  "read_quoted [] = None"
| "read_quoted (c # cs) = (if c = CHR 0x22 then read_chars cs else None)"

text \<open>The fuel bounds the number of members.\<close>

fun read_members :: "nat \<Rightarrow> string \<Rightarrow> json_object option" where
  "read_members 0 cs = None"
| "read_members (Suc n) cs =
     (if cs = ''}'' then Some []
      else case read_quoted cs of
        Some (k, c # ds) \<Rightarrow>
          (case read_quoted ds of
             Some (v, e # es) \<Rightarrow> map_option (Cons (k, v)) (if e = CHR '','' then read_members n es else Some [])
           | _ \<Rightarrow> None)
      | _ \<Rightarrow> None)"

definition ascii_parse :: "string \<Rightarrow> json_object option" where
  "ascii_parse cs = (case cs of c # ds \<Rightarrow> read_members (length ds) ds | [] \<Rightarrow> None)"

lemma hex_value_digit [simp]: "n < 16 \<Longrightarrow> hex_value (hex_digit n) = n"
  by (auto simp: hex_value_def hex_digit_def Let_def)

lemma read_chars_escaped: "read_chars (escape_char c @ cs) = map_option (apfst (Cons c)) (read_chars cs)"
proof -
  have "(of_char c :: nat) < 256" by simp
  then have "(of_char c :: nat) div 16 < 16" "(of_char c :: nat) mod 16 < 16" by (simp_all add: less_mult_imp_div_less)
  then show ?thesis by (simp add: escape_char_def)
qed

lemma read_quoted_quoted: "read_quoted (quoted s @ cs) = Some (s, cs)"
proof -
  have "read_chars (concat (map escape_char s) @ CHR 0x22 # cs) = Some (s, cs)"
    by (induction s) (simp_all add: read_chars_escaped)
  then show ?thesis by (simp add: quoted_def)
qed

lemma quoted_not_brace: "quoted k @ cs \<noteq> ''}''"
  by (simp add: quoted_def)

lemma read_members_dumped: "length ob < n \<Longrightarrow> read_members n (json_members ob) = Some ob"
proof (induction ob arbitrary: n rule: json_members.induct)
  case 1 then show ?case by (cases n) auto
next
  case (2 k v) then show ?case by (cases n) (auto simp: read_quoted_quoted quoted_not_brace)
next
  case (3 k v x ob)
  then show ?case by (cases n) (auto simp: read_quoted_quoted quoted_not_brace)
qed

lemma json_members_longer: "length ob < length (json_members ob)"
  by (induction ob rule: json_members.induct) auto

lemma escape_char_visible: "CHR 0x0A \<notin> set (escape_char c)"
proof -
  have hex: "CHR 0x0A \<noteq> hex_digit n" if "n < 16" for n
  proof
    assume "CHR 0x0A = hex_digit n"
    from this [symmetric] have "(of_char (hex_digit n) :: nat) = 10" by simp
    with that show False by (simp add: hex_digit_def split: if_splits)
  qed
  have "(of_char c :: nat) < 256" by simp
  then have "(of_char c :: nat) div 16 < 16" "(of_char c :: nat) mod 16 < 16" by (simp_all add: less_mult_imp_div_less)
  then show ?thesis using hex by (auto simp: escape_char_def simp del: of_char_of)
qed

lemma json_members_visible: "CHR 0x0A \<notin> set (json_members ob)"
  using escape_char_visible by (induction ob rule: json_members.induct) (auto simp: quoted_def)

lemma ascii_json_laws:
  "ascii_dump ob = Some tx \<Longrightarrow> ascii_parse tx = Some ob \<and> CHR 0x0A \<notin> set tx"
  by (auto simp: ascii_dump_def ascii_parse_def read_members_dumped json_members_longer json_members_visible
      split: if_splits)

section \<open>The output\<close>


text \<open>Two threads: the message of the first has a quote and a line break.\<close>

definition forged_line :: string where
  "forged_line = CHR 0x22 # CHR 0x0A # ''{''"


end
