(* ===== verification/Self_Test.thy ===== *)
theory Self_Test
  imports Store_Persist Store_Workers Crypto_Engine
begin

text \<open>
  \<open>server/pqfl_self_test.cpp\<close>: the program's own test of the crypto engine and the state store, statement
  by statement over the operations of the model. An exception is \<open>Inl\<close> of its message; \<open>Assert\<close> throws
  when its condition is false. The random draws and the clocks are arguments: \<open>clks i\<close> is the clock of
  the \<open>i\<close>-th store operation that reads one.
\<close>

definition Assert :: "bool \<Rightarrow> string \<Rightarrow> string + unit" where
  "Assert condition message = (if condition then Inr () else Inl message)"

definition and_then :: "string + 'a \<Rightarrow> ('a \<Rightarrow> string + 'b) \<Rightarrow> string + 'b" where
  "and_then m f = (case m of Inl err \<Rightarrow> Inl err | Inr x \<Rightarrow> f x)"

text \<open>Several assertions in a row.\<close>

fun assert_all :: "(bool \<times> string) list \<Rightarrow> string + unit" where
  "assert_all [] = Inr ()"
| "assert_all ((condition, message) # cs) = and_then (Assert condition message) (\<lambda>_. assert_all cs)"

definition string_bytes :: "string \<Rightarrow> byte list" where
  "string_bytes s = map (\<lambda>c. word_of_nat (of_char c)) s"

section \<open>The crypto engine\<close>

text \<open>The outcomes of the random number generator, in the order of the draws, and the key pair.\<close>

record draws =
  dr_master :: "byte list option"
  dr_payload :: "byte list option"
  dr_rotated :: "byte list option"
  dr_iv :: "nat \<Rightarrow> byte list option"
  dr_kem :: kem_outcome

definition no_key_files :: key_files where
  "no_key_files = \<lparr>kf_registry = None, kf_files = Map.empty\<rparr>"

definition TestCryptoRotation :: "crypto_prims \<Rightarrow> draws \<Rightarrow> string \<Rightarrow> string + unit" where
  "TestCryptoRotation C R temp_root =
     (case CryptoEngine (dr_master R) (dr_payload R) (dr_kem R) (path_join temp_root ''master.key'') '''' no_key_files of
        (Inl err, fs) \<Rightarrow> Inl err
      | (Inr crypto, fs) \<Rightarrow>
          and_then (EncryptBlob C (dr_iv R 0) crypto (string_bytes ''hello-world'')) (\<lambda>blob_v1.
          and_then (DecryptBlob C crypto blob_v1) (\<lambda>opened.
          and_then (Assert (opened = string_bytes ''hello-world'') ''initial decrypt failed'') (\<lambda>_.
          case RotateMasterKey (dr_rotated R) crypto fs of
            (Inl err, _) \<Rightarrow> Inl err
          | (Inr rotated_version, crypto2, fs2) \<Rightarrow>
              and_then (Assert (rotated_version = 2) ''key rotation did not advance version'') (\<lambda>_.
              and_then (EncryptBlob C (dr_iv R 1) crypto2 (string_bytes ''hello-world-v2'')) (\<lambda>blob_v2.
              and_then (DecryptBlob C crypto2 blob_v1) (\<lambda>opened.
              and_then (Assert (opened = string_bytes ''hello-world'') ''old blob decrypt failed after rotation'') (\<lambda>_.
              and_then (DecryptBlob C crypto2 blob_v2) (\<lambda>opened.
              Assert (opened = string_bytes ''hello-world-v2'') ''new blob decrypt failed after rotation'')))))))))"

definition test_context :: "string \<Rightarrow> string list" where
  "test_context round = [''pqfl-worker'', ''tenant-a'', ''model-a'', ''client-1'', round, ''submit'']"

definition TestSessionKeyDerivationUsesSecret :: "crypto_prims \<Rightarrow> string + unit" where
  "TestSessionKeyDerivationUsesSecret C =
     (let secret_a = replicate 32 0x11; secret_b = replicate 32 0x22 in
      and_then (DeriveSessionKeyWithSecret C secret_a (test_context ''1'')) (\<lambda>key_a1.
      and_then (DeriveSessionKeyWithSecret C secret_a (test_context ''1'')) (\<lambda>key_a2.
      and_then (DeriveSessionKeyWithSecret C secret_b (test_context ''1'')) (\<lambda>key_b.
      and_then (DeriveSessionKeyWithSecret C secret_a (test_context ''2'')) (\<lambda>key_context_changed.
      assert_all
        [(key_a1 = key_a2, ''same secret and context must derive the same key''),
         (key_a1 \<noteq> key_b, ''different secrets must derive different keys''),
         (key_a1 \<noteq> key_context_changed, ''different contexts must derive different keys'')])))))"

definition TestKemSessionKeyAgreement :: "crypto_prims \<Rightarrow> draws \<Rightarrow> string \<Rightarrow> string + unit" where
  "TestKemSessionKeyAgreement C R temp_root =
     (case CryptoEngine (dr_master R) (dr_payload R) (dr_kem R) (path_join temp_root ''master.key'') '''' no_key_files of
        (Inl err, fs) \<Rightarrow> Inl err
      | (Inr crypto, fs) \<Rightarrow>
          (case EncapsulateKem C (ce_kem_public_key crypto) of
             None \<Rightarrow> Inl ''ML-KEM-1024 encapsulation should succeed''
           | Some (kem_ciphertext, shared_secret) \<Rightarrow>
               and_then (DeriveSessionKeyFromKemSecret C shared_secret (test_context ''1'')) (\<lambda>client_key.
               and_then (DeriveKemSessionKey C crypto (test_context ''1'') kem_ciphertext) (\<lambda>server_key.
               Assert (client_key = server_key) ''ML-KEM-1024 client and server keys should match''))))"

section \<open>The state store\<close>

definition test_client :: PersistedClientRecord where
  "test_client = \<lparr>cl_tenant_id = ''tenant-a'', cl_model_id = ''model-a'', cl_client_id = ''client-1'',
     cl_peer_identity = ''pqfl-edge-client'', cl_local_dataset_size = 42, cl_hardware_info = ''x86'',
     cl_dataset_fingerprint = ''dataset-a'', cl_last_active_round = -1,
     cl_registered_at = ''2026-04-09T00:00:00.000Z''\<rparr>"

definition test_dataset :: PersistedDatasetRecord where
  "test_dataset = \<lparr>ds_tenant_id = ''tenant-a'', ds_model_id = ''model-a'', ds_dataset_id = ''dataset-a'',
     ds_fingerprint = ''fingerprint-a'', ds_storage_uri = ''s3://bucket/dataset-a'', ds_format = ''parquet'',
     ds_sample_count = 1000, ds_shard_count = 4, ds_active = True, ds_created_at = ''''\<rparr>"

definition test_job :: PersistedTrainingJobRecord where
  "test_job = \<lparr>jb_job_id = '''', jb_tenant_id = ''tenant-a'', jb_model_id = ''model-a'',
     jb_dataset_id = ''dataset-a'', jb_target_rounds = 2, jb_planned_clients = 2, jb_min_clients_per_round = 2,
     jb_assignment_ttl_seconds = 120, jb_status = ''planned'', jb_current_round = 1, jb_completed_rounds = 0,
     jb_active_model_version = 0, jb_created_at = '''', jb_activated_at = '''', jb_notes = ''test job''\<rparr>"

definition test_worker :: PersistedWorkerRecord where
  "test_worker = \<lparr>wk_worker_id = ''worker-1'', wk_trainer_client_id = ''client-1'', wk_tenant_id = ''tenant-a'',
     wk_model_id = ''model-a'', wk_hostname = ''host-a'', wk_launcher = ''sidecar'', wk_max_parallel_tasks = 1,
     wk_labels = [''cpu''], wk_status = ''idle'', wk_registered_at = '''', wk_last_heartbeat_at = '''',
     wk_active_task_id = ''''\<rparr>"

text \<open>An out-parameter that the call leaves alone is default-initialised.\<close>

definition dataset_out :: "PersistedDatasetRecord option \<Rightarrow> PersistedDatasetRecord" where
  "dataset_out d = (case d of None \<Rightarrow> default_dataset | Some d \<Rightarrow> d)"

text \<open>The two calls of \<open>LeaseTrainingAssignment\<close>, and the rest of the test after each.\<close>

definition test_lease ::
  "clock \<Rightarrow> state_store \<Rightarrow> string \<Rightarrow> (PersistedAssignmentLease \<times> PersistedTrainingJobRecord \<times> PersistedDatasetRecord
     \<Rightarrow> state_store \<Rightarrow> string + unit) \<Rightarrow> string + unit" where
  "test_lease clk store message rest =
     (case LeaseTrainingAssignment clk ''tenant-a'' ''model-a'' ''client-1'' 1 2 120 store of
        (None, _) \<Rightarrow> Inl message
      | (Some (assignment, job, dataset), store') \<Rightarrow> rest (assignment, job, dataset_out dataset) store')"

definition TestWorkerTask ::
  "(nat \<Rightarrow> clock) \<Rightarrow> PersistedWorkerRecord \<Rightarrow> PersistedAssignmentLease \<times> PersistedTrainingJobRecord \<times> PersistedDatasetRecord
     \<Rightarrow> state_store \<Rightarrow> string + unit" where
  "TestWorkerTask clks worker leased s0 =
     (case leased of (assignment2, leased_job2, leased_dataset2) \<Rightarrow>
      let (task, s1) = LeaseWorkerTask (clks 10) worker assignment2 leased_job2 leased_dataset2 s0;
          (updated, s2) = UpdateWorkerTaskStatus (clks 11) ''worker-1'' (tk_task_id task) ''running'' ''started'' 50 s1;
          (beaten, s3) = RecordWorkerHeartbeat (clks 12) ''worker-1'' (tk_task_id task) ''still running'' s2;
          s4 = AdvanceTrainingJobRound (clks 13) ''tenant-a'' ''model-a'' 1 2 s3;
          jobs = ListTrainingJobs ''tenant-a'' ''model-a'' '''' s4
      in assert_all
           [(tk_task_id task \<noteq> '''', ''worker task id should be populated''),
            (updated = Inr (), ''worker task should transition to running''),
            (beaten, ''worker heartbeat should succeed''),
            (jobs \<noteq> [], ''training jobs should be listed''),
            (jb_completed_rounds (last jobs) = 1, ''completed training rounds should advance''),
            (jb_current_round (last jobs) = 2, ''next training round should advance''),
            (length (ListWorkers ''tenant-a'' ''model-a'' s4) = 1, ''worker should be listed''),
            (ListWorkerTasks ''tenant-a'' ''model-a'' ''worker-1'' '''' s4 \<noteq> [], ''worker task should be listed'')])"

definition TestSubmission ::
  "(nat \<Rightarrow> clock) \<Rightarrow> PersistedAssignmentLease \<times> PersistedTrainingJobRecord \<times> PersistedDatasetRecord
     \<Rightarrow> state_store \<Rightarrow> string + unit" where
  "TestSubmission clks leased s0 =
     (case leased of (assignment, leased_job, leased_dataset) \<Rightarrow>
      let (checked, s1) = ValidateTrainingAssignmentSubmission (clks 6) ''tenant-a'' ''model-a'' ''client-1''
            (jb_job_id leased_job) (as_assignment_id assignment) 1 1 s0;
          (accepted, s2) = AcceptTrainingAssignmentSubmission (clks 7) ''tenant-a'' ''model-a'' ''client-1''
            (jb_job_id leased_job) (as_assignment_id assignment) 1 1 s1;
          (worker, s3) = UpsertWorker (clks 8) test_worker s2
      in and_then
           (assert_all
             [(as_round_index assignment = 1, ''leased round mismatch''),
              (ds_dataset_id leased_dataset = ''dataset-a'', ''leased dataset mismatch''),
              (checked = Inr (), ''assignment validation should succeed''),
              (accepted = Inr (), ''assignment submission should succeed''),
              (wk_worker_id worker = ''worker-1'', ''worker upsert failed'')])
           (\<lambda>_. test_lease (clks 9) s3 ''second assignment lease should succeed'' (TestWorkerTask clks worker)))"

text \<open>The store is loaded from an empty directory; the default retention of the constructor is 2000.\<close>

definition TestStateStoreLifecycle ::
  "('j, 'x) json_ops \<Rightarrow> (nat \<Rightarrow> clock) \<Rightarrow> string \<Rightarrow> string + unit" where
  "TestStateStoreLifecycle J clks temp_root =
     (let s0 = Load J (clks 14) None (StateStore (path_join temp_root ''state.json'') 2000 None);
          s1 = RecordClientRegistration (clks 0) test_client s0;
          listed = ListClients ''tenant-a'' ''model-a'' s1;
          s2 = RecordWeightSubmission (clks 1) ''tenant-a'' ''model-a'' ''client-1'' 1 s1;
          (version, s3) = RecordAggregatedModel (clks 2) ''tenant-a'' ''model-a'' 1 (path_join temp_root ''model.bin'')
            ''fedavg'' 1 1 4 s2;
          (missing, s4) = RollbackModel (clks 15) ''tenant-a'' ''model-a'' 99 s3;
          (restored, s5) = RollbackModel (clks 3) ''tenant-a'' ''model-a'' 1 s4;
          st = GetSystemStatus s5;
          (dataset, s6) = UpsertDataset (clks 4) test_dataset s5;
          (job, s7) = CreateTrainingJob (clks 5) test_job s6
      in and_then
           (assert_all
             [(length listed = 1, ''client should be persisted''),
              (cl_peer_identity (hd listed) = ''pqfl-edge-client'', ''peer identity should be persisted''),
              (version = 1, ''first model version should be 1''),
              (GetActiveModelVersion ''tenant-a'' ''model-a'' s3 = 1, ''active model version mismatch''),
              (missing = None, ''rollback to a missing version should fail''),
              (GetActiveModelVersion ''tenant-a'' ''model-a'' s4 = 1, ''failed rollback must preserve the current active model''),
              (restored \<noteq> None, ''rollback should succeed''),
              (md_version (the restored) = 1, ''rollback returned wrong version''),
              (st_registered_clients st = 1, ''registered client count mismatch''),
              (st_completed_rounds st = 1, ''completed rounds mismatch''),
              (st_total_submissions st = 1, ''submission count mismatch''),
              (st_stored_models st = 1, ''stored models count mismatch''),
              (ds_dataset_id dataset = ''dataset-a'', ''dataset upsert failed''),
              (jb_job_id job \<noteq> '''', ''job id should be populated'')])
           (\<lambda>_. test_lease (clks 16) s7 ''assignment lease should succeed'' (TestSubmission clks)))"

section \<open>The program\<close>

text \<open>What it prints, and its exit code.\<close>

definition SelfTestMain ::
  "crypto_prims \<Rightarrow> ('j, 'x) json_ops \<Rightarrow> draws \<Rightarrow> draws \<Rightarrow> (nat \<Rightarrow> clock) \<Rightarrow> string \<Rightarrow> string \<times> int" where
  "SelfTestMain C J R R' clks temp =
     (let temp_root = path_join temp ''pqfl-self-test'' in
      case and_then (TestCryptoRotation C R (path_join temp_root ''crypto'')) (\<lambda>_.
           and_then (TestSessionKeyDerivationUsesSecret C) (\<lambda>_.
           and_then (TestKemSessionKeyAgreement C R' (path_join temp_root ''kem'')) (\<lambda>_.
           TestStateStoreLifecycle J clks (path_join temp_root ''state''))))
      of Inr _ \<Rightarrow> (''pqfl_self_test: PASS'', 0)
       | Inl err \<Rightarrow> (''pqfl_self_test: FAIL: '' @ err, 1))"

end
