(* ===== verification/Self_Test_Guarantees.thy ===== *)
theory Self_Test_Guarantees
  imports Self_Test Crypto_Guarantees Store_Scenario
begin

text \<open>
  The program's own test passes on the model, whatever the clocks read and whatever is drawn, as long as
  the primitives do what they promise and the first lease has not lapsed when it is submitted.
\<close>

lemma Assert_True [simp]: "Assert True message = Inr ()"
  by (simp add: Assert_def)

lemma and_then_Inr [simp]: "and_then (Inr x) f = f x"
  by (simp add: and_then_def)

lemma assert_all_holds: "\<forall>c\<in>set cs. fst c \<Longrightarrow> assert_all cs = Inr ()"
  by (induction cs rule: assert_all.induct) auto

lemma test_scope [simp]: "NormalizeTenant ''tenant-a'' = ''tenant-a''" "NormalizeModel ''model-a'' = ''model-a''"
  by (simp_all add: NormalizeTenant_def NormalizeModel_def)

section \<open>The store\<close>

definition leased_out :: "clock \<Rightarrow> PersistedTrainingJobRecord \<Rightarrow> PersistedAssignmentLease" where
  "leased_out clk j = new_lease clk ''tenant-a'' ''model-a'' ''client-1'' 1 120 (start_job (CurrentTimestamp (clk 0)) j)"

lemma test_lease_issues:
  assumes "training_jobs s = [j]" "active_job_in ''tenant-a'' ''model-a'' j" "jb_target_rounds j = 2"
    "jb_completed_rounds j = 0" "jb_planned_clients j = 2" "datasets s = [d]"
    "dataset_in ''tenant-a'' ''model-a'' (jb_dataset_id j) d" "\<forall>a\<in>set (assignments s). as_status a \<noteq> ''leased''"
  obtains s' where
    "test_lease clk s message rest = rest (leased_out clk j, start_job (CurrentTimestamp (clk 0)) j, d) s'"
    "assignments s' = assignments s @ [leased_out clk j]" "training_jobs s' = [start_job (CurrentTimestamp (clk 0)) j]"
    "datasets s' = [d]" "workers s' = workers s" "worker_tasks s' = worker_tasks s"
proof -
  let ?j = "start_job (CurrentTimestamp (clk 0)) j"
  let ?call = "LeaseTrainingAssignment clk ''tenant-a'' ''model-a'' ''client-1'' 1 2 120 s"
  have quiet: "upd_all (lease_lapsed now) (expire_lease now) (assignments s) = assignments s" for now
    using assms(8) by (auto simp: upd_all_def lease_lapsed_def intro: map_idI)
  have none: "filter (live_lease now job round) (assignments s) = []"
    "find (\<lambda>a. live_lease now job round a \<and> as_client_id a = c) (assignments s) = None" for now job round c
    using assms(8) by (auto simp: filter_empty_conv find_None_iff live_lease_def)
  have "fst ?call = Some (leased_out clk j, ?j, Some d)" "assignments (snd ?call) = assignments s @ [leased_out clk j]"
    "training_jobs (snd ?call) = [?j]" "datasets (snd ?call) = [d]" "workers (snd ?call) = workers s"
    "worker_tasks (snd ?call) = worker_tasks s"
    using assms(1-7) by (simp_all add: LeaseTrainingAssignment_def Let_def rfind_def upd_last_def quiet none
        round_capacity_def leased_out_def)
  moreover from this(1) have "test_lease clk s message rest = rest (leased_out clk j, ?j, d) (snd ?call)"
    by (cases ?call) (simp add: test_lease_def dataset_out_def)
  ultimately show ?thesis using that [of "snd ?call"] by simp
qed

lemma worker_task_passes:
  assumes "training_jobs s = [j]" "active_job_in ''tenant-a'' ''model-a'' j" "jb_completed_rounds j = 0"
    "workers s = [w]" "wk_worker_id w = ''worker-1''" "wk_tenant_id w = ''tenant-a''" "wk_model_id w = ''model-a''"
    "worker_tasks s = []" "as_tenant_id a = ''tenant-a''" "as_model_id a = ''model-a''"
  shows "TestWorkerTask clks w (a, j, d) s = Inr ()"
proof -
  let ?c1 = "LeaseWorkerTask (clks 10) w a j d s"
  let ?c2 = "UpdateWorkerTaskStatus (clks 11) ''worker-1'' (tk_task_id (fst ?c1)) ''running'' ''started'' 50 (snd ?c1)"
  let ?c3 = "RecordWorkerHeartbeat (clks 12) ''worker-1'' (tk_task_id (fst ?c1)) ''still running'' (snd ?c2)"
  let ?s4 = "AdvanceTrainingJobRound (clks 13) ''tenant-a'' ''model-a'' 1 2 (snd ?c3)"
  have c1: "tk_task_id (fst ?c1) \<noteq> ''''" "tk_worker_id (fst ?c1) = ''worker-1''" "tk_tenant_id (fst ?c1) = ''tenant-a''"
    "tk_model_id (fst ?c1) = ''model-a''" "worker_tasks (snd ?c1) = [fst ?c1]" "training_jobs (snd ?c1) = [j]"
    "workers (snd ?c1) = [lease_worker (CurrentTimestamp (clks 10 0)) (tk_task_id (fst ?c1)) w]"
    using assms by (simp_all add: LeaseWorkerTask_def Let_def)
  obtain k w2 where c2: "fst ?c2 = Inr ()" "worker_tasks (snd ?c2) = [k]" "workers (snd ?c2) = [w2]" "training_jobs (snd ?c2) = [j]"
    "tk_worker_id k = ''worker-1''" "tk_tenant_id k = ''tenant-a''" "tk_model_id k = ''model-a''"
    "wk_worker_id w2 = ''worker-1''" "wk_tenant_id w2 = ''tenant-a''" "wk_model_id w2 = ''model-a''"
    by atomize_elim (use c1 assms in \<open>simp add: UpdateWorkerTaskStatus_def Let_def report_task_def report_worker_def lease_worker_def\<close>)
  obtain w3 where c3: "fst ?c3" "worker_tasks (snd ?c3) = [k]" "workers (snd ?c3) = [w3]" "training_jobs (snd ?c3) = [j]"
    "wk_worker_id w3 = ''worker-1''" "wk_tenant_id w3 = ''tenant-a''" "wk_model_id w3 = ''model-a''"
    by atomize_elim (use c1(1) c2 in \<open>simp add: RecordWorkerHeartbeat_def Let_def\<close>)
  obtain j' where "training_jobs ?s4 = [j']" "jb_completed_rounds j' = 1" "jb_current_round j' = 2"
    "jb_tenant_id j' = ''tenant-a''" "jb_model_id j' = ''model-a''"
    by atomize_elim (use assms(2,3) c3(4) in \<open>simp add: AdvanceTrainingJobRound_def Let_def rfind_def upd_last_def advance_job_def active_job_in_def\<close>)
  moreover obtain k' where "worker_tasks ?s4 = [k']" "tk_worker_id k' = ''worker-1''" "tk_tenant_id k' = ''tenant-a''"
    "tk_model_id k' = ''model-a''"
    by atomize_elim (use assms(2,3) c3(2,4) c2(5-7) in \<open>simp add: AdvanceTrainingJobRound_def Let_def rfind_def upd_all_def close_task_def\<close>)
  moreover obtain w4 where "workers ?s4 = [w4]" "wk_tenant_id w4 = ''tenant-a''" "wk_model_id w4 = ''model-a''"
    by atomize_elim (use assms(2,3) c3 in \<open>simp add: AdvanceTrainingJobRound_def Let_def rfind_def upd_all_def release_workers_of_def\<close>)
  ultimately show ?thesis using c1(1) c2(1) c3(1)
    by (simp add: TestWorkerTask_def Let_def case_prod_beta ListTrainingJobs_def ListWorkers_def ListWorkerTasks_def MatchesFilter_def)
qed

lemma leased_out_simps:
  "jb_current_round j = 1 \<Longrightarrow> as_round_index (leased_out clk j) = 1" "as_status (leased_out clk j) = ''leased''"
  "as_assignment_id (leased_out clk j) \<noteq> ''''" "as_tenant_id (leased_out clk j) = ''tenant-a''"
  "as_model_id (leased_out clk j) = ''model-a''" "as_client_id (leased_out clk j) = ''client-1''"
  "as_base_model_version (leased_out clk j) = 1"
  by (simp_all add: leased_out_def new_lease_def Let_def)

lemma submission_passes:
  assumes job: "training_jobs s = [j]" "active_job_in ''tenant-a'' ''model-a'' j" "jb_target_rounds j = 2"
      "jb_completed_rounds j = 0" "jb_planned_clients j = 2" "jb_job_id j \<noteq> ''''"
    and data: "datasets s = [d]" "dataset_in ''tenant-a'' ''model-a'' (jb_dataset_id j) d" "ds_dataset_id d = ''dataset-a''"
    and lease: "assignments s = [a]" "as_status a = ''leased''" "as_assignment_id a \<noteq> ''''" "as_tenant_id a = ''tenant-a''"
      "as_model_id a = ''model-a''" "as_client_id a = ''client-1''" "as_round_index a = 1" "as_base_model_version a = 1"
    and time: "CurrentTimestamp (clks 6 0) < as_expires_at a" "CurrentTimestamp (clks 7 0) < as_expires_at a"
    and fresh: "workers s = []" "worker_tasks s = []"
  shows "TestSubmission clks (a, j, d) s = Inr ()"
proof -
  have quiet: "upd_all (lease_lapsed now) (expire_lease now) [a] = [a]" if "now < as_expires_at a" for now
    using that by (auto simp: upd_all_def lease_lapsed_def)
  have good: "CheckAssignmentSubmission now ''tenant-a'' ''model-a'' ''client-1'' (jb_job_id j) (as_assignment_id a) 1 1
      (ExpireAssignmentsLocked now s') = LeaseGood a"
    if "training_jobs s' = [j]" "assignments s' = [a]" "now < as_expires_at a" for now s'
    using that job lease by (auto simp: CheckAssignmentSubmission_def rfind_def quiet)
  obtain s1 where s1: "ValidateTrainingAssignmentSubmission (clks 6) ''tenant-a'' ''model-a'' ''client-1'' (jb_job_id j)
      (as_assignment_id a) 1 1 s = (Inr (), s1)" "training_jobs s1 = [j]" "datasets s1 = [d]" "assignments s1 = [a]"
    "workers s1 = []" "worker_tasks s1 = []"
    using job(1) data(1) lease(1) fresh time
    by (simp add: ValidateTrainingAssignmentSubmission_def Let_def good quiet)
  obtain s2 where s2: "AcceptTrainingAssignmentSubmission (clks 7) ''tenant-a'' ''model-a'' ''client-1'' (jb_job_id j)
      (as_assignment_id a) 1 1 s1 = (Inr (), s2)" "training_jobs s2 = [j]" "datasets s2 = [d]"
    "\<forall>a\<in>set (assignments s2). as_status a \<noteq> ''leased''" "workers s2 = []" "worker_tasks s2 = []"
    using s1(2-) time
    by (simp add: AcceptTrainingAssignmentSubmission_def Let_def good quiet free_workers_of_def upd_all_def)
  obtain w s3 where s3: "UpsertWorker (clks 8) test_worker s2 = (w, s3)" "training_jobs s3 = [j]" "datasets s3 = [d]"
    "workers s3 = [w]" "\<forall>a\<in>set (assignments s3). as_status a \<noteq> ''leased''" "worker_tasks s3 = []"
    "wk_worker_id w = ''worker-1''" "wk_tenant_id w = ''tenant-a''" "wk_model_id w = ''model-a''"
    using s2(2-) by (simp add: UpsertWorker_def Let_def test_worker_def)
  let ?j = "start_job (CurrentTimestamp (clks 9 0)) j"
  obtain s4 where s4: "test_lease (clks 9) s3 ''second assignment lease should succeed'' (TestWorkerTask clks w) =
      TestWorkerTask clks w (leased_out (clks 9) j, ?j, d) s4" "training_jobs s4 = [?j]" "workers s4 = [w]"
    "worker_tasks s4 = []"
    by (rule test_lease_issues [of s3 j d "clks 9"]) (use s3 job data in auto)
  have "TestWorkerTask clks w (leased_out (clks 9) j, ?j, d) s4 = Inr ()"
    by (rule worker_task_passes [OF s4(2)]) (use s3 s4 job in \<open>simp_all add: leased_out_simps\<close>)
  then show ?thesis
    by (simp add: TestSubmission_def Let_def s1(1) s2(1) s3(1,7) s4(1) lease(7) data(3))
qed

lemma test_models:
  assumes "models s = []" "completed_rounds s = 0"
  obtains r s' where "RecordAggregatedModel clk ''tenant-a'' ''model-a'' 1 path ''fedavg'' 1 1 4 s = (1, s')" "models s' = [r]"
    "model_in ''tenant-a'' ''model-a'' r" "md_version r = 1" "md_active r" "completed_rounds s' = 1"
    "clients s' = clients s" "datasets s' = datasets s" "training_jobs s' = training_jobs s" "assignments s' = assignments s"
    "workers s' = workers s" "worker_tasks s' = worker_tasks s" "total_submissions s' = total_submissions s"
  using assms
  by (cases "RecordAggregatedModel clk ''tenant-a'' ''model-a'' 1 path ''fedavg'' 1 1 4 s")
    (auto simp: RecordAggregatedModel_def Let_def next_model_version_def deactivate_scope_def upd_all_def model_in_def)

lemma test_rollback:
  assumes "models s = [r]" "model_in ''tenant-a'' ''model-a'' r" "md_version r = 1"
  obtains r' s' where "RollbackModel clk ''tenant-a'' ''model-a'' 1 s = (Some r', s')" "md_version r' = 1" "length (models s') = 1"
    "clients s' = clients s" "datasets s' = datasets s" "training_jobs s' = training_jobs s" "assignments s' = assignments s"
    "workers s' = workers s" "worker_tasks s' = worker_tasks s" "total_submissions s' = total_submissions s"
    "completed_rounds s' = completed_rounds s"
  using assms
  by (cases "RollbackModel clk ''tenant-a'' ''model-a'' 1 s")
    (auto simp: RollbackModel_def Let_def deactivate_scope_def upd_all_def)

lemma test_upsert:
  assumes "datasets s = []"
  obtains d s' where "UpsertDataset clk test_dataset s = (d, s')" "datasets s' = [d]" "ds_dataset_id d = ''dataset-a''"
    "dataset_in ''tenant-a'' ''model-a'' ''dataset-a'' d" "training_jobs s' = training_jobs s"
    "assignments s' = assignments s" "workers s' = workers s" "worker_tasks s' = worker_tasks s"
  using assms
  by (cases "UpsertDataset clk test_dataset s") (auto simp: UpsertDataset_def Let_def test_dataset_def dataset_in_def)

lemma test_create:
  assumes "training_jobs s = []"
  obtains j s' where "CreateTrainingJob clk test_job s = (j, s')" "training_jobs s' = [j]" "jb_job_id j \<noteq> ''''"
    "active_job_in ''tenant-a'' ''model-a'' j" "jb_target_rounds j = 2" "jb_completed_rounds j = 0"
    "jb_planned_clients j = 2" "jb_dataset_id j = ''dataset-a''" "jb_current_round j = 1" "jb_assignment_ttl_seconds j = 120"
    "datasets s' = datasets s" "assignments s' = assignments s" "workers s' = workers s" "worker_tasks s' = worker_tasks s"
  using assms
  by (cases "CreateTrainingJob clk test_job s")
    (auto simp: CreateTrainingJob_def Let_def test_job_def active_job_in_def IsActiveJobStatus_def upd_all_def)

lemma test_registered:
  assumes "clients s = []"
  shows "clients (RecordClientRegistration clk test_client s) = [test_client]"
    "completed_rounds (RecordClientRegistration clk test_client s) = completed_rounds s"
    "total_submissions (RecordClientRegistration clk test_client s) = total_submissions s"
  using assms by (simp_all add: RecordClientRegistration_def Let_def test_client_def)

lemma lifecycle_passes:
  assumes year: "c_year (gmtime (clks 16 1 + 120000)) < 10000"
    and time: "clks 6 0 < clks 16 1 + 120000" "clks 7 0 < clks 16 1 + 120000"
  shows "TestStateStoreLifecycle J clks temp_root = Inr ()"
proof -
  obtain s0 where s0: "Load J (clks 14) None (StateStore (path_join temp_root ''state.json'') 2000 None) = s0"
    "clients s0 = []" "models s0 = []" "datasets s0 = []" "training_jobs s0 = []" "assignments s0 = []"
    "workers s0 = []" "worker_tasks s0 = []" "completed_rounds s0 = 0" "total_submissions s0 = 0"
    by (simp add: Load_def StateStore_def empty_image_def store_image.defs)
  obtain s2 where s2: "RecordWeightSubmission (clks 1) ''tenant-a'' ''model-a'' ''client-1'' 1
        (RecordClientRegistration (clks 0) test_client s0) = s2"
    "clients s2 = [test_client]" "models s2 = []" "datasets s2 = []" "training_jobs s2 = []" "assignments s2 = []"
    "workers s2 = []" "worker_tasks s2 = []" "completed_rounds s2 = 0" "total_submissions s2 = 1"
    using s0(2-) by (simp add: RecordWeightSubmission_def test_registered frame_simps)
  obtain r s3 where s3: "RecordAggregatedModel (clks 2) ''tenant-a'' ''model-a'' 1 (path_join temp_root ''model.bin'')
      ''fedavg'' 1 1 4 s2 = (1, s3)" "models s3 = [r]"
    "model_in ''tenant-a'' ''model-a'' r" "md_version r = 1" "md_active r" "completed_rounds s3 = 1"
    "clients s3 = clients s2" "datasets s3 = datasets s2" "training_jobs s3 = training_jobs s2" "assignments s3 = assignments s2"
    "workers s3 = workers s2" "worker_tasks s3 = worker_tasks s2" "total_submissions s3 = total_submissions s2"
    using test_models [OF s2(3,9)] .
  have none: "RollbackModel (clks 15) ''tenant-a'' ''model-a'' 99 s3 = (None, s3)"
    and active: "GetActiveModelVersion ''tenant-a'' ''model-a'' s3 = 1"
    using s3(2-5) by (simp_all add: RollbackModel_def GetActiveModelVersion_def Let_def)
  obtain r' s5 where s5: "RollbackModel (clks 3) ''tenant-a'' ''model-a'' 1 s3 = (Some r', s5)" "md_version r' = 1"
    "length (models s5) = 1"
    "clients s5 = clients s3" "datasets s5 = datasets s3" "training_jobs s5 = training_jobs s3" "assignments s5 = assignments s3"
    "workers s5 = workers s3" "worker_tasks s5 = worker_tasks s3" "total_submissions s5 = total_submissions s3"
    "completed_rounds s5 = completed_rounds s3"
    using test_rollback [OF s3(2-4)] .
  obtain d s6 where s6: "UpsertDataset (clks 4) test_dataset s5 = (d, s6)" "datasets s6 = [d]" "ds_dataset_id d = ''dataset-a''"
    "dataset_in ''tenant-a'' ''model-a'' ''dataset-a'' d" "training_jobs s6 = training_jobs s5"
    "assignments s6 = assignments s5" "workers s6 = workers s5" "worker_tasks s6 = worker_tasks s5"
    using test_upsert [of s5] s2 s3 s5 by metis
  obtain j s7 where s7: "CreateTrainingJob (clks 5) test_job s6 = (j, s7)" "training_jobs s7 = [j]" "jb_job_id j \<noteq> ''''"
    "active_job_in ''tenant-a'' ''model-a'' j" "jb_target_rounds j = 2" "jb_completed_rounds j = 0"
    "jb_planned_clients j = 2" "jb_dataset_id j = ''dataset-a''" "jb_current_round j = 1" "jb_assignment_ttl_seconds j = 120"
    "datasets s7 = datasets s6" "assignments s7 = assignments s6" "workers s7 = workers s6" "worker_tasks s7 = worker_tasks s6"
    using test_create [of s6] s2 s3 s5 s6 by metis
  let ?j = "start_job (CurrentTimestamp (clks 16 0)) j" and ?a = "leased_out (clks 16) j"
  have fresh: "assignments s7 = []" "workers s7 = []" "worker_tasks s7 = []" "datasets s7 = [d]"
    using s2 s3 s5 s6 s7 by simp_all
  obtain s8 where s8: "test_lease (clks 16) s7 ''assignment lease should succeed'' (TestSubmission clks) =
      TestSubmission clks (?a, ?j, d) s8"
    "assignments s8 = [?a]" "training_jobs s8 = [?j]" "datasets s8 = [d]" "workers s8 = []" "worker_tasks s8 = []"
    by (rule test_lease_issues [of s7 j d "clks 16"]) (use s6(4) s7(2-8) fresh in auto)
  have expires: "as_expires_at ?a = CurrentTimestamp (clks 16 1 + 120000)"
    using s7(10) by (simp add: leased_out_def new_lease_def Let_def TimestampAfterSeconds_eq start_job_def)
  have in_time: "CurrentTimestamp n < as_expires_at ?a" if "n < clks 16 1 + 120000" for n
    using that year timestamp_le_iff [of "clks 16 1 + 120000" n] gmtime_le_iff [of n "clks 16 1 + 120000"]
    unfolding expires by (fastforce simp: less_eq_civil_time_def civil_fields_def not_le)
  have "TestSubmission clks (?a, ?j, d) s8 = Inr ()"
    by (rule submission_passes) (use s8(2-) s6(3,4) s7(3-9) in_time [OF time(1)] in_time [OF time(2)] in
        \<open>simp_all add: leased_out_simps\<close>)
  moreover have "ListClients ''tenant-a'' ''model-a'' (RecordClientRegistration (clks 0) test_client s0) = [test_client]"
    unfolding ListClients_def test_registered(1) [OF s0(2)] by (simp add: Let_def MatchesFilter_def test_client_def)
  moreover have "cl_peer_identity test_client = ''pqfl-edge-client''" by (simp add: test_client_def)
  moreover have "st_registered_clients (GetSystemStatus s5) = 1" "st_completed_rounds (GetSystemStatus s5) = 1"
    "st_total_submissions (GetSystemStatus s5) = 1" "st_stored_models (GetSystemStatus s5) = 1"
    using s2(2,9,10) s3(6,7,13) s5(3,4,10,11) by (simp_all add: GetSystemStatus_def Let_def)
  ultimately show ?thesis
    unfolding TestStateStoreLifecycle_def Let_def s0(1) s2(1) s3(1) none prod.case s5(1) s6(1) s7(1) assert_all.simps
    by (simp add: active s5(2) s6(3) s7(3) s8(1))
qed

section \<open>The crypto engine\<close>

text \<open>What the test relies on: draws succeed with the sizes asked for, and the key pair is one of the KEM.\<close>

definition draws_ok :: "crypto_prims \<Rightarrow> draws \<Rightarrow> bool" where
  "draws_ok C R \<longleftrightarrow>
     (\<exists>k. dr_master R = Some k \<and> length k = KEY_SIZE) \<and> (\<exists>k. dr_payload R = Some k \<and> length k = KEY_SIZE) \<and>
     (\<exists>k. dr_rotated R = Some k \<and> length k = KEY_SIZE) \<and> (\<forall>i. \<exists>iv. dr_iv R i = Some iv \<and> length iv = IV_SIZE) \<and>
     (\<exists>pk sk. dr_kem R = Keypair pk sk \<and> kem_pair C pk sk)"

text \<open>Encryption, encapsulation and the MAC succeed on arguments of the right sizes.\<close>

definition prims_total :: "crypto_prims \<Rightarrow> bool" where
  "prims_total C \<longleftrightarrow>
     (\<forall>k iv p. length k = KEY_SIZE \<longrightarrow> length iv = IV_SIZE \<longrightarrow> (\<exists>c t. evp_encrypt C k iv p = Inr (c, t))) \<and>
     (\<forall>pk. length pk = kem_public_length C \<longrightarrow> (\<exists>ct ss. kem_encaps C pk = Some (ct, ss) \<and> length ss = KEY_SIZE)) \<and>
     (\<forall>k m. length k = KEY_SIZE \<longrightarrow> (\<exists>mac. hmac_sha256 C k m = Some mac \<and> KEY_SIZE \<le> length mac))"

lemma payload_secret_made:
  assumes "\<And>path c. kf_files fs path = Some c \<Longrightarrow> length c = KEY_SIZE" and "length p = KEY_SIZE"
  obtains secret fs' where "LoadOrGeneratePayloadSecret (Some p) e fs = (Inr (e\<lparr>ce_payload_secret := secret\<rparr>), fs')"
proof (cases "ce_payload_key_path e = '''' \<or> kf_files fs (ce_payload_key_path e) = None")
  case True
  then have "LoadSecretFile fs (ce_payload_key_path e) = Inr []" by (auto simp: LoadSecretFile_def)
  then show ?thesis using that by (simp add: LoadOrGeneratePayloadSecret_def)
next
  case False
  then obtain c where c: "ce_payload_key_path e \<noteq> ''''" "kf_files fs (ce_payload_key_path e) = Some c" by blast
  from assms(1) [OF c(2)] have "LoadSecretFile fs (ce_payload_key_path e) = Inr c" "c \<noteq> []"
    using c by (auto simp: LoadSecretFile_def KEY_SIZE_def)
  then show ?thesis using that by (simp add: LoadOrGeneratePayloadSecret_def)
qed

lemma fresh_engine:
  assumes "draws_ok C R"
  obtains e fs where "CryptoEngine (dr_master R) (dr_payload R) (dr_kem R) key_path '''' no_key_files = (Inr e, fs)"
    "engine_ok e" "ce_active_key_version e = 1" "length (ce_key e) = KEY_SIZE"
    "kem_pair C (ce_kem_public_key e) (ce_kem_secret_key e)"
proof -
  obtain k pk sk p where R: "dr_master R = Some k" "length k = KEY_SIZE" "dr_payload R = Some p" "length p = KEY_SIZE"
    "dr_kem R = Keypair pk sk" "kem_pair C pk sk" using assms by (auto simp: draws_ok_def)
  let ?e = "\<lparr>ce_key_path = key_path, ce_payload_key_path = key_path @ ''.payload'', ce_key = k, ce_active_key_version = 1,
      ce_key_versions = [(1, k)], ce_payload_secret = [], ce_kem_public_key = [], ce_kem_secret_key = []\<rparr>"
  let ?fs = "\<lparr>kf_registry = Some (KeyRegistry 1 [(1, VersionedKeyPath key_path 1)]),
      kf_files = [key_path \<mapsto> k, VersionedKeyPath key_path 1 \<mapsto> k]\<rparr>"
  obtain secret fs where made: "LoadOrGeneratePayloadSecret (Some p) ?e ?fs = (Inr (?e\<lparr>ce_payload_secret := secret\<rparr>), fs)"
    by (rule payload_secret_made [of ?fs p ?e]) (use R(2,4) in \<open>auto split: if_splits\<close>)
  have "CryptoEngine (dr_master R) (dr_payload R) (dr_kem R) key_path '''' no_key_files =
      (Inr (?e\<lparr>ce_payload_secret := secret, ce_kem_public_key := pk, ce_kem_secret_key := sk\<rparr>), fs)"
    using made by (simp add: CryptoEngine_def LoadOrGenerateKey_def no_key_files_def finish_load_def Let_def
        SaveKeyRegistry_def InitializeKem_def R(1,3,5))
  then show ?thesis by (rule that) (use R in \<open>auto simp: engine_ok_def\<close>)
qed

lemma blob_made:
  assumes "prims_total C" "length (ce_key e) = KEY_SIZE" "length iv = IV_SIZE"
  obtains blob where "EncryptBlob C (Some iv) e p = Inr blob"
proof -
  obtain c t where "evp_encrypt C (ce_key e) iv p = Inr (c, t)" using assms unfolding prims_total_def by blast
  then show ?thesis using that by (simp add: EncryptBlob_def EncryptWithKey_def)
qed

lemma rotation_passes:
  assumes aead: "aead_correct C" and total: "prims_total C" and draws: "draws_ok C R"
  shows "TestCryptoRotation C R temp_root = Inr ()"
proof -
  obtain e fs where e: "CryptoEngine (dr_master R) (dr_payload R) (dr_kem R) (path_join temp_root ''master.key'') '''' no_key_files
      = (Inr e, fs)" "engine_ok e" "ce_active_key_version e = 1" "length (ce_key e) = KEY_SIZE"
    by (rule fresh_engine [OF draws])
  obtain k iv iv' where R: "dr_rotated R = Some k" "length k = KEY_SIZE" "dr_iv R 0 = Some iv" "length iv = IV_SIZE"
    "dr_iv R 1 = Some iv'" "length iv' = IV_SIZE" using draws unfolding draws_ok_def by metis
  obtain e2 fs2 where rot: "RotateMasterKey (dr_rotated R) e fs = (Inr 2, e2, fs2)"
    and e2: "e2 = fst (rotate (Some k) (e, fs))" "ce_active_key_version e2 = 2" "length (ce_key e2) = KEY_SIZE"
    using e(3) R by (simp add: RotateMasterKey_def Let_def rotate_cases)
  have ok2: "engine_ok e2" unfolding e2(1) using e(2) by (intro engine_ok_rotate) simp
  obtain b where b: "EncryptBlob C (Some iv) e (string_bytes ''hello-world'') = Inr b"
    by (rule blob_made [OF total e(4) R(4)])
  obtain b2 where b2: "EncryptBlob C (Some iv') e2 (string_bytes ''hello-world-v2'') = Inr b2"
    by (rule blob_made [OF total e2(3) R(6)])
  have "DecryptBlob C e b = Inr (string_bytes ''hello-world'')"
    using DecryptBlob_rotated [OF aead e(2) _ R(4), of _ b "[]"] b by (simp add: e(3))
  moreover have "DecryptBlob C e2 b2 = Inr (string_bytes ''hello-world-v2'')"
    using DecryptBlob_rotated [OF aead ok2 _ R(6), of _ b2 "[]"] b2 by (simp add: e2(2))
  moreover have "DecryptBlob C e2 b = Inr (string_bytes ''hello-world'')"
    using DecryptBlob_rotated [OF aead e(2) _ R(4), of _ b "[Some k]"] b by (simp add: e(3) e2(1))
  ultimately show ?thesis by (simp add: TestCryptoRotation_def e(1) b b2 rot R(3) R(5) [unfolded One_nat_def])
qed

lemma derivation_mac:
  assumes "prims_total C" "length secret = KEY_SIZE"
  obtains mac where "hmac_sha256 C secret (session_context parts) = Some mac"
    "DeriveSessionKeyWithSecret C secret parts = Inr (take KEY_SIZE mac)"
proof -
  obtain mac where "hmac_sha256 C secret (session_context parts) = Some mac" "KEY_SIZE \<le> length mac"
    using assms unfolding prims_total_def by blast
  with assms(2) show ?thesis using that by (simp add: DeriveSessionKeyWithSecret_def)
qed

lemma kem_agreement_passes:
  assumes total: "prims_total C" and draws: "draws_ok C R"
  shows "TestKemSessionKeyAgreement C R temp_root = Inr ()"
proof -
  obtain e fs where e: "CryptoEngine (dr_master R) (dr_payload R) (dr_kem R) (path_join temp_root ''master.key'') '''' no_key_files
      = (Inr e, fs)" "kem_pair C (ce_kem_public_key e) (ce_kem_secret_key e)"
    by (rule fresh_engine [OF draws])
  then obtain ct ss where enc: "kem_encaps C (ce_kem_public_key e) = Some (ct, ss)" "length ss = KEY_SIZE"
    using total unfolding prims_total_def kem_pair_def by metis
  obtain mac where key: "DeriveSessionKeyWithSecret C ss (test_context ''1'') = Inr (take KEY_SIZE mac)"
    by (rule derivation_mac [OF total enc(2)])
  have "length ct = kem_ciphertext_length C" "kem_decaps C (ce_kem_secret_key e) ct = Some ss"
    using e(2) enc(1) by (simp_all add: kem_pair_def kem_correct_def)
  with e enc key show ?thesis
    by (simp add: TestKemSessionKeyAgreement_def EncapsulateKem_def DeriveSessionKeyFromKemSecret_def DeriveKemSessionKey_def
        kem_pair_def)
qed

text \<open>The MAC does not collide on the three inputs of the second test.\<close>

definition keys_separate :: "crypto_prims \<Rightarrow> bool" where
  "keys_separate C \<longleftrightarrow> inj_on (\<lambda>(secret, m). map_option (take KEY_SIZE) (hmac_sha256 C secret m))
     {(replicate 32 0x11, session_context (test_context ''1'')), (replicate 32 0x22, session_context (test_context ''1'')),
      (replicate 32 0x11, session_context (test_context ''2''))}"

lemma test_secrets: "replicate 32 (0x11 :: byte) \<noteq> replicate 32 0x22"
  by (simp add: replicate_eq_replicate)

lemma test_contexts: "session_context (test_context ''1'') \<noteq> session_context (test_context ''2'')"
  using contexts_inj [of "test_context ''1''" "test_context ''2''"]
  by (auto simp: session_context_concat test_context_def)

lemma derivation_passes:
  assumes total: "prims_total C" and "keys_separate C"
  shows "TestSessionKeyDerivationUsesSecret C = Inr ()"
proof -
  have len: "length (replicate 32 (x :: byte)) = KEY_SIZE" for x by (simp add: KEY_SIZE_def)
  obtain a where a: "hmac_sha256 C (replicate 32 0x11) (session_context (test_context ''1'')) = Some a"
    "DeriveSessionKeyWithSecret C (replicate 32 0x11) (test_context ''1'') = Inr (take KEY_SIZE a)"
    by (rule derivation_mac [OF total len])
  obtain b where b: "hmac_sha256 C (replicate 32 0x22) (session_context (test_context ''1'')) = Some b"
    "DeriveSessionKeyWithSecret C (replicate 32 0x22) (test_context ''1'') = Inr (take KEY_SIZE b)"
    by (rule derivation_mac [OF total len])
  obtain c where c: "hmac_sha256 C (replicate 32 0x11) (session_context (test_context ''2'')) = Some c"
    "DeriveSessionKeyWithSecret C (replicate 32 0x11) (test_context ''2'') = Inr (take KEY_SIZE c)"
    by (rule derivation_mac [OF total len])
  have "take KEY_SIZE a \<noteq> take KEY_SIZE b" "take KEY_SIZE a \<noteq> take KEY_SIZE c"
    using assms(2) test_secrets test_contexts unfolding keys_separate_def inj_on_def by (auto simp: a(1) b(1) c(1))
  then show ?thesis unfolding TestSessionKeyDerivationUsesSecret_def Let_def a(2) b(2) c(2) by simp
qed

section \<open>The program\<close>


definition test_prims :: crypto_prims where
  "test_prims = null_prims\<lparr>hmac_sha256 := (\<lambda>secret m. Some
     (if secret \<noteq> replicate 32 0x11 then replicate 32 1
      else if m = session_context (test_context ''2'') then replicate 32 2 else replicate 32 3))\<rparr>"

definition test_draws :: draws where
  "test_draws = \<lparr>dr_master = Some (replicate 32 1), dr_payload = Some (replicate 32 2), dr_rotated = Some (replicate 32 3),
     dr_iv = (\<lambda>_. Some (replicate 12 0)), dr_kem = Keypair (replicate 32 4) (replicate 32 4)\<rparr>"


end
