(* ===== verification/Test_Client.thy ===== *)
theory Test_Client
  imports Demo_Main
begin

text \<open>
  \<open>server/test_client.cpp\<close>: the edge clients of the demo and the tests of the stream. The stub of the
  federated service is a record of calls on whatever answers them (of type \<open>'s\<close>); a status is, as a
  client sees it, the number of its code and a message. What the program writes to its output is part
  of its state. The three threads of the concurrent test are stepped one call at a time, and the write
  of a result to the \<open>std::vector<bool>\<close>, which packs its elements into one word, as the read and the
  write of that word.
\<close>

type_synonym client_status = "int \<times> string"

abbreviation status_ok :: "client_status \<Rightarrow> bool" where
  "status_ok st \<equiv> fst st = 0"

definition CANCELLED :: int where
  "CANCELLED = 1"

text \<open>\<open>cs_stream\<close> opens a stream with an optional deadline in seconds and returns its reader, of type \<open>'h\<close>.\<close>

record ('f, 's, 'h) client_stub =
  cs_register :: "ClientRegistration \<Rightarrow> 's \<Rightarrow> (client_status \<times> RegistrationResponse) \<times> 's"
  cs_config :: "ConfigRequest \<Rightarrow> 's \<Rightarrow> (client_status \<times> 'f TrainingConfig) \<times> 's"
  cs_submit :: "WeightPayload \<Rightarrow> 's \<Rightarrow> (client_status \<times> AggregationResponse) \<times> 's"
  cs_stream :: "int option \<Rightarrow> ModelRequest \<Rightarrow> 's \<Rightarrow> 'h \<times> 's"
  cs_read :: "'h \<Rightarrow> 's \<Rightarrow> GlobalModelUpdate option \<times> 's"
  cs_cancel :: "'h \<Rightarrow> 's \<Rightarrow> 's"
  cs_finish :: "'h \<Rightarrow> 's \<Rightarrow> client_status \<times> 's"
  cs_sleep :: "int \<Rightarrow> 's \<Rightarrow> 's"

type_synonym 's world = "'s \<times> string"

definition say :: "string \<Rightarrow> 's world \<Rightarrow> 's world" where
  "say line w = (fst w, snd w @ line @ newline)"

definition on_peer :: "('s \<Rightarrow> 'a \<times> 's) \<Rightarrow> 's world \<Rightarrow> 'a \<times> 's world" where
  "on_peer f w = (case f (fst w) of (a, s) \<Rightarrow> (a, (s, snd w)))"

definition node_line :: "string \<Rightarrow> string \<Rightarrow> string" where
  "node_line cid message = ''[Node '' @ cid @ ''] '' @ message"

definition truth_text :: "bool \<Rightarrow> string" where
  "truth_text b = (if b then ''true'' else ''false'')"

definition pass_text :: "bool \<Rightarrow> string" where
  "pass_text b = (if b then ''PASS'' else ''FAIL'')"

section \<open>The unary calls\<close>

definition TestRegistration :: "string \<Rightarrow> ClientRegistration" where
  "TestRegistration cid = \<lparr>rg_tenant_id = kTenantId, rg_model_id = kModelId, rg_client_id = cid,
     rg_local_dataset_size = 100, rg_hardware_info = ''Test-Edge-Node'', rg_dataset_fingerprint = ''synthetic-demo-v1''\<rparr>"

definition TestRegister :: "('f, 's, 'h) client_stub \<Rightarrow> string \<Rightarrow> 's world \<Rightarrow> string \<times> 's world" where
  "TestRegister T cid w =
     (case on_peer (cs_register T (TestRegistration cid)) w of
        ((st, res), w') \<Rightarrow>
          if status_ok st then
            (rr_assigned_id res, say (node_line cid (''Registered. Server round: '' @ to_string (rr_current_round res) @
               '', model version: '' @ to_string (rr_active_model_version res))) w')
          else ('''', say (node_line cid (''Registration failed: '' @ snd st)) w'))"

definition TestConfigRequest :: "string \<Rightarrow> ConfigRequest" where
  "TestConfigRequest cid = \<lparr>cq_tenant_id = kTenantId, cq_model_id = kModelId, cq_client_id = cid\<rparr>"

definition FetchConfig :: "('f, 's, 'h) client_stub \<Rightarrow> string \<Rightarrow> 's world \<Rightarrow> 'f TrainingConfig \<times> 's world" where
  "FetchConfig T cid w =
     (case on_peer (cs_config T (TestConfigRequest cid)) w of
        ((st, res), w') \<Rightarrow>
          (res, say (node_line cid
             (if \<not> status_ok st then ''GetTrainingConfig failed: '' @ snd st
              else ''Config received. assignment_ready='' @ truth_text (tc_assignment_ready res) @
                '', active_model_version='' @ to_string (tc_active_model_version res) @
                '', job_status='' @ (if tc_job_status res = '''' then ''idle'' else tc_job_status res))) w'))"

text \<open>What is printed about the encapsulation, when there is one and it does not throw.\<close>

definition say_encapsulated ::
  "string \<Rightarrow> byte list \<Rightarrow> string + (byte list \<times> byte list \<times> string) option \<Rightarrow> 's world \<Rightarrow> 's world" where
  "say_encapsulated cid public_key session w =
     (if public_key = [] then w
      else case session of
        Inl _ \<Rightarrow> w
      | Inr None \<Rightarrow> say (node_line cid ''ML-KEM-1024 encapsulation failed'') w
      | Inr (Some (_, kem_ciphertext, _)) \<Rightarrow>
          say (node_line cid (''ML-KEM-1024 payload key encapsulated, ciphertext_bytes='' @
            to_string (int (length kem_ciphertext)))) w)"

text \<open>\<open>SendWeights\<close> of \<open>Demo_Clients\<close> is the request; this is the whole method. \<open>Inl\<close> is an exception.\<close>

definition TestSendWeights ::
  "crypto_prims \<Rightarrow> 'f client_env \<Rightarrow> ('f, 's, 'h) client_stub \<Rightarrow> string \<Rightarrow> 'f list \<Rightarrow> 'f TrainingConfig
     \<Rightarrow> 's world \<Rightarrow> (string + unit) \<times> 's world" where
  "TestSendWeights C K T cid weights config w =
     (let public_key = tc_payload_kem_public_key config;
          w1 = say_encapsulated cid public_key
            (ClientSubmitKey C (ke_payload_secret K) public_key
              (submit_key_context kTestCertIdentity (TestSubmitRequest cid config))) w
      in case SendWeights C K cid weights config of
        Inl err \<Rightarrow> (Inl err, w1)
      | Inr None \<Rightarrow> (Inr (), w1)
      | Inr (Some req) \<Rightarrow>
          (case on_peer (cs_submit T req) w1 of
             ((st, res), w2) \<Rightarrow>
               (Inr (), say (node_line cid (if status_ok st then ar_message res else ''SendWeights failed: '' @ snd st)) w2)))"

section \<open>The streamed model\<close>

definition say_decapsulated :: "string \<Rightarrow> GlobalModelUpdate \<Rightarrow> string + byte list option \<Rightarrow> 's world \<Rightarrow> 's world" where
  "say_decapsulated cid update session w =
     (if gm_key_agreement update \<noteq> ''ml-kem-1024'' then w
      else case session of
        Inl _ \<Rightarrow> w
      | Inr None \<Rightarrow> say (node_line cid ''Stream ML-KEM-1024 decapsulation failed'') w
      | Inr (Some _) \<Rightarrow>
          say (node_line cid (''Stream ML-KEM-1024 decapsulation succeeded, ciphertext_bytes='' @
            to_string (int (length (gm_kem_ciphertext update))))) w)"

definition received_text :: "GlobalModelUpdate \<Rightarrow> 'f list \<times> bool \<Rightarrow> string" where
  "received_text update opened =
     ''Received global model round '' @ to_string (gm_round_index update) @ '' via '' @ gm_aggregation_method update @
     '', version='' @ to_string (gm_model_version update) @ '', key_agreement='' @ gm_key_agreement update @
     '', signature verified='' @ truth_text (snd opened) @ '', params='' @ to_string (int (length (fst opened)))"

text \<open>The whole of \<open>ReceiveOneGlobalModel\<close>, around the opening of the update in \<open>Demo_Clients\<close>.\<close>

definition TestReceiveModel ::
  "crypto_prims \<Rightarrow> 'f client_env \<Rightarrow> ('f, 's, 'h) client_stub \<Rightarrow> string \<Rightarrow> 's world \<Rightarrow> (string + unit) \<times> 's world" where
  "TestReceiveModel C K T cid w =
     (case on_peer (cs_stream T None (TestStreamRequest (ke_kem K) cid)) w of
        (reader, w1) \<Rightarrow>
      case on_peer (cs_read T reader) w1 of
        (None, w2) \<Rightarrow>
          (case on_peer (cs_finish T reader) w2 of
             (st, w3) \<Rightarrow> (Inr (), say (node_line cid (''StreamGlobalModel failed: '' @ snd st)) w3))
      | (Some update, w2) \<Rightarrow>
          let stream_secret_key = (case GenerateKemKeypair (ke_kem K) of Some (pk, sk) \<Rightarrow> sk | None \<Rightarrow> []);
              w3 = say_decapsulated cid update (ClientStreamKey C (ke_payload_secret K) stream_secret_key
                (stream_key_context kTestCertIdentity cid) update) w2
          in
          case ReceiveOneGlobalModel C K cid update of
            Inl err \<Rightarrow> (Inl err, w3)
          | Inr None \<Rightarrow> (Inr (), w3)
          | Inr (Some opened) \<Rightarrow>
              (case on_peer (cs_finish T reader) (cs_cancel T reader (fst w3), snd w3) of
                 (st, w4) \<Rightarrow>
                   let w5 = (if \<not> status_ok st \<and> fst st \<noteq> CANCELLED
                             then say (node_line cid (''Stream closed with: '' @ snd st)) w4 else w4)
                   in (Inr (), say (node_line cid (received_text update opened)) w5)))"

section \<open>Tests of the stream\<close>

definition PlainStreamRequest :: "string \<Rightarrow> ModelRequest" where
  "PlainStreamRequest cid = \<lparr>mr_client_id = cid, mr_last_received_round = 0, mr_tenant_id = kTenantId,
     mr_model_id = kModelId, mr_client_kem_public_key = []\<rparr>"

definition StreamCancellationTest :: "('f, 's, 'h) client_stub \<Rightarrow> string \<Rightarrow> 's world \<Rightarrow> bool \<times> 's world" where
  "StreamCancellationTest T cid w =
     (let (_, w1) = TestRegister T cid w;
          (reader, w2) = on_peer (cs_stream T None (PlainStreamRequest cid)) w1;
          (_, w3) = on_peer (cs_read T reader) (cs_cancel T reader (fst w2), snd w2);
          (st, w4) = on_peer (cs_finish T reader) w3;
          passed = (fst st = CANCELLED)
      in (passed, say (''[StreamTest] cancellation_mid_stream='' @ pass_text passed @ '' code='' @ to_string (fst st) @
           '' message='' @ snd st) w4))"

text \<open>The update is default-initialised, so its round is 0 where nothing was read.\<close>

definition read_round :: "GlobalModelUpdate option \<Rightarrow> int" where
  "read_round update = (case update of None \<Rightarrow> 0 | Some u \<Rightarrow> gm_round_index u)"

definition stream_passed :: "GlobalModelUpdate option \<Rightarrow> client_status \<Rightarrow> bool" where
  "stream_passed update st \<longleftrightarrow>
     update \<noteq> None \<and> read_round update > 0 \<and> (\<not> status_ok st \<or> fst st = CANCELLED)"

definition SlowConsumerBackpressureTest :: "('f, 's, 'h) client_stub \<Rightarrow> string \<Rightarrow> 's world \<Rightarrow> bool \<times> 's world" where
  "SlowConsumerBackpressureTest T cid w =
     (let (_, w1) = TestRegister T cid w;
          (reader, w2) = on_peer (cs_stream T (Some 5) (PlainStreamRequest cid)) w1;
          (update, w3) = on_peer (cs_read T reader) (cs_sleep T 1200 (fst w2), snd w2);
          (st, w4) = on_peer (cs_finish T reader) (cs_cancel T reader (fst w3), snd w3);
          passed = stream_passed update st
      in (passed, say (''[StreamTest] slow_consumer_backpressure='' @ pass_text passed @
           '' read_ok='' @ truth_text (update \<noteq> None) @ '' round='' @ to_string (read_round update) @
           '' finish_code='' @ to_string (fst st)) w4))"

section \<open>The concurrent test\<close>

text \<open>
  Where a thread of the test is: before its registration, before opening the stream, reading,
  cancelling and finishing, before reading the word of the results, before writing it back, ended.
  Each step is one call or one access to memory. What the threads print is left out.
\<close>

datatype 'h stream_pc =
    AtRegister
  | AtOpen
  | AtRead 'h
  | AtCancel 'h "GlobalModelUpdate option"
  | AtFinish 'h "GlobalModelUpdate option"
  | AtLoad bool
  | AtStore bool "64 word"
  | Exited bool

record ('s, 'h) stream_threads =
  th_pc :: "nat \<Rightarrow> 'h stream_pc"
  th_results :: "64 word"
  th_peer :: 's

definition concurrent_cid :: "nat \<Rightarrow> string" where
  "concurrent_cid i = ''stream-concurrent-'' @ to_string (int i + 1)"

text \<open>\<open>results[i] = b\<close> on the word that was read.\<close>

definition with_bit :: "nat \<Rightarrow> bool \<Rightarrow> 64 word \<Rightarrow> 64 word" where
  "with_bit i b x = (if b then set_bit i x else unset_bit i x)"

definition thread_step :: "('f, 's, 'h) client_stub \<Rightarrow> nat \<Rightarrow> ('s, 'h) stream_threads \<Rightarrow> ('s, 'h) stream_threads" where
  "thread_step T i S =
     (let go = (\<lambda>pc s. S\<lparr>th_pc := (th_pc S)(i := pc), th_peer := s\<rparr>) in
      case th_pc S i of
        AtRegister \<Rightarrow> go AtOpen (snd (cs_register T (TestRegistration (concurrent_cid i)) (th_peer S)))
      | AtOpen \<Rightarrow>
          (case cs_stream T (Some 5) (PlainStreamRequest (concurrent_cid i)) (th_peer S) of
             (reader, s) \<Rightarrow> go (AtRead reader) s)
      | AtRead reader \<Rightarrow> (case cs_read T reader (th_peer S) of (update, s) \<Rightarrow> go (AtCancel reader update) s)
      | AtCancel reader update \<Rightarrow> go (AtFinish reader update) (cs_cancel T reader (th_peer S))
      | AtFinish reader update \<Rightarrow>
          (case cs_finish T reader (th_peer S) of (st, s) \<Rightarrow> go (AtLoad (stream_passed update st)) s)
      | AtLoad b \<Rightarrow> go (AtStore b (th_results S)) (th_peer S)
      | AtStore b x \<Rightarrow> (go (Exited b) (th_peer S))\<lparr>th_results := with_bit i b x\<rparr>
      | Exited b \<Rightarrow> S)"

definition start_threads :: "'s \<Rightarrow> ('s, 'h) stream_threads" where
  "start_threads s = \<lparr>th_pc = (\<lambda>_. AtRegister), th_results = 0, th_peer = s\<rparr>"

text \<open>A schedule lists the threads in the order of their steps.\<close>

definition run_threads ::
  "('f, 's, 'h) client_stub \<Rightarrow> nat list \<Rightarrow> ('s, 'h) stream_threads \<Rightarrow> ('s, 'h) stream_threads" where
  "run_threads T sched S = fold (thread_step T) sched S"

definition thread_exited :: "('s, 'h) stream_threads \<Rightarrow> nat \<Rightarrow> bool" where
  "thread_exited S i = (case th_pc S i of Exited _ \<Rightarrow> True | _ \<Rightarrow> False)"

text \<open>\<open>join\<close> returns once a thread has ended; \<open>None\<close> is a schedule under which the test still waits.\<close>

definition ConcurrentStreamTest ::
  "('f, 's, 'h) client_stub \<Rightarrow> nat list \<Rightarrow> 's world \<Rightarrow> (bool \<times> 's world) option" where
  "ConcurrentStreamTest T sched w =
     (let S = run_threads T (filter (\<lambda>i. i < 3) sched) (start_threads (fst w)) in
      if \<not> list_all (thread_exited S) [0, 1, 2] then None
      else let passed = list_all (bit (th_results S)) [0, 1, 2]
           in Some (passed, say (''[StreamTest] concurrent_worker_connections='' @ pass_text passed @ '' clients='' @
                to_string 3) (th_peer S, snd w)))"

section \<open>The program\<close>

definition test_credentials :: "(string \<rightharpoonup> string) \<Rightarrow> string \<times> string \<times> string" where
  "test_credentials files = (ReadFile files ''/app/certs/ca.crt'', ReadFile files ''/app/certs/client.crt'',
     ReadFile files ''/app/certs/client.key'')"

text \<open>The two clients register, fetch their configuration and send their weights; \<open>Ks i\<close> holds the randomness
  of the \<open>i\<close>-th call.\<close>

definition TrainTwo ::
  "crypto_prims \<Rightarrow> (nat \<Rightarrow> 'f client_env) \<Rightarrow> ('f, 's, 'h) client_stub \<Rightarrow> ('f, 's, 'h) client_stub \<Rightarrow> string \<Rightarrow> string
     \<Rightarrow> string \<Rightarrow> string \<Rightarrow> 'f list \<Rightarrow> 'f list \<Rightarrow> 's world \<Rightarrow> (string + unit) \<times> 's world" where
  "TrainTwo C Ks T1 T2 before between cid1 cid2 w1 w2 w =
     (let (_, a1) = TestRegister T1 cid1 (fst w, snd w @ before);
          (_, a2) = TestRegister T2 cid2 a1;
          (cfg1, a3) = FetchConfig T1 cid1 a2;
          (cfg2, a4) = FetchConfig T2 cid2 a3
      in case TestSendWeights C (Ks 0) T1 cid1 w1 cfg1 (fst a4, snd a4 @ between) of
        (Inl err, a5) \<Rightarrow> (Inl err, a5)
      | (Inr _, a5) \<Rightarrow> TestSendWeights C (Ks 1) T2 cid2 w2 cfg2 a5)"

definition tenths :: "'f arith \<Rightarrow> int list \<Rightarrow> 'f list" where
  "tenths A ns = map (\<lambda>n. ratio A n 10) ns"

definition StreamTestsMain ::
  "'f arith \<Rightarrow> crypto_prims \<Rightarrow> (nat \<Rightarrow> 'f client_env) \<Rightarrow> ('f, 's, 'h) client_stub \<Rightarrow> ('f, 's, 'h) client_stub
     \<Rightarrow> nat list \<Rightarrow> 's world \<Rightarrow> ((string + int) \<times> 's world) option" where
  "StreamTestsMain A C Ks T1 T2 sched w =
     (case TrainTwo C Ks T1 T2 '''' '''' ''stream-seed-1'' ''stream-seed-2''
             (tenths A [1, 2, - 1, 4]) (tenths A [2, 1, - 2, 3]) w of
        (Inl err, w1) \<Rightarrow> Some (Inl err, w1)
      | (Inr _, w1) \<Rightarrow>
          let (ok1, w2) = StreamCancellationTest T1 ''stream-cancel-client'' w1;
              (ok2, w3) = SlowConsumerBackpressureTest T1 ''stream-slow-client'' w2
          in map_option (\<lambda>(ok3, w4). let ok = ok1 \<and> ok2 \<and> ok3 in
               (Inr (if ok then 0 else 1), say (''[StreamTest] async_cq_stream_tests='' @ pass_text ok) w4))
             (ConcurrentStreamTest T1 sched w3))"

definition DemoMain ::
  "'f arith \<Rightarrow> crypto_prims \<Rightarrow> (nat \<Rightarrow> 'f client_env) \<Rightarrow> ('f, 's, 'h) client_stub \<Rightarrow> ('f, 's, 'h) client_stub
     \<Rightarrow> 's world \<Rightarrow> (string + int) \<times> 's world" where
  "DemoMain A C Ks T1 T2 w =
     (case TrainTwo C Ks T1 T2 (''>>> EDGE CLIENTS CONNECTING...'' @ newline @ newline)
             (newline @ ''>>> TRANSMITTING ENCRYPTED WEIGHT TENSORS...'' @ newline) ''edge-client-1'' ''edge-client-2''
             (tenths A [1, 5, - 2, 8]) (tenths A [2, 4, - 1, 9]) w of
        (Inl err, w1) \<Rightarrow> (Inl err, w1)
      | (Inr _, w1) \<Rightarrow>
          (case TestReceiveModel C (Ks 2) T1 ''edge-client-1''
                  (fst w1, snd w1 @ newline @ ''>>> RECEIVING AND VERIFYING SIGNED GLOBAL MODEL...'' @ newline) of
             (Inl err, w2) \<Rightarrow> (Inl err, w2)
           | (Inr _, w2) \<Rightarrow> (Inr 0, w2)))"

text \<open>\<open>main\<close>: \<open>Inl\<close> is an exception, which ends the program, \<open>Inr\<close> its exit code, \<open>None\<close> a schedule under
  which a thread has not ended.\<close>

definition test_client_main ::
  "'f arith \<Rightarrow> crypto_prims \<Rightarrow> ('k \<Rightarrow> string \<Rightarrow> byte list \<Rightarrow> bool) \<Rightarrow> (string \<Rightarrow> 'k option)
     \<Rightarrow> (nat \<Rightarrow> string \<Rightarrow> string \<times> string \<times> string \<Rightarrow> ('f, 's, 'h) client_stub) \<Rightarrow> (string \<rightharpoonup> string) \<Rightarrow> (string \<rightharpoonup> string)
     \<Rightarrow> key_files \<Rightarrow> string list \<Rightarrow> (nat \<Rightarrow> 'f client_env) \<Rightarrow> nat list \<Rightarrow> 's \<Rightarrow> ((string + int) \<times> 's world) option" where
  "test_client_main A C verify parse_cert connect env files fs args Ks sched s =
     (let w = (s, newline @ ''>>> ALLOCATING PQ-mTLS SECURE CHANNELS...'' @ newline);
          address = or_default (env ''PQFL_ADDRESS'') kDefaultAddress;
          payload_path = or_default (env ''PQFL_PAYLOAD_KEY_PATH'') kDefaultPayloadSecretPath
      in case LoadSecretFile fs payload_path of
        Inl err \<Rightarrow> Some (Inl err, w)
      | Inr payload_secret \<Rightarrow>
          let Ks' = (\<lambda>i. (Ks i)\<lparr>ke_payload_secret := payload_secret,
                ke_verify := VerifySignature verify (LoadPublicKeyFromCertificate parse_cert files ''/app/certs/server.crt'')\<rparr>);
              client = (\<lambda>i. connect i address (test_credentials files))
          in if args \<noteq> [] \<and> hd args = ''--stream-tests'' then StreamTestsMain A C Ks' (client 1) (client 2) sched w
             else Some (DemoMain A C Ks' (client 1) (client 2) w))"

end
