(* ===== verification/Test_Client_Guarantees.thy ===== *)
theory Test_Client_Guarantees
  imports Test_Client
begin

text \<open>
  The guarantees of the test client: what the concurrent test of the streams says of its three threads,
  under every schedule, and what the exit code of the program says.
\<close>

section \<open>The threads of the concurrent test\<close>

lemma run_threads_simps [simp]:
  "run_threads T [] S = S" "run_threads T (i # sched) S = run_threads T sched (thread_step T i S)"
  "run_threads T (xs @ ys) S = run_threads T ys (run_threads T xs S)"
  by (simp_all add: run_threads_def)

text \<open>A step of a thread moves that thread alone.\<close>

lemma step_other: "j \<noteq> i \<Longrightarrow> th_pc (thread_step T i S) j = th_pc S j"
  by (simp add: thread_step_def Let_def split: stream_pc.split prod.split)

lemma run_other: "j \<notin> set sched \<Longrightarrow> th_pc (run_threads T sched S) j = th_pc S j"
  by (induction sched arbitrary: S) (simp_all add: step_other)

text \<open>The number of steps a thread has left.\<close>

fun steps_left :: "'h stream_pc \<Rightarrow> nat" where
  "steps_left AtRegister = 7"
| "steps_left AtOpen = 6"
| "steps_left (AtRead _) = 5"
| "steps_left (AtCancel _ _) = 4"
| "steps_left (AtFinish _ _) = 3"
| "steps_left (AtLoad _) = 2"
| "steps_left (AtStore _ _) = 1"
| "steps_left (Exited _) = 0"

lemma steps_left_bound: "steps_left pc \<le> 7"
  by (cases pc) simp_all

lemma step_left: "steps_left (th_pc (thread_step T i S) i) = steps_left (th_pc S i) - 1"
  by (simp add: thread_step_def Let_def split: stream_pc.split prod.split)

lemma run_left: "steps_left (th_pc (run_threads T (replicate n i) S) i) = steps_left (th_pc S i) - n"
  by (induction n arbitrary: S) (simp_all add: step_left)

lemma exited_left: "thread_exited S i \<longleftrightarrow> steps_left (th_pc S i) = 0"
  by (simp add: thread_exited_def split: stream_pc.split)

definition all_to_the_end :: "nat list" where
  "all_to_the_end = replicate 7 0 @ replicate 7 1 @ replicate 7 2"

lemma all_exit: "list_all (thread_exited (run_threads T all_to_the_end S)) [0, 1, 2]"
  by (simp add: all_to_the_end_def exited_left run_left run_other steps_left_bound)

text \<open>What a set bit says: its thread has passed. The word a thread is about to write back holds no others.\<close>

definition results_sound :: "('s, 'h) stream_threads \<Rightarrow> bool" where
  "results_sound S \<longleftrightarrow>
     (\<forall>j<3. bit (th_results S) j \<longrightarrow> th_pc S j = Exited True) \<and>
     (\<forall>i b x. th_pc S i = AtStore b x \<longrightarrow> (\<forall>j<3. bit x j \<longrightarrow> th_pc S j = Exited True))"

lemma bit_with_bit: "j < 64 \<Longrightarrow> bit (with_bit i b x) j \<longleftrightarrow> (if j = i then b else bit x j)"
  by (auto simp: with_bit_def bit_simps)

lemma results_sound_start: "results_sound (start_threads s)"
  by (simp add: results_sound_def start_threads_def)

lemma results_sound_step: "results_sound S \<Longrightarrow> results_sound (thread_step T i S)"
  by (auto simp: results_sound_def thread_step_def Let_def bit_with_bit split: stream_pc.splits prod.splits if_splits)

lemma results_sound_run: "results_sound S \<Longrightarrow> results_sound (run_threads T sched S)"
  by (induction sched arbitrary: S) (simp_all add: results_sound_step)

section \<open>The verdict of the concurrent test\<close>

text \<open>The state of the threads after a schedule, from the start of the test.\<close>

definition after_schedule :: "('f, 's, 'h) client_stub \<Rightarrow> nat list \<Rightarrow> 's world \<Rightarrow> ('s, 'h) stream_threads" where
  "after_schedule T sched w = run_threads T (filter (\<lambda>i. i < 3) sched) (start_threads (fst w))"

abbreviation verdict :: "('f, 's, 'h) client_stub \<Rightarrow> nat list \<Rightarrow> 's world \<Rightarrow> bool option" where
  "verdict T sched w \<equiv> map_option fst (ConcurrentStreamTest T sched w)"

lemma verdict_eq: "verdict T sched w =
    (if list_all (thread_exited (after_schedule T sched w)) [0, 1, 2]
     then Some (list_all (bit (th_results (after_schedule T sched w))) [0, 1, 2]) else None)"
  by (simp add: ConcurrentStreamTest_def after_schedule_def Let_def)

text \<open>A server that serves: every read brings an update of some round, and every stream ends as cancelled.\<close>

definition streams_deliver :: "('f, 's, 'h) client_stub \<Rightarrow> bool" where
  "streams_deliver T \<longleftrightarrow>
     (\<forall>h s. (\<exists>u. fst (cs_read T h s) = Some u \<and> 0 < gm_round_index u) \<and> fst (fst (cs_finish T h s)) = CANCELLED)"

lemma thread_fetches:
  assumes "th_pc S i = AtRegister" "streams_deliver T"
  shows "\<exists>s. run_threads T (replicate 5 i) S = S\<lparr>th_pc := (th_pc S)(i := AtLoad True), th_peer := s\<rparr>"
proof -
  let ?s1 = "snd (cs_register T (TestRegistration (concurrent_cid i)) (th_peer S))"
  obtain h s2 where s2: "cs_stream T (Some 5) (PlainStreamRequest (concurrent_cid i)) ?s1 = (h, s2)" by (cases rule: prod.exhaust)
  obtain u s3 where s3: "cs_read T h s2 = (Some u, s3)" "0 < gm_round_index u"
    using assms(2) unfolding streams_deliver_def by (metis prod.collapse)
  obtain m s5 where s5: "cs_finish T h (cs_cancel T h s3) = ((CANCELLED, m), s5)"
    using assms(2) unfolding streams_deliver_def by (metis prod.collapse)
  show ?thesis
    by (rule exI [of _ s5])
      (simp add: numeral_eq_Suc thread_step_def Let_def assms(1) s2 s3 s5 stream_passed_def read_round_def)
qed

text \<open>All three streams are done; the schedule then orders the accesses to the results.\<close>

lemma threads_fetch:
  assumes "streams_deliver T"
  shows "\<exists>s. after_schedule T (replicate 5 0 @ replicate 5 1 @ replicate 5 2 @ sched) w =
    run_threads T (filter (\<lambda>i. i < 3) sched) \<lparr>th_pc = ((\<lambda>_. AtRegister)(0 := AtLoad True, 1 := AtLoad True, 2 := AtLoad True)),
      th_results = 0, th_peer = s\<rparr>"
proof -
  obtain s1 where s1: "run_threads T (replicate 5 0) (start_threads (fst w)) =
      (start_threads (fst w))\<lparr>th_pc := (\<lambda>_. AtRegister)(0 := AtLoad True), th_peer := s1\<rparr>"
    using thread_fetches [OF _ assms, of "start_threads (fst w)" 0] by (auto simp: start_threads_def)
  obtain s2 where s2: "run_threads T (replicate 5 1) \<lparr>th_pc = (\<lambda>_. AtRegister)(0 := AtLoad True), th_results = 0, th_peer = s1\<rparr> =
      \<lparr>th_pc = (\<lambda>_. AtRegister)(0 := AtLoad True, 1 := AtLoad True), th_results = 0, th_peer = s2\<rparr>"
    using thread_fetches [OF _ assms, of "\<lparr>th_pc = (\<lambda>_. AtRegister)(0 := AtLoad True), th_results = 0, th_peer = s1\<rparr>" 1] by auto
  obtain s3 where s3: "run_threads T (replicate 5 2) \<lparr>th_pc = (\<lambda>_. AtRegister)(0 := AtLoad True, 1 := AtLoad True),
        th_results = 0, th_peer = s2\<rparr> =
      \<lparr>th_pc = (\<lambda>_. AtRegister)(0 := AtLoad True, 1 := AtLoad True, 2 := AtLoad True), th_results = 0, th_peer = s3\<rparr>"
    using thread_fetches [OF _ assms, of "\<lparr>th_pc = (\<lambda>_. AtRegister)(0 := AtLoad True, 1 := AtLoad True),
        th_results = 0, th_peer = s2\<rparr>" 2] by auto
  show ?thesis
    by (rule exI [of _ s3])
      (use s1 s2 s3 in \<open>simp add: after_schedule_def start_threads_def filter_replicate\<close>)
qed

text \<open>In turn, every thread reads the word after the one before has written it; in the race thread 0 and thread 1
  both read it first.\<close>

definition in_turn :: "nat list" where
  "in_turn = replicate 5 0 @ replicate 5 1 @ replicate 5 2 @ [0, 0, 1, 1, 2, 2]"

definition in_a_race :: "nat list" where
  "in_a_race = replicate 5 0 @ replicate 5 1 @ replicate 5 2 @ [0, 1, 0, 1, 2, 2]"

lemma turn_and_race:
  assumes "streams_deliver T"
  shows "verdict T in_turn w = Some True" "verdict T in_a_race w = Some False"
    "\<forall>i<3. th_pc (after_schedule T in_a_race w) i = Exited True"
proof -
  note steps = thread_step_def Let_def with_bit_def bit_simps thread_exited_def
  obtain s where "after_schedule T in_turn w = run_threads T [0, 0, 1, 1, 2, 2]
      \<lparr>th_pc = ((\<lambda>_. AtRegister)(0 := AtLoad True, 1 := AtLoad True, 2 := AtLoad True)), th_results = 0, th_peer = s\<rparr>"
    using threads_fetch [OF assms, of "[0, 0, 1, 1, 2, 2]" w] by (auto simp: in_turn_def)
  then show "verdict T in_turn w = Some True" by (simp add: verdict_eq steps)
  obtain s where race: "after_schedule T in_a_race w = run_threads T [0, 1, 0, 1, 2, 2]
      \<lparr>th_pc = ((\<lambda>_. AtRegister)(0 := AtLoad True, 1 := AtLoad True, 2 := AtLoad True)), th_results = 0, th_peer = s\<rparr>"
    using threads_fetch [OF assms, of "[0, 1, 0, 1, 2, 2]" w] by (auto simp: in_a_race_def)
  then show "verdict T in_a_race w = Some False" by (simp add: verdict_eq steps)
  show "\<forall>i<3. th_pc (after_schedule T in_a_race w) i = Exited True"
    using race by (simp add: steps numeral_eq_Suc less_Suc_eq)
qed

text \<open>C32: The test of concurrent streams against all schedules of its three threads. It reports PASS only if
  every thread has seen its stream deliver, and no schedule keeps it from ending; but the threads share one
  word for their results without a lock, so on a server that serves every stream it reports PASS under
  one schedule and FAIL under another, in which all three threads have passed.\<close>

theorem concurrent_verdict:
  "(verdict T sched w = Some True \<longrightarrow> (\<forall>i<3. th_pc (after_schedule T sched w) i = Exited True)) \<and>
   (\<exists>more. verdict T (sched @ more) w \<noteq> None) \<and>
   (streams_deliver T \<longrightarrow> (\<exists>fair. verdict T fair w = Some True) \<and>
      (\<exists>race. verdict T race w = Some False \<and> (\<forall>i<3. th_pc (after_schedule T race w) i = Exited True)))"
proof (intro conjI impI)
  have sound: "results_sound (after_schedule T sched w)"
    unfolding after_schedule_def by (rule results_sound_run [OF results_sound_start])
  show "\<forall>i<3. th_pc (after_schedule T sched w) i = Exited True" if "verdict T sched w = Some True"
    using that sound by (auto simp: verdict_eq results_sound_def numeral_eq_Suc less_Suc_eq split: if_splits)
  have "list_all (thread_exited (after_schedule T (sched @ all_to_the_end) w)) [0, 1, 2]"
    using all_exit by (simp add: after_schedule_def all_to_the_end_def filter_replicate)
  then show "\<exists>more. verdict T (sched @ more) w \<noteq> None" by (intro exI [of _ all_to_the_end]) (simp only: verdict_eq if_True, simp)
  assume "streams_deliver T"
  note runs = turn_and_race [OF this, of w]
  show "\<exists>fair. verdict T fair w = Some True" using runs(1) by blast
  show "\<exists>race. verdict T race w = Some False \<and> (\<forall>i<3. th_pc (after_schedule T race w) i = Exited True)"
    using runs(2,3) by blast
qed

text \<open>A stub whose streams bring an update of round 1.\<close>

definition first_update :: GlobalModelUpdate where
  "first_update = \<lparr>gm_round_index = 1, gm_encrypted_weights = [], gm_iv = [], gm_auth_tag = [], gm_server_signature = [],
     gm_aggregation_method = ''fedavg'', gm_tenant_id = kTenantId, gm_model_id = kModelId, gm_model_version = 1,
     gm_key_version = 1, gm_server_nonce = '''', gm_kem_ciphertext = [], gm_key_agreement = ''shared-secret''\<rparr>"

definition serving_stub :: "'f TrainingConfig \<Rightarrow> ('f, nat, nat) client_stub" where
  "serving_stub config = \<lparr>
     cs_register = (\<lambda>q s. (((0, ''''), \<lparr>rr_accepted = True, rr_assigned_id = rg_client_id q, rr_current_round = 1,
       rr_active_model_version = 1\<rparr>), s)),
     cs_config = (\<lambda>q s. (((0, ''''), config), s)),
     cs_submit = (\<lambda>q s. (((0, ''''), \<lparr>ar_accepted = True, ar_message = '''', ar_clients_received = 1, ar_clients_required = 1,
       ar_aggregation_triggered = False, ar_active_model_version = 1, ar_active_key_version = 1\<rparr>), s)),
     cs_stream = (\<lambda>deadline q s. (s, s + 1)), cs_read = (\<lambda>h s. (Some first_update, s)), cs_cancel = (\<lambda>h s. s),
     cs_finish = (\<lambda>h s. ((CANCELLED, ''cancelled''), s)), cs_sleep = (\<lambda>ms s. s)\<rparr>"

theorem concurrent_verdict_witness:
  "\<forall>config :: 'f TrainingConfig. \<exists>race. verdict (serving_stub config) race (0, '''') = Some False \<and>
     (\<forall>i<3. th_pc (after_schedule (serving_stub config) race (0, '''')) i = Exited True)"
proof
  fix config :: "'f TrainingConfig"
  have "streams_deliver (serving_stub config)" by (simp add: streams_deliver_def serving_stub_def first_update_def)
  then show "\<exists>race. verdict (serving_stub config) race (0, '''') = Some False \<and>
     (\<forall>i<3. th_pc (after_schedule (serving_stub config) race (0, '''')) i = Exited True)"
    using concurrent_verdict [of "serving_stub config" "[]" "(0, '''')"] by blast
qed

section \<open>The condition on the status\<close>

text \<open>Any failure of the stream after its first update counts as the expected cancellation.\<close>

lemma stream_passed_any_failure: "stream_passed (Some u) st \<longleftrightarrow> 0 < gm_round_index u \<and> \<not> status_ok st"
  by (auto simp: stream_passed_def read_round_def CANCELLED_def)

section \<open>The exit code\<close>

text \<open>The demo ends with 0 whatever the server answers, be it a refusal of every call; the tests of the
  stream do report theirs.\<close>

lemma demo_exit_code: "DemoMain A C Ks T1 T2 w = (Inr code, w') \<Longrightarrow> code = 0"
  by (auto simp: DemoMain_def split: prod.splits sum.splits)

lemma stream_tests_exit_code: "StreamTestsMain A C Ks T1 T2 sched w = Some (Inr code, w') \<Longrightarrow> code = 0 \<or> code = 1"
  by (auto simp: StreamTestsMain_def Let_def split: prod.splits sum.splits if_splits)

end
