(* ===== verification/Registration_Race.thy ===== *)
theory Registration_Race
  imports Server_Guarantees
begin

text \<open>
  Registration under real interleaving. \<open>RegisterClient\<close> runs under the mutex of the federated service,
  \<open>RegisterWorker\<close> on a thread of gRPC, and both call the registry and the store, each of which locks for
  one operation only. Here the two handlers are stepped one operation of the shared objects at a time;
  run alone they are the handlers of \<open>Federated_Service\<close> and \<open>Worker_Service\<close>.
\<close>

section \<open>The steps of the two handlers\<close>

text \<open>\<open>RegisterClient\<close> once its checks have passed: the registry, the store, the audit trail. The reads in between
  only fill the response.\<close>

definition registration_info :: "(nat \<Rightarrow> clock) \<Rightarrow> string \<Rightarrow> ClientRegistration \<Rightarrow> ClientInfo" where
  "registration_info clks peer_identity q =
     \<lparr>ci_tenant_id = NormalizeTenant (rg_tenant_id q), ci_model_id = NormalizeModel (rg_model_id q),
      ci_client_id = rg_client_id q, ci_peer_identity = peer_identity,
      ci_local_dataset_size = max 1 (rg_local_dataset_size q), ci_hardware_info = rg_hardware_info q,
      ci_dataset_fingerprint = rg_dataset_fingerprint q, ci_registered_at = CurrentTimestamp (clks 0 0),
      ci_last_active_round = - 1\<rparr>"

datatype client_pc = ClientRegisters | ClientRecords bool | ClientAudits bool | ClientDone bool

definition client_step ::
  "(nat \<Rightarrow> clock) \<Rightarrow> ClientInfo \<Rightarrow> client_pc \<times> registry \<times> state_store \<Rightarrow> client_pc \<times> registry \<times> state_store" where
  "client_step clks info = (\<lambda>(pc, r, s).
     case pc of
       ClientRegisters \<Rightarrow> (let (accepted, r') = Register info r in (ClientRecords accepted, r', s))
     | ClientRecords accepted \<Rightarrow> (ClientAudits accepted, r, RecordClientRegistration (clks 1) (row_of info) s)
     | ClientAudits accepted \<Rightarrow>
         (ClientDone accepted, r, RecordAuditEvent (clks 3)
            (audit_event (CurrentTimestamp (clks 2 0))
              (if accepted then ''client_registered'' else ''client_register_duplicate'')
              (ci_tenant_id info) (ci_model_id info) (ci_client_id info)
              (''Dataset size '' @ to_string (ci_local_dataset_size info))) s)
     | ClientDone accepted \<Rightarrow> (ClientDone accepted, r, s))"

text \<open>The trainer's part of \<open>RegisterWorker\<close>.\<close>

datatype trainer_pc = TrainerAsks | TrainerRegisters | TrainerBinds | TrainerRecords | TrainerDone

definition trainer_step ::
  "(nat \<Rightarrow> clock) \<Rightarrow> string \<Rightarrow> WorkerRegistration \<Rightarrow> trainer_pc \<times> registry \<times> state_store
     \<Rightarrow> trainer_pc \<times> registry \<times> state_store" where
  "trainer_step clks peer q = (\<lambda>(pc, r, s).
     let t = NormalizeTenant (wr_tenant_id q); m = NormalizeModel (wr_model_id q);
         now = CurrentTimestamp (clks 2 0) in
     case pc of
       TrainerAsks \<Rightarrow> (if IsRegistered t m (trainer_name q) r then TrainerBinds else TrainerRegisters, r, s)
     | TrainerRegisters \<Rightarrow> (TrainerRecords, snd (Register (trainer_info peer now q) r), s)
     | TrainerBinds \<Rightarrow>
         (let (bound, r') = BindPeerIdentityIfMissing t m (trainer_name q) peer r
          in (if bound then TrainerRecords else TrainerDone, r', s))
     | TrainerRecords \<Rightarrow> (TrainerDone, r, RecordClientRegistration (clks 3) (trainer_row peer now q) s)
     | TrainerDone \<Rightarrow> (TrainerDone, r, s))"

lemmas handler_steps = client_step_def trainer_step_def

text \<open>Alone, the steps are the handlers.\<close>

lemma client_steps_alone:
  assumes "ValidateFederatedRequestIds (rg_tenant_id q) (rg_model_id q) (rg_client_id q) = ''''"
    and "IsPeerAuthenticated ctx" and "NormalizePeerIdentity (GetPeerIdentity ctx) \<noteq> ''''"
  shows "\<exists>accepted r s. (client_step clks (registration_info clks (NormalizePeerIdentity (GetPeerIdentity ctx)) q) ^^ 3)
      (ClientRegisters, sv_registry sv, sv_store sv) = (ClientDone accepted, r, s) \<and>
    rr_accepted (snd (fst (RegisterClient clks ctx q sv))) = accepted \<and>
    snd (RegisterClient clks ctx q sv) = sv\<lparr>sv_registry := r, sv_store := s\<rparr>"
  using assms
  by (simp add: RegisterClient_def registration_info_def row_of_def client_step_def Let_def case_prod_unfold numeral_3_eq_3)

lemma trainer_steps_alone:
  "(trainer_step clks peer q ^^ 3) (TrainerAsks, r, s) = (TrainerDone, EnsureTrainerClient clks peer q (r, s))"
  by (simp add: EnsureTrainerClient_def trainer_step_def Let_def case_prod_unfold numeral_3_eq_3)

section \<open>Both at once\<close>

datatype registrar = ClientTurn | WorkerTurn

definition race_step ::
  "(nat \<Rightarrow> clock) \<Rightarrow> ClientInfo \<Rightarrow> (nat \<Rightarrow> clock) \<Rightarrow> string \<Rightarrow> WorkerRegistration \<Rightarrow> registrar
     \<Rightarrow> client_pc \<times> trainer_pc \<times> registry \<times> state_store \<Rightarrow> client_pc \<times> trainer_pc \<times> registry \<times> state_store" where
  "race_step clks info wclks peer wq turn = (\<lambda>(cpc, tpc, rs).
     case turn of
       ClientTurn \<Rightarrow> (let (cpc', rs') = client_step clks info (cpc, rs) in (cpc', tpc, rs'))
     | WorkerTurn \<Rightarrow> (let (tpc', rs') = trainer_step wclks peer wq (tpc, rs) in (cpc, tpc', rs')))"

definition race_run ::
  "(nat \<Rightarrow> clock) \<Rightarrow> ClientInfo \<Rightarrow> (nat \<Rightarrow> clock) \<Rightarrow> string \<Rightarrow> WorkerRegistration \<Rightarrow> registrar list
     \<Rightarrow> registry \<times> state_store \<Rightarrow> client_pc \<times> trainer_pc \<times> registry \<times> state_store" where
  "race_run clks info wclks peer wq sched rs =
     fold (race_step clks info wclks peer wq) sched (ClientRegisters, TrainerAsks, rs)"

text \<open>The worker's thread asks, the client's thread registers, and then both go on.\<close>

definition split_schedule :: "registrar list" where
  "split_schedule = [WorkerTurn, ClientTurn, WorkerTurn, WorkerTurn, ClientTurn, ClientTurn]"

text \<open>Whatever was recorded first under a key stays.\<close>

lemma record_new_peer:
  assumes "\<forall>r\<in>set (clients s). cl_peer_identity r \<noteq> ''''" and "map_of (client_peers s) (client_row_key row) = None"
  shows "map_of (client_peers (RecordClientRegistration clk row s)) (client_row_key row) = Some (cl_peer_identity row)"
  using record_peers [OF assms(1), of clk row] assms(2) by (auto simp: map_add_def)

lemma record_keeps_peer:
  assumes "\<forall>r\<in>set (clients s). cl_peer_identity r \<noteq> ''''" and "map_of (client_peers s) k = Some p"
  shows "map_of (client_peers (RecordClientRegistration clk row s)) k = Some p"
  using record_peers [OF assms(1), of clk row] assms(2) by (auto simp: map_add_def)

section \<open>One after the other\<close>

lemma client_turns:
  "(race_step clks info wclks peer wq ClientTurn ^^ n) (cpc, tpc, rs) =
    (fst ((client_step clks info ^^ n) (cpc, rs)), tpc, snd ((client_step clks info ^^ n) (cpc, rs)))"
  by (induction n) (simp_all add: race_step_def case_prod_unfold Let_def)

lemma worker_turns:
  "(race_step clks info wclks peer wq WorkerTurn ^^ n) (cpc, tpc, rs) =
    (cpc, fst ((trainer_step wclks peer wq ^^ n) (tpc, rs)), snd ((trainer_step wclks peer wq ^^ n) (tpc, rs)))"
  by (induction n) (simp_all add: race_step_def case_prod_unfold Let_def)

lemma mirrors_shared: "(shared_step word_config)\<^sup>*\<^sup>* x y \<Longrightarrow> mirrors x \<Longrightarrow> mirrors y"
  by (induction rule: rtranclp_induct) (auto intro: shared_step_mirrors [OF _ word_config_plain])

lemma mirrors_trainer: "mirrors rs \<Longrightarrow> p \<noteq> '''' \<Longrightarrow> mirrors (EnsureTrainerClient clks p q rs)"
  by (rule mirrors_shared [OF run_ensure_trainer]) (simp_all add: granted_def)

lemma client_alone_effect:
  "snd ((client_step clks info ^^ 3) (ClientRegisters, r, s)) = (snd (Register info r),
     RecordAuditEvent (clks 3) (audit_event (CurrentTimestamp (clks 2 0))
       (if fst (Register info r) then ''client_registered'' else ''client_register_duplicate'')
       (ci_tenant_id info) (ci_model_id info) (ci_client_id info)
       (''Dataset size '' @ to_string (ci_local_dataset_size info)))
      (RecordClientRegistration (clks 1) (row_of info) s))"
  by (simp add: client_step_def numeral_3_eq_3 case_prod_unfold Let_def)

lemma mirrors_client:
  assumes "mirrors (r, s)" and "ci_peer_identity info \<noteq> ''''"
  shows "mirrors (snd ((client_step clks info ^^ 3) (ClientRegisters, r, s)))"
proof (rule mirrors_shared [OF _ assms(1)])
  have "shared_step word_config (r, s) (snd (Register info r), RecordClientRegistration (clks 1) (row_of info) s)"
    using assms(2) by (intro shared_register) (simp add: granted_def)
  then show "(shared_step word_config)\<^sup>*\<^sup>* (r, s) (snd ((client_step clks info ^^ 3) (ClientRegisters, r, s)))"
    unfolding client_alone_effect by (rule converse_rtranclp_into_rtranclp) (rule r_into_rtranclp, rule shared_ops)
qed

definition serial_schedules :: "registrar list list" where
  "serial_schedules = [replicate 3 ClientTurn @ replicate 3 WorkerTurn, replicate 3 WorkerTurn @ replicate 3 ClientTurn]"

lemma serial_order:
  assumes "mirrors (r, s)" and "ci_peer_identity info \<noteq> ''''" and "p' \<noteq> ''''" and "sched \<in> set serial_schedules"
  shows "mirrors (snd (snd (race_run clks info wclks p' wq sched (r, s))))"
proof -
  let ?rs = "snd ((client_step clks info ^^ 3) (ClientRegisters, r, s))"
  have "mirrors (EnsureTrainerClient wclks p' wq ?rs)"
    by (rule mirrors_trainer [OF mirrors_client [OF assms(1,2)] assms(3)])
  moreover have "(trainer_step wclks p' wq ^^ 3) (TrainerAsks, ?rs) = (TrainerDone, EnsureTrainerClient wclks p' wq ?rs)"
    using trainer_steps_alone [of wclks p' wq "fst ?rs" "snd ?rs"] by simp
  moreover obtain r' s' where rs': "EnsureTrainerClient wclks p' wq (r, s) = (r', s')" by (cases rule: prod.exhaust)
  moreover have "mirrors (r', s')" using mirrors_trainer [OF assms(1,3), of wclks wq] by (simp add: rs')
  ultimately show ?thesis
    using assms(4) mirrors_client [OF _ assms(2), of r' s' clks]
    by (auto simp: serial_schedules_def race_run_def client_turns worker_turns trainer_steps_alone)
qed

section \<open>The split identity\<close>

lemma split_run:
  assumes "\<not> IsRegistered (NormalizeTenant (wr_tenant_id wq)) (NormalizeModel (wr_model_id wq)) (trainer_name wq) r"
  shows "\<exists>s'. race_run clks info wclks peer wq split_schedule (r, s) =
      (ClientDone (fst (Register info r)), TrainerDone,
       snd (Register (trainer_info peer (CurrentTimestamp (wclks 2 0)) wq) (snd (Register info r))), s') \<and>
    clients s' = clients (RecordClientRegistration (clks 1) (row_of info)
      (RecordClientRegistration (wclks 3) (trainer_row peer (CurrentTimestamp (wclks 2 0)) wq) s))"
  using assms
  by (simp add: race_run_def split_schedule_def race_step_def client_step_def trainer_step_def Let_def case_prod_unfold frame_simps)

text \<open>C5: Two requests for a client name that is not yet registered, one by the client itself and one by a worker
  for its trainer, under different certificates. One after the other, in either order, they leave the
  registry and the store in agreement; but the operations of the two handlers can interleave so that
  the client is told it is registered and the registry accepts it and nobody else, while after a restart
  the server accepts the worker's certificate and nobody else.\<close>

theorem registration_race:
  assumes "mirrors (r, s)" and "p \<noteq> ''''" and "p' \<noteq> ''''"
    and "\<not> IsRegistered (rg_tenant_id q) (rg_model_id q) (rg_client_id q) r"
    and "wr_tenant_id wq = rg_tenant_id q" and "wr_model_id wq = rg_model_id q" and "trainer_name wq = rg_client_id q"
  shows "(\<forall>sched\<in>set serial_schedules.
      mirrors (snd (snd (race_run clks (registration_info clks p q) wclks p' wq sched (r, s))))) \<and>
    (\<exists>sched r' s'. race_run clks (registration_info clks p q) wclks p' wq sched (r, s) =
        (ClientDone True, TrainerDone, r', s') \<and>
      (\<forall>x. IsRegisteredForPeer (rg_tenant_id q) (rg_model_id q) (rg_client_id q) x r' \<longleftrightarrow> x = p) \<and>
      (\<forall>x. IsRegisteredForPeer (rg_tenant_id q) (rg_model_id q) (rg_client_id q) x
         (registry_of_clients (ListClients '''' '''' s')) \<longleftrightarrow> x = p'))"
proof -
  let ?info = "registration_info clks p q" and ?k = "ClientKey (rg_tenant_id q) (rg_model_id q) (rg_client_id q)"
  let ?row = "trainer_row p' (CurrentTimestamp (wclks 2 0)) wq"
  let ?s1 = "RecordClientRegistration (wclks 3) ?row s"
  let ?s2 = "RecordClientRegistration (clks 1) (row_of ?info) ?s1"
  have new: "registry_peer r ?k = None" using assms(4) by (simp add: IsRegistered_peer)
  have ne: "\<forall>x\<in>set (clients s). cl_peer_identity x \<noteq> ''''" and fresh: "map_of (client_peers s) ?k = None"
    using assms(1) new by (simp_all add: mirrors_def)
  have key: "client_row_key ?row = ?k" "cl_peer_identity ?row = p'" "cl_peer_identity (row_of ?info) = p"
    using assms(5-7) by (simp_all add: client_row_key_def trainer_row_def row_of_def registration_info_def)
  have ne1: "\<forall>x\<in>set (clients ?s1). cl_peer_identity x \<noteq> ''''"
    by (rule record_nonempty [OF ne]) (simp add: key assms(3))
  have ne2: "\<forall>x\<in>set (clients ?s2). cl_peer_identity x \<noteq> ''''"
    by (rule record_nonempty [OF ne1]) (simp add: key assms(2))
  have "map_of (client_peers ?s1) ?k = Some p'" using record_new_peer [OF ne, of ?row] fresh key by simp
  then have s2: "map_of (client_peers ?s2) ?k = Some p'" by (rule record_keeps_peer [OF ne1])
  have "\<not> IsRegistered (NormalizeTenant (wr_tenant_id wq)) (NormalizeModel (wr_model_id wq)) (trainer_name wq) r"
    using assms(4-7) by (simp add: IsRegistered_peer)
  from split_run [OF this] obtain s' where run: "race_run clks ?info wclks p' wq split_schedule (r, s) =
      (ClientDone (fst (Register ?info r)), TrainerDone,
       snd (Register (trainer_info p' (CurrentTimestamp (wclks 2 0)) wq) (snd (Register ?info r))), s')"
    and s': "clients s' = clients ?s2" by blast
  have accepted: "fst (Register ?info r) = True"
    using new by (simp add: Register_def Let_def registration_info_def registry_peer_def)
  have now: "registry_peer (snd (Register (trainer_info p' (CurrentTimestamp (wclks 2 0)) wq) (snd (Register ?info r)))) ?k = Some p"
    using new by (simp add: registry_peer_Register registration_info_def)
  have "registry_peer (registry_of_clients (ListClients '''' '''' s')) ?k = map_of (client_peers s') ?k"
    using mirrors_start [of s'] ne2 unfolding mirrors_def s' fst_conv snd_conv by blast
  then have later: "registry_peer (registry_of_clients (ListClients '''' '''' s')) ?k = Some p'"
    using s2 by (simp only: client_peers_def s')
  show ?thesis
  proof (intro conjI ballI exI allI)
    show "mirrors (snd (snd (race_run clks ?info wclks p' wq sched (r, s))))" if "sched \<in> set serial_schedules" for sched
      by (rule serial_order [OF assms(1) _ assms(3) that]) (simp add: registration_info_def assms(2))
    show "race_run clks ?info wclks p' wq split_schedule (r, s) = (ClientDone True, TrainerDone,
        snd (Register (trainer_info p' (CurrentTimestamp (wclks 2 0)) wq) (snd (Register ?info r))), s')"
      unfolding run accepted ..
    fix x
    show "IsRegisteredForPeer (rg_tenant_id q) (rg_model_id q) (rg_client_id q) x
        (snd (Register (trainer_info p' (CurrentTimestamp (wclks 2 0)) wq) (snd (Register ?info r)))) \<longleftrightarrow> x = p"
      unfolding IsRegisteredForPeer_peer now using assms(2) by auto
    show "IsRegisteredForPeer (rg_tenant_id q) (rg_model_id q) (rg_client_id q) x
        (registry_of_clients (ListClients '''' '''' s')) \<longleftrightarrow> x = p'"
      unfolding IsRegisteredForPeer_peer later using assms(3) by auto
  qed
qed

text \<open>Alice and a worker that names its trainer alike, on an empty server.\<close>

definition bob_worker :: WorkerRegistration where
  "bob_worker = \<lparr>wr_worker_id = ''w'', wr_trainer_client_id = ''bob'', wr_tenant_id = ''acme'', wr_model_id = ''cnn'',
     wr_hostname = ''h'', wr_launcher = ''l'', wr_max_parallel_tasks = 1, wr_labels = [], wr_advertised_dataset_size = 1\<rparr>"

theorem registration_race_witness:
  "\<exists>sched r' s'. race_run (\<lambda>_ _. 0) (registration_info (\<lambda>_ _. 0) ''alice'' bob_registration) (\<lambda>_ _. 0) ''worker'' bob_worker
      sched (Mapping.empty, demo_empty) = (ClientDone True, TrainerDone, r', s') \<and>
    IsRegisteredForPeer ''acme'' ''cnn'' ''bob'' ''alice'' r' \<and>
    \<not> IsRegisteredForPeer ''acme'' ''cnn'' ''bob'' ''alice'' (registry_of_clients (ListClients '''' '''' s'))"
proof -
  have start: "mirrors (Mapping.empty, demo_empty)" by (simp add: mirrors_def registry_peer_def client_peers_def)
  have new: "\<not> IsRegistered (rg_tenant_id bob_registration) (rg_model_id bob_registration) (rg_client_id bob_registration) Mapping.empty"
    by (simp add: IsRegistered_def)
  have same: "wr_tenant_id bob_worker = rg_tenant_id bob_registration" "wr_model_id bob_worker = rg_model_id bob_registration"
    "trainer_name bob_worker = rg_client_id bob_registration"
    by (simp_all add: bob_worker_def bob_registration_def trainer_name_def)
  have names: "''alice'' \<noteq> ''''" "''worker'' \<noteq> ''''" by simp_all
  obtain sched r' s' where "race_run (\<lambda>_ _. 0) (registration_info (\<lambda>_ _. 0) ''alice'' bob_registration) (\<lambda>_ _. 0) ''worker''
      bob_worker sched (Mapping.empty, demo_empty) = (ClientDone True, TrainerDone, r', s')"
    and "\<forall>x. IsRegisteredForPeer ''acme'' ''cnn'' ''bob'' x r' \<longleftrightarrow> x = ''alice''"
    and "\<forall>x. IsRegisteredForPeer ''acme'' ''cnn'' ''bob'' x (registry_of_clients (ListClients '''' '''' s')) \<longleftrightarrow> x = ''worker''"
    using registration_race [OF start names new same, of "\<lambda>_ _. 0" "\<lambda>_ _. 0"]
    by (auto simp only: bob_registration_def ClientRegistration.select_convs)
  then show ?thesis by (intro exI [of _ sched] exI [of _ r'] exI [of _ s']) simp
qed

end
