(* ===== verification/Lease_Lapse.thy ===== *)
theory Lease_Lapse
  imports Server_Guarantees
begin

text \<open>
  A lease that lapses while its submission is being handled. \<open>SubmitWeights\<close> reads the clock once when
  it validates the lease and again when it consumes it; in between the buffer has taken the weights and
  may have aggregated the round. Here the second reading finds the lease lapsed.
\<close>

section \<open>The lapsed lease\<close>

lemma lapsed_not_accepted:
  assumes "GetActiveTrainingJob t m s \<noteq> None"
    and "find (\<lambda>a. as_assignment_id a = ai) (assignments s) = Some a"
    and "as_expires_at a \<noteq> ''''" and "as_expires_at a \<le> CurrentTimestamp (clk 0)"
  shows "\<exists>e s'. AcceptTrainingAssignmentSubmission clk t m c ji ai rd b s = (Inl e, s')"
proof (cases "AcceptTrainingAssignmentSubmission clk t m c ji ai rd b s")
  case (Pair out s')
  show ?thesis
  proof (cases out)
    case (Inr u)
    then have "AcceptTrainingAssignmentSubmission clk t m c ji ai rd b s = (Inr (), s')" using Pair by simp
    then obtain x where "CheckAssignmentSubmission (CurrentTimestamp (clk 0)) (NormalizeTenant t) (NormalizeModel m)
        c ji ai rd b (ExpireAssignmentsLocked (CurrentTimestamp (clk 0)) s) = LeaseGood x"
      by (rule accept_good_cases [OF _ assms(1)])
    from check_good_status [OF this] assms(2-4) have False
      by (auto simp: find_upd_all lease_lapsed_def split: if_splits)
    then show ?thesis ..
  qed (use Pair in simp)
qed

lemma validated_lease:
  assumes "find (\<lambda>a. as_assignment_id a = ai) (assignments (sv_store sv)) = Some a" and "validated clks q sv = (Inr (), sv1)"
  shows "\<exists>a'. find (\<lambda>a. as_assignment_id a = ai) (assignments (sv_store sv1)) = Some a' \<and> as_expires_at a' = as_expires_at a"
  using assms
  by (auto simp: validated_def ValidateTrainingAssignmentSubmission_def Let_def find_upd_all
      split: option.splits submission_check.splits)

lemma commit_outcome_leases:
  "assignments (snd (snd (commit_outcome A C N cfg clks q j ws sv))) = assignments (sv_store sv)"
  unfolding commit_outcome_def Let_def by (simp add: AddWeight_store_jobs frame_simps)

lemma commit_completes:
  assumes "fst (commit_outcome A C N cfg clks q j ws sv) = Inr (res, w)" and "ag_aggregated res"
  shows "IsRoundCompleted (wp_tenant_id q) (wp_model_id q) (wp_round_index q)
    (fst (snd (commit_outcome A C N cfg clks q j ws sv)))"
  using assms unfolding commit_outcome_def Let_def by (auto dest: AddWeight_aggregates simp: IsRoundCompleted_def)

lemma commit_lapsed:
  assumes "CommitSubmission A C N cfg clks q (Some job) ws sv = (Inr r, sv')"
    and "GetActiveTrainingJob (wp_tenant_id q) (wp_model_id q) (sv_store sv) = Some job"
    and "find (\<lambda>a. as_assignment_id a = wp_assignment_id q) (assignments (sv_store sv)) = Some a"
    and "as_expires_at a \<noteq> ''''" and "as_expires_at a \<le> CurrentTimestamp (clks 3 0)"
  shows "\<not> ar_accepted r \<and> training_jobs (sv_store sv') = training_jobs (sv_store sv)"
proof -
  obtain out b s3 where out: "commit_outcome A C N cfg clks q (Some job) ws sv = (out, (b, s3))" by (metis prod.collapse)
  have s3: "training_jobs s3 = training_jobs (sv_store sv)" "assignments s3 = assignments (sv_store sv)"
    using commit_outcome_jobs [of A C N cfg clks q "Some job" ws sv] commit_outcome_leases [of A C N cfg clks q "Some job" ws sv]
    by (simp_all add: out)
  have "GetActiveTrainingJob (wp_tenant_id q) (wp_model_id q) s3 \<noteq> None" using assms(2) by (simp add: GetActiveTrainingJob_def s3)
  then obtain e s4 where acc: "AcceptTrainingAssignmentSubmission (clks 3) (wp_tenant_id q) (wp_model_id q) (wp_client_id q)
      (wp_job_id q) (wp_assignment_id q) (wp_round_index q) (wp_base_model_version q) s3 = (Inl e, s4)"
    using lapsed_not_accepted [of _ _ s3 "wp_assignment_id q" a "clks 3"] assms(3-5) by (metis s3(2))
  then have "training_jobs s4 = training_jobs s3"
    using AcceptTrainingAssignmentSubmission_frame by (metis snd_conv)
  with acc s3(1) show ?thesis
    using assms(1) CommitSubmission_job [OF out]
    by (cases out) (auto simp: submit_response_def Let_def split: prod.splits if_splits)
qed

text \<open>A submission that completes its round has reached the commit.\<close>

lemma submit_completes:
  assumes "SubmitWeights A C N cfg clks ctx q sv = (Inr r, sv')"
    and "\<not> IsRoundCompleted (wp_tenant_id q) (wp_model_id q) (wp_round_index q) (sv_buffer sv)"
    and "IsRoundCompleted (wp_tenant_id q) (wp_model_id q) (wp_round_index q) (sv_buffer sv')"
    and "GetActiveTrainingJob (wp_tenant_id q) (wp_model_id q) (sv_store sv) = Some job"
  obtains ws s where "validated clks q sv = (Inr (), s)" "CommitSubmission A C N cfg clks q (Some job) ws s = (Inr r, sv')"
proof -
  obtain check s where val: "validated clks q sv = (check, s)" by fastforce
  have same: "sv_buffer s = sv_buffer sv" using validated_frame(2) [of clks q sv] by (simp add: val)
  have changed: "sv' \<noteq> sv" "sv' \<noteq> s" using assms(2,3) same by auto
  have "check = Inr () \<and> (\<exists>ws. CommitSubmission A C N cfg clks q (Some job) ws s = (Inr r, sv'))"
    using assms(1,4) changed unfolding SubmitWeights_unfold val
    by (auto simp: Let_def split: option.splits if_splits sum.splits)
  with val that show ?thesis by blast
qed

section \<open>The stranded job\<close>

text \<open>C7: A submission completes the round of the active job, but its lease lapses before the server consumes it.
  The client is told that its submission was refused, the job stays in its round, and since the round is
  aggregated every later submission for it is refused, whatever calls come in between: the job is stranded.\<close>

theorem lapse_strands_job:
  assumes "SubmitWeights A C N cfg clks ctx q sv = (Inr r, sv1)"
    and "\<not> IsRoundCompleted (wp_tenant_id q) (wp_model_id q) (wp_round_index q) (sv_buffer sv)"
    and "IsRoundCompleted (wp_tenant_id q) (wp_model_id q) (wp_round_index q) (sv_buffer sv1)"
    and "GetActiveTrainingJob (wp_tenant_id q) (wp_model_id q) (sv_store sv) = Some job"
    and "jb_current_round job = wp_round_index q"
    and "find (\<lambda>a. as_assignment_id a = wp_assignment_id q) (assignments (sv_store sv)) = Some a"
    and "as_expires_at a \<noteq> ''''" and "as_expires_at a \<le> CurrentTimestamp (clks 3 0)"
    and "(server_step A C cfg)\<^sup>*\<^sup>* (sv1, fs) (sv2, fs2)"
    and "wp_tenant_id q' = wp_tenant_id q" and "wp_model_id q' = wp_model_id q" and "wp_round_index q' = jb_current_round job"
  shows "\<not> ar_accepted r \<and> GetActiveTrainingJob (wp_tenant_id q) (wp_model_id q) (sv_store sv1) = Some job \<and>
    (\<exists>r'. fst (SubmitWeights A C N' cfg clks' ctx' q' sv2) = Inr r' \<and> \<not> ar_accepted r')"
proof -
  obtain ws s where val: "validated clks q sv = (Inr (), s)"
    and com: "CommitSubmission A C N cfg clks q (Some job) ws s = (Inr r, sv1)"
    by (rule submit_completes [OF assms(1-4)])
  have job: "GetActiveTrainingJob (wp_tenant_id q) (wp_model_id q) x = Some job"
    if "training_jobs x = training_jobs (sv_store sv)" for x
    using assms(4) that by (simp add: GetActiveTrainingJob_def)
  have same: "training_jobs (sv_store s) = training_jobs (sv_store sv)" using validated_frame(4) [of clks q sv] by (simp add: val)
  obtain a' where "find (\<lambda>a. as_assignment_id a = wp_assignment_id q) (assignments (sv_store s)) = Some a'"
    "as_expires_at a' = as_expires_at a"
    using validated_lease [OF assms(6) val] by blast
  then have refused: "\<not> ar_accepted r \<and> training_jobs (sv_store sv1) = training_jobs (sv_store s)"
    using commit_lapsed [OF com job [OF same]] assms(7,8) by simp
  have "buffer_rounds (sv_buffer sv1) \<subseteq> buffer_rounds (sv_buffer sv2)" using server_run_rounds [OF assms(9)] by simp
  then have "IsRoundCompleted (wp_tenant_id q') (wp_model_id q') (wp_round_index q') (sv_buffer sv2)"
    using assms(3,5,10-12) by (auto simp: IsRoundCompleted_def)
  with refused job [of "sv_store sv1"] same show ?thesis by (auto intro: submit_completed_round)
qed

text \<open>Alice's submission is validated after two seconds and consumed a minute later.\<close>

definition slow_clks :: "nat \<Rightarrow> clock" where "slow_clks n = (\<lambda>_. if n < 3 then 2000 else 61000)"

lemma alice_reaches_commit:
  "\<exists>s r sv1. validated slow_clks alice_payload demo_server = (Inr (), s) \<and>
     SubmitWeights word_arith null_prims word_env word_config slow_clks alice alice_payload demo_server = (Inr r, sv1) \<and>
     IsRoundCompleted ''acme'' ''cnn'' 1 (sv_buffer sv1)"
proof -
  obtain s where v: "validated (\<lambda>_ _. 2000) alice_payload demo_server = (Inr (), s)"
    and fr: "sv_crypto s = demo_engine" "sv_buffer s = empty_buffer"
    using alice_validated by blast
  have v': "validated slow_clks alice_payload demo_server = (Inr (), s)"
    using v by (simp add: validated_def slow_clks_def split: option.splits)
  let ?job = "Some (start_job (CurrentTimestamp 1000) demo_saved_job)"
  let ?out = "commit_outcome word_arith null_prims word_env word_config slow_clks alice_payload ?job [1] s"
  have same: "?out = commit_outcome word_arith null_prims word_env word_config (\<lambda>_ _. 2000) alice_payload ?job [1] s"
    by (simp add: commit_outcome_def slow_clks_def)
  obtain res w b s3 where out: "?out = (Inr (res, w), (b, s3))" and agg: "ag_aggregated res"
    using alice_outcome [OF fr] unfolding same by blast
  have pay: "wp_tenant_id alice_payload = ''acme''" "wp_model_id alice_payload = ''cnn''"
    "wp_client_id alice_payload = ''alice''" "wp_base_model_version alice_payload = 0"
    "wp_round_index alice_payload = 1"
    by (simp_all add: alice_payload_def)
  have round_done: "IsRoundCompleted ''acme'' ''cnn'' 1 b"
    using commit_completes [of word_arith null_prims word_env word_config slow_clks alice_payload ?job "[1]" s] agg
    by (simp add: out pay)
  have commit: "\<exists>r sv1. CommitSubmission word_arith null_prims word_env word_config slow_clks alice_payload ?job [1] s = (Inr r, sv1) \<and>
      sv_buffer sv1 = b"
    using CommitSubmission_job [OF out]
    by (cases "AcceptTrainingAssignmentSubmission (slow_clks 3) (wp_tenant_id alice_payload) (wp_model_id alice_payload)
        (wp_client_id alice_payload) (wp_job_id alice_payload) (wp_assignment_id alice_payload)
        (wp_round_index alice_payload) (wp_base_model_version alice_payload) s3")
      (auto simp: Let_def split: sum.splits if_splits)
  have buf: "\<not> IsRoundCompleted t m rd (sv_buffer demo_server)" "\<not> HasClientSubmission t m rd c (sv_buffer demo_server)"
    for t m rd c by (simp_all add: demo_server_def empty_buffer_def IsRoundCompleted_def HasClientSubmission_def)
  have srv: "sv_store demo_server = demo_leased" "sv_crypto demo_server = demo_engine" by (simp_all add: demo_server_def)
  have fl: "se_of_bytes word_env [0, 0, 0, 1] = 1" by (simp add: word_env_def ReadUint32BigEndian_def)
  show ?thesis
    using commit v' round_done
    by (auto simp: SubmitWeights_unfold alice_request pay alice_registered buf srv alice_plaintext fl demo_job_active)
qed

theorem lapse_strands_job_witness:
  "\<exists>r sv1. SubmitWeights word_arith null_prims word_env word_config slow_clks alice alice_payload demo_server = (Inr r, sv1) \<and>
     IsRoundCompleted ''acme'' ''cnn'' 1 (sv_buffer sv1) \<and> \<not> ar_accepted r \<and>
     GetActiveTrainingJob ''acme'' ''cnn'' (sv_store sv1) = Some (start_job (CurrentTimestamp 1000) demo_saved_job)"
proof -
  obtain r sv1 where sub: "SubmitWeights word_arith null_prims word_env word_config slow_clks alice alice_payload demo_server =
      (Inr r, sv1)" and closed: "IsRoundCompleted ''acme'' ''cnn'' 1 (sv_buffer sv1)"
    using alice_reaches_commit by blast
  have pay: "wp_tenant_id alice_payload = ''acme''" "wp_model_id alice_payload = ''cnn''"
    "wp_round_index alice_payload = 1" "wp_assignment_id alice_payload = as_assignment_id demo_lease"
    by (simp_all add: alice_payload_def)
  have open_round: "\<not> IsRoundCompleted t m rd (sv_buffer demo_server)" for t m rd
    by (simp add: demo_server_def empty_buffer_def IsRoundCompleted_def)
  have store: "sv_store demo_server = demo_leased" by (simp add: demo_server_def)
  have lease: "find (\<lambda>a. as_assignment_id a = as_assignment_id demo_lease) (assignments demo_leased) = Some demo_lease"
    by (simp add: demo_lease_call)
  have late: "as_expires_at demo_lease \<noteq> ''''" "as_expires_at demo_lease \<le> CurrentTimestamp (slow_clks 3 0)"
    by (simp_all add: slow_clks_def timestamps)
  have round1: "jb_current_round (start_job (CurrentTimestamp 1000) demo_saved_job) = 1" by (simp add: start_job_def)
  have "\<not> ar_accepted r \<and> GetActiveTrainingJob ''acme'' ''cnn'' (sv_store sv1) = Some (start_job (CurrentTimestamp 1000) demo_saved_job)"
    using lapse_strands_job [OF sub, of "start_job (CurrentTimestamp 1000) demo_saved_job" demo_lease demo_files sv1 demo_files
        alice_payload]
    unfolding pay store lease round1 using open_round closed demo_job_active late by blast
  with sub closed show ?thesis by blast
qed

end
